(* ===== verification/Prelude.thy ===== *)
theory Prelude
  imports Main "HOL-Library.Word" "HOL-Library.Char_ord" "HOL-Library.List_Lexorder"
    "HOL-Library.Sublist" "HOL-Library.Multiset"
begin

text \<open>
  Shared vocabulary of the development: the fact collections that carry the component
  proofs, the result type of the Go functions that return a value and an error, and
  generic lemmas on lists, maps and options.

  A Go function with the results \<open>(T, error)\<close> is a HOL function into
  \<open>go_error + T\<close> (theory GoErrors); a function with the single result \<open>error\<close> is
  a function into \<open>go_error option\<close>, where \<open>None\<close> is Go's \<open>nil\<close>.
\<close>

subsection \<open>Fact collections\<close>

named_theorems success_iff \<open>when a fallible operation succeeds\<close>
named_theorems step_defs \<open>definitions of the operations of a component\<close>
named_theorems frame \<open>fields and entries an operation leaves alone\<close>
named_theorems inv_intros \<open>preservation of a component's invariant\<close>

subsection \<open>Sums as fallible results\<close>

abbreviation failed :: "'e + 'a \<Rightarrow> bool" where
  "failed r \<equiv> \<exists>e. r = Inl e"

lemma sum_not_failed: "\<not> failed r \<longleftrightarrow> (\<exists>x. r = Inr x)"
  by (cases r) auto

lemma case_sum_Inr_iff [success_iff]:
  "(case r of Inl e \<Rightarrow> Inl (g e) | Inr x \<Rightarrow> f x) = Inr y \<longleftrightarrow> (\<exists>x. r = Inr x \<and> f x = Inr y)"
  by (cases r) auto

lemma case_option_Inr_iff [success_iff]:
  "(case c of Some e \<Rightarrow> Inl (g e) | None \<Rightarrow> r) = Inr y \<longleftrightarrow> c = None \<and> r = Inr y"
  by (cases c) auto

lemma case_option_None_iff [success_iff]:
  "(case c of Some e \<Rightarrow> Some (g e) | None \<Rightarrow> r) = None \<longleftrightarrow> c = None \<and> r = None"
  by (cases c) auto

lemma if_Inl_Inr_iff [success_iff]:
  "(if b then Inl e else r) = Inr y \<longleftrightarrow> \<not> b \<and> r = Inr y"
  by simp

lemma if_Some_None_iff [success_iff]:
  "(if b then Some e else r) = None \<longleftrightarrow> \<not> b \<and> r = None"
  by simp

subsection \<open>Lists\<close>

lemma dropWhile_id: "(xs = [] \<or> \<not> P (hd xs)) \<Longrightarrow> dropWhile P xs = xs"
  by (cases xs) auto

lemma hd_dropWhile_or_Nil: "dropWhile P xs = [] \<or> \<not> P (hd (dropWhile P xs))"
  by (metis hd_dropWhile)

lemma find_None_ball: "List.find P xs = None \<longleftrightarrow> (\<forall>x \<in> set xs. \<not> P x)"
  by (induction xs) auto

lemma find_Some_prop: "List.find P xs = Some x \<Longrightarrow> x \<in> set xs \<and> P x"
  by (induction xs) (auto split: if_splits)

lemma append_prefix_trans: "xs = ys @ zs \<Longrightarrow> prefix ws ys \<Longrightarrow> prefix ws xs"
  by (auto simp: prefix_def)

subsection \<open>Maps\<close>

lemma map_upd_eqD: "(m(k \<mapsto> v)) j = Some w \<Longrightarrow> (j = k \<and> w = v) \<or> (j \<noteq> k \<and> m j = Some w)"
  by (auto split: if_splits)

lemma map_restore: "m k = Some v \<Longrightarrow> (m(k \<mapsto> w))(k \<mapsto> v) = m"
  by (rule ext) simp

lemma map_remove_fresh: "m k = None \<Longrightarrow> (m(k \<mapsto> w))(k := None) = m"
  by (rule ext) simp

end
