(* ===== verification/GoErrors.thy ===== *)
theory GoErrors
  imports Prelude
begin

text \<open>
  Go error values. The code compares errors by identity through wrapping
  (\<open>errors.Is\<close>, \<open>errors.As\<close>), so an error is a tree: a sentinel, the API error of
  internal/kube/client.go, an error built by \<open>fmt.Errorf\<close> with its format and
  arguments, or the join of several errors. An argument printed with \<open>%w\<close> stays in
  the tree, one printed with \<open>%v\<close> is text only.
\<close>

subsection \<open>Sentinels and errors\<close>

text \<open>
  The package-level \<open>errors.New\<close> values of internal/wrapper and internal/node, and the
  operating-system errors the code tests for, by their errno name.
\<close>

datatype sentinel =
    ErrBadRequest               \<comment> \<open>errBadRequest, authz.go\<close>
  | ErrNodeOperation            \<comment> \<open>errNodeOperation, server.go\<close>
  | ErrDesiredMountStale        \<comment> \<open>errDesiredMountStale, reconciler.go\<close>
  | ErrDesiredMountUnauthorized \<comment> \<open>errDesiredMountUnauthorized, reconciler.go\<close>
  | ErrMountDisabled            \<comment> \<open>ErrMountDisabled, node/types.go\<close>
  | ErrBadSourceSubPath         \<comment> \<open>ErrBadSourceSubPath, node/types.go\<close>
  | Errno string

record APIError =
  ae_Method :: string
  ae_Path :: string
  ae_StatusCode :: int
  ae_Status :: string
  ae_Detail :: string

datatype go_error =
    Sentinel sentinel
  | ApiError APIError
  | Errorf string "go_arg list"
  | Join "go_error list"
  | Panic string   \<comment> \<open>a run-time panic, which the HTTP server turns into an aborted request\<close>
and go_arg =
    AStr string
  | AInt int
  | AWrap go_error   \<comment> \<open>an argument of a \<open>%w\<close> verb\<close>
  | AVal go_error    \<comment> \<open>an error printed with \<open>%v\<close>\<close>

subsection \<open>errors.Is and errors.As\<close>

fun errors_Is :: "sentinel \<Rightarrow> go_error \<Rightarrow> bool"
  and arg_Is :: "sentinel \<Rightarrow> go_arg \<Rightarrow> bool" where
  "errors_Is s (Sentinel t) = (s = t)"
| "errors_Is s (ApiError a) = False"
| "errors_Is s (Errorf f as) = (\<exists>a \<in> set as. arg_Is s a)"
| "errors_Is s (Join es) = (\<exists>e \<in> set es. errors_Is s e)"
| "errors_Is s (Panic m) = False"
| "arg_Is s (AStr x) = False"
| "arg_Is s (AInt i) = False"
| "arg_Is s (AWrap e) = errors_Is s e"
| "arg_Is s (AVal e) = False"

text \<open>The API errors of the tree in the order \<open>errors.As\<close> visits them.\<close>

fun api_errors :: "go_error \<Rightarrow> APIError list"
  and arg_api_errors :: "go_arg \<Rightarrow> APIError list" where
  "api_errors (Sentinel t) = []"
| "api_errors (ApiError a) = [a]"
| "api_errors (Errorf f as) = concat (map arg_api_errors as)"
| "api_errors (Join es) = concat (map api_errors es)"
| "api_errors (Panic m) = []"
| "arg_api_errors (AStr x) = []"
| "arg_api_errors (AInt i) = []"
| "arg_api_errors (AWrap e) = api_errors e"
| "arg_api_errors (AVal e) = []"

text \<open>\<open>errors.As(err, &apiErr)\<close> takes the first one; \<open>IsNotFound\<close> looks at its status.\<close>

definition IsNotFound :: "go_error \<Rightarrow> bool" where
  "IsNotFound err = (case api_errors err of [] \<Rightarrow> False | a # _ \<Rightarrow> ae_StatusCode a = 404)"

text \<open>\<open>errors.Join\<close> drops nil errors and is nil when nothing is left.\<close>

definition errors_Join :: "go_error option list \<Rightarrow> go_error option" where
  "errors_Join es = (case List.map_filter id es of [] \<Rightarrow> None | xs \<Rightarrow> Some (Join xs))"

text \<open>The shape \<open>fmt.Errorf("%w: ...", sentinel, ...)\<close> the wrapper uses.\<close>

abbreviation bad_request :: "string \<Rightarrow> go_arg list \<Rightarrow> go_error" where
  "bad_request f as \<equiv> Errorf f (AWrap (Sentinel ErrBadRequest) # as)"

lemma errors_Is_Errorf_wrap [simp]: "errors_Is s (Errorf f (AWrap e # as)) \<longleftrightarrow>
    errors_Is s e \<or> (\<exists>a \<in> set as. arg_Is s a)"
  by simp

lemma errors_Join_Cons_Some: "errors_Join (Some e # es) = Some (Join (e # List.map_filter id es))"
  by (simp add: errors_Join_def List.map_filter_simps)

lemma errors_Is_Join_Cons:
  "errors_Is s (Join (e # es)) \<longleftrightarrow> errors_Is s e \<or> errors_Is s (Join es)"
  by simp

end
