(* ===== verification/Types.thy ===== *)
theory Types
  imports GoErrors
begin

text \<open>
  The data of the program, one record per Go struct, with the fields of the source in the
  source's order (a short prefix keeps the field names apart): internal/api/types.go,
  internal/kube/types.go, internal/node/types.go and the configuration struct of
  internal/config/config.go. A Go map is a partial map, a pointer an option.
\<close>

subsection \<open>internal/api/types.go\<close>

definition api_Version :: string where
  "api_Version = ''kruise-agents-nfs-csi.zhida/v1alpha1''"

definition ExportRootKeyHeader :: string where
  "ExportRootKeyHeader = ''X-Kary-Export-Root-Key''"

record MountRequest =
  rq_APIVersion :: string
  rq_DriverName :: string
  rq_Namespace :: string
  rq_PodName :: string
  rq_PodUID :: string
  rq_PVName :: string
  rq_SourceSubPath :: string
  rq_TargetPath :: string
  rq_ContainerName :: string

record MountResult =
  mr_Mounted :: bool
  mr_DriverName :: string
  mr_PVName :: string
  mr_SourceSubPath :: string
  mr_TargetPath :: string
  mr_ContainerName :: string

record UnmountRequest =
  ur_APIVersion :: string
  ur_DriverName :: string
  ur_Namespace :: string
  ur_PodName :: string
  ur_PodUID :: string
  ur_PVName :: string
  ur_TargetPath :: string
  ur_ContainerName :: string

record UnmountResult =
  us_Unmounted :: bool
  us_DriverName :: string
  us_PVName :: string
  us_TargetPath :: string
  us_ContainerName :: string

subsection \<open>internal/kube/types.go\<close>

record OwnerReference =
  or_APIVersion :: string
  or_Kind :: string
  or_Name :: string
  or_UID :: string

record ObjectMeta =
  om_Name :: string
  om_Namespace :: string
  om_UID :: string
  om_Labels :: "string \<rightharpoonup> string"
  om_Annotations :: "string \<rightharpoonup> string"
  om_OwnerReferences :: "OwnerReference list"

record ObjectReference =
  oj_Kind :: string
  oj_Namespace :: string
  oj_Name :: string
  oj_UID :: string

record TokenReviewUser =
  tu_Username :: string
  tu_UID :: string
  tu_Groups :: "string list"
  tu_Extra :: "string \<rightharpoonup> string list"

record TokenReviewStatus =
  ts_Authenticated :: bool
  ts_Audiences :: "string list"
  ts_User :: TokenReviewUser
  ts_Error :: string

record EnvVar =
  ev_Name :: string
  ev_Value :: string

record Container =
  cn_Name :: string
  cn_Env :: "EnvVar list"

record PersistentVolumeClaim =
  pc_ClaimName :: string
  pc_ReadOnly :: bool

record Volume =
  vl_Name :: string
  vl_PersistentVolumeClaim :: "PersistentVolumeClaim option"

record PodSpec =
  sp_ServiceAccountName :: string
  sp_NodeName :: string
  sp_Volumes :: "Volume list"
  sp_Containers :: "Container list"

record ContainerStatus =
  cs_Name :: string
  cs_ContainerID :: string
  cs_Ready :: bool

record PodStatus =
  ps_Phase :: string
  ps_ContainerStatuses :: "ContainerStatus list"

record Pod =
  pod_Metadata :: ObjectMeta
  pod_Spec :: PodSpec
  pod_Status :: PodStatus

record PodWatchEvent =
  we_Type :: string
  we_Pod :: Pod

record CSIPersistentVolumeSource =
  csi_Driver :: string
  csi_VolumeHandle :: string
  csi_VolumeAttributes :: "string \<rightharpoonup> string"

record PersistentVolumeSpec =
  vs_ClaimRef :: "ObjectReference option"
  vs_CSI :: "CSIPersistentVolumeSource option"
  vs_MountOptions :: "string list"

record PersistentVolume =
  pv_Metadata :: ObjectMeta
  pv_Spec :: PersistentVolumeSpec

subsection \<open>internal/node/types.go\<close>

text \<open>\<open>node.PersistentVolume\<close> is \<open>NodePV\<close> here, since kube has a struct of that name.\<close>

record NodePV =
  nv_Name :: string
  nv_VolumeHandle :: string
  nv_Server :: string
  nv_Share :: string
  nv_SubDir :: string
  nv_MountOptions :: "string list"

record MountPlan =
  pl_PV :: NodePV
  pl_PodUID :: string
  pl_ContainerName :: string
  pl_ContainerID :: string
  pl_SourceSubPath :: string
  pl_TargetPath :: string

text \<open>\<open>IsNFSExportRoot\<close> of internal/node/nfspath.go.\<close>

definition IsNFSExportRoot :: "MountPlan \<Rightarrow> bool" where
  "IsNFSExportRoot plan \<longleftrightarrow> nv_SubDir (pl_PV plan) = [] \<and> pl_SourceSubPath plan = []"

subsection \<open>WrapperConfig of internal/config/config.go\<close>

record WrapperConfig =
  wc_DriverName :: string
  wc_SocketPath :: string
  wc_SocketMode :: "32 word"
  wc_TokenAudience :: string
  wc_KubeTokenFile :: string
  wc_KubeCAFile :: string
  wc_StagingRoot :: string
  wc_MountStateDir :: string
  wc_NodeName :: string
  wc_HostProcRoot :: string
  wc_RequestTimeout :: int
  wc_EnableMount :: bool
  wc_UnstageAfterMount :: bool
  wc_CreateMissingSubPaths :: bool
  wc_CreatedSubPathMode :: "32 word"
  wc_ExportRootKeyFile :: string

text \<open>A Go map read of a missing key gives the zero value.\<close>

definition map_str :: "(string \<rightharpoonup> string) \<Rightarrow> string \<Rightarrow> string" where
  "map_str m k = (case m k of None \<Rightarrow> [] | Some v \<Rightarrow> v)"

definition map_strs :: "(string \<rightharpoonup> string list) \<Rightarrow> string \<Rightarrow> string list" where
  "map_strs m k = (case m k of None \<Rightarrow> [] | Some v \<Rightarrow> v)"

end
