(* ===== verification/GoStrings.thy ===== *)
theory GoStrings
  imports Prelude
begin

text \<open>
  The string functions of Go's standard library that the program uses, on byte strings
  (a HOL \<open>char\<close> is a byte): prefixes, \<open>strings.Split\<close> and \<open>strings.Join\<close> on a one
  byte separator, \<open>strings.TrimSpace\<close> with the Unicode spaces in their UTF-8 form, and
  \<open>path.Clean\<close>.
\<close>

subsection \<open>Prefixes and suffixes\<close>

definition HasPrefix :: "string \<Rightarrow> string \<Rightarrow> bool" where
  "HasPrefix s p = (take (length p) s = p)"

definition HasSuffix :: "string \<Rightarrow> string \<Rightarrow> bool" where
  "HasSuffix s p = HasPrefix (rev s) (rev p)"

definition TrimPrefix :: "string \<Rightarrow> string \<Rightarrow> string" where
  "TrimPrefix s p = (if HasPrefix s p then drop (length p) s else s)"

lemma HasPrefix_iff_prefix: "HasPrefix s p \<longleftrightarrow> prefix p s"
  unfolding HasPrefix_def prefix_def
  by (metis append_eq_conv_conj append_take_drop_id)

lemma HasPrefix_append [simp]: "HasPrefix (p @ s) p"
  by (simp add: HasPrefix_def)

lemma HasPrefix_appendI: "HasPrefix s p \<Longrightarrow> HasPrefix (s @ t) p"
  by (simp add: HasPrefix_iff_prefix)

lemma HasPrefix_trans: "HasPrefix s p \<Longrightarrow> HasPrefix p q \<Longrightarrow> HasPrefix s q"
  unfolding HasPrefix_iff_prefix by (rule prefix_order.trans)

lemma TrimPrefix_append [simp]: "TrimPrefix (p @ s) p = s"
  by (simp add: TrimPrefix_def)

subsection \<open>Small helpers\<close>

text \<open>\<open>firstNonEmpty\<close> of authz.go and cmd/mounter, \<open>containsString\<close> of authz.go.\<close>

fun firstNonEmpty :: "string list \<Rightarrow> string" where
  "firstNonEmpty [] = []"
| "firstNonEmpty (v # vs) = (if v \<noteq> [] then v else firstNonEmpty vs)"

fun containsString :: "string list \<Rightarrow> string \<Rightarrow> bool" where
  "containsString [] target = False"
| "containsString (v # vs) target = (if v = target then True else containsString vs target)"

lemma containsString_iff: "containsString vs t \<longleftrightarrow> t \<in> set vs"
  by (induction vs) auto

lemma firstNonEmpty_Nil_iff: "firstNonEmpty vs = [] \<longleftrightarrow> (\<forall>v \<in> set vs. v = [])"
  by (induction vs) auto

text \<open>
  \<open>strings.EqualFold(s, "true")\<close>: none of the letters t, r, u, e has a case variant
  outside ASCII, so ASCII lower-casing decides it.
\<close>

definition ascii_lower :: "char \<Rightarrow> char" where
  "ascii_lower c = (if of_char c \<ge> (65::nat) \<and> of_char c \<le> (90::nat)
     then char_of (of_char c + (32::nat)) else c)"

definition EqualFold_true :: "string \<Rightarrow> bool" where
  "EqualFold_true s = (map ascii_lower s = ''true'')"

subsection \<open>Split and Join\<close>

fun split_on :: "char \<Rightarrow> string \<Rightarrow> string list" where
  "split_on sep [] = [[]]"
| "split_on sep (c # cs) =
     (if c = sep then [] # split_on sep cs
      else (case split_on sep cs of [] \<Rightarrow> [[c]] | seg # segs \<Rightarrow> (c # seg) # segs))"

fun join_on :: "char \<Rightarrow> string list \<Rightarrow> string" where
  "join_on sep [] = []"
| "join_on sep [x] = x"
| "join_on sep (x # y # xs) = x @ sep # join_on sep (y # xs)"

lemma split_on_not_Nil [simp]: "split_on sep s \<noteq> []"
  by (induction s) (auto split: list.splits)

lemma join_on_Cons: "join_on sep (x # xs) = (if xs = [] then x else x @ sep # join_on sep xs)"
  by (cases xs) simp_all

lemma join_on_Cons_char: "xs \<noteq> [] \<Longrightarrow> join_on sep ((c # hd xs) # tl xs) = c # join_on sep xs"
  by (cases xs) (auto simp: join_on_Cons)

lemma join_on_split_on [simp]: "join_on sep (split_on sep s) = s"
proof (induction s)
  case Nil
  then show ?case by simp
next
  case (Cons c cs)
  obtain seg segs where sp: "split_on sep cs = seg # segs"
    by (cases "split_on sep cs") auto
  with Cons show ?case by (auto simp: join_on_Cons split: if_splits)
qed

lemma sep_not_in_split: "seg \<in> set (split_on sep s) \<Longrightarrow> sep \<notin> set seg"
proof (induction s arbitrary: seg)
  case Nil
  then show ?case by simp
next
  case (Cons c cs)
  then show ?case by (fastforce split: list.splits if_splits)
qed

lemma split_on_no_sep: "sep \<notin> set s \<Longrightarrow> split_on sep s = [s]"
  by (induction s) auto

lemma split_on_append_sep: "sep \<notin> set x \<Longrightarrow> split_on sep (x @ sep # s) = x # split_on sep s"
  by (induction x) (auto split: list.splits)

lemma split_on_join_on:
  "xs \<noteq> [] \<Longrightarrow> \<forall>x \<in> set xs. sep \<notin> set x \<Longrightarrow> split_on sep (join_on sep xs) = xs"
proof (induction xs)
  case Nil
  then show ?case by simp
next
  case (Cons x xs)
  then show ?case
    by (cases "xs = []") (auto simp: join_on_Cons split_on_no_sep split_on_append_sep)
qed

lemma set_split_on: "seg \<in> set (split_on sep s) \<Longrightarrow> set seg \<subseteq> set s"
proof (induction s arbitrary: seg)
  case Nil
  then show ?case by simp
next
  case (Cons c cs)
  then show ?case by (fastforce split: list.splits if_splits)
qed

lemma set_join_on: "set (join_on sep xs) \<subseteq> insert sep (\<Union>(set ` set xs))"
  by (induction xs) (auto simp: join_on_Cons)

lemma join_on_eq_Nil: "join_on sep xs = [] \<longleftrightarrow> xs = [] \<or> xs = [[]]"
  by (cases xs) (auto simp: join_on_Cons)

lemma join_on_append:
  "xs \<noteq> [] \<Longrightarrow> ys \<noteq> [] \<Longrightarrow> join_on sep (xs @ ys) = join_on sep xs @ sep # join_on sep ys"
  by (induction xs) (auto simp: join_on_Cons)

end
