(* ===== verification/Paths.thy ===== *)
theory Paths
  imports GoStrings
begin

text \<open>
  \<open>strings.TrimSpace\<close> and \<open>path.Clean\<close>: the two normalisations on which the path checks
  of internal/security and internal/node rest. Paths are taken apart with
  \<open>split_on slash\<close>; a cleaned path is a list of proper segments again.
\<close>

abbreviation slash :: char where
  "slash \<equiv> CHR ''/''"

abbreviation NUL :: char where
  "NUL \<equiv> CHR 0x00"

subsection \<open>strings.TrimSpace\<close>

text \<open>The UTF-8 encodings of the runes for which \<open>unicode.IsSpace\<close> holds.\<close>

definition space_encodings :: "string list" where
  "space_encodings =
     [[CHR 0x09], [CHR 0x0A], [CHR 0x0B], [CHR 0x0C], [CHR 0x0D], [CHR 0x20],
      [CHR 0xC2, CHR 0x85], [CHR 0xC2, CHR 0xA0], [CHR 0xE1, CHR 0x9A, CHR 0x80],
      [CHR 0xE2, CHR 0x80, CHR 0x80], [CHR 0xE2, CHR 0x80, CHR 0x81], [CHR 0xE2, CHR 0x80, CHR 0x82],
      [CHR 0xE2, CHR 0x80, CHR 0x83], [CHR 0xE2, CHR 0x80, CHR 0x84], [CHR 0xE2, CHR 0x80, CHR 0x85],
      [CHR 0xE2, CHR 0x80, CHR 0x86], [CHR 0xE2, CHR 0x80, CHR 0x87], [CHR 0xE2, CHR 0x80, CHR 0x88],
      [CHR 0xE2, CHR 0x80, CHR 0x89], [CHR 0xE2, CHR 0x80, CHR 0x8A], [CHR 0xE2, CHR 0x80, CHR 0xA8],
      [CHR 0xE2, CHR 0x80, CHR 0xA9], [CHR 0xE2, CHR 0x80, CHR 0xAF], [CHR 0xE2, CHR 0x81, CHR 0x9F],
      [CHR 0xE3, CHR 0x80, CHR 0x80]]"

definition trim_len :: "string list \<Rightarrow> string \<Rightarrow> nat" where
  "trim_len encs s = (case List.find (HasPrefix s) encs of None \<Rightarrow> 0 | Some e \<Rightarrow> length e)"

lemma trim_len_le: "trim_len encs s \<le> length s"
  by (auto simp: trim_len_def HasPrefix_iff_prefix dest!: find_Some_prop prefix_length_le split: option.splits)

function trim_by :: "string list \<Rightarrow> string \<Rightarrow> string" where
  "trim_by encs s = (if trim_len encs s = 0 then s else trim_by encs (drop (trim_len encs s) s))"
  by pat_completeness auto
termination
proof (relation "measure (\<lambda>(encs, s). length s)", simp)
  fix encs s
  assume "trim_len encs s \<noteq> 0"
  then show "((encs, drop (trim_len encs s) s), (encs, s)) \<in> measure (\<lambda>(encs, s). length s)"
    using trim_len_le [of encs s] by simp
qed

declare trim_by.simps [simp del]

definition TrimSpace :: "string \<Rightarrow> string" where
  "TrimSpace s = rev (trim_by (map rev space_encodings) (rev (trim_by space_encodings s)))"

lemma trim_len_trim_by: "trim_len encs (trim_by encs s) = 0"
proof (induction encs s rule: trim_by.induct)
  case (1 encs s)
  then show ?case by (cases "trim_len encs s = 0") (simp_all add: trim_by.simps [of encs s])
qed

lemma trim_by_fixpoint: "trim_len encs s = 0 \<Longrightarrow> trim_by encs s = s"
  by (simp add: trim_by.simps)

lemma trim_by_suffix: "suffix (trim_by encs s) s"
proof (induction encs s rule: trim_by.induct)
  case (1 encs s)
  show ?case
  proof (cases "trim_len encs s = 0")
    case True
    then show ?thesis by (simp add: trim_by_fixpoint)
  next
    case False
    with "1.IH" have "suffix (trim_by encs (drop (trim_len encs s) s)) (drop (trim_len encs s) s)" .
    also have "suffix (drop (trim_len encs s) s) s" by (rule suffix_drop)
    finally show ?thesis using False by (simp add: trim_by.simps [of encs s])
  qed
qed

lemma trim_len_0_iff:
  "[] \<notin> set encs \<Longrightarrow> trim_len encs s = 0 \<longleftrightarrow> (\<forall>e \<in> set encs. \<not> prefix e s)"
  by (auto simp: trim_len_def find_None_ball HasPrefix_iff_prefix split: option.splits
      dest: find_Some_prop)

lemma Nil_notin_space_encodings [simp]: "[] \<notin> set space_encodings"
  by (simp add: space_encodings_def)

lemma trim_len_prefix:
  "[] \<notin> set encs \<Longrightarrow> trim_len encs s = 0 \<Longrightarrow> prefix t s \<Longrightarrow> trim_len encs t = 0"
  by (auto simp: trim_len_0_iff intro: prefix_order.trans)

lemma TrimSpace_idem [simp]: "TrimSpace (TrimSpace s) = TrimSpace s"
proof -
  let ?t = "trim_by space_encodings s" and ?r = "map rev space_encodings"
  let ?u = "trim_by ?r (rev ?t)"
  have "prefix (rev ?u) ?t"
    using trim_by_suffix [of ?r "rev ?t"] by (simp add: suffix_to_prefix)
  then have "trim_len space_encodings (rev ?u) = 0"
    by (rule trim_len_prefix [OF Nil_notin_space_encodings trim_len_trim_by])
  moreover have "trim_len ?r ?u = 0" by (rule trim_len_trim_by)
  ultimately show ?thesis by (simp add: TrimSpace_def trim_by_fixpoint)
qed

lemma set_TrimSpace: "set (TrimSpace s) \<subseteq> set s"
  using set_mono_suffix [OF trim_by_suffix [of "map rev space_encodings" "rev (trim_by space_encodings s)"]]
    set_mono_suffix [OF trim_by_suffix [of space_encodings s]]
  by (simp add: TrimSpace_def)

subsection \<open>path.Clean\<close>

text \<open>
  The loop of \<open>path.Clean\<close> over the segments of the path. The second list is the output
  so far, last segment first.
\<close>

fun clean_segs :: "bool \<Rightarrow> string list \<Rightarrow> string list \<Rightarrow> string list" where
  "clean_segs rooted [] st = st"
| "clean_segs rooted (x # xs) st =
     (if x = [] \<or> x = ''.'' then clean_segs rooted xs st
      else if x = ''..'' then
        (case st of
           [] \<Rightarrow> clean_segs rooted xs (if rooted then [] else [''..''])
         | t # ts \<Rightarrow> clean_segs rooted xs (if t = ''..'' then ''..'' # t # ts else ts))
      else clean_segs rooted xs (x # st))"

definition path_IsAbs :: "string \<Rightarrow> bool" where
  "path_IsAbs s = HasPrefix s [slash]"

definition path_Clean :: "string \<Rightarrow> string" where
  "path_Clean s =
     (if s = [] then ''.''
      else let rooted = path_IsAbs s;
               out = join_on slash (rev (clean_segs rooted (split_on slash s) []))
           in if rooted then slash # out else if out = [] then ''.'' else out)"

text \<open>\<open>path.Join\<close> and \<open>filepath.Join\<close> (equal on Unix): the non-empty elements, cleaned.\<close>

definition path_Join :: "string list \<Rightarrow> string" where
  "path_Join elems =
     (case filter (\<lambda>e. e \<noteq> []) elems of [] \<Rightarrow> [] | es \<Rightarrow> path_Clean (join_on slash es))"

text \<open>A proper segment names an entry below the current directory.\<close>

definition proper_seg :: "string \<Rightarrow> bool" where
  "proper_seg x \<longleftrightarrow> x \<noteq> [] \<and> x \<noteq> ''.'' \<and> x \<noteq> ''..'' \<and> slash \<notin> set x"

lemma not_proper [simp]: "\<not> proper_seg []" "\<not> proper_seg ''.''" "\<not> proper_seg ''..''"
  by (simp_all add: proper_seg_def)

lemma proper_segD: "proper_seg x \<Longrightarrow> x \<noteq> [] \<and> x \<noteq> ''.'' \<and> x \<noteq> ''..'' \<and> slash \<notin> set x"
  by (simp add: proper_seg_def)

lemma proper_segI: "x \<noteq> [] \<Longrightarrow> x \<noteq> ''.'' \<Longrightarrow> x \<noteq> ''..'' \<Longrightarrow> slash \<notin> set x \<Longrightarrow> proper_seg x"
  by (simp add: proper_seg_def)

lemma path_IsAbs_Cons [simp]: "path_IsAbs (c # s) \<longleftrightarrow> c = slash"
  by (simp add: path_IsAbs_def HasPrefix_def)

lemma path_IsAbs_Nil [simp]: "\<not> path_IsAbs []"
  by (simp add: path_IsAbs_def HasPrefix_def)

lemma clean_segs_proper:
  assumes "\<forall>x \<in> set st. proper_seg x" and "\<forall>x \<in> set xs. slash \<notin> set x"
    and "rooted \<or> ''..'' \<notin> set xs"
  shows "\<forall>x \<in> set (clean_segs rooted xs st). proper_seg x"
  using assms
proof (induction rooted xs st rule: clean_segs.induct)
  case (1 rooted st)
  then show ?case by simp
next
  case (2 rooted x xs st)
  consider (skip) "x = [] \<or> x = ''.''" | (up) "x = ''..''"
    | (down) "x \<noteq> []" "x \<noteq> ''.''" "x \<noteq> ''..''" by blast
  then show ?case
  proof cases
    case skip
    with 2 show ?thesis by auto
  next
    case up
    with "2.prems" have "rooted" by auto
    note IH = "2.IH"(2,3)
    show ?thesis
    proof (cases st)
      case Nil
      then show ?thesis using IH(1) [OF _ _ Nil] "2.prems" up \<open>rooted\<close> by simp
    next
      case (Cons t ts)
      with "2.prems" have "t \<noteq> ''..''" by auto
      then show ?thesis using Cons IH(2) [OF _ _ Cons] "2.prems" up \<open>rooted\<close> by simp
    qed
  next
    case down
    with "2.prems" have "proper_seg x" by (simp add: proper_segI)
    with down "2.IH"(4) "2.prems" show ?thesis by simp
  qed
qed

lemma clean_segs_id:
  "\<forall>x \<in> set xs. proper_seg x \<Longrightarrow> clean_segs rooted xs st = rev xs @ st"
  by (induction xs arbitrary: st) (auto dest: proper_segD)

lemma clean_segs_no_dotdot:
  "''..'' \<notin> set xs \<Longrightarrow>
   clean_segs rooted xs st = rev (filter (\<lambda>x. x \<noteq> [] \<and> x \<noteq> ''.'') xs) @ st"
  by (induction xs arbitrary: st) auto

lemma proper_no_slash: "\<forall>x \<in> set xs. proper_seg x \<Longrightarrow> \<forall>x \<in> set xs. slash \<notin> set x"
  by (auto dest: proper_segD)

text \<open>A rooted path cleans to \<open>/\<close> and its proper segments; cleaning again changes nothing.\<close>

lemma path_Clean_rooted:
  assumes "path_IsAbs s"
  obtains xs where "path_Clean s = slash # join_on slash xs" and "\<forall>x \<in> set xs. proper_seg x"
    and "xs = rev (clean_segs True (split_on slash s) [])"
proof -
  let ?xs = "rev (clean_segs True (split_on slash s) [])"
  have "\<forall>x \<in> set ?xs. proper_seg x"
    using clean_segs_proper [of "[]" "split_on slash s" True] sep_not_in_split by fastforce
  moreover have "path_Clean s = slash # join_on slash ?xs"
    using assms by (auto simp: path_Clean_def Let_def)
  ultimately show ?thesis using that by blast
qed

lemma path_Clean_canonical_rooted:
  assumes "\<forall>x \<in> set xs. proper_seg x"
  shows "path_Clean (slash # join_on slash xs) = slash # join_on slash xs"
proof (cases "xs = []")
  case True
  have "split_on slash [slash] = [[], []]" by simp
  with True show ?thesis by (simp add: path_Clean_def Let_def)
next
  case False
  have "split_on slash (slash # join_on slash xs) = [] # xs"
    using False assms by (simp add: split_on_join_on proper_no_slash)
  then show ?thesis
    using assms by (simp add: path_Clean_def clean_segs_id)
qed

lemma join_proper_not_Nil: "\<forall>x \<in> set xs. proper_seg x \<Longrightarrow> xs \<noteq> [] \<Longrightarrow> join_on slash xs \<noteq> []"
  by (auto simp: join_on_eq_Nil)

lemma join_proper_hd: "\<forall>x \<in> set xs. proper_seg x \<Longrightarrow> xs \<noteq> [] \<Longrightarrow> \<not> path_IsAbs (join_on slash xs)"
proof (cases xs)
  case (Cons x ys)
  assume "\<forall>x \<in> set xs. proper_seg x"
  with Cons obtain c cs where "x = c # cs" and "c \<noteq> slash"
    by (cases x) (auto simp: proper_seg_def)
  with Cons show ?thesis by (auto simp: join_on_Cons)
qed simp

lemma path_Clean_canonical_relative:
  assumes "\<forall>x \<in> set xs. proper_seg x" and "xs \<noteq> []"
  shows "path_Clean (join_on slash xs) = join_on slash xs"
  using assms join_proper_not_Nil [OF assms] join_proper_hd [OF assms]
  by (simp add: path_Clean_def split_on_join_on proper_no_slash clean_segs_id)

lemma path_Clean_relative_no_dotdot:
  assumes "\<not> path_IsAbs s" and "''..'' \<notin> set (split_on slash s)" and "s \<noteq> []"
    and xs: "xs = filter (\<lambda>x. x \<noteq> [] \<and> x \<noteq> ''.'') (split_on slash s)"
  shows "path_Clean s = (if xs = [] then ''.'' else join_on slash xs)"
    and "\<forall>x \<in> set xs. proper_seg x"
proof -
  show proper: "\<forall>x \<in> set xs. proper_seg x"
    using assms(2) xs by (auto intro!: proper_segI dest: sep_not_in_split)
  then show "path_Clean s = (if xs = [] then ''.'' else join_on slash xs)"
    using assms join_proper_not_Nil by (auto simp: path_Clean_def Let_def clean_segs_no_dotdot)
qed

lemma set_path_Clean_no:
  assumes "c \<notin> set s" and "c \<noteq> slash" and "c \<noteq> CHR ''.''"
  shows "c \<notin> set (path_Clean s)"
proof -
  have in_cl: "x \<in> set (clean_segs r xs st) \<Longrightarrow> x \<in> set xs \<or> x \<in> set st \<or> x = ''..''" for x r xs st
    by (induction r xs st rule: clean_segs.induct) (auto split: if_splits list.splits)
  have "c \<notin> set (join_on slash (rev (clean_segs r (split_on slash s) [])))" for r
    using set_join_on [of slash "rev (clean_segs r (split_on slash s) [])"] assms
    by (auto dest!: in_cl set_split_on)
  then show ?thesis
    using assms by (auto simp: path_Clean_def Let_def)
qed

lemma split_on_append: "split_on sep (s @ sep # t) = split_on sep s @ split_on sep t"
  by (induction s) (auto split: list.splits)

lemma clean_segs_append: "clean_segs r (xs @ ys) st = clean_segs r ys (clean_segs r xs st)"
  by (induction r xs st rule: clean_segs.induct) (auto split: list.splits)

end
