(* ===== verification/PathPolicy.thy ===== *)
theory PathPolicy
  imports GoErrors Paths
begin

text \<open>
  The path policies: \<open>ValidateTargetPath\<close> and \<open>ValidateSourceSubPath\<close> of
  internal/security, \<open>NormalizeNFSSubDir\<close> of internal/node/nfspath.go, and the walk's own
  check \<open>sourceSubPathSegments\<close> of internal/node/mounter_linux.go. The specifications
  speak about lists of proper segments; the code works on strings.
\<close>

subsection \<open>internal/security/targetpath.go\<close>

definition deniedExactTargetPaths :: "string list" where
  "deniedExactTargetPaths = [''/'', ''/proc'', ''/sys'', ''/dev'']"

definition deniedTargetPrefixes :: "string list" where
  "deniedTargetPrefixes =
     [''/proc/'', ''/sys/'', ''/dev/'', ''/run/secrets/'', ''/var/run/secrets/'',
      ''/etc/kubernetes/'', ''/etc/ssl/private/'', ''/root/.kube/'', ''/var/lib/kubelet/'',
      ''/var/lib/kruise-agents-nfs-csi/'']"

definition deniedTargetFiles :: "string list" where
  "deniedTargetFiles = [''/etc/passwd'', ''/etc/shadow'', ''/etc/group'']"

definition ValidateTargetPath :: "string \<Rightarrow> go_error + string" where
  "ValidateTargetPath targetPath =
     (if NUL \<in> set targetPath then Inl (Errorf ''target path contains NUL byte'' [])
      else if \<not> HasPrefix targetPath ''/''
        then Inl (Errorf ''target path %q must be absolute'' [AStr targetPath])
      else let cleaned = path_Clean targetPath in
        if cleaned \<in> set deniedExactTargetPaths
          then Inl (Errorf ''target path %s is not allowed'' [AStr cleaned])
        else if cleaned \<in> set deniedTargetFiles
          then Inl (Errorf ''target path %s is not allowed'' [AStr cleaned])
        else if \<exists>p \<in> set deniedTargetPrefixes. HasPrefix (cleaned @ ''/'') p \<or> HasPrefix cleaned p
          then Inl (Errorf ''target path %s is not allowed'' [AStr cleaned])
        else Inr cleaned)"

subsection \<open>internal/security/subpath.go\<close>

definition ValidateSourceSubPath :: "string \<Rightarrow> go_error + string" where
  "ValidateSourceSubPath subPath =
     (if subPath = [] then Inr []
      else if NUL \<in> set subPath then Inl (Errorf ''source_sub_path contains NUL byte'' [])
      else if path_IsAbs subPath
        then Inl (Errorf ''source_sub_path %q must be relative'' [AStr subPath])
      else if ''..'' \<in> set (split_on slash subPath)
        then Inl (Errorf ''source_sub_path %q must not contain ..'' [AStr subPath])
      else let cleaned = path_Clean subPath in
        if cleaned = ''.'' then Inr [] else Inr cleaned)"

subsection \<open>internal/node/nfspath.go\<close>

definition TrimLeft_slash :: "string \<Rightarrow> string" where
  "TrimLeft_slash s = dropWhile (\<lambda>c. c = slash) s"

definition NormalizeNFSSubDir :: "string \<Rightarrow> go_error + string" where
  "NormalizeNFSSubDir v =
     (let value = TrimSpace v in
      if NUL \<in> set value then Inl (Errorf ''nfs subDir contains NUL byte'' [])
      else if ''..'' \<in> set (split_on slash value)
        then Inl (Errorf ''nfs subDir %q must not contain ..'' [AStr value])
      else let cleaned = path_Clean (slash # TrimLeft_slash value) in
        if cleaned = ''/'' then Inr [] else Inr (TrimPrefix cleaned ''/''))"

subsection \<open>sourceSubPathSegments of internal/node/mounter_linux.go\<close>

text \<open>The loop over \<open>strings.Split\<close>; the accumulator is the slice built so far.\<close>

fun segments_loop :: "string \<Rightarrow> string list \<Rightarrow> string list \<Rightarrow> go_error + string list" where
  "segments_loop sub [] acc = Inr acc"
| "segments_loop sub (seg # segs) acc =
     (if seg = [] \<or> seg = ''.'' then segments_loop sub segs acc
      else if seg = ''..'' then
        Inl (Errorf ''%w: source_sub_path %s must not contain ..''
               [AWrap (Sentinel ErrBadSourceSubPath), AStr sub])
      else if NUL \<in> set seg then
        Inl (Errorf ''%w: source_sub_path contains NUL byte'' [AWrap (Sentinel ErrBadSourceSubPath)])
      else segments_loop sub segs (acc @ [seg]))"

definition sourceSubPathSegments :: "string \<Rightarrow> go_error + string list" where
  "sourceSubPathSegments sub =
     (if path_IsAbs sub then
        Inl (Errorf ''%w: source_sub_path %s must be relative''
               [AWrap (Sentinel ErrBadSourceSubPath), AStr sub])
      else segments_loop sub (split_on slash sub) [])"

subsection \<open>Segments and strings\<close>

abbreviation all_proper :: "string list \<Rightarrow> bool" where
  "all_proper xs \<equiv> \<forall>x \<in> set xs. proper_seg x"

definition slashed :: "string list \<Rightarrow> string" where
  "slashed xs = concat (map (\<lambda>x. x @ [slash]) xs)"

lemma slashed_simps [simp]: "slashed [] = []" "slashed (x # xs) = x @ slash # slashed xs"
  by (simp_all add: slashed_def)

lemma join_snoc_slash: "xs \<noteq> [] \<Longrightarrow> join_on slash xs @ [slash] = slashed xs"
  by (induction xs) (auto simp: join_on_Cons)

lemma append_sep_inj:
  "sep \<notin> set x \<Longrightarrow> sep \<notin> set y \<Longrightarrow> x @ sep # s = y @ sep # t \<longleftrightarrow> x = y \<and> s = t"
proof (induction x arbitrary: y)
  case Nil
  then show ?case by (cases y) auto
next
  case (Cons a x)
  then show ?case by (cases y) auto
qed

lemma prefix_append_sep:
  "sep \<notin> set x \<Longrightarrow> sep \<notin> set y \<Longrightarrow> prefix (x @ sep # s) (y @ sep # t) \<longleftrightarrow> x = y \<and> prefix s t"
  by (auto simp: prefix_def append_sep_inj)

lemma prefix_slashed:
  "all_proper ds \<Longrightarrow> all_proper xs \<Longrightarrow> prefix (slashed ds) (slashed xs) \<longleftrightarrow> prefix ds xs"
proof (induction ds arbitrary: xs)
  case Nil
  then show ?case by simp
next
  case (Cons d ds)
  show ?case
  proof (cases xs)
    case Nil
    then show ?thesis by simp
  next
    case (Cons x ys)
    with Cons.prems Cons.IH [of ys] show ?thesis
      by (simp add: prefix_append_sep proper_segD)
  qed
qed

lemma join_proper_inj:
  assumes "all_proper xs" and "all_proper ys"
  shows "join_on slash xs = join_on slash ys \<longleftrightarrow> xs = ys"
proof
  assume eq: "join_on slash xs = join_on slash ys"
  show "xs = ys"
  proof (cases "xs = [] \<or> ys = []")
    case True
    with eq assms join_proper_not_Nil show ?thesis by (metis join_on.simps(1))
  next
    case False
    then show ?thesis
      using eq assms split_on_join_on proper_no_slash by metis
  qed
qed simp

subsection \<open>The target policy over segments\<close>

text \<open>
  What the deny list means: the target is not the root, does not lie in one of the denied
  trees (their roots included) and is not one of the denied files.
\<close>

definition denied_trees :: "string list list" where
  "denied_trees =
     [[''proc''], [''sys''], [''dev''], [''run'', ''secrets''], [''var'', ''run'', ''secrets''],
      [''etc'', ''kubernetes''], [''etc'', ''ssl'', ''private''], [''root'', ''.kube''],
      [''var'', ''lib'', ''kubelet''], [''var'', ''lib'', ''kruise-agents-nfs-csi'']]"

definition denied_files :: "string list list" where
  "denied_files = [[''etc'', ''passwd''], [''etc'', ''shadow''], [''etc'', ''group'']]"

definition target_allowed :: "string list \<Rightarrow> bool" where
  "target_allowed xs \<longleftrightarrow>
     xs \<noteq> [] \<and> (\<forall>d \<in> set denied_trees. \<not> prefix d xs) \<and> xs \<notin> set denied_files"

definition target_segs :: "string \<Rightarrow> string list" where
  "target_segs t = rev (clean_segs True (split_on slash t) [])"

definition abs_path :: "string list \<Rightarrow> string" where
  "abs_path xs = slash # join_on slash xs"

lemma all_proper_target_segs: "all_proper (target_segs t)"
  using clean_segs_proper [of "[]" "split_on slash t" True] sep_not_in_split
  by (fastforce simp: target_segs_def)

lemma path_Clean_abs: "path_IsAbs t \<Longrightarrow> path_Clean t = abs_path (target_segs t)"
  by (cases t) (auto simp: path_Clean_def abs_path_def target_segs_def Let_def)

lemma abs_path_inj: "all_proper xs \<Longrightarrow> all_proper ys \<Longrightarrow> abs_path xs = abs_path ys \<longleftrightarrow> xs = ys"
  by (simp add: abs_path_def join_proper_inj)

lemma HasPrefix_abs_path:
  assumes "all_proper xs" and "xs \<noteq> []" and "all_proper d"
  shows "HasPrefix (abs_path xs @ [slash]) (slash # slashed d) \<longleftrightarrow> prefix d xs"
  using assms by (simp add: HasPrefix_iff_prefix abs_path_def join_snoc_slash prefix_slashed)

lemma deniedTargetPrefixes_eq:
  "deniedTargetPrefixes = map (\<lambda>d. slash # slashed d) denied_trees"
  by (simp add: deniedTargetPrefixes_def denied_trees_def)

lemma denied_trees_proper: "d \<in> set denied_trees \<Longrightarrow> all_proper d"
  by (auto simp: denied_trees_def proper_seg_def)

lemma denied_files_proper: "d \<in> set denied_files \<Longrightarrow> all_proper d"
  by (auto simp: denied_files_def proper_seg_def)

lemma deniedExact_eq:
  "deniedExactTargetPaths = map abs_path [[], [''proc''], [''sys''], [''dev'']]"
  by (simp add: deniedExactTargetPaths_def abs_path_def)

lemma deniedFiles_eq: "deniedTargetFiles = map abs_path denied_files"
  by (simp add: deniedTargetFiles_def denied_files_def abs_path_def)

lemma denied_prefix_iff:
  assumes "all_proper xs" and "xs \<noteq> []"
  shows "(\<exists>p \<in> set deniedTargetPrefixes.
            HasPrefix (abs_path xs @ ''/'') p \<or> HasPrefix (abs_path xs) p) \<longleftrightarrow>
         (\<exists>d \<in> set denied_trees. prefix d xs)"
proof -
  have "HasPrefix (abs_path xs @ ''/'') p \<or> HasPrefix (abs_path xs) p \<longleftrightarrow>
      HasPrefix (abs_path xs @ ''/'') p" for p
    by (auto intro: HasPrefix_appendI)
  then show ?thesis
    using assms by (simp add: deniedTargetPrefixes_eq HasPrefix_abs_path denied_trees_proper)
qed

lemma abs_path_in_map:
  assumes "all_proper xs" and "\<forall>d \<in> set ds. all_proper d"
  shows "abs_path xs \<in> set (map abs_path ds) \<longleftrightarrow> xs \<in> set ds"
  using assms by (auto simp: abs_path_inj)

lemma short_trees_denied:
  "xs \<in> set [[], [''proc''], [''sys''], [''dev'']] \<Longrightarrow> \<not> target_allowed xs"
  by (auto simp: target_allowed_def denied_trees_def)

lemma HasPrefix_slash: "HasPrefix t ''/'' \<longleftrightarrow> path_IsAbs t"
  by (simp add: path_IsAbs_def)

lemma ValidateTargetPath_spec:
  "ValidateTargetPath t = Inr c \<longleftrightarrow>
     NUL \<notin> set t \<and> path_IsAbs t \<and> target_allowed (target_segs t) \<and> c = abs_path (target_segs t)"
proof (cases "NUL \<notin> set t \<and> path_IsAbs t")
  case False
  then show ?thesis by (auto simp: ValidateTargetPath_def HasPrefix_slash)
next
  case True
  let ?xs = "target_segs t"
  have exact: "abs_path ?xs \<in> set deniedExactTargetPaths \<longleftrightarrow>
      ?xs \<in> set [[], [''proc''], [''sys''], [''dev'']]"
    unfolding deniedExact_eq
    by (rule abs_path_in_map [OF all_proper_target_segs]) (auto simp: proper_seg_def)
  have files: "abs_path ?xs \<in> set deniedTargetFiles \<longleftrightarrow> ?xs \<in> set denied_files"
    unfolding deniedFiles_eq
    by (rule abs_path_in_map [OF all_proper_target_segs]) (simp add: denied_files_proper)
  show ?thesis
  proof (cases "?xs \<in> set [[], [''proc''], [''sys''], [''dev'']]")
    case True
    with \<open>NUL \<notin> set t \<and> path_IsAbs t\<close> exact short_trees_denied [OF True] show ?thesis
      by (simp add: ValidateTargetPath_def HasPrefix_slash path_Clean_abs)
  next
    case False
    then have ne: "?xs \<noteq> []" by auto
    show ?thesis
      using \<open>NUL \<notin> set t \<and> path_IsAbs t\<close> exact False files ne
        denied_prefix_iff [OF all_proper_target_segs ne]
      by (auto simp: ValidateTargetPath_def HasPrefix_slash path_Clean_abs target_allowed_def Let_def)
  qed
qed

lemma target_segs_abs_path: "all_proper xs \<Longrightarrow> target_segs (abs_path xs) = xs"
  using path_Clean_canonical_rooted [of xs] path_Clean_abs [of "abs_path xs"] abs_path_inj
    all_proper_target_segs [of "abs_path xs"]
  by (simp add: abs_path_def)

lemma NUL_abs_path: "NUL \<notin> set t \<Longrightarrow> path_IsAbs t \<Longrightarrow> NUL \<notin> set (abs_path (target_segs t))"
  using set_path_Clean_no [of NUL t] by (simp add: path_Clean_abs)

lemma ValidateTargetPath_stable: "ValidateTargetPath t = Inr c \<Longrightarrow> ValidateTargetPath c = Inr c"
  by (auto simp: ValidateTargetPath_spec target_segs_abs_path all_proper_target_segs NUL_abs_path)
     (simp add: abs_path_def)

subsection \<open>Relative paths over segments\<close>

definition source_segs :: "string \<Rightarrow> string list" where
  "source_segs s = filter (\<lambda>x. x \<noteq> [] \<and> x \<noteq> ''.'') (split_on slash s)"

definition no_parent :: "string \<Rightarrow> bool" where
  "no_parent s \<longleftrightarrow> ''..'' \<notin> set (split_on slash s)"

lemma no_parentD: "no_parent s \<Longrightarrow> ''..'' \<notin> set (split_on slash s)"
  by (simp add: no_parent_def)

lemma all_proper_source_segs: "no_parent s \<Longrightarrow> all_proper (source_segs s)"
  by (auto simp: source_segs_def no_parent_def intro!: proper_segI dest: sep_not_in_split)

lemma source_segs_join: "all_proper xs \<Longrightarrow> source_segs (join_on slash xs) = xs"
proof (cases "xs = []")
  case True
  then show ?thesis by (simp add: source_segs_def)
next
  case False
  assume proper: "all_proper xs"
  with False have "split_on slash (join_on slash xs) = xs"
    by (simp add: split_on_join_on proper_no_slash)
  moreover have "filter (\<lambda>x. x \<noteq> [] \<and> x \<noteq> ''.'') xs = xs"
    using proper by (intro filter_True) (auto dest: proper_segD)
  ultimately show ?thesis by (simp add: source_segs_def)
qed

lemma no_parent_join: "all_proper xs \<Longrightarrow> no_parent (join_on slash xs)"
  by (cases "xs = []") (auto simp: no_parent_def split_on_join_on proper_no_slash dest: proper_segD)

lemma join_proper_not_dot: "all_proper xs \<Longrightarrow> join_on slash xs \<noteq> ''.''"
proof
  assume proper: "all_proper xs" and dot: "join_on slash xs = ''.''"
  then have "source_segs ''.'' = xs" using source_segs_join by metis
  then have "xs = []" by (simp add: source_segs_def)
  with dot show False by simp
qed

lemma NUL_join_source: "NUL \<notin> set s \<Longrightarrow> NUL \<notin> set (join_on slash (source_segs s))"
  using set_join_on [of slash "source_segs s"] set_split_on [of _ slash s]
  by (fastforce simp: source_segs_def)

lemma not_abs_join: "all_proper xs \<Longrightarrow> \<not> path_IsAbs (join_on slash xs)"
  by (cases "xs = []") (simp_all add: join_proper_hd)

lemma path_Clean_source:
  assumes "s \<noteq> []" and "\<not> path_IsAbs s" and "no_parent s"
  shows "path_Clean s = (if source_segs s = [] then ''.'' else join_on slash (source_segs s))"
  using path_Clean_relative_no_dotdot(1) [of s "source_segs s"] assms
  by (simp add: no_parent_def source_segs_def)

lemma ValidateSourceSubPath_spec:
  "ValidateSourceSubPath s = Inr c \<longleftrightarrow>
     NUL \<notin> set s \<and> \<not> path_IsAbs s \<and> no_parent s \<and> c = join_on slash (source_segs s)"
proof (cases "s = []")
  case True
  then show ?thesis by (auto simp: ValidateSourceSubPath_def no_parent_def source_segs_def)
next
  case False
  show ?thesis
  proof (cases "\<not> path_IsAbs s \<and> no_parent s")
    case True
    with path_Clean_source [OF False] join_proper_not_dot [OF all_proper_source_segs [of s]]
    show ?thesis
      using False no_parentD [of s] by (auto simp: ValidateSourceSubPath_def Let_def)
  next
    case bad: False
    with False show ?thesis by (auto simp: ValidateSourceSubPath_def no_parent_def)
  qed
qed

lemma ValidateSourceSubPath_stable:
  "ValidateSourceSubPath s = Inr c \<Longrightarrow> ValidateSourceSubPath c = Inr c"
  by (auto simp: ValidateSourceSubPath_spec NUL_join_source no_parent_join source_segs_join not_abs_join
      dest: all_proper_source_segs)

lemma segments_loop_spec:
  "segments_loop sub segs acc = Inr xs \<longleftrightarrow>
     ''..'' \<notin> set segs \<and> (\<forall>x \<in> set segs. NUL \<notin> set x) \<and>
     xs = acc @ filter (\<lambda>x. x \<noteq> [] \<and> x \<noteq> ''.'') segs"
  by (induction sub segs acc rule: segments_loop.induct) auto

lemma NUL_split_on: "(\<forall>x \<in> set (split_on slash s). NUL \<notin> set x) \<longleftrightarrow> NUL \<notin> set s"
proof
  assume "\<forall>x \<in> set (split_on slash s). NUL \<notin> set x"
  then show "NUL \<notin> set s"
    using set_join_on [of slash "split_on slash s"] by auto
next
  assume "NUL \<notin> set s"
  then show "\<forall>x \<in> set (split_on slash s). NUL \<notin> set x"
    using set_split_on [of _ slash s] by blast
qed

lemma sourceSubPathSegments_spec:
  "sourceSubPathSegments s = Inr xs \<longleftrightarrow>
     NUL \<notin> set s \<and> \<not> path_IsAbs s \<and> no_parent s \<and> xs = source_segs s"
  by (auto simp: sourceSubPathSegments_def segments_loop_spec NUL_split_on no_parent_def source_segs_def)

lemma filter_split_TrimLeft:
  "filter (\<lambda>x. x \<noteq> [] \<and> x \<noteq> ''.'') (split_on slash (TrimLeft_slash v)) =
   filter (\<lambda>x. x \<noteq> [] \<and> x \<noteq> ''.'') (split_on slash v)"
  by (induction v) (auto simp: TrimLeft_slash_def)

lemma no_parent_TrimLeft: "no_parent (TrimLeft_slash v) \<longleftrightarrow> no_parent v"
  by (induction v) (auto simp: TrimLeft_slash_def no_parent_def)

lemma target_segs_slash_TrimLeft:
  "no_parent v \<Longrightarrow> target_segs (slash # TrimLeft_slash v) = source_segs v"
  using no_parent_TrimLeft [of v]
  by (simp add: target_segs_def clean_segs_no_dotdot no_parent_def source_segs_def filter_split_TrimLeft)

lemma TrimPrefix_abs_path: "TrimPrefix (abs_path xs) ''/'' = join_on slash xs"
  by (simp add: TrimPrefix_def HasPrefix_def abs_path_def)

lemma NormalizeNFSSubDir_spec:
  "NormalizeNFSSubDir v = Inr c \<longleftrightarrow>
     NUL \<notin> set (TrimSpace v) \<and> no_parent (TrimSpace v) \<and> c = join_on slash (source_segs (TrimSpace v))"
proof (cases "no_parent (TrimSpace v)")
  case True
  then have clean: "path_Clean (slash # TrimLeft_slash (TrimSpace v)) = abs_path (source_segs (TrimSpace v))"
    by (simp add: path_Clean_abs target_segs_slash_TrimLeft)
  have root: "abs_path (source_segs (TrimSpace v)) = ''/'' \<longleftrightarrow> source_segs (TrimSpace v) = []"
    using abs_path_inj [of "source_segs (TrimSpace v)" "[]"] all_proper_source_segs [OF True]
    by (simp add: abs_path_def)
  show ?thesis
    using True clean root no_parentD [OF True]
    by (auto simp: NormalizeNFSSubDir_def Let_def TrimPrefix_abs_path)
next
  case False
  then show ?thesis by (auto simp: NormalizeNFSSubDir_def no_parent_def Let_def)
qed

lemma target_segs_Join:
  assumes "no_parent c"
  shows "target_segs (s @ slash # c) = target_segs s @ source_segs c"
  using assms
  by (simp add: target_segs_def split_on_append clean_segs_append clean_segs_no_dotdot no_parent_def
      source_segs_def)

lemma path_Join_confined:
  assumes "path_IsAbs s" and "no_parent c"
  shows "path_Join [s, c] = abs_path (target_segs s @ source_segs c)"
proof (cases "c = []")
  case True
  then have "source_segs c = []" by (simp add: source_segs_def)
  with True assms show ?thesis by (auto simp: path_Join_def path_Clean_abs)
next
  case False
  have "path_IsAbs (s @ slash # c)" using assms(1) by (cases s) auto
  with False assms show ?thesis
    by (auto simp: path_Join_def path_Clean_abs target_segs_Join)
qed

end
