(* ===== verification/Authz.thy ===== *)
theory Authz
  imports Types PathPolicy
begin

text \<open>
  internal/wrapper/authz.go: the checks between a request and a mount plan. A function with
  the Go result \<open>error\<close> returns \<open>go_error option\<close>; the checks are in the code's
  order, so the first failing one decides the error.
\<close>

subsection \<open>Request shape\<close>

definition validateRequestShape :: "string \<Rightarrow> MountRequest \<Rightarrow> go_error option" where
  "validateRequestShape driverName request =
     (if rq_APIVersion request \<noteq> api_Version
        then Some (bad_request ''%w: api_version must be %s'' [AStr api_Version])
      else if rq_DriverName request \<noteq> driverName
        then Some (bad_request ''%w: driver_name must be %s'' [AStr driverName])
      else if rq_Namespace request = [] then Some (bad_request ''%w: namespace is required'' [])
      else if rq_PodName request = [] then Some (bad_request ''%w: pod_name is required'' [])
      else if rq_PodUID request = [] then Some (bad_request ''%w: pod_uid is required'' [])
      else if rq_PVName request = [] then Some (bad_request ''%w: pv_name is required'' [])
      else if rq_TargetPath request = [] then Some (bad_request ''%w: target_path is required'' [])
      else None)"

subsection \<open>Token and Pod identity\<close>

definition tokenPodNameExtraKey :: string where
  "tokenPodNameExtraKey = ''authentication.kubernetes.io/pod-name''"

definition tokenPodUIDExtraKey :: string where
  "tokenPodUIDExtraKey = ''authentication.kubernetes.io/pod-uid''"

definition authorizeToken ::
  "TokenReviewStatus option \<Rightarrow> string \<Rightarrow> string \<Rightarrow> go_error option" where
  "authorizeToken status namespace expectedAudience =
     (case status of
        None \<Rightarrow> Some (Errorf ''token review returned empty status'' [])
      | Some st \<Rightarrow>
          if \<not> ts_Authenticated st then
            (if ts_Error st \<noteq> []
               then Some (Errorf ''token is not authenticated: %s'' [AStr (ts_Error st)])
             else Some (Errorf ''token is not authenticated'' []))
          else if \<not> HasPrefix (tu_Username (ts_User st))
                       (''system:serviceaccount:'' @ namespace @ '':'')
            then Some (Errorf ''token service account does not belong to namespace %s'' [AStr namespace])
          else if expectedAudience \<noteq> [] \<and> \<not> containsString (ts_Audiences st) expectedAudience
            then Some (Errorf ''token audience does not include %s'' [AStr expectedAudience])
          else None)"

definition requireTokenPodExtra ::
  "(string \<rightharpoonup> string list) \<Rightarrow> string \<Rightarrow> string \<Rightarrow> go_error option" where
  "requireTokenPodExtra extra key expected =
     (case map_strs extra key of
        [v] \<Rightarrow>
          if v = [] then Some (Errorf ''token must contain exactly one non-empty %s value'' [AStr key])
          else if v \<noteq> expected then Some (Errorf ''token %s does not match target pod'' [AStr key])
          else None
      | _ \<Rightarrow> Some (Errorf ''token must contain exactly one non-empty %s value'' [AStr key]))"

definition validatePodIdentity :: "Pod \<Rightarrow> MountRequest \<Rightarrow> go_error option" where
  "validatePodIdentity pod request =
     (if om_Namespace (pod_Metadata pod) \<noteq> rq_Namespace request
         \<or> om_Name (pod_Metadata pod) \<noteq> rq_PodName request
        then Some (Errorf ''pod identity mismatch for %s/%s''
                     [AStr (rq_Namespace request), AStr (rq_PodName request)])
      else if om_UID (pod_Metadata pod) \<noteq> rq_PodUID request
        then Some (Errorf ''pod uid mismatch for %s/%s''
                     [AStr (rq_Namespace request), AStr (rq_PodName request)])
      else if ps_Phase (pod_Status pod) = ''Succeeded'' \<or> ps_Phase (pod_Status pod) = ''Failed''
        then Some (Errorf ''pod %s/%s is not running: phase=%s''
                     [AStr (rq_Namespace request), AStr (rq_PodName request),
                      AStr (ps_Phase (pod_Status pod))])
      else None)"

definition authorizePod :: "TokenReviewStatus \<Rightarrow> Pod \<Rightarrow> MountRequest \<Rightarrow> go_error option" where
  "authorizePod tokenStatus pod request =
     (case validatePodIdentity pod request of
        Some err \<Rightarrow> Some err
      | None \<Rightarrow>
        let expectedUser = ''system:serviceaccount:'' @ rq_Namespace request @ '':''
                             @ sp_ServiceAccountName (pod_Spec pod)
        in if tu_Username (ts_User tokenStatus) \<noteq> expectedUser
             then Some (Errorf ''token service account %s does not match pod service account %s''
                          [AStr (tu_Username (ts_User tokenStatus)), AStr expectedUser])
           else (case requireTokenPodExtra (tu_Extra (ts_User tokenStatus)) tokenPodNameExtraKey
                        (rq_PodName request) of
                   Some err \<Rightarrow> Some err
                 | None \<Rightarrow>
                     requireTokenPodExtra (tu_Extra (ts_User tokenStatus)) tokenPodUIDExtraKey
                       (rq_PodUID request)))"

definition validatePodNode :: "Pod \<Rightarrow> string \<Rightarrow> go_error option" where
  "validatePodNode pod nodeName =
     (if nodeName \<noteq> [] \<and> sp_NodeName (pod_Spec pod) \<noteq> nodeName
        then Some (Errorf ''pod %s/%s is scheduled on node %s, wrapper serves node %s''
                     [AStr (om_Namespace (pod_Metadata pod)), AStr (om_Name (pod_Metadata pod)),
                      AStr (sp_NodeName (pod_Spec pod)), AStr nodeName])
      else None)"

subsection \<open>PV policy\<close>

definition allowNamespaceAnnotation :: string where
  "allowNamespaceAnnotation = ''kary.dev/allow-namespace''"

definition allowServiceAccountAnnotation :: string where
  "allowServiceAccountAnnotation = ''kary.dev/allow-serviceaccount''"

text \<open>The loop over the entries, with the variable \<open>allowed\<close>.\<close>

fun annotation_loop ::
  "PersistentVolume \<Rightarrow> string \<Rightarrow> string \<Rightarrow> string list \<Rightarrow> bool \<Rightarrow> go_error + bool" where
  "annotation_loop pv key identity [] allowed = Inr allowed"
| "annotation_loop pv key identity (e # es) allowed =
     (let entry = TrimSpace e in
      if entry = [] \<or> entry = ''*'' then
        Inl (Errorf ''pv %s annotation %s contains invalid entry''
               [AStr (om_Name (pv_Metadata pv)), AStr key])
      else annotation_loop pv key identity es (if entry = identity then True else allowed))"

definition authorizePVAnnotation ::
  "PersistentVolume \<Rightarrow> string \<Rightarrow> string \<Rightarrow> go_error option" where
  "authorizePVAnnotation pv key identity =
     (case om_Annotations (pv_Metadata pv) key of
        None \<Rightarrow> None
      | Some raw \<Rightarrow>
          if raw = [] then
            Some (Errorf ''pv %s annotation %s must contain a comma-separated allowlist''
                    [AStr (om_Name (pv_Metadata pv)), AStr key])
          else (case annotation_loop pv key identity (split_on (CHR '','') raw) False of
                  Inl err \<Rightarrow> Some err
                | Inr allowed \<Rightarrow>
                    if \<not> allowed then
                      Some (Errorf ''pv %s annotation %s does not allow the target pod''
                              [AStr (om_Name (pv_Metadata pv)), AStr key])
                    else None))"

definition authorizePVForPod :: "string \<Rightarrow> Pod \<Rightarrow> PersistentVolume \<Rightarrow> go_error option" where
  "authorizePVForPod driverName pod pv =
     (case vs_CSI (pv_Spec pv) of
        None \<Rightarrow> Some (Errorf ''pv %s is not a CSI pv'' [AStr (om_Name (pv_Metadata pv))])
      | Some csi \<Rightarrow>
          if csi_Driver csi \<noteq> driverName then
            Some (Errorf ''pv %s uses driver %s, expected %s''
                    [AStr (om_Name (pv_Metadata pv)), AStr (csi_Driver csi), AStr driverName])
          else (case authorizePVAnnotation pv allowNamespaceAnnotation
                       (om_Namespace (pod_Metadata pod)) of
                  Some err \<Rightarrow> Some err
                | None \<Rightarrow>
                    authorizePVAnnotation pv allowServiceAccountAnnotation
                      (sp_ServiceAccountName (pod_Spec pod))))"

subsection \<open>Container selection\<close>

fun containerStatusByName_loop ::
  "ContainerStatus list \<Rightarrow> string \<Rightarrow> go_error + ContainerStatus" where
  "containerStatusByName_loop [] name =
     Inl (Errorf ''container %s was not found in pod status'' [AStr name])"
| "containerStatusByName_loop (status # rest) name =
     (if cs_Name status = name then
        (if cs_ContainerID status = []
           then Inl (Errorf ''container %s has empty container id'' [AStr name])
         else Inr status)
      else containerStatusByName_loop rest name)"

definition containerStatusByName :: "Pod \<Rightarrow> string \<Rightarrow> go_error + ContainerStatus" where
  "containerStatusByName pod name =
     containerStatusByName_loop (ps_ContainerStatuses (pod_Status pod)) name"

definition is_main_env :: "EnvVar \<Rightarrow> bool" where
  "is_main_env env \<longleftrightarrow> ev_Name env = ''SANDBOX_MAIN_CONTAINER'' \<and> EqualFold_true (ev_Value env)"

fun main_container_loop :: "Container list \<Rightarrow> string" where
  "main_container_loop [] = []"
| "main_container_loop (container # rest) =
     (if list_ex is_main_env (cn_Env container) then cn_Name container
      else main_container_loop rest)"

definition sandboxMainContainerName :: "Pod \<Rightarrow> string" where
  "sandboxMainContainerName pod = main_container_loop (sp_Containers (pod_Spec pod))"

definition selectContainerStatus :: "Pod \<Rightarrow> string \<Rightarrow> go_error + ContainerStatus" where
  "selectContainerStatus pod requestedName =
     (if requestedName \<noteq> [] then containerStatusByName pod requestedName
      else if sandboxMainContainerName pod \<noteq> []
        then containerStatusByName pod (sandboxMainContainerName pod)
      else (case ps_ContainerStatuses (pod_Status pod) of
              [status] \<Rightarrow>
                if cs_ContainerID status = []
                  then Inl (Errorf ''container %s has empty container id'' [AStr (cs_Name status)])
                else Inr status
            | statuses \<Rightarrow>
                Inl (Errorf ''container_name is required when pod has %d containers''
                       [AInt (int (length statuses))])))"

subsection \<open>The mount plan\<close>

text \<open>\<open>authorizePVForPod\<close> has refused a PV without a CSI source before this is called;
  reading the nil pointer would panic.\<close>

definition buildMountPlan ::
  "MountRequest \<Rightarrow> Pod \<Rightarrow> PersistentVolume \<Rightarrow> string \<Rightarrow> go_error + MountPlan" where
  "buildMountPlan request pod pv containerID =
     (case vs_CSI (pv_Spec pv) of
        None \<Rightarrow> Inl (Panic ''nil pointer dereference'')
      | Some csi \<Rightarrow>
        let attrs = csi_VolumeAttributes csi;
            server = firstNonEmpty [map_str attrs ''server'', map_str attrs ''mountOptions.server''];
            share = firstNonEmpty [map_str attrs ''share'', map_str attrs ''mountOptions.share'']
        in (case NormalizeNFSSubDir (firstNonEmpty [map_str attrs ''subDir'', map_str attrs ''subdir'']) of
              Inl err \<Rightarrow> Inl (Errorf ''pv %s has invalid nfs subDir: %w''
                                [AStr (om_Name (pv_Metadata pv)), AWrap err])
            | Inr subDir \<Rightarrow>
                if server = [] \<or> share = [] then
                  Inl (Errorf ''pv %s is missing nfs server/share volume attributes''
                         [AStr (om_Name (pv_Metadata pv))])
                else Inr \<lparr>pl_PV = \<lparr>nv_Name = om_Name (pv_Metadata pv),
                                   nv_VolumeHandle = csi_VolumeHandle csi,
                                   nv_Server = server, nv_Share = share, nv_SubDir = subDir,
                                   nv_MountOptions = vs_MountOptions (pv_Spec pv)\<rparr>,
                          pl_PodUID = om_UID (pod_Metadata pod),
                          pl_ContainerName = rq_ContainerName request,
                          pl_ContainerID = containerID,
                          pl_SourceSubPath = rq_SourceSubPath request,
                          pl_TargetPath = rq_TargetPath request\<rparr>))"

subsection \<open>When the checks pass\<close>

text \<open>
  Each check is characterised by the facts its success establishes; the collection
  \<open>success_iff\<close> carries them into the proofs about the handlers.
\<close>

lemma validateRequestShape_None [success_iff]:
  "validateRequestShape driverName request = None \<longleftrightarrow>
     rq_APIVersion request = api_Version \<and> rq_DriverName request = driverName \<and>
     rq_Namespace request \<noteq> [] \<and> rq_PodName request \<noteq> [] \<and> rq_PodUID request \<noteq> [] \<and>
     rq_PVName request \<noteq> [] \<and> rq_TargetPath request \<noteq> []"
  by (simp add: validateRequestShape_def)

lemma validateRequestShape_bad: "validateRequestShape d request = Some err \<Longrightarrow> errors_Is ErrBadRequest err"
  by (auto simp: validateRequestShape_def split: if_splits)

lemma requireTokenPodExtra_None [success_iff]:
  "requireTokenPodExtra extra key expected = None \<longleftrightarrow>
     expected \<noteq> [] \<and> extra key = Some [expected]"
  by (auto simp: requireTokenPodExtra_def map_strs_def split: list.splits option.splits)

lemma authorizeToken_None [success_iff]:
  "authorizeToken status namespace aud = None \<longleftrightarrow>
     (\<exists>st. status = Some st \<and> ts_Authenticated st \<and>
        prefix (''system:serviceaccount:'' @ namespace @ '':'') (tu_Username (ts_User st)) \<and>
        (aud = [] \<or> aud \<in> set (ts_Audiences st)))"
  by (auto simp: authorizeToken_def HasPrefix_iff_prefix containsString_iff split: option.splits)

lemma validatePodIdentity_None [success_iff]:
  "validatePodIdentity pod request = None \<longleftrightarrow>
     om_Namespace (pod_Metadata pod) = rq_Namespace request \<and>
     om_Name (pod_Metadata pod) = rq_PodName request \<and>
     om_UID (pod_Metadata pod) = rq_PodUID request \<and>
     ps_Phase (pod_Status pod) \<notin> {''Succeeded'', ''Failed''}"
  by (auto simp: validatePodIdentity_def)

lemma authorizePod_None [success_iff]:
  "authorizePod st pod request = None \<longleftrightarrow>
     validatePodIdentity pod request = None \<and>
     tu_Username (ts_User st) = ''system:serviceaccount:'' @ rq_Namespace request @ '':''
        @ sp_ServiceAccountName (pod_Spec pod) \<and>
     rq_PodName request \<noteq> [] \<and> rq_PodUID request \<noteq> [] \<and>
     tu_Extra (ts_User st) tokenPodNameExtraKey = Some [rq_PodName request] \<and>
     tu_Extra (ts_User st) tokenPodUIDExtraKey = Some [rq_PodUID request]"
  by (auto simp add: authorizePod_def Let_def case_option_None_iff requireTokenPodExtra_None)

lemma validatePodNode_None [success_iff]:
  "validatePodNode pod nodeName = None \<longleftrightarrow> nodeName = [] \<or> sp_NodeName (pod_Spec pod) = nodeName"
  by (simp add: validatePodNode_def)

text \<open>The meaning of an annotation: absent, or a list of exact names that holds the identity.\<close>

definition allowlist :: "string \<Rightarrow> string list" where
  "allowlist raw = map TrimSpace (split_on (CHR '','') raw)"

definition annotation_allows :: "(string \<rightharpoonup> string) \<Rightarrow> string \<Rightarrow> string \<Rightarrow> bool" where
  "annotation_allows annotations key identity \<longleftrightarrow>
     (case annotations key of
        None \<Rightarrow> True
      | Some raw \<Rightarrow> [] \<notin> set (allowlist raw) \<and> ''*'' \<notin> set (allowlist raw) \<and> identity \<in> set (allowlist raw))"

lemma annotation_loop_Inr:
  "annotation_loop pv key identity es allowed = Inr b \<longleftrightarrow>
     (\<forall>e \<in> set es. TrimSpace e \<noteq> [] \<and> TrimSpace e \<noteq> ''*'') \<and>
     b = (allowed \<or> identity \<in> TrimSpace ` set es)"
  by (induction pv key identity es allowed rule: annotation_loop.induct) (auto simp: Let_def)

lemma TrimSpace_Nil [simp]: "TrimSpace [] = []"
  by (simp add: TrimSpace_def trim_by_fixpoint trim_len_def space_encodings_def HasPrefix_def)

lemma authorizePVAnnotation_None [success_iff]:
  "authorizePVAnnotation pv key identity = None \<longleftrightarrow>
     annotation_allows (om_Annotations (pv_Metadata pv)) key identity"
proof (cases "om_Annotations (pv_Metadata pv) key")
  case None
  then show ?thesis by (simp add: authorizePVAnnotation_def annotation_allows_def)
next
  case (Some raw)
  let ?es = "split_on (CHR '','') raw"
  have allowed: "annotation_allows (om_Annotations (pv_Metadata pv)) key identity \<longleftrightarrow>
      annotation_loop pv key identity ?es False = Inr True"
    using Some by (auto simp: annotation_allows_def allowlist_def annotation_loop_Inr image_iff)
  have nonempty: "raw = [] \<Longrightarrow> annotation_loop pv key identity ?es False \<noteq> Inr True"
    by (simp add: Let_def)
  show ?thesis
    unfolding allowed
    using Some nonempty
    by (cases "annotation_loop pv key identity ?es False") (auto simp: authorizePVAnnotation_def)
qed

lemma authorizePVForPod_None [success_iff]:
  "authorizePVForPod driverName pod pv = None \<longleftrightarrow>
     (\<exists>csi. vs_CSI (pv_Spec pv) = Some csi \<and> csi_Driver csi = driverName) \<and>
     annotation_allows (om_Annotations (pv_Metadata pv)) allowNamespaceAnnotation
       (om_Namespace (pod_Metadata pod)) \<and>
     annotation_allows (om_Annotations (pv_Metadata pv)) allowServiceAccountAnnotation
       (sp_ServiceAccountName (pod_Spec pod))"
  by (cases "vs_CSI (pv_Spec pv)")
     (simp_all add: authorizePVForPod_def case_option_None_iff authorizePVAnnotation_None)

lemma containerStatusByName_loop_Inr:
  "containerStatusByName_loop sts name = Inr status \<Longrightarrow>
     status \<in> set sts \<and> cs_Name status = name \<and> cs_ContainerID status \<noteq> []"
  by (induction sts name rule: containerStatusByName_loop.induct) (auto split: if_splits)

lemma containerStatusByName_loop_find:
  "containerStatusByName_loop sts name = Inr status \<longleftrightarrow>
     List.find (\<lambda>s. cs_Name s = name) sts = Some status \<and> cs_ContainerID status \<noteq> []"
  by (induction sts name rule: containerStatusByName_loop.induct) auto

lemma selectContainerStatus_Inr:
  assumes "selectContainerStatus pod name = Inr status"
  shows "status \<in> set (ps_ContainerStatuses (pod_Status pod))"
    and "cs_ContainerID status \<noteq> []"
    and "name \<noteq> [] \<Longrightarrow> cs_Name status = name"
  using assms containerStatusByName_loop_Inr
  by (auto simp: selectContainerStatus_def containerStatusByName_def split: if_splits list.splits)

text \<open>Selecting by the name that was chosen gives the same container again.\<close>

lemma selectContainerStatus_again:
  assumes "selectContainerStatus pod name = Inr status" and "cs_Name status \<noteq> []"
  shows "selectContainerStatus pod (cs_Name status) = Inr status"
proof (cases "name \<noteq> [] \<or> sandboxMainContainerName pod \<noteq> []")
  case True
  then obtain n where n: "containerStatusByName pod n = Inr status"
    using assms(1) by (auto simp: selectContainerStatus_def split: if_splits)
  then have "n = cs_Name status"
    by (auto simp: containerStatusByName_def dest: containerStatusByName_loop_Inr)
  with n assms(2) show ?thesis by (simp add: selectContainerStatus_def)
next
  case False
  with assms show ?thesis
    by (auto simp: selectContainerStatus_def containerStatusByName_def split: list.splits if_splits)
qed

text \<open>The value of the first of two attributes that is present and not empty.\<close>

definition first_attribute :: "(string \<rightharpoonup> string) \<Rightarrow> string \<Rightarrow> string \<Rightarrow> string" where
  "first_attribute attrs k k' =
     (case attrs k of
        Some (c # cs) \<Rightarrow> c # cs
      | _ \<Rightarrow> (case attrs k' of Some v \<Rightarrow> v | None \<Rightarrow> []))"

lemma firstNonEmpty_attributes: "firstNonEmpty [map_str attrs k, map_str attrs k'] = first_attribute attrs k k'"
  by (simp add: first_attribute_def map_str_def split: option.split list.split)

lemma buildMountPlan_Inr:
  assumes "buildMountPlan request pod pv cid = Inr plan"
  obtains csi where "vs_CSI (pv_Spec pv) = Some csi"
    and "nv_Server (pl_PV plan) \<noteq> []" and "nv_Share (pl_PV plan) \<noteq> []"
    and "nv_Server (pl_PV plan) = firstNonEmpty [map_str (csi_VolumeAttributes csi) ''server'',
           map_str (csi_VolumeAttributes csi) ''mountOptions.server'']"
    and "nv_Share (pl_PV plan) = firstNonEmpty [map_str (csi_VolumeAttributes csi) ''share'',
           map_str (csi_VolumeAttributes csi) ''mountOptions.share'']"
    and "NormalizeNFSSubDir (firstNonEmpty [map_str (csi_VolumeAttributes csi) ''subDir'',
           map_str (csi_VolumeAttributes csi) ''subdir'']) = Inr (nv_SubDir (pl_PV plan))"
    and "nv_Name (pl_PV plan) = om_Name (pv_Metadata pv)"
    and "nv_VolumeHandle (pl_PV plan) = csi_VolumeHandle csi"
    and "nv_MountOptions (pl_PV plan) = vs_MountOptions (pv_Spec pv)"
    and "pl_PodUID plan = om_UID (pod_Metadata pod)"
    and "pl_ContainerName plan = rq_ContainerName request" and "pl_ContainerID plan = cid"
    and "pl_SourceSubPath plan = rq_SourceSubPath request" and "pl_TargetPath plan = rq_TargetPath request"
  using assms
  by (auto simp: buildMountPlan_def Let_def simp del: firstNonEmpty.simps split: option.splits sum.splits if_splits)

end
