(* ===== verification/Sha256.thy ===== *)
theory Sha256
  imports Prelude
begin

text \<open>
  SHA-256 of Go's \<open>crypto/sha256\<close> (FIPS 180-4) on byte strings, and \<open>hex.EncodeToString\<close>.
  The state store names its files by this hash and the export-root authorizer keeps only
  the hash of its key.
\<close>

unbundle bit_operations_syntax

definition rotr32 :: "nat \<Rightarrow> 32 word \<Rightarrow> 32 word" where
  "rotr32 n x = drop_bit n x OR push_bit (32 - n) x"

definition sha_Ch :: "32 word \<Rightarrow> 32 word \<Rightarrow> 32 word \<Rightarrow> 32 word" where
  "sha_Ch x y z = (x AND y) XOR (NOT x AND z)"

definition sha_Maj :: "32 word \<Rightarrow> 32 word \<Rightarrow> 32 word \<Rightarrow> 32 word" where
  "sha_Maj x y z = (x AND y) XOR (x AND z) XOR (y AND z)"

definition big_sigma0 :: "32 word \<Rightarrow> 32 word" where
  "big_sigma0 x = rotr32 2 x XOR rotr32 13 x XOR rotr32 22 x"

definition big_sigma1 :: "32 word \<Rightarrow> 32 word" where
  "big_sigma1 x = rotr32 6 x XOR rotr32 11 x XOR rotr32 25 x"

definition small_sigma0 :: "32 word \<Rightarrow> 32 word" where
  "small_sigma0 x = rotr32 7 x XOR rotr32 18 x XOR drop_bit 3 x"

definition small_sigma1 :: "32 word \<Rightarrow> 32 word" where
  "small_sigma1 x = rotr32 17 x XOR rotr32 19 x XOR drop_bit 10 x"

text \<open>
  The constants are the first 32 bits of the fractional parts of the cube roots (\<open>sha_K\<close>) and
  square roots (\<open>sha_H0\<close>) of the first primes, computed here bit by bit in integers:
  \<open>nth_root k b 0 n\<close> is the largest number below \<open>2 ^ b\<close> whose \<open>k\<close>-th power is at most \<open>n\<close>.
\<close>

fun nth_root :: "nat \<Rightarrow> nat \<Rightarrow> int \<Rightarrow> int \<Rightarrow> int" where
  "nth_root k 0 root n = root"
| "nth_root k (Suc b) root n =
     nth_root k b (if (root + 2 ^ b) ^ k \<le> n then root + 2 ^ b else root) n"

definition primes_upto :: "int \<Rightarrow> int list" where
  "primes_upto m = filter (\<lambda>p. list_all (\<lambda>d. p mod d \<noteq> 0) [2..p - 1]) [2..m]"

definition sha_K :: "32 word list" where
  "sha_K = map (\<lambda>p. word_of_int (nth_root 3 36 0 (p * 2 ^ 96))) (primes_upto 311)"

definition sha_H0 :: "32 word list" where
  "sha_H0 = map (\<lambda>p. word_of_int (nth_root 2 36 0 (p * 2 ^ 64))) (primes_upto 19)"

text \<open>Padding: a one bit, zeros, and the length in bits as a 64-bit big-endian number.\<close>

fun be_bytes :: "nat \<Rightarrow> int \<Rightarrow> int list" where
  "be_bytes 0 v = []"
| "be_bytes (Suc n) v = be_bytes n (v div 256) @ [v mod 256]"

definition sha_pad :: "int list \<Rightarrow> int list" where
  "sha_pad m = m @ [128] @ replicate ((119 - length m mod 64) mod 64) 0 @ be_bytes 8 (8 * int (length m))"

fun be_words :: "int list \<Rightarrow> 32 word list" where
  "be_words (a # b # c # d # bs) = word_of_int (((a * 256 + b) * 256 + c) * 256 + d) # be_words bs"
| "be_words bs = []"

text \<open>The message schedule, last word first: each step looks 2, 7, 15 and 16 words back.\<close>

fun schedule :: "nat \<Rightarrow> 32 word list \<Rightarrow> 32 word list" where
  "schedule 0 ws = ws"
| "schedule (Suc n) ws =
     schedule n ((small_sigma1 (ws ! 1) + ws ! 6 + small_sigma0 (ws ! 14) + ws ! 15) # ws)"

fun sha_round :: "32 word list \<Rightarrow> 32 word \<times> 32 word \<Rightarrow> 32 word list" where
  "sha_round [a, b, c, d, e, f, g, h] (k, w) =
     (let t1 = h + big_sigma1 e + sha_Ch e f g + k + w;
          t2 = big_sigma0 a + sha_Maj a b c
      in [t1 + t2, a, b, c, d + t1, e, f, g])"
| "sha_round st kw = st"

definition sha_block :: "32 word list \<Rightarrow> 32 word list \<Rightarrow> 32 word list" where
  "sha_block H ws =
     map2 (+) H (foldl sha_round H (zip sha_K (rev (schedule 48 (rev ws)))))"

function sha_blocks :: "32 word list \<Rightarrow> 32 word list \<Rightarrow> 32 word list" where
  "sha_blocks H ws = (if ws = [] then H else sha_blocks (sha_block H (take 16 ws)) (drop 16 ws))"
  by pat_completeness auto
termination
  by (relation "measure (\<lambda>(H, ws). length ws)") auto

declare sha_blocks.simps [simp del]

text \<open>The digest as a byte string.\<close>

definition sha256 :: "string \<Rightarrow> string" where
  "sha256 s = map char_of (concat (map (\<lambda>w. be_bytes 4 (uint w))
     (sha_blocks sha_H0 (be_words (sha_pad (map of_char s))))))"

definition hex_digit :: "nat \<Rightarrow> char" where
  "hex_digit n = (''0123456789abcdef'' ! n)"

definition hex_encode :: "string \<Rightarrow> string" where
  "hex_encode s = concat (map (\<lambda>c. let n = of_char c :: int in [hex_digit (nat (n div 16)), hex_digit (nat (n mod 16))]) s)"

subsection \<open>Lengths\<close>

lemma length_be_bytes [simp]: "length (be_bytes n v) = n"
  by (induction n arbitrary: v) auto

lemma length_sha_round: "length st = 8 \<Longrightarrow> length (sha_round st kw) = 8"
  by (induction st kw rule: sha_round.induct) (auto simp: Let_def)

lemma length_foldl_sha_round: "length st = 8 \<Longrightarrow> length (foldl sha_round st kws) = 8"
  by (induction kws arbitrary: st) (auto simp: length_sha_round)

lemma length_sha_block: "length H = 8 \<Longrightarrow> length (sha_block H ws) = 8"
  by (simp add: sha_block_def length_foldl_sha_round)

lemma length_sha_blocks: "length H = 8 \<Longrightarrow> length (sha_blocks H ws) = 8"
proof (induction H ws rule: sha_blocks.induct)
  case (1 H ws)
  then show ?case
    by (subst sha_blocks.simps) (simp add: length_sha_block)
qed

lemma length_concat_const: "(\<And>x. length (f x) = n) \<Longrightarrow> length (concat (map f xs)) = n * length xs"
  by (induction xs) auto

lemma length_sha_H0: "length sha_H0 = 8"
proof -
  have "length (primes_upto 19) = 8" by code_simp
  then show ?thesis by (simp add: sha_H0_def)
qed

lemma length_sha256 [simp]: "length (sha256 s) = 32"
  by (simp add: sha256_def length_concat_const [where n = 4] length_sha_blocks length_sha_H0)

lemma length_hex_encode [simp]: "length (hex_encode s) = 2 * length s"
  unfolding hex_encode_def by (rule length_concat_const) (simp add: Let_def)

end
