(* ===== verification/RootAuth.thy ===== *)
theory RootAuth
  imports Types Paths Sha256
begin

text \<open>
  internal/wrapper/rootauth.go: the optional capability key for mounting an NFS export
  root. The file is read by the operating system, so its contents are a parameter
  \<open>readFile\<close>; the hash is SHA-256 of theory Sha256.
\<close>

subsection \<open>The authorizer\<close>

definition minimumExportRootKeyLength :: nat where
  "minimumExportRootKeyLength = 32"

definition maximumExportRootKeyLength :: nat where
  "maximumExportRootKeyLength = 4096"

record exportRootAuthorizer =
  ra_configured :: bool
  ra_keyHash :: string
  ra_fingerprint :: string

text \<open>The zero value: an array of 32 zero bytes and empty strings.\<close>

definition no_authorizer :: exportRootAuthorizer where
  "no_authorizer = \<lparr>ra_configured = False, ra_keyHash = replicate 32 NUL, ra_fingerprint = []\<rparr>"

definition visible_ascii :: "char \<Rightarrow> bool" where
  "visible_ascii c \<longleftrightarrow> \<not> (c < CHR 0x21 \<or> c > CHR 0x7e)"

definition loadExportRootAuthorizer ::
  "(string \<Rightarrow> go_error + string) \<Rightarrow> string \<Rightarrow> go_error + exportRootAuthorizer" where
  "loadExportRootAuthorizer readFile keyFile =
     (if keyFile = [] then Inr no_authorizer
      else (case readFile keyFile of
              Inl err \<Rightarrow> Inl (Errorf ''read export root key file: %w'' [AWrap err])
            | Inr data \<Rightarrow>
              let key = TrimSpace data in
              if length key < minimumExportRootKeyLength
                then Inl (Errorf ''export root key must contain at least %d characters''
                            [AInt (int minimumExportRootKeyLength)])
              else if length key > maximumExportRootKeyLength
                then Inl (Errorf ''export root key must contain at most %d characters''
                            [AInt (int maximumExportRootKeyLength)])
              else if \<exists>char \<in> set key. \<not> visible_ascii char
                then Inl (Errorf ''export root key must contain only visible ASCII characters'' [])
              else Inr \<lparr>ra_configured = True, ra_keyHash = sha256 key,
                         ra_fingerprint = hex_encode (sha256 key)\<rparr>))"

text \<open>\<open>subtle.ConstantTimeCompare\<close> is 1 for equal byte slices and 0 otherwise.\<close>

definition ConstantTimeCompare :: "string \<Rightarrow> string \<Rightarrow> int" where
  "ConstantTimeCompare x y = (if x = y then 1 else 0)"

definition authorize :: "exportRootAuthorizer \<Rightarrow> MountPlan \<Rightarrow> string \<Rightarrow> go_error + string" where
  "authorize a plan providedKey =
     (if \<not> IsNFSExportRoot plan \<or> \<not> ra_configured a then Inr []
      else let providedHash = sha256 (TrimSpace providedKey) in
        if ConstantTimeCompare (ra_keyHash a) providedHash \<noteq> 1
          then Inl (Errorf ''mounting the NFS export root requires a valid export root key'' [])
        else Inr (ra_fingerprint a))"

definition authorizesFingerprint :: "exportRootAuthorizer \<Rightarrow> string \<Rightarrow> bool" where
  "authorizesFingerprint a fingerprint \<longleftrightarrow>
     ra_configured a \<and> fingerprint \<noteq> [] \<and> fingerprint = ra_fingerprint a"

subsection \<open>Facts for the handlers\<close>

lemma authorize_Inr [success_iff]:
  "authorize a plan key = Inr fp \<longleftrightarrow>
     (if IsNFSExportRoot plan \<and> ra_configured a
      then ra_keyHash a = sha256 (TrimSpace key) \<and> fp = ra_fingerprint a else fp = [])"
  by (auto simp: authorize_def ConstantTimeCompare_def Let_def)

text \<open>A loaded authorizer has a real fingerprint, the one a matching key authorizes.\<close>

definition authorizer_ok :: "exportRootAuthorizer \<Rightarrow> bool" where
  "authorizer_ok a \<longleftrightarrow>
     (if ra_configured a
      then length (ra_keyHash a) = 32 \<and> ra_fingerprint a = hex_encode (ra_keyHash a)
      else a = no_authorizer)"

lemma load_authorizer_ok:
  "loadExportRootAuthorizer readFile keyFile = Inr a \<Longrightarrow> authorizer_ok a"
  by (auto simp: loadExportRootAuthorizer_def authorizer_ok_def no_authorizer_def Let_def
      split: if_splits sum.splits)

lemma authorizer_ok_fingerprint:
  "authorizer_ok a \<Longrightarrow> ra_configured a \<Longrightarrow> ra_fingerprint a \<noteq> []"
  by (auto simp: authorizer_ok_def simp flip: length_0_conv)

lemma authorize_fingerprint:
  assumes "authorizer_ok a" and "authorize a plan key = Inr fp"
    and "IsNFSExportRoot plan" and "ra_configured a"
  shows "authorizesFingerprint a fp"
  using assms authorizer_ok_fingerprint
  by (auto simp: authorizesFingerprint_def authorize_Inr)

end
