(* ===== verification/Json.thy ===== *)
theory Json
  imports GoStrings
begin

text \<open>
  The part of Go's \<open>encoding/json\<close> the program relies on, on document trees: struct
  fields matched case-insensitively, missing fields left alone, \<open>null\<close> a no-op,
  repeated fields taken in order, a value of the wrong type an error, and unknown fields
  ignored or, after \<open>DisallowUnknownFields\<close>, an error. Text that is not JSON has no tree.
\<close>

datatype json =
    JNull
  | JBool bool
  | JInt int       \<comment> \<open>a number written as an integer\<close>
  | JFloat string  \<comment> \<open>any other number\<close>
  | JStr string
  | JArr "json list"
  | JObj "(string \<times> json) list"

text \<open>
  \<open>encoding/json\<close> folds the case of field names; outside ASCII only the long s and the
  Kelvin sign fold to letters that occur in field names.
\<close>

fun json_fold :: "string \<Rightarrow> string" where
  "json_fold [] = []"
| "json_fold (c # cs) =
     (if c = CHR 0xC5 \<and> take 1 cs = [CHR 0xBF] then CHR ''s'' # json_fold (drop 1 cs)
      else if c = CHR 0xE2 \<and> take 2 cs = [CHR 0x84, CHR 0xAA] then CHR ''k'' # json_fold (drop 2 cs)
      else ascii_lower c # json_fold cs)"

declare json_fold.simps [simp del]

definition decode_str :: "json \<Rightarrow> string \<Rightarrow> string option" where
  "decode_str j cur = (case j of JStr s \<Rightarrow> Some s | JNull \<Rightarrow> Some cur | _ \<Rightarrow> None)"

definition decode_bool :: "json \<Rightarrow> bool \<Rightarrow> bool option" where
  "decode_bool j cur = (case j of JBool b \<Rightarrow> Some b | JNull \<Rightarrow> Some cur | _ \<Rightarrow> None)"

definition decode_int :: "json \<Rightarrow> int \<Rightarrow> int option" where
  "decode_int j cur =
     (case j of JInt i \<Rightarrow> (if - (2 ^ 63) \<le> i \<and> i < 2 ^ 63 then Some i else None)
      | JNull \<Rightarrow> Some cur | _ \<Rightarrow> None)"

text \<open>A struct decoder is a function that stores one field into the struct built so far.\<close>

fun decode_fields :: "(string \<Rightarrow> json \<Rightarrow> 'a \<Rightarrow> 'a option) \<Rightarrow> (string \<times> json) list \<Rightarrow> 'a \<Rightarrow> 'a option" where
  "decode_fields setter [] cur = Some cur"
| "decode_fields setter ((k, v) # kvs) cur =
     (case setter (json_fold k) v cur of None \<Rightarrow> None | Some nxt \<Rightarrow> decode_fields setter kvs nxt)"

definition decode_struct :: "(string \<Rightarrow> json \<Rightarrow> 'a \<Rightarrow> 'a option) \<Rightarrow> json \<Rightarrow> 'a \<Rightarrow> 'a option" where
  "decode_struct setter j cur =
     (case j of JObj kvs \<Rightarrow> decode_fields setter kvs cur | JNull \<Rightarrow> Some cur | _ \<Rightarrow> None)"

text \<open>Encoding: the fields in order, those tagged \<open>omitempty\<close> only when not empty.\<close>

definition opt_str :: "string \<Rightarrow> string \<Rightarrow> (string \<times> json) list" where
  "opt_str k v = (if v = [] then [] else [(k, JStr v)])"

definition opt_bool :: "string \<Rightarrow> bool \<Rightarrow> (string \<times> json) list" where
  "opt_bool k v = (if v then [(k, JBool v)] else [])"

lemma decode_fields_append:
  "decode_fields setter (xs @ ys) cur =
     (case decode_fields setter xs cur of None \<Rightarrow> None | Some nxt \<Rightarrow> decode_fields setter ys nxt)"
  by (induction setter xs cur rule: decode_fields.induct) (auto split: option.splits)

lemma decode_simps [simp]:
  "decode_str (JStr s) cur = Some s" "decode_bool (JBool b) cur' = Some b"
  by (simp_all add: decode_str_def decode_bool_def)

end
