(* ===== verification/StateStore.thy ===== *)
theory StateStore
  imports Types GoErrors Paths Sha256 Json "HOL-Library.AList"
begin

text \<open>
  internal/wrapper/state.go: the desired mounts the wrapper remembers, one JSON file per
  mount in a directory plus two in-memory maps (by mount key and by Pod). A Go map is an
  association list with distinct keys, so that the code that ranges over it stays
  executable. Every system call may fail: the oracle \<open>dk_fail\<close> of the disk says which
  ones do, and \<open>dk_clock\<close> counts the calls made.
\<close>

subsection \<open>Records\<close>

record desiredMount =
  dm_Request :: MountRequest
  dm_ContainerID :: string
  dm_legacyRootClassificationUnknown :: bool
  dm_ExportRootAuthorized :: bool
  dm_ExportRootKeyFingerprint :: string

datatype desiredMountKey =
  MountKey (mk_PodUID: string) (mk_ContainerName: string) (mk_TargetPath: string)

datatype desiredPodKey =
  PodKey (pk_Namespace: string) (pk_Name: string) (pk_UID: string)

definition dm_key :: "desiredMount \<Rightarrow> desiredMountKey" where
  "dm_key mount = MountKey (rq_PodUID (dm_Request mount)) (rq_ContainerName (dm_Request mount))
                    (rq_TargetPath (dm_Request mount))"

definition zero_MountRequest :: MountRequest where
  "zero_MountRequest = \<lparr>rq_APIVersion = [], rq_DriverName = [], rq_Namespace = [], rq_PodName = [],
     rq_PodUID = [], rq_PVName = [], rq_SourceSubPath = [], rq_TargetPath = [], rq_ContainerName = []\<rparr>"

definition zero_desiredMount :: desiredMount where
  "zero_desiredMount = \<lparr>dm_Request = zero_MountRequest, dm_ContainerID = [],
     dm_legacyRootClassificationUnknown = False, dm_ExportRootAuthorized = False,
     dm_ExportRootKeyFingerprint = []\<rparr>"

definition desiredMountKeyFor :: "MountRequest \<Rightarrow> desiredMountKey" where
  "desiredMountKeyFor request = dm_key (zero_desiredMount\<lparr>dm_Request := request\<rparr>)"

definition desiredPodKeyFor :: "MountRequest \<Rightarrow> desiredPodKey" where
  "desiredPodKeyFor request = PodKey (rq_Namespace request) (rq_PodName request) (rq_PodUID request)"

definition sameMountIntent :: "desiredMount \<Rightarrow> desiredMount \<Rightarrow> bool" where
  "sameMountIntent left right \<longleftrightarrow>
     dm_Request left = dm_Request right \<and>
     dm_ExportRootAuthorized left = dm_ExportRootAuthorized right \<and>
     dm_ExportRootKeyFingerprint left = dm_ExportRootKeyFingerprint right"

text \<open>The order of \<open>sortDesiredMounts\<close>: Pod UID, then container name, then target path.\<close>

instantiation desiredMountKey :: linorder
begin

definition less_desiredMountKey :: "desiredMountKey \<Rightarrow> desiredMountKey \<Rightarrow> bool" where
  "less_desiredMountKey left right \<longleftrightarrow>
     (if mk_PodUID left \<noteq> mk_PodUID right then mk_PodUID left < mk_PodUID right
      else if mk_ContainerName left \<noteq> mk_ContainerName right
        then mk_ContainerName left < mk_ContainerName right
      else mk_TargetPath left < mk_TargetPath right)"

definition less_eq_desiredMountKey :: "desiredMountKey \<Rightarrow> desiredMountKey \<Rightarrow> bool" where
  "less_eq_desiredMountKey left right \<longleftrightarrow> left < right \<or> left = right"

instance
proof
  fix x y z :: desiredMountKey
  show "x < y \<longleftrightarrow> x \<le> y \<and> \<not> y \<le> x"
    by (auto simp: less_desiredMountKey_def less_eq_desiredMountKey_def split: if_splits)
  show "x \<le> x"
    by (simp add: less_eq_desiredMountKey_def)
  show "x \<le> z" if "x \<le> y" "y \<le> z"
    using that
    by (auto simp: less_desiredMountKey_def less_eq_desiredMountKey_def split: if_splits)
  show "x = y" if "x \<le> y" "y \<le> x"
    using that
    by (auto simp: less_desiredMountKey_def less_eq_desiredMountKey_def split: if_splits)
  show "x \<le> y \<or> y \<le> x"
    by (cases x; cases y) (auto simp: less_desiredMountKey_def less_eq_desiredMountKey_def)
qed

end

definition sortDesiredMounts :: "desiredMount list \<Rightarrow> desiredMount list" where
  "sortDesiredMounts mounts = sort_key dm_key mounts"

subsection \<open>The JSON of a state file\<close>

record mountStateFile =
  sf_Version :: int
  sf_Mount :: desiredMount

definition legacyMountStateVersion :: int where
  "legacyMountStateVersion = 1"

definition mountStateVersion :: int where
  "mountStateVersion = 2"

definition encode_request :: "MountRequest \<Rightarrow> json" where
  "encode_request r = JObj
     ([(''api_version'', JStr (rq_APIVersion r)), (''driver_name'', JStr (rq_DriverName r)),
       (''namespace'', JStr (rq_Namespace r)), (''pod_name'', JStr (rq_PodName r)),
       (''pod_uid'', JStr (rq_PodUID r)), (''pv_name'', JStr (rq_PVName r))]
      @ opt_str ''source_sub_path'' (rq_SourceSubPath r)
      @ [(''target_path'', JStr (rq_TargetPath r))]
      @ opt_str ''container_name'' (rq_ContainerName r))"

definition encode_desiredMount :: "desiredMount \<Rightarrow> json" where
  "encode_desiredMount m = JObj
     ([(''request'', encode_request (dm_Request m))]
      @ opt_str ''container_id'' (dm_ContainerID m)
      @ opt_bool ''export_root_authorized'' (dm_ExportRootAuthorized m)
      @ opt_str ''export_root_key_fingerprint'' (dm_ExportRootKeyFingerprint m))"

definition encode_state :: "mountStateFile \<Rightarrow> json" where
  "encode_state f = JObj [(''version'', JInt (sf_Version f)), (''mount'', encode_desiredMount (sf_Mount f))]"

text \<open>\<open>strict\<close> is \<open>DisallowUnknownFields\<close>, which only the HTTP handlers use.\<close>

definition set_request :: "bool \<Rightarrow> string \<Rightarrow> json \<Rightarrow> MountRequest \<Rightarrow> MountRequest option" where
  "set_request strict k v r =
     (if k = ''api_version'' then map_option (\<lambda>x. r\<lparr>rq_APIVersion := x\<rparr>) (decode_str v (rq_APIVersion r))
      else if k = ''driver_name'' then map_option (\<lambda>x. r\<lparr>rq_DriverName := x\<rparr>) (decode_str v (rq_DriverName r))
      else if k = ''namespace'' then map_option (\<lambda>x. r\<lparr>rq_Namespace := x\<rparr>) (decode_str v (rq_Namespace r))
      else if k = ''pod_name'' then map_option (\<lambda>x. r\<lparr>rq_PodName := x\<rparr>) (decode_str v (rq_PodName r))
      else if k = ''pod_uid'' then map_option (\<lambda>x. r\<lparr>rq_PodUID := x\<rparr>) (decode_str v (rq_PodUID r))
      else if k = ''pv_name'' then map_option (\<lambda>x. r\<lparr>rq_PVName := x\<rparr>) (decode_str v (rq_PVName r))
      else if k = ''source_sub_path'' then map_option (\<lambda>x. r\<lparr>rq_SourceSubPath := x\<rparr>) (decode_str v (rq_SourceSubPath r))
      else if k = ''target_path'' then map_option (\<lambda>x. r\<lparr>rq_TargetPath := x\<rparr>) (decode_str v (rq_TargetPath r))
      else if k = ''container_name'' then map_option (\<lambda>x. r\<lparr>rq_ContainerName := x\<rparr>) (decode_str v (rq_ContainerName r))
      else if strict then None else Some r)"

definition set_desiredMount :: "string \<Rightarrow> json \<Rightarrow> desiredMount \<Rightarrow> desiredMount option" where
  "set_desiredMount k v m =
     (if k = ''request'' then map_option (\<lambda>x. m\<lparr>dm_Request := x\<rparr>) (decode_struct (set_request False) v (dm_Request m))
      else if k = ''container_id'' then map_option (\<lambda>x. m\<lparr>dm_ContainerID := x\<rparr>) (decode_str v (dm_ContainerID m))
      else if k = ''export_root_authorized''
        then map_option (\<lambda>x. m\<lparr>dm_ExportRootAuthorized := x\<rparr>) (decode_bool v (dm_ExportRootAuthorized m))
      else if k = ''export_root_key_fingerprint''
        then map_option (\<lambda>x. m\<lparr>dm_ExportRootKeyFingerprint := x\<rparr>) (decode_str v (dm_ExportRootKeyFingerprint m))
      else Some m)"

definition set_state :: "string \<Rightarrow> json \<Rightarrow> mountStateFile \<Rightarrow> mountStateFile option" where
  "set_state k v f =
     (if k = ''version'' then map_option (\<lambda>x. f\<lparr>sf_Version := x\<rparr>) (decode_int v (sf_Version f))
      else if k = ''mount'' then map_option (\<lambda>x. f\<lparr>sf_Mount := x\<rparr>) (decode_struct set_desiredMount v (sf_Mount f))
      else Some f)"

definition decode_state :: "json \<Rightarrow> mountStateFile option" where
  "decode_state j = decode_struct set_state j \<lparr>sf_Version = 0, sf_Mount = zero_desiredMount\<rparr>"

subsection \<open>The state directory\<close>

text \<open>A directory entry: another directory, a file that holds a JSON document, or a file
  that does not. \<open>dk_temps\<close> counts temporary files a failed \<open>os.Remove\<close> left behind;
  their names never end in \<open>.json\<close>.\<close>

datatype dir_entry = SubDir | JsonFile json | OtherFile string

record disk =
  dk_files :: "(string \<times> dir_entry) list"
  dk_temps :: nat
  dk_fail :: "nat \<Rightarrow> bool"
  dk_clock :: nat

record fileMountStateStore =
  st_dir :: string
  st_mounts :: "(desiredMountKey \<times> desiredMount) list"
  st_byPod :: "(desiredPodKey \<times> desiredMountKey list) list"
  st_disk :: disk

definition io_error :: go_error where
  "io_error = Sentinel (Errno ''EIO'')"

definition json_error :: go_error where
  "json_error = Errorf ''invalid JSON for the state file'' []"

definition sys :: "disk \<Rightarrow> bool \<times> disk" where
  "sys d = (dk_fail d (dk_clock d), d\<lparr>dk_clock := Suc (dk_clock d)\<rparr>)"

definition mountStateFilename :: "desiredMountKey \<Rightarrow> string" where
  "mountStateFilename key =
     hex_encode (sha256 (concat (map (\<lambda>value. value @ [NUL])
        [mk_PodUID key, mk_ContainerName key, mk_TargetPath key]))) @ ''.json''"

definition syncDirectory :: "disk \<Rightarrow> go_error option \<times> disk" where
  "syncDirectory d =
     (let (failed_open, d) = sys d in
      if failed_open then (Some (Errorf ''open mount state directory for sync: %w'' [AWrap io_error]), d)
      else let (failed_sync, d) = sys d in
        if failed_sync then (Some (Errorf ''sync mount state directory: %w'' [AWrap io_error]), d)
        else (None, d))"

text \<open>The temporary file. \<open>tf_cached\<close> is what a read of it returns; \<open>tf_stable\<close> is what is
  left of it when the machine stops, which only a sync brings up to date. A write that
  fails leaves a part of the document behind, which is no document.\<close>

record temp_file =
  tf_cached :: dir_entry
  tf_stable :: dir_entry

definition new_temp :: temp_file where
  "new_temp = \<lparr>tf_cached = OtherFile [], tf_stable = OtherFile []\<rparr>"

datatype temp_op = TempChmod | TempWrite json | TempSync | TempClose

fun temp_message :: "temp_op \<Rightarrow> string" where
  "temp_message TempChmod = ''chmod temporary mount state: %w''"
| "temp_message (TempWrite _) = ''write temporary mount state: %w''"
| "temp_message TempSync = ''sync temporary mount state: %w''"
| "temp_message TempClose = ''close temporary mount state: %w''"

fun temp_effect :: "temp_op \<Rightarrow> bool \<Rightarrow> temp_file \<Rightarrow> temp_file" where
  "temp_effect (TempWrite payload) bad t = t\<lparr>tf_cached := (if bad then OtherFile [] else JsonFile payload)\<rparr>"
| "temp_effect TempSync bad t = (if bad then t else t\<lparr>tf_stable := tf_cached t\<rparr>)"
| "temp_effect TempChmod bad t = t"
| "temp_effect TempClose bad t = t"

text \<open>The calls on the temporary file, in order; the first that fails ends them with its
  error.\<close>

fun temp_steps :: "temp_op list \<Rightarrow> temp_file \<Rightarrow> disk \<Rightarrow> (go_error option \<times> temp_file) \<times> disk" where
  "temp_steps [] t d = ((None, t), d)"
| "temp_steps (op # ops) t d =
     (let (bad, d) = sys d; t = temp_effect op bad t in
      if bad then ((Some (Errorf (temp_message op) [AWrap io_error]), t), d)
      else temp_steps ops t d)"

text \<open>The deferred \<open>os.Remove\<close> of the temporary file; its error is dropped.\<close>

definition remove_temp :: "disk \<Rightarrow> disk" where
  "remove_temp d = (let (bad, d) = sys d in if bad then d\<lparr>dk_temps := Suc (dk_temps d)\<rparr> else d)"

text \<open>\<open>os.Rename\<close> gives the temporary file the name of the state file, with whatever is in
  it. The directory keeps the part that survives when the machine stops: it is the whole
  file only because the code synced it before.\<close>

definition rename_temp :: "temp_file \<Rightarrow> string \<Rightarrow> disk \<Rightarrow> disk" where
  "rename_temp t name d = d\<lparr>dk_files := AList.update name (tf_stable t) (dk_files d)\<rparr>"

definition writeMountLocked :: "string \<Rightarrow> desiredMount \<Rightarrow> disk \<Rightarrow> go_error option \<times> disk" where
  "writeMountLocked dir mount d =
     (let payload = encode_state \<lparr>sf_Version = mountStateVersion, sf_Mount = mount\<rparr>;
          name = mountStateFilename (dm_key mount);
          (bad, d) = sys d
      in if bad then (Some (Errorf ''create temporary mount state: %w'' [AWrap io_error]), d)
         else (case temp_steps [TempChmod, TempWrite payload, TempSync, TempClose] new_temp d of
                 ((Some err, _), d) \<Rightarrow> (Some err, remove_temp d)
               | ((None, temporary), d) \<Rightarrow>
                   (let (bad, d) = sys d in
                    if bad \<or> map_of (dk_files d) name = Some SubDir
                      then (Some (Errorf ''replace mount state %s: %w''
                              [AStr (path_Join [dir, name]), AWrap io_error]), remove_temp d)
                    else syncDirectory (rename_temp temporary name d))))"

subsection \<open>The two maps\<close>

definition pod_keys :: "(desiredPodKey \<times> desiredMountKey list) list \<Rightarrow> desiredPodKey \<Rightarrow> desiredMountKey list" where
  "pod_keys m p = (case map_of m p of None \<Rightarrow> [] | Some ks \<Rightarrow> ks)"

definition deleteInMemory :: "desiredMountKey \<Rightarrow> fileMountStateStore \<Rightarrow> fileMountStateStore" where
  "deleteInMemory key s =
     (case map_of (st_mounts s) key of
        None \<Rightarrow> s
      | Some mount \<Rightarrow>
        let podKey = desiredPodKeyFor (dm_Request mount);
            keys = removeAll key (pod_keys (st_byPod s) podKey)
        in s\<lparr>st_mounts := AList.delete key (st_mounts s),
             st_byPod := (if keys = [] then AList.delete podKey (st_byPod s)
                          else AList.update podKey keys (st_byPod s))\<rparr>)"

definition putInMemory :: "desiredMount \<Rightarrow> fileMountStateStore \<Rightarrow> fileMountStateStore" where
  "putInMemory mount s =
     (let key = dm_key mount;
          s1 = (case map_of (st_mounts s) key of
                  None \<Rightarrow> s | Some previous \<Rightarrow> deleteInMemory (dm_key previous) s);
          podKey = desiredPodKeyFor (dm_Request mount)
      in s1\<lparr>st_mounts := AList.update key mount (st_mounts s1),
            st_byPod := AList.update podKey (List.insert key (pod_keys (st_byPod s1) podKey)) (st_byPod s1)\<rparr>)"

subsection \<open>The store interface\<close>

definition Get :: "fileMountStateStore \<Rightarrow> desiredMountKey \<Rightarrow> desiredMount option" where
  "Get s key = map_of (st_mounts s) key"

definition List_all :: "fileMountStateStore \<Rightarrow> desiredMount list" where
  "List_all s = sortDesiredMounts (map snd (st_mounts s))"

definition ListForPod :: "fileMountStateStore \<Rightarrow> desiredPodKey \<Rightarrow> desiredMount list" where
  "ListForPod s podKey =
     sortDesiredMounts (map (\<lambda>k. case map_of (st_mounts s) k of None \<Rightarrow> zero_desiredMount | Some m \<Rightarrow> m)
       (pod_keys (st_byPod s) podKey))"

definition Put :: "desiredMount \<Rightarrow> fileMountStateStore \<Rightarrow> go_error option \<times> fileMountStateStore" where
  "Put mount s =
     (case writeMountLocked (st_dir s) mount (st_disk s) of
        (Some err, d) \<Rightarrow> (Some err, s\<lparr>st_disk := d\<rparr>)
      | (None, d) \<Rightarrow> (None, putInMemory mount (s\<lparr>st_disk := d\<rparr>)))"

definition Delete :: "desiredMountKey \<Rightarrow> fileMountStateStore \<Rightarrow> go_error option \<times> fileMountStateStore" where
  "Delete key s =
     (case map_of (st_mounts s) key of
        None \<Rightarrow> (None, s)
      | Some _ \<Rightarrow>
        let name = mountStateFilename key;
            (bad, d) = sys (st_disk s)
        in if bad then (Some (Errorf ''remove mount state %s: %w''
                          [AStr (path_Join [st_dir s, name]), AWrap io_error]), s\<lparr>st_disk := d\<rparr>)
           else (case syncDirectory (d\<lparr>dk_files := AList.delete name (dk_files d)\<rparr>) of
                   (Some err, d) \<Rightarrow> (Some err, s\<lparr>st_disk := d\<rparr>)
                 | (None, d) \<Rightarrow> (None, deleteInMemory key (s\<lparr>st_disk := d\<rparr>))))"

subsection \<open>Loading the directory\<close>

text \<open>The mount a state file stands for, with the version rules.\<close>

definition classify_state :: "string \<Rightarrow> mountStateFile \<Rightarrow> go_error + desiredMount" where
  "classify_state path state =
     (if sf_Version state \<noteq> legacyMountStateVersion \<and> sf_Version state \<noteq> mountStateVersion
        then Inl (Errorf ''mount state %s has unsupported version %d'' [AStr path, AInt (sf_Version state)])
      else if sf_Version state = legacyMountStateVersion
        then Inr ((sf_Mount state)\<lparr>dm_ExportRootAuthorized := False, dm_ExportRootKeyFingerprint := [],
                                   dm_legacyRootClassificationUnknown := True\<rparr>)
      else Inr (sf_Mount state))"

definition load_entry ::
  "string \<times> dir_entry \<Rightarrow> fileMountStateStore \<Rightarrow> (go_error + fileMountStateStore) \<times> disk" where
  "load_entry entry s =
     (let (name, content) = entry; path = path_Join [st_dir s, name] in
      if content = SubDir \<or> \<not> HasSuffix name ''.json'' then (Inr s, st_disk s)
      else let (bad, d) = sys (st_disk s) in
        if bad then (Inl (Errorf ''read mount state %s: %w'' [AStr path, AWrap io_error]), d)
        else (case (case content of JsonFile doc \<Rightarrow> decode_state doc | _ \<Rightarrow> None) of
                None \<Rightarrow> (Inl (Errorf ''decode mount state %s: %w'' [AStr path, AWrap json_error]), d)
              | Some state \<Rightarrow>
                (case classify_state path state of
                   Inl err \<Rightarrow> (Inl err, d)
                 | Inr mount \<Rightarrow>
                     if name \<noteq> mountStateFilename (dm_key mount)
                       then (Inl (Errorf ''mount state filename %s does not match its mount identity'' [AStr path]), d)
                     else (Inr (putInMemory mount (s\<lparr>st_disk := d\<rparr>)), d))))"

fun load_entries ::
  "(string \<times> dir_entry) list \<Rightarrow> fileMountStateStore \<Rightarrow> (go_error + fileMountStateStore) \<times> disk" where
  "load_entries [] s = (Inr s, st_disk s)"
| "load_entries (e # es) s =
     (case load_entry e s of
        (Inl err, d) \<Rightarrow> (Inl err, d)
      | (Inr s', d) \<Rightarrow> load_entries es s')"

definition empty_store :: "string \<Rightarrow> disk \<Rightarrow> fileMountStateStore" where
  "empty_store dir d = \<lparr>st_dir = dir, st_mounts = [], st_byPod = [], st_disk = d\<rparr>"

definition newFileMountStateStore :: "string \<Rightarrow> disk \<Rightarrow> (go_error + fileMountStateStore) \<times> disk" where
  "newFileMountStateStore dir d =
     (if dir = [] then (Inl (Errorf ''mount state directory is required'' []), d)
      else let (bad, d) = sys d in
        if bad then (Inl (Errorf ''create mount state directory %s: %w'' [AStr dir, AWrap io_error]), d)
        else let (bad, d) = sys d in
          if bad then (Inl (Errorf ''read mount state directory %s: %w'' [AStr dir, AWrap io_error]), d)
          else load_entries (sort_key fst (dk_files d)) (empty_store dir d))"

end
