(* ===== verification/StoreCorrect.thy ===== *)
theory StoreCorrect
  imports StateStore
begin

text \<open>
  Correctness of the mount state store: the two in-memory maps stay consistent whatever
  fails on disk, a successful Put or Delete is a map update, a failed one leaves the map
  alone, and the directory always describes a whole mount. The interface the server relies
  on is the locale \<open>mount_store\<close>, extended by \<open>mount_index\<close> for the listings.
\<close>

subsection \<open>The interfaces\<close>

locale mount_store =
  fixes get :: "'s \<Rightarrow> 'k \<Rightarrow> 'v option"
    and put :: "'v \<Rightarrow> 's \<Rightarrow> 'e option \<times> 's"
    and del :: "'k \<Rightarrow> 's \<Rightarrow> 'e option \<times> 's"
    and key :: "'v \<Rightarrow> 'k"
    and ok :: "'s \<Rightarrow> bool"
  assumes put_ok: "ok s \<Longrightarrow> put v s = (r, s') \<Longrightarrow> ok s'"
    and del_ok: "ok s \<Longrightarrow> del k s = (r, s') \<Longrightarrow> ok s'"
    and get_put: "ok s \<Longrightarrow> put v s = (None, s') \<Longrightarrow> get s' = (get s)(key v \<mapsto> v)"
    and get_put_failed: "ok s \<Longrightarrow> put v s = (Some e, s') \<Longrightarrow> get s' = get s"
    and get_del: "ok s \<Longrightarrow> del k s = (None, s') \<Longrightarrow> get s' = (get s)(k := None)"
    and get_del_failed: "ok s \<Longrightarrow> del k s = (Some e, s') \<Longrightarrow> get s' = get s"
    and get_key: "ok s \<Longrightarrow> get s k = Some v \<Longrightarrow> key v = k"
begin

text \<open>Whatever the outcome of an operation, the entries of other keys are untouched.\<close>

lemma put_frame: "ok s \<Longrightarrow> put v s = (r, s') \<Longrightarrow> k \<noteq> key v \<Longrightarrow> get s' k = get s k"
  by (cases r) (auto dest: get_put get_put_failed)

lemma del_frame: "ok s \<Longrightarrow> del k' s = (r, s') \<Longrightarrow> k \<noteq> k' \<Longrightarrow> get s' k = get s k"
  by (cases r) (auto dest: get_del get_del_failed)

text \<open>Writing the previous value back undoes a Put; deleting undoes the Put of a new key.\<close>

lemma put_rollback_existing:
  assumes "ok s" and "get s (key v) = Some p" and "put v s = (None, s1)" and "put p s1 = (None, s2)"
  shows "get s2 = get s"
proof -
  have "key p = key v" using assms(1,2) by (rule get_key)
  then show ?thesis
    using assms get_put [OF assms(1,3)] get_put [OF put_ok [OF assms(1,3)] assms(4)]
    by (simp add: fun_upd_idem)
qed

lemma put_rollback_fresh:
  assumes "ok s" and "get s (key v) = None" and "put v s = (None, s1)" and "del (key v) s1 = (None, s2)"
  shows "get s2 = get s"
  using assms get_put [OF assms(1,3)] get_del [OF put_ok [OF assms(1,3)] assms(4)]
  by (simp add: fun_upd_idem)

lemma del_rollback:
  assumes "ok s" and "get s k = Some p" and "del k s = (None, s1)" and "put p s1 = (None, s2)"
  shows "get s2 = get s"
proof -
  have "key p = k" using assms(1,2) by (rule get_key)
  then show ?thesis
    using assms get_del [OF assms(1,3)] get_put [OF del_ok [OF assms(1,3)] assms(4)]
    by (simp add: fun_upd_idem)
qed

end

locale mount_index = mount_store get put del key ok
  for get :: "'s \<Rightarrow> 'k::linorder \<Rightarrow> 'v option"
    and put :: "'v \<Rightarrow> 's \<Rightarrow> 'e option \<times> 's"
    and del :: "'k \<Rightarrow> 's \<Rightarrow> 'e option \<times> 's"
    and key :: "'v \<Rightarrow> 'k"
    and ok :: "'s \<Rightarrow> bool" +
  fixes all :: "'s \<Rightarrow> 'v list"
    and of_group :: "'s \<Rightarrow> 'g \<Rightarrow> 'v list"
    and group :: "'v \<Rightarrow> 'g"
  assumes all_set: "ok s \<Longrightarrow> set (all s) = ran (get s)"
    and all_sorted: "ok s \<Longrightarrow> sorted (map key (all s)) \<and> distinct (map key (all s))"
    and of_group_set: "ok s \<Longrightarrow> set (of_group s g) = {v \<in> ran (get s). group v = g}"
    and of_group_sorted: "ok s \<Longrightarrow> sorted (map key (of_group s g)) \<and> distinct (map key (of_group s g))"
begin

text \<open>The index by group agrees with filtering the full list.\<close>

lemma of_group_filter:
  assumes "ok s"
  shows "of_group s g = filter (\<lambda>v. group v = g) (all s)"
proof -
  let ?f = "filter (\<lambda>v. group v = g) (all s)"
  have sets: "set (of_group s g) = set ?f"
    using assms by (simp add: all_set of_group_set)
  have "sorted (map key ?f)" and "distinct (map key ?f)"
    using all_sorted [OF assms] by (auto simp: sorted_filter distinct_map_filter)
  moreover have "set (map key (of_group s g)) = set (map key ?f)"
    by (simp only: set_map sets)
  then have "map key (of_group s g) = map key ?f"
    using calculation of_group_sorted [OF assms] by (intro sorted_distinct_set_unique) simp_all
  moreover have "inj_on key (set (of_group s g) \<union> set ?f)"
    using all_sorted [OF assms] sets by (auto simp: distinct_map intro: inj_on_subset)
  ultimately show ?thesis by (metis inj_on_map_eq_map)
qed

lemma in_all_iff: "ok s \<Longrightarrow> v \<in> set (all s) \<longleftrightarrow> get s (key v) = Some v"
  by (auto simp: all_set ran_def dest: get_key)

end

subsection \<open>The two maps agree\<close>

definition store_inv :: "fileMountStateStore \<Rightarrow> bool" where
  "store_inv s \<longleftrightarrow>
     distinct (map fst (st_mounts s)) \<and>
     (\<forall>k m. map_of (st_mounts s) k = Some m \<longrightarrow> dm_key m = k) \<and>
     distinct (map fst (st_byPod s)) \<and>
     (\<forall>p ks. map_of (st_byPod s) p = Some ks \<longrightarrow> ks \<noteq> [] \<and> distinct ks) \<and>
     (\<forall>p k. k \<in> set (pod_keys (st_byPod s) p) \<longleftrightarrow>
        (\<exists>m. map_of (st_mounts s) k = Some m \<and> desiredPodKeyFor (dm_Request m) = p))"

lemma pod_keys_update [simp]:
  "pod_keys (AList.update p ks m) q = (if q = p then ks else pod_keys m q)"
  by (simp add: pod_keys_def AList.update_conv')

lemma pod_keys_delete [simp]:
  "pod_keys (AList.delete p m) q = (if q = p then [] else pod_keys m q)"
  by (simp add: pod_keys_def AList.delete_conv')

lemma store_invD:
  assumes "store_inv s"
  shows "distinct (map fst (st_mounts s))" and "distinct (map fst (st_byPod s))"
    and "map_of (st_mounts s) k = Some m \<Longrightarrow> dm_key m = k"
    and "map_of (st_byPod s) p = Some ks \<Longrightarrow> ks \<noteq> [] \<and> distinct ks"
    and "k \<in> set (pod_keys (st_byPod s) p) \<longleftrightarrow>
        (\<exists>m. map_of (st_mounts s) k = Some m \<and> desiredPodKeyFor (dm_Request m) = p)"
  using assms unfolding store_inv_def by blast+

lemma distinct_pod_keys: "store_inv s \<Longrightarrow> distinct (pod_keys (st_byPod s) p)"
  using store_invD(4) by (fastforce simp: pod_keys_def split: option.splits)

lemma store_inv_empty: "store_inv (empty_store dir d)"
  by (simp add: store_inv_def empty_store_def pod_keys_def)

lemma store_inv_disk [simp]: "store_inv (s\<lparr>st_disk := d\<rparr>) = store_inv s"
  by (simp add: store_inv_def)

lemma Get_disk [simp]: "Get (s\<lparr>st_disk := d\<rparr>) = Get s"
  by (rule ext) (simp add: Get_def)

lemma Get_deleteInMemory: "Get (deleteInMemory key s) = (Get s)(key := None)"
proof (rule ext)
  fix k
  show "Get (deleteInMemory key s) k = ((Get s)(key := None)) k"
    by (cases "map_of (st_mounts s) key")
       (auto simp: Get_def deleteInMemory_def Let_def AList.delete_conv')
qed

lemma pod_keys_deleteInMemory:
  "map_of (st_mounts s) key = Some m \<Longrightarrow>
   pod_keys (st_byPod (deleteInMemory key s)) p =
     (if p = desiredPodKeyFor (dm_Request m) then removeAll key (pod_keys (st_byPod s) p)
      else pod_keys (st_byPod s) p)"
  by (simp add: deleteInMemory_def Let_def)

lemma byPod_deleteInMemory:
  assumes inv: "store_inv s"
  shows "k \<in> set (pod_keys (st_byPod (deleteInMemory key s)) p) \<longleftrightarrow>
     k \<noteq> key \<and> k \<in> set (pod_keys (st_byPod s) p)"
proof (cases "map_of (st_mounts s) key")
  case None
  then show ?thesis using store_invD(5) [OF inv, of key p] by (auto simp: deleteInMemory_def)
next
  case (Some m)
  then show ?thesis
    using store_invD(5) [OF inv, of key p] by (auto simp: pod_keys_deleteInMemory)
qed

lemma store_inv_deleteInMemory [inv_intros]:
  assumes inv: "store_inv s"
  shows "store_inv (deleteInMemory key s)"
proof (cases "map_of (st_mounts s) key")
  case None
  with inv show ?thesis by (simp add: deleteInMemory_def)
next
  case (Some m)
  let ?s = "deleteInMemory key s"
  have mounts: "st_mounts ?s = AList.delete key (st_mounts s)"
    using Some by (simp add: deleteInMemory_def Let_def)
  have byPod: "st_byPod ?s = (let podKey = desiredPodKeyFor (dm_Request m);
      keys = removeAll key (pod_keys (st_byPod s) podKey)
      in if keys = [] then AList.delete podKey (st_byPod s) else AList.update podKey keys (st_byPod s))"
    using Some by (simp add: deleteInMemory_def Let_def)
  have "distinct (map fst (st_mounts ?s))"
    unfolding mounts by (rule AList.distinct_delete [OF store_invD(1) [OF inv]])
  moreover have "distinct (map fst (st_byPod ?s))"
    unfolding byPod using store_invD(2) [OF inv]
    by (simp add: Let_def AList.distinct_delete AList.distinct_update)
  moreover have "\<forall>p ks. map_of (st_byPod ?s) p = Some ks \<longrightarrow> ks \<noteq> [] \<and> distinct ks"
    unfolding byPod using store_invD(4) [OF inv] distinct_pod_keys [OF inv]
    by (auto simp: Let_def AList.delete_conv' AList.update_conv' distinct_removeAll split: if_splits)
  moreover have "\<forall>k m. map_of (st_mounts ?s) k = Some m \<longrightarrow> dm_key m = k"
    unfolding mounts using store_invD(3) [OF inv] by (simp add: AList.delete_conv')
  moreover have "\<forall>p k. k \<in> set (pod_keys (st_byPod ?s) p) \<longleftrightarrow>
      (\<exists>m. map_of (st_mounts ?s) k = Some m \<and> desiredPodKeyFor (dm_Request m) = p)"
    using byPod_deleteInMemory [OF inv] store_invD(5) [OF inv]
    by (auto simp: mounts AList.delete_conv')
  ultimately show ?thesis unfolding store_inv_def by blast
qed

lemma Get_putInMemory: "store_inv s \<Longrightarrow> Get (putInMemory m s) = (Get s)(dm_key m \<mapsto> m)"
proof (rule ext)
  fix k
  assume inv: "store_inv s"
  show "Get (putInMemory m s) k = ((Get s)(dm_key m \<mapsto> m)) k"
  proof (cases "map_of (st_mounts s) (dm_key m)")
    case None
    then show ?thesis by (simp add: Get_def putInMemory_def Let_def AList.update_conv')
  next
    case (Some p)
    with Get_deleteInMemory [of "dm_key p" s] store_invD(3) [OF inv Some] show ?thesis
      by (auto simp: Get_def putInMemory_def Let_def AList.update_conv' fun_eq_iff)
  qed
qed

text \<open>Replacing a mount is deleting its key and inserting under a fresh one.\<close>

lemma putInMemory_via_delete:
  assumes "store_inv s"
  shows "putInMemory m s = putInMemory m (deleteInMemory (dm_key m) s)"
proof (cases "map_of (st_mounts s) (dm_key m)")
  case None
  then show ?thesis by (simp add: deleteInMemory_def)
next
  case (Some p)
  have "map_of (st_mounts (deleteInMemory (dm_key m) s)) (dm_key m) = None"
    using Get_deleteInMemory [of "dm_key m" s] by (simp add: Get_def fun_eq_iff)
  with Some store_invD(3) [OF assms Some] show ?thesis
    by (simp add: putInMemory_def Let_def)
qed

lemma store_inv_put_fresh:
  assumes inv: "store_inv s" and fresh: "map_of (st_mounts s) (dm_key m) = None"
  shows "store_inv (putInMemory m s)"
proof -
  let ?p = "desiredPodKeyFor (dm_Request m)" and ?s = "putInMemory m s"
  have mounts: "st_mounts ?s = AList.update (dm_key m) m (st_mounts s)"
    and byPod: "st_byPod ?s = AList.update ?p (List.insert (dm_key m) (pod_keys (st_byPod s) ?p)) (st_byPod s)"
    using fresh by (simp_all add: putInMemory_def Let_def)
  have "\<forall>p ks. map_of (st_byPod ?s) p = Some ks \<longrightarrow> ks \<noteq> [] \<and> distinct ks"
    unfolding byPod using store_invD(4) [OF inv] distinct_pod_keys [OF inv]
    by (auto simp: AList.update_conv' List.insert_def split: if_splits)
  moreover have "\<forall>k m. map_of (st_mounts ?s) k = Some m \<longrightarrow> dm_key m = k"
    unfolding mounts using store_invD(3) [OF inv] by (simp add: AList.update_conv')
  moreover have "\<forall>p k. k \<in> set (pod_keys (st_byPod ?s) p) \<longleftrightarrow>
      (\<exists>m. map_of (st_mounts ?s) k = Some m \<and> desiredPodKeyFor (dm_Request m) = p)"
  proof (intro allI)
    fix p k
    show "k \<in> set (pod_keys (st_byPod ?s) p) \<longleftrightarrow>
        (\<exists>m. map_of (st_mounts ?s) k = Some m \<and> desiredPodKeyFor (dm_Request m) = p)"
      using store_invD(5) [OF inv, of k p] fresh
      by (cases "k = dm_key m") (auto simp: mounts byPod AList.update_conv')
  qed
  moreover have "distinct (map fst (st_mounts ?s))" and "distinct (map fst (st_byPod ?s))"
    using store_invD(1,2) [OF inv] by (simp_all add: mounts byPod AList.distinct_update)
  ultimately show ?thesis unfolding store_inv_def by blast
qed

lemma store_inv_putInMemory [inv_intros]:
  assumes "store_inv s"
  shows "store_inv (putInMemory m s)"
proof -
  have "map_of (st_mounts (deleteInMemory (dm_key m) s)) (dm_key m) = None"
    using Get_deleteInMemory [of "dm_key m" s] by (simp add: Get_def fun_eq_iff)
  then have "store_inv (putInMemory m (deleteInMemory (dm_key m) s))"
    using assms by (intro store_inv_put_fresh inv_intros)
  then show ?thesis using putInMemory_via_delete [OF assms] by simp
qed

subsection \<open>What an operation does to the directory\<close>

lemma files_sys [frame]: "sys d = (b, d') \<Longrightarrow> dk_files d' = dk_files d"
  by (auto simp: sys_def)

lemma files_syncDirectory [frame]: "syncDirectory d = (r, d') \<Longrightarrow> dk_files d' = dk_files d"
  by (auto simp: syncDirectory_def Let_def dest!: files_sys split: prod.splits if_splits)

lemma files_temp_steps [frame]: "temp_steps ops t d = (r, d') \<Longrightarrow> dk_files d' = dk_files d"
  by (induction ops t d rule: temp_steps.induct) (auto simp: Let_def dest!: files_sys split: prod.splits if_splits)

text \<open>The temporary file that reaches the rename: the calls on it succeeded one by one, so
  it is the effect of all of them, and the document is synced.\<close>

lemma temp_steps_None:
  "temp_steps ops t d = ((None, t'), d') \<Longrightarrow> t' = fold (\<lambda>op. temp_effect op False) ops t"
  by (induction ops t d rule: temp_steps.induct) (auto simp: Let_def split: prod.splits if_splits)

lemma temp_written:
  assumes "temp_steps [TempChmod, TempWrite payload, TempSync, TempClose] t d = ((None, t'), d')"
  shows "tf_stable t' = JsonFile payload \<and> dk_files d' = dk_files d"
  using temp_steps_None [OF assms] files_temp_steps [OF assms] by simp

lemma temp_failed: "temp_steps ops t d = ((Some e, t'), d') \<Longrightarrow> dk_files d' = dk_files d"
  by (rule files_temp_steps)

lemma files_remove_temp [frame, simp]: "dk_files (remove_temp d) = dk_files d"
  by (auto simp: remove_temp_def dest!: files_sys split: prod.splits)

abbreviation state_doc :: "desiredMount \<Rightarrow> json" where
  "state_doc m \<equiv> encode_state \<lparr>sf_Version = mountStateVersion, sf_Mount = m\<rparr>"

abbreviation mount_file :: "desiredMount \<Rightarrow> string" where
  "mount_file m \<equiv> mountStateFilename (dm_key m)"

text \<open>A write either leaves the directory alone and reports an error, or replaces the whole
  file of the mount (after which only the directory sync can still fail).\<close>

lemma writeMountLocked_files:
  assumes "writeMountLocked dir m d = (r, d')"
  shows "(dk_files d' = dk_files d \<and> r \<noteq> None) \<or>
         dk_files d' = AList.update (mount_file m) (JsonFile (state_doc m)) (dk_files d)"
  using assms
  by (auto simp: writeMountLocked_def Let_def rename_temp_def simp del: temp_steps.simps
      dest!: files_sys files_syncDirectory temp_failed temp_written
      split: prod.splits option.splits if_splits)

lemma Put_cases:
  assumes "Put m s = (r, s')"
  obtains (stored) d where "r = None" "s' = putInMemory m (s\<lparr>st_disk := d\<rparr>)"
      "dk_files d = AList.update (mount_file m) (JsonFile (state_doc m)) (dk_files (st_disk s))"
  | (failed) d e where "r = Some e" "s' = s\<lparr>st_disk := d\<rparr>"
      "dk_files d = dk_files (st_disk s) \<or>
       dk_files d = AList.update (mount_file m) (JsonFile (state_doc m)) (dk_files (st_disk s))"
proof -
  obtain r' d where w: "writeMountLocked (st_dir s) m (st_disk s) = (r', d)" by fastforce
  show ?thesis
  proof (cases r')
    case None
    with w assms stored [of d] show ?thesis
      using writeMountLocked_files [OF w] by (auto simp: Put_def)
  next
    case (Some e)
    with w assms failed [of e d] show ?thesis
      using writeMountLocked_files [OF w] by (auto simp: Put_def)
  qed
qed

lemma Delete_cases:
  assumes "Delete k s = (r, s')"
  obtains (absent) "map_of (st_mounts s) k = None" "r = None" "s' = s"
  | (removed) d where "map_of (st_mounts s) k \<noteq> None" "r = None" "s' = deleteInMemory k (s\<lparr>st_disk := d\<rparr>)"
      "dk_files d = AList.delete (mountStateFilename k) (dk_files (st_disk s))"
  | (failed) d e where "map_of (st_mounts s) k \<noteq> None" "r = Some e" "s' = s\<lparr>st_disk := d\<rparr>"
      "dk_files d = dk_files (st_disk s) \<or>
       dk_files d = AList.delete (mountStateFilename k) (dk_files (st_disk s))"
  using assms
  by (auto simp: Delete_def Let_def dest!: files_sys files_syncDirectory
      split: prod.splits option.splits if_splits)

subsection \<open>The store implements the interfaces\<close>

lemma store_inv_Put: "store_inv s \<Longrightarrow> Put m s = (r, s') \<Longrightarrow> store_inv s'"
  by (erule Put_cases) (auto intro: inv_intros)

lemma store_inv_Delete: "store_inv s \<Longrightarrow> Delete k s = (r, s') \<Longrightarrow> store_inv s'"
  by (erule Delete_cases) (auto intro: inv_intros)

interpretation fs: mount_store Get Put Delete dm_key store_inv
proof (unfold_locales, goal_cases)
  case (1 s v r s')
  then show ?case by (rule store_inv_Put)
next
  case (2 s k r s')
  then show ?case by (rule store_inv_Delete)
next
  case (3 s v s')
  then show ?case by (auto elim!: Put_cases simp: Get_putInMemory)
next
  case (4 s v e s')
  then show ?case by (auto elim!: Put_cases)
next
  case (5 s k s')
  show ?case
    using 5(2)
  proof (cases rule: Delete_cases)
    case absent
    then have "Get s k = None" by (simp add: Get_def)
    with absent show ?thesis by (simp add: fun_upd_idem)
  qed (simp_all add: Get_deleteInMemory)
next
  case (6 s k e s')
  then show ?case by (auto elim!: Delete_cases)
next
  case (7 s k v)
  then show ?case by (simp add: Get_def store_invD(3))
qed

lemma mset_sortDesiredMounts [simp]: "mset (sortDesiredMounts ms) = mset ms"
  by (simp add: sortDesiredMounts_def)

lemma set_sortDesiredMounts [simp]: "set (sortDesiredMounts ms) = set ms"
  by (simp add: sortDesiredMounts_def)

lemma sorted_sortDesiredMounts: "sorted (map dm_key (sortDesiredMounts ms))"
  by (simp add: sortDesiredMounts_def)

lemma distinct_sortDesiredMounts:
  "distinct (map dm_key (sortDesiredMounts ms)) \<longleftrightarrow> distinct (map dm_key ms)"
proof -
  have "mset (map dm_key (sortDesiredMounts ms)) = mset (map dm_key ms)" by simp
  then show ?thesis by (rule mset_eq_imp_distinct_iff)
qed

lemma map_key_mounts: "store_inv s \<Longrightarrow> map dm_key (map snd (st_mounts s)) = map fst (st_mounts s)"
  using store_invD(1,3) by (auto dest: map_of_is_SomeI)

abbreviation podKeyOf :: "desiredMount \<Rightarrow> desiredPodKey" where
  "podKeyOf m \<equiv> desiredPodKeyFor (dm_Request m)"

lemma Get_in_pod_keys:
  "store_inv s \<Longrightarrow> k \<in> set (pod_keys (st_byPod s) p) \<longleftrightarrow> (\<exists>m. Get s k = Some m \<and> podKeyOf m = p)"
  by (simp add: Get_def store_invD(5))

lemma ListForPod_eq:
  assumes "store_inv s"
  shows "ListForPod s p = sortDesiredMounts (map (\<lambda>k. the (Get s k)) (pod_keys (st_byPod s) p))"
  unfolding ListForPod_def
  by (rule arg_cong [where f = sortDesiredMounts], rule map_cong)
     (use Get_in_pod_keys [OF assms] in \<open>auto simp: Get_def\<close>)

interpretation fs: mount_index Get Put Delete dm_key store_inv List_all ListForPod podKeyOf
proof (unfold_locales, goal_cases)
  case (1 s)
  then show ?case
    by (simp add: List_all_def Get_def [abs_def] ran_distinct store_invD(1))
next
  case (2 s)
  then show ?case
    unfolding List_all_def
    by (simp only: sorted_sortDesiredMounts distinct_sortDesiredMounts map_key_mounts store_invD(1) simp_thms)
next
  case (3 s g)
  then show ?case
    using Get_in_pod_keys [OF 3, of _ g]
    by (force simp: ListForPod_eq ran_def dest: fs.get_key)
next
  case (4 s g)
  have "map dm_key (map (\<lambda>k. the (Get s k)) (pod_keys (st_byPod s) g)) = pod_keys (st_byPod s) g"
    using Get_in_pod_keys [OF 4, of _ g] fs.get_key [OF 4] by (auto intro!: map_idI)
  then show ?case
    unfolding ListForPod_eq [OF 4]
    by (simp only: sorted_sortDesiredMounts distinct_sortDesiredMounts distinct_pod_keys [OF 4] simp_thms)
qed

end
