(* ===== verification/Server.thy ===== *)
theory Server
  imports Authz RootAuth StoreCorrect
begin

text \<open>
  internal/wrapper/server.go: the request handlers. The record \<open>Server\<close> has the fields of
  the Go struct; the Kubernetes client and the node mounter are interfaces there and
  parameters here, the mounter acting on a node state of any type \<open>'n\<close>. A handler takes
  the server and returns its result with the server afterwards; the part of a handler that
  holds the lock of its target is a definition of its own. Log lines are left out.
\<close>

subsection \<open>State\<close>

record kube_client =
  kc_ReviewToken :: "string \<Rightarrow> string list \<Rightarrow> go_error + TokenReviewStatus option"
  kc_GetPod :: "string \<Rightarrow> string \<Rightarrow> go_error + Pod"
  kc_GetPersistentVolume :: "string \<Rightarrow> go_error + PersistentVolume"

record 'n Mounter =
  nm_Mount :: "MountPlan \<Rightarrow> 'n \<Rightarrow> go_error option \<times> 'n"
  nm_Unmount :: "MountPlan \<Rightarrow> 'n \<Rightarrow> go_error option \<times> 'n"
  nm_IsMounted :: "MountPlan \<Rightarrow> 'n \<Rightarrow> (go_error + bool) \<times> 'n"

record 'n Server =
  sv_cfg :: WrapperConfig
  sv_kube :: kube_client
  sv_mounter :: "'n Mounter"
  sv_node :: 'n
  sv_state :: fileMountStateStore
  sv_reconcileErrors :: "desiredMountKey \<rightharpoonup> go_error"
  sv_retrying :: "desiredMountKey set"
  sv_exportRoot :: exportRootAuthorizer

definition newServerWithState ::
  "(string \<Rightarrow> go_error + string) \<Rightarrow> WrapperConfig \<Rightarrow> kube_client \<Rightarrow> 'n Mounter \<Rightarrow> 'n \<Rightarrow>
   fileMountStateStore \<Rightarrow> go_error + 'n Server" where
  "newServerWithState readFile cfg kubeClient mounter node state =
     (case loadExportRootAuthorizer readFile (wc_ExportRootKeyFile cfg) of
        Inl err \<Rightarrow> Inl err
      | Inr exportRoot \<Rightarrow>
          Inr \<lparr>sv_cfg = cfg, sv_kube = kubeClient, sv_mounter = mounter, sv_node = node,
               sv_state = state, sv_reconcileErrors = Map.empty, sv_retrying = {},
               sv_exportRoot = exportRoot\<rparr>)"

definition NewServer ::
  "(string \<Rightarrow> go_error + string) \<Rightarrow> WrapperConfig \<Rightarrow> kube_client \<Rightarrow> 'n Mounter \<Rightarrow> 'n \<Rightarrow>
   disk \<Rightarrow> (go_error + 'n Server) \<times> disk" where
  "NewServer readFile cfg kubeClient mounter node d =
     (case newFileMountStateStore (wc_MountStateDir cfg) d of
        (Inl err, d) \<Rightarrow> (Inl err, d)
      | (Inr state, d) \<Rightarrow> (newServerWithState readFile cfg kubeClient mounter node state, d))"

text \<open>The steps on one field.\<close>

definition state_Put :: "desiredMount \<Rightarrow> 'n Server \<Rightarrow> go_error option \<times> 'n Server" where
  "state_Put m s = (case Put m (sv_state s) of (r, st) \<Rightarrow> (r, s\<lparr>sv_state := st\<rparr>))"

definition state_Delete :: "desiredMountKey \<Rightarrow> 'n Server \<Rightarrow> go_error option \<times> 'n Server" where
  "state_Delete k s = (case Delete k (sv_state s) of (r, st) \<Rightarrow> (r, s\<lparr>sv_state := st\<rparr>))"

definition state_Get :: "'n Server \<Rightarrow> desiredMountKey \<Rightarrow> desiredMount option" where
  "state_Get s k = Get (sv_state s) k"

definition node_Mount :: "MountPlan \<Rightarrow> 'n Server \<Rightarrow> go_error option \<times> 'n Server" where
  "node_Mount plan s = (case nm_Mount (sv_mounter s) plan (sv_node s) of (r, n) \<Rightarrow> (r, s\<lparr>sv_node := n\<rparr>))"

definition node_Unmount :: "MountPlan \<Rightarrow> 'n Server \<Rightarrow> go_error option \<times> 'n Server" where
  "node_Unmount plan s = (case nm_Unmount (sv_mounter s) plan (sv_node s) of (r, n) \<Rightarrow> (r, s\<lparr>sv_node := n\<rparr>))"

definition node_IsMounted :: "MountPlan \<Rightarrow> 'n Server \<Rightarrow> (go_error + bool) \<times> 'n Server" where
  "node_IsMounted plan s = (case nm_IsMounted (sv_mounter s) plan (sv_node s) of (r, n) \<Rightarrow> (r, s\<lparr>sv_node := n\<rparr>))"

subsection \<open>The target lock\<close>

definition targetLockStripes :: nat where
  "targetLockStripes = 128"

text \<open>FNV-1a over the three strings of the key, on 32-bit words; the result is the stripe.\<close>

definition fnv_byte :: "char \<Rightarrow> 32 word \<Rightarrow> 32 word" where
  "fnv_byte c hash = (hash XOR of_char c) * 16777619"

definition targetLock :: "desiredMountKey \<Rightarrow> nat" where
  "targetLock key =
     (let hash = fold (\<lambda>value h. fold fnv_byte value h)
            [mk_PodUID key, mk_ContainerName key, mk_TargetPath key] (2166136261 :: 32 word)
      in unat (hash mod of_nat targetLockStripes))"

subsection \<open>From a request to a plan\<close>

definition normalizeMountRequest :: "WrapperConfig \<Rightarrow> MountRequest \<Rightarrow> bool \<Rightarrow> go_error + MountRequest" where
  "normalizeMountRequest cfg request validateSubPath =
     (case validateRequestShape (wc_DriverName cfg) request of
        Some err \<Rightarrow> Inl err
      | None \<Rightarrow>
        (case ValidateTargetPath (rq_TargetPath request) of
           Inl err \<Rightarrow> Inl (bad_request ''%w: %v'' [AVal err])
         | Inr cleanTarget \<Rightarrow>
           let request = request\<lparr>rq_TargetPath := cleanTarget\<rparr> in
           if validateSubPath then
             (case ValidateSourceSubPath (rq_SourceSubPath request) of
                Inl err \<Rightarrow> Inl (bad_request ''%w: %v'' [AVal err])
              | Inr cleanSubPath \<Rightarrow> Inr (request\<lparr>rq_SourceSubPath := cleanSubPath\<rparr>))
           else Inr (request\<lparr>rq_SourceSubPath := []\<rparr>)))"

definition authorizedPodForRequest ::
  "WrapperConfig \<Rightarrow> kube_client \<Rightarrow> string \<Rightarrow> MountRequest \<Rightarrow> go_error + Pod" where
  "authorizedPodForRequest cfg kube token request =
     (case kc_ReviewToken kube token [wc_TokenAudience cfg] of
        Inl err \<Rightarrow> Inl (Errorf ''token review failed: %w'' [AWrap err])
      | Inr tokenStatus \<Rightarrow>
        (case authorizeToken tokenStatus (rq_Namespace request) (wc_TokenAudience cfg) of
           Some err \<Rightarrow> Inl err
         | None \<Rightarrow>
           (case kc_GetPod kube (rq_Namespace request) (rq_PodName request) of
              Inl err \<Rightarrow> Inl (Errorf ''get pod %s/%s: %w''
                               [AStr (rq_Namespace request), AStr (rq_PodName request), AWrap err])
            | Inr pod \<Rightarrow>
              (case tokenStatus of
                 None \<Rightarrow> Inl (Panic ''nil pointer dereference'')
               | Some st \<Rightarrow>
                 (case authorizePod st pod request of
                    Some err \<Rightarrow> Inl err
                  | None \<Rightarrow>
                    (case validatePodNode pod (wc_NodeName cfg) of
                       Some err \<Rightarrow> Inl err
                     | None \<Rightarrow> Inr pod))))))"

definition mountPlanForPod ::
  "WrapperConfig \<Rightarrow> kube_client \<Rightarrow> MountRequest \<Rightarrow> Pod \<Rightarrow> go_error + MountRequest \<times> MountPlan" where
  "mountPlanForPod cfg kube request pod =
     (case kc_GetPersistentVolume kube (rq_PVName request) of
        Inl err \<Rightarrow> Inl (Errorf ''get pv %s: %w'' [AStr (rq_PVName request), AWrap err])
      | Inr pv \<Rightarrow>
        (case authorizePVForPod (wc_DriverName cfg) pod pv of
           Some err \<Rightarrow> Inl err
         | None \<Rightarrow>
           (case selectContainerStatus pod (rq_ContainerName request) of
              Inl err \<Rightarrow> Inl (bad_request ''%w: %v'' [AVal err])
            | Inr containerStatus \<Rightarrow>
              let request = request\<lparr>rq_ContainerName := cs_Name containerStatus\<rparr> in
              (case buildMountPlan request pod pv (cs_ContainerID containerStatus) of
                 Inl err \<Rightarrow> Inl err
               | Inr plan \<Rightarrow> Inr (request, plan)))))"

definition authorizedMountPlan ::
  "WrapperConfig \<Rightarrow> kube_client \<Rightarrow> string \<Rightarrow> MountRequest \<Rightarrow> bool \<Rightarrow> go_error + MountRequest \<times> MountPlan" where
  "authorizedMountPlan cfg kube token request validateSubPath =
     (case normalizeMountRequest cfg request validateSubPath of
        Inl err \<Rightarrow> Inl err
      | Inr request \<Rightarrow>
        (case authorizedPodForRequest cfg kube token request of
           Inl err \<Rightarrow> Inl err
         | Inr pod \<Rightarrow> mountPlanForPod cfg kube request pod))"

subsection \<open>mount\<close>

definition mountResult :: "string \<Rightarrow> MountRequest \<Rightarrow> MountResult" where
  "mountResult driverName request =
     \<lparr>mr_Mounted = True, mr_DriverName = driverName, mr_PVName = rq_PVName request,
      mr_SourceSubPath = rq_SourceSubPath request, mr_TargetPath = rq_TargetPath request,
      mr_ContainerName = rq_ContainerName request\<rparr>"

text \<open>\<open>previous\<close> and \<open>existed\<close> of the code are one option here.\<close>

definition restoreDesiredMount ::
  "desiredMountKey \<Rightarrow> desiredMount option \<Rightarrow> 'n Server \<Rightarrow> go_error option \<times> 'n Server" where
  "restoreDesiredMount key previous s =
     (case previous of
        Some prev \<Rightarrow>
          (case state_Put prev s of
             (Some err, s) \<Rightarrow> (Some (Errorf ''restore desired mount after failed operation: %w'' [AWrap err]), s)
           | (None, s) \<Rightarrow> (None, s))
      | None \<Rightarrow>
          (case state_Delete key s of
             (Some err, s) \<Rightarrow> (Some (Errorf ''remove pending desired mount after failed operation: %w'' [AWrap err]), s)
           | (None, s) \<Rightarrow> (None, s)))"

text \<open>\<open>errors.Join(errNodeOperation, err, restore)\<close>, which drops a nil last argument.\<close>

definition node_failure :: "go_error \<Rightarrow> go_error option \<Rightarrow> go_error" where
  "node_failure err restore =
     Join ([Sentinel ErrNodeOperation, err] @ (case restore of None \<Rightarrow> [] | Some e \<Rightarrow> [e]))"

text \<open>The end of \<open>mount\<close>: persist the intent, mount, record the container.\<close>

definition mount_apply ::
  "MountRequest \<Rightarrow> MountPlan \<Rightarrow> desiredMount \<Rightarrow> desiredMount option \<Rightarrow> 'n Server \<Rightarrow>
   (go_error + MountResult) \<times> 'n Server" where
  "mount_apply request plan desired previous s =
     (case state_Put desired s of
        (Some err, s) \<Rightarrow> (Inl (Errorf ''persist desired mount: %w'' [AWrap err]), s)
      | (None, s) \<Rightarrow>
        (case node_Mount plan s of
           (Some err, s) \<Rightarrow>
             (case restoreDesiredMount (desiredMountKeyFor request) previous s of
                (r, s) \<Rightarrow> (Inl (node_failure err r), s))
         | (None, s) \<Rightarrow>
             (case state_Put (desired\<lparr>dm_ContainerID := pl_ContainerID plan\<rparr>) s of
                (_, s) \<Rightarrow> (Inr (mountResult (wc_DriverName (sv_cfg s)) request), s))))"

text \<open>An existing intent with another fingerprint is refreshed first.\<close>

definition refresh_fingerprint ::
  "string \<Rightarrow> desiredMount \<Rightarrow> 'n Server \<Rightarrow> (go_error + desiredMount) \<times> 'n Server" where
  "refresh_fingerprint fp previous s =
     (if dm_ExportRootKeyFingerprint previous \<noteq> fp then
        (let previous = previous\<lparr>dm_ExportRootKeyFingerprint := fp\<rparr> in
         case state_Put previous s of
           (Some err, s) \<Rightarrow> (Inl (Errorf ''persist updated export-root authorization: %w'' [AWrap err]), s)
         | (None, s) \<Rightarrow> (Inr previous, s))
      else (Inr previous, s))"

text \<open>The intent is there with the authorization of the request: only ask the node, unless the
  container has changed.\<close>

definition mount_existing ::
  "MountRequest \<Rightarrow> MountPlan \<Rightarrow> desiredMount \<Rightarrow> desiredMount \<Rightarrow> 'n Server \<Rightarrow>
   (go_error + MountResult) \<times> 'n Server" where
  "mount_existing request plan desired previous s =
     (if sameMountIntent previous desired \<and>
         (dm_ContainerID previous = [] \<or> dm_ContainerID previous = pl_ContainerID plan)
      then (case node_IsMounted plan s of
              (Inl err, s) \<Rightarrow> (Inl (node_failure err None), s)
            | (Inr True, s) \<Rightarrow>
                if dm_ContainerID previous \<noteq> pl_ContainerID plan then
                  (case state_Put (previous\<lparr>dm_ContainerID := pl_ContainerID plan\<rparr>) s of
                     (Some err, s) \<Rightarrow> (Inl (Errorf ''persist mounted container identity: %w'' [AWrap err]), s)
                   | (None, s) \<Rightarrow> (Inr (mountResult (wc_DriverName (sv_cfg s)) request), s))
                else (Inr (mountResult (wc_DriverName (sv_cfg s)) request), s)
            | (Inr False, s) \<Rightarrow> mount_apply request plan desired (Some previous) s)
      else mount_apply request plan desired (Some previous) s)"

definition mount_locked ::
  "MountRequest \<Rightarrow> MountPlan \<Rightarrow> string \<Rightarrow> 'n Server \<Rightarrow> (go_error + MountResult) \<times> 'n Server" where
  "mount_locked request plan exportRootKeyFingerprint s =
     (let key = desiredMountKeyFor request;
          isExportRoot = IsNFSExportRoot plan;
          desired = zero_desiredMount\<lparr>dm_Request := request, dm_ExportRootAuthorized := isExportRoot,
                       dm_ExportRootKeyFingerprint := exportRootKeyFingerprint\<rparr>
      in case state_Get s key of
           None \<Rightarrow> mount_apply request plan desired None s
         | Some previous \<Rightarrow>
           if dm_Request previous \<noteq> dm_Request desired then
             (Inl (bad_request ''%w: mount request changed for an existing target; unmount it first'' []), s)
           else if dm_ExportRootAuthorized previous \<noteq> dm_ExportRootAuthorized desired then
             (Inl (bad_request ''%w: effective NFS export-root selection changed; unmount the existing target first'' []), s)
           else
             (case refresh_fingerprint exportRootKeyFingerprint previous s of
                (Inl err, s) \<Rightarrow> (Inl err, s)
              | (Inr previous, s) \<Rightarrow> mount_existing request plan desired previous s))"

definition mount ::
  "string \<Rightarrow> string \<Rightarrow> MountRequest \<Rightarrow> 'n Server \<Rightarrow> (go_error + MountResult) \<times> 'n Server" where
  "mount token exportRootKey request s =
     (case authorizedMountPlan (sv_cfg s) (sv_kube s) token request True of
        Inl err \<Rightarrow> (Inl err, s)
      | Inr (request, plan) \<Rightarrow>
        (case authorize (sv_exportRoot s) plan exportRootKey of
           Inl err \<Rightarrow> (Inl err, s)
         | Inr fp \<Rightarrow> mount_locked request plan fp s))"

subsection \<open>unmount\<close>

definition unmountResult :: "string \<Rightarrow> MountRequest \<Rightarrow> UnmountResult" where
  "unmountResult driverName r =
     \<lparr>us_Unmounted = True, us_DriverName = driverName, us_PVName = rq_PVName r,
      us_TargetPath = rq_TargetPath r, us_ContainerName = rq_ContainerName r\<rparr>"

definition unmount_request :: "UnmountRequest \<Rightarrow> MountRequest" where
  "unmount_request r =
     \<lparr>rq_APIVersion = ur_APIVersion r, rq_DriverName = ur_DriverName r, rq_Namespace = ur_Namespace r,
      rq_PodName = ur_PodName r, rq_PodUID = ur_PodUID r, rq_PVName = ur_PVName r, rq_SourceSubPath = [],
      rq_TargetPath = ur_TargetPath r, rq_ContainerName = ur_ContainerName r\<rparr>"

definition unmount_plan :: "MountRequest \<Rightarrow> Pod \<Rightarrow> ContainerStatus \<Rightarrow> MountPlan" where
  "unmount_plan r pod status =
     \<lparr>pl_PV = \<lparr>nv_Name = rq_PVName r, nv_VolumeHandle = [], nv_Server = [], nv_Share = [],
               nv_SubDir = [], nv_MountOptions = []\<rparr>,
      pl_PodUID = om_UID (pod_Metadata pod), pl_ContainerName = cs_Name status,
      pl_ContainerID = cs_ContainerID status, pl_SourceSubPath = [], pl_TargetPath = rq_TargetPath r\<rparr>"

definition unmount_locked ::
  "MountRequest \<Rightarrow> Pod \<Rightarrow> ContainerStatus \<Rightarrow> 'n Server \<Rightarrow> (go_error + UnmountResult) \<times> 'n Server" where
  "unmount_locked r pod status s =
     (let key = desiredMountKeyFor r; success = Inr (unmountResult (wc_DriverName (sv_cfg s)) r) in
      case state_Get s key of
        None \<Rightarrow> (success, s)
      | Some previous \<Rightarrow>
        if rq_PVName (dm_Request previous) \<noteq> rq_PVName r then
          (Inl (bad_request ''%w: target path %s is registered for pv %s''
                  [AStr (rq_TargetPath r), AStr (rq_PVName (dm_Request previous))]), s)
        else if dm_ContainerID previous = [] \<or> dm_ContainerID previous \<noteq> cs_ContainerID status then
          (case state_Delete key s of
             (Some err, s) \<Rightarrow> (Inl (Errorf ''delete stale desired mount: %w'' [AWrap err]), s)
           | (None, s) \<Rightarrow> (success, s))
        else
          (let plan = unmount_plan r pod status in
           case state_Delete key s of
             (Some err, s) \<Rightarrow> (Inl (Errorf ''delete desired mount: %w'' [AWrap err]), s)
           | (None, s) \<Rightarrow>
             (case node_IsMounted plan s of
                (Inl err, s) \<Rightarrow>
                  (case restoreDesiredMount key (Some previous) s of
                     (e, s) \<Rightarrow> (Inl (node_failure err e), s))
              | (Inr False, s) \<Rightarrow> (success, s)
              | (Inr True, s) \<Rightarrow>
                  (case node_Unmount plan s of
                     (Some err, s) \<Rightarrow>
                       (case restoreDesiredMount key (Some previous) s of
                          (e, s) \<Rightarrow> (Inl (node_failure err e), s))
                   | (None, s) \<Rightarrow> (success, s)))))"

definition unmount ::
  "string \<Rightarrow> UnmountRequest \<Rightarrow> 'n Server \<Rightarrow> (go_error + UnmountResult) \<times> 'n Server" where
  "unmount token request s =
     (case normalizeMountRequest (sv_cfg s) (unmount_request request) False of
        Inl err \<Rightarrow> (Inl err, s)
      | Inr mountRequest \<Rightarrow>
        (case authorizedPodForRequest (sv_cfg s) (sv_kube s) token mountRequest of
           Inl err \<Rightarrow> (Inl err, s)
         | Inr pod \<Rightarrow>
           (case selectContainerStatus pod (rq_ContainerName mountRequest) of
              Inl err \<Rightarrow> (Inl (bad_request ''%w: %v'' [AVal err]), s)
            | Inr containerStatus \<Rightarrow>
                unmount_locked (mountRequest\<lparr>rq_ContainerName := cs_Name containerStatus\<rparr>)
                  pod containerStatus s)))"

subsection \<open>The HTTP handlers\<close>

definition bearerToken :: "string \<Rightarrow> go_error + string" where
  "bearerToken header =
     (if header = [] then Inl (Errorf ''missing authorization header'' [])
      else if \<not> HasPrefix header ''Bearer ''
        then Inl (Errorf ''authorization header must use bearer token'' [])
      else let token = TrimSpace (TrimPrefix header ''Bearer '') in
        if token = [] then Inl (Errorf ''empty bearer token'' []) else Inr token)"

definition requestErrorStatus :: "go_error \<Rightarrow> int" where
  "requestErrorStatus err =
     (if errors_Is ErrBadRequest err \<or> errors_Is ErrBadSourceSubPath err then 400
      else if errors_Is ErrMountDisabled err then 503
      else if errors_Is ErrNodeOperation err then 500
      else 403)"

text \<open>The body is the first JSON value of the request, \<open>None\<close> when there is none within
  the size limit.\<close>

record http_request =
  hr_Method :: string
  hr_Authorization :: string
  hr_ExportRootKey :: string
  hr_Body :: "json option"

datatype 'a http_reply = Reply_Data int 'a | Reply_Error int go_error

definition json_body_error :: go_error where
  "json_body_error = Errorf ''invalid json request: %s'' []"

definition method_error :: go_error where
  "method_error = Errorf ''method not allowed'' []"

definition set_unmount_request :: "string \<Rightarrow> json \<Rightarrow> UnmountRequest \<Rightarrow> UnmountRequest option" where
  "set_unmount_request k v r =
     (if k = ''api_version'' then map_option (\<lambda>x. r\<lparr>ur_APIVersion := x\<rparr>) (decode_str v (ur_APIVersion r))
      else if k = ''driver_name'' then map_option (\<lambda>x. r\<lparr>ur_DriverName := x\<rparr>) (decode_str v (ur_DriverName r))
      else if k = ''namespace'' then map_option (\<lambda>x. r\<lparr>ur_Namespace := x\<rparr>) (decode_str v (ur_Namespace r))
      else if k = ''pod_name'' then map_option (\<lambda>x. r\<lparr>ur_PodName := x\<rparr>) (decode_str v (ur_PodName r))
      else if k = ''pod_uid'' then map_option (\<lambda>x. r\<lparr>ur_PodUID := x\<rparr>) (decode_str v (ur_PodUID r))
      else if k = ''pv_name'' then map_option (\<lambda>x. r\<lparr>ur_PVName := x\<rparr>) (decode_str v (ur_PVName r))
      else if k = ''target_path'' then map_option (\<lambda>x. r\<lparr>ur_TargetPath := x\<rparr>) (decode_str v (ur_TargetPath r))
      else if k = ''container_name'' then map_option (\<lambda>x. r\<lparr>ur_ContainerName := x\<rparr>) (decode_str v (ur_ContainerName r))
      else None)"

definition zero_UnmountRequest :: UnmountRequest where
  "zero_UnmountRequest = \<lparr>ur_APIVersion = [], ur_DriverName = [], ur_Namespace = [], ur_PodName = [],
     ur_PodUID = [], ur_PVName = [], ur_TargetPath = [], ur_ContainerName = []\<rparr>"

definition handleMount :: "http_request \<Rightarrow> 'n Server \<Rightarrow> MountResult http_reply \<times> 'n Server" where
  "handleMount r s =
     (if hr_Method r \<noteq> ''POST'' then (Reply_Error 405 method_error, s)
      else (case bearerToken (hr_Authorization r) of
              Inl err \<Rightarrow> (Reply_Error 401 err, s)
            | Inr token \<Rightarrow>
              (case Option.bind (hr_Body r) (\<lambda>j. decode_struct (set_request True) j zero_MountRequest) of
                 None \<Rightarrow> (Reply_Error 400 json_body_error, s)
               | Some request \<Rightarrow>
                 (case mount token (hr_ExportRootKey r) request s of
                    (Inl err, s) \<Rightarrow> (Reply_Error (requestErrorStatus err) err, s)
                  | (Inr result, s) \<Rightarrow> (Reply_Data 200 result, s)))))"

definition handleUnmount :: "http_request \<Rightarrow> 'n Server \<Rightarrow> UnmountResult http_reply \<times> 'n Server" where
  "handleUnmount r s =
     (if hr_Method r \<noteq> ''POST'' then (Reply_Error 405 method_error, s)
      else (case bearerToken (hr_Authorization r) of
              Inl err \<Rightarrow> (Reply_Error 401 err, s)
            | Inr token \<Rightarrow>
              (case Option.bind (hr_Body r) (\<lambda>j. decode_struct set_unmount_request j zero_UnmountRequest) of
                 None \<Rightarrow> (Reply_Error 400 json_body_error, s)
               | Some request \<Rightarrow>
                 (case unmount token request s of
                    (Inl err, s) \<Rightarrow> (Reply_Error (requestErrorStatus err) err, s)
                  | (Inr result, s) \<Rightarrow> (Reply_Data 200 result, s)))))"

definition handleHealthz :: "http_request \<Rightarrow> 'n Server \<Rightarrow> (string \<times> string) list http_reply \<times> 'n Server" where
  "handleHealthz r s =
     (if hr_Method r \<noteq> ''GET'' then (Reply_Error 405 method_error, s)
      else (Reply_Data 200 [(''status'', ''ok''), (''driver_name'', wc_DriverName (sv_cfg s))], s))"

end
