(* ===== verification/ServerCorrect.thy ===== *)
theory ServerCorrect
  imports Server
begin

text \<open>
  What the handlers of theory Server do: their effect on the desired mounts (through the
  laws of the locale \<open>mount_store\<close>, interpreted for the server), on the node, and on
  nothing else; and that they act only for an authorized request.
\<close>

subsection \<open>The server as a mount store\<close>

abbreviation server_ok :: "'n Server \<Rightarrow> bool" where
  "server_ok s \<equiv> store_inv (sv_state s)"

text \<open>Everything of the server but the store and the node.\<close>

definition same_static :: "'n Server \<Rightarrow> 'n Server \<Rightarrow> bool" where
  "same_static s s' \<longleftrightarrow>
     sv_cfg s' = sv_cfg s \<and> sv_kube s' = sv_kube s \<and> sv_mounter s' = sv_mounter s \<and>
     sv_reconcileErrors s' = sv_reconcileErrors s \<and> sv_retrying s' = sv_retrying s \<and>
     sv_exportRoot s' = sv_exportRoot s"

lemma same_static_refl [simp]: "same_static s s"
  by (simp add: same_static_def)

lemma same_static_trans: "same_static s t \<Longrightarrow> same_static t u \<Longrightarrow> same_static s u"
  by (simp add: same_static_def)

lemma state_Put_frame [frame]:
  "state_Put m s = (r, s') \<Longrightarrow> same_static s s' \<and> sv_node s' = sv_node s"
  by (auto simp: state_Put_def same_static_def split: prod.splits)

lemma state_Delete_frame [frame]:
  "state_Delete k s = (r, s') \<Longrightarrow> same_static s s' \<and> sv_node s' = sv_node s"
  by (auto simp: state_Delete_def same_static_def split: prod.splits)

lemma node_frame [frame]:
  "node_Mount plan s = (r, s') \<Longrightarrow> same_static s s' \<and> sv_state s' = sv_state s"
  "node_Unmount plan s = (r, s') \<Longrightarrow> same_static s s' \<and> sv_state s' = sv_state s"
  "node_IsMounted plan s = (b, s') \<Longrightarrow> same_static s s' \<and> sv_state s' = sv_state s"
  by (auto simp: node_Mount_def node_Unmount_def node_IsMounted_def same_static_def split: prod.splits)

lemma node_state_Get [frame]:
  "node_Mount plan s = (r, s') \<Longrightarrow> state_Get s' = state_Get s"
  "node_Unmount plan s = (r, s') \<Longrightarrow> state_Get s' = state_Get s"
  "node_IsMounted plan s = (b, s') \<Longrightarrow> state_Get s' = state_Get s"
  by (auto simp: state_Get_def fun_eq_iff dest!: node_frame)

lemma node_server_ok [inv_intros]:
  "node_Mount plan s = (r, s') \<Longrightarrow> server_ok s \<Longrightarrow> server_ok s'"
  "node_Unmount plan s = (r, s') \<Longrightarrow> server_ok s \<Longrightarrow> server_ok s'"
  "node_IsMounted plan s = (b, s') \<Longrightarrow> server_ok s \<Longrightarrow> server_ok s'"
  by (auto dest!: node_frame)

lemma state_Get_eq: "state_Get s = Get (sv_state s)"
  by (rule ext) (simp add: state_Get_def)

interpretation sv: mount_store state_Get state_Put state_Delete dm_key server_ok
  by unfold_locales
     (auto simp: state_Put_def state_Delete_def state_Get_eq
       intro: fs.put_ok fs.del_ok fs.get_put fs.get_put_failed fs.get_del fs.get_del_failed fs.get_key
       split: prod.splits)

lemma desiredMountKeyFor_eq: "desiredMountKeyFor r = MountKey (rq_PodUID r) (rq_ContainerName r) (rq_TargetPath r)"
  by (simp add: desiredMountKeyFor_def dm_key_def)

lemma dm_key_Request: "dm_Request m = r \<Longrightarrow> dm_key m = desiredMountKeyFor r"
  by (auto simp: desiredMountKeyFor_def dm_key_def)

lemma dm_key_update [simp]:
  "dm_key (m\<lparr>dm_ContainerID := c\<rparr>) = dm_key m"
  "dm_key (m\<lparr>dm_ExportRootKeyFingerprint := f\<rparr>) = dm_key m"
  by (simp_all add: dm_key_def)

subsection \<open>What authorization establishes\<close>

text \<open>
  The facts behind an authorized request, stated over the answers of the API server: the
  token is authentic, for this audience, and bound to exactly this Pod; the Pod is the live
  one, not finished, and on this node.
\<close>

definition token_binds_pod :: "WrapperConfig \<Rightarrow> TokenReviewStatus \<Rightarrow> Pod \<Rightarrow> bool" where
  "token_binds_pod cfg st pod \<longleftrightarrow>
     ts_Authenticated st \<and>
     (wc_TokenAudience cfg = [] \<or> wc_TokenAudience cfg \<in> set (ts_Audiences st)) \<and>
     tu_Username (ts_User st) = ''system:serviceaccount:'' @ om_Namespace (pod_Metadata pod) @ '':''
        @ sp_ServiceAccountName (pod_Spec pod) \<and>
     tu_Extra (ts_User st) tokenPodNameExtraKey = Some [om_Name (pod_Metadata pod)] \<and>
     tu_Extra (ts_User st) tokenPodUIDExtraKey = Some [om_UID (pod_Metadata pod)]"

definition pod_of_request :: "WrapperConfig \<Rightarrow> Pod \<Rightarrow> MountRequest \<Rightarrow> bool" where
  "pod_of_request cfg pod request \<longleftrightarrow>
     om_Namespace (pod_Metadata pod) = rq_Namespace request \<and>
     om_Name (pod_Metadata pod) = rq_PodName request \<and>
     om_UID (pod_Metadata pod) = rq_PodUID request \<and>
     ps_Phase (pod_Status pod) \<notin> {''Succeeded'', ''Failed''} \<and>
     (wc_NodeName cfg = [] \<or> sp_NodeName (pod_Spec pod) = wc_NodeName cfg)"

lemma authorizedPodForRequest_Inr:
  assumes "authorizedPodForRequest cfg kube token request = Inr pod"
  obtains st where "kc_ReviewToken kube token [wc_TokenAudience cfg] = Inr (Some st)"
    and "kc_GetPod kube (rq_Namespace request) (rq_PodName request) = Inr pod"
    and "token_binds_pod cfg st pod" and "pod_of_request cfg pod request"
  using assms
  by (auto simp: authorizedPodForRequest_def success_iff token_binds_pod_def pod_of_request_def
      split: option.splits)

text \<open>The nil checks precede every use of a pointer: no check ends in a panic.\<close>

lemma checks_no_panic:
  "authorizeToken status ns aud \<noteq> Some (Panic m)" "requireTokenPodExtra extra k v \<noteq> Some (Panic m)"
  "validatePodIdentity pod request \<noteq> Some (Panic m)" "validatePodNode pod node \<noteq> Some (Panic m)"
  "validateRequestShape d request \<noteq> Some (Panic m)"
  by (auto simp: authorizeToken_def requireTokenPodExtra_def validatePodIdentity_def validatePodNode_def
      validateRequestShape_def split: option.splits if_splits list.splits)

lemma authorizePod_no_panic: "authorizePod st pod request \<noteq> Some (Panic m)"
proof -
  have "\<And>u. (if u then Some (Errorf f as) else None) \<noteq> Some (Panic m)" for f as by simp
  then show ?thesis
    unfolding authorizePod_def Let_def
    by (cases "validatePodIdentity pod request")
       (auto simp: checks_no_panic dest: sym split: option.splits if_splits)
qed

lemma annotation_loop_no_panic: "annotation_loop pv k i es b \<noteq> Inl (Panic m)"
  by (induction pv k i es b rule: annotation_loop.induct) (auto simp: Let_def)

lemma authorizePVAnnotation_no_panic: "authorizePVAnnotation pv k i \<noteq> Some (Panic m)"
  using annotation_loop_no_panic
  by (auto simp: authorizePVAnnotation_def split: option.splits sum.splits)

lemma authorizePVForPod_no_panic: "authorizePVForPod d pod pv \<noteq> Some (Panic m)"
  using authorizePVAnnotation_no_panic by (auto simp: authorizePVForPod_def split: option.splits)

lemma buildMountPlan_no_panic:
  "authorizePVForPod d pod pv = None \<Longrightarrow> buildMountPlan request pod pv cid \<noteq> Inl (Panic m)"
  by (auto simp: authorizePVForPod_def buildMountPlan_def Let_def split: option.splits sum.splits)

lemma normalizeMountRequest_no_panic: "normalizeMountRequest cfg request v \<noteq> Inl (Panic m)"
  using checks_no_panic(5)
  by (auto simp: normalizeMountRequest_def Let_def split: option.split sum.split)

lemma authorizedPodForRequest_no_panic:
  "(\<And>e. kc_GetPod kube (rq_Namespace request) (rq_PodName request) \<noteq> Inl e) \<Longrightarrow>
   authorizedPodForRequest cfg kube token request \<noteq> Inl (Panic m)"
  using checks_no_panic authorizePod_no_panic
  by (auto simp: authorizedPodForRequest_def authorizeToken_None split: option.splits sum.splits)

text \<open>The PV admits the Pod, and the plan is built from it.\<close>

definition pv_admits :: "WrapperConfig \<Rightarrow> Pod \<Rightarrow> PersistentVolume \<Rightarrow> bool" where
  "pv_admits cfg pod pv \<longleftrightarrow>
     (\<exists>csi. vs_CSI (pv_Spec pv) = Some csi \<and> csi_Driver csi = wc_DriverName cfg) \<and>
     annotation_allows (om_Annotations (pv_Metadata pv)) allowNamespaceAnnotation
       (om_Namespace (pod_Metadata pod)) \<and>
     annotation_allows (om_Annotations (pv_Metadata pv)) allowServiceAccountAnnotation
       (sp_ServiceAccountName (pod_Spec pod))"

text \<open>
  The plan, field by field, from the PV, the Pod, its container and the request: server and
  share are the PV's attributes under either of their two names, the directory below the
  share is the clean form of its subDir attribute, which climbs nowhere.
\<close>

definition plan_of :: "MountRequest \<Rightarrow> Pod \<Rightarrow> PersistentVolume \<Rightarrow> ContainerStatus \<Rightarrow> MountPlan \<Rightarrow> bool" where
  "plan_of request pod pv status plan \<longleftrightarrow>
     (\<exists>csi. vs_CSI (pv_Spec pv) = Some csi \<and>
        nv_Name (pl_PV plan) = om_Name (pv_Metadata pv) \<and>
        nv_VolumeHandle (pl_PV plan) = csi_VolumeHandle csi \<and>
        nv_Server (pl_PV plan) = first_attribute (csi_VolumeAttributes csi) ''server'' ''mountOptions.server'' \<and>
        nv_Share (pl_PV plan) = first_attribute (csi_VolumeAttributes csi) ''share'' ''mountOptions.share'' \<and>
        nv_Server (pl_PV plan) \<noteq> [] \<and> nv_Share (pl_PV plan) \<noteq> [] \<and>
        no_parent (TrimSpace (first_attribute (csi_VolumeAttributes csi) ''subDir'' ''subdir'')) \<and>
        nv_SubDir (pl_PV plan) = join_on slash
          (source_segs (TrimSpace (first_attribute (csi_VolumeAttributes csi) ''subDir'' ''subdir''))) \<and>
        nv_MountOptions (pl_PV plan) = vs_MountOptions (pv_Spec pv)) \<and>
     pl_PodUID plan = om_UID (pod_Metadata pod) \<and>
     pl_ContainerName plan = cs_Name status \<and> pl_ContainerID plan = cs_ContainerID status \<and>
     pl_SourceSubPath plan = rq_SourceSubPath request \<and> pl_TargetPath plan = rq_TargetPath request"

lemma buildMountPlan_plan_of:
  assumes "buildMountPlan request pod pv (cs_ContainerID status) = Inr plan"
    and "rq_ContainerName request = cs_Name status"
  shows "plan_of request pod pv status plan"
  using assms(1)
proof (rule buildMountPlan_Inr, goal_cases)
  case (1 csi)
  note fields = this [unfolded firstNonEmpty_attributes NormalizeNFSSubDir_spec]
  show ?case
    unfolding plan_of_def
    by (intro conjI exI [of _ csi]) (use fields assms(2) in simp_all)
qed

lemma plan_of_root:
  assumes "plan_of request pod pv status plan"
  obtains csi where "vs_CSI (pv_Spec pv) = Some csi"
    and "IsNFSExportRoot plan \<longleftrightarrow>
      source_segs (TrimSpace (first_attribute (csi_VolumeAttributes csi) ''subDir'' ''subdir'')) = [] \<and>
      rq_SourceSubPath request = []"
proof -
  obtain csi where csi: "vs_CSI (pv_Spec pv) = Some csi"
    and np: "no_parent (TrimSpace (first_attribute (csi_VolumeAttributes csi) ''subDir'' ''subdir''))"
    and d: "nv_SubDir (pl_PV plan) = join_on slash
      (source_segs (TrimSpace (first_attribute (csi_VolumeAttributes csi) ''subDir'' ''subdir'')))"
    and sub: "pl_SourceSubPath plan = rq_SourceSubPath request"
    using assms unfolding plan_of_def by blast
  have "nv_SubDir (pl_PV plan) = [] \<longleftrightarrow>
      source_segs (TrimSpace (first_attribute (csi_VolumeAttributes csi) ''subDir'' ''subdir'')) = []"
    unfolding d using source_segs_join [OF all_proper_source_segs [OF np]]
    by (auto simp: source_segs_def)
  then show ?thesis using sub by (intro that [OF csi]) (simp add: IsNFSExportRoot_def)
qed

lemma mountPlanForPod_Inr:
  assumes "mountPlanForPod cfg kube request pod = Inr (request', plan)"
  obtains pv status where "kc_GetPersistentVolume kube (rq_PVName request) = Inr pv"
    and "pv_admits cfg pod pv" and "selectContainerStatus pod (rq_ContainerName request) = Inr status"
    and "request' = request\<lparr>rq_ContainerName := cs_Name status\<rparr>" and "plan_of request' pod pv status plan"
proof -
  obtain pv status where pv: "kc_GetPersistentVolume kube (rq_PVName request) = Inr pv"
    and az: "authorizePVForPod (wc_DriverName cfg) pod pv = None"
    and st: "selectContainerStatus pod (rq_ContainerName request) = Inr status"
    and r': "request' = request\<lparr>rq_ContainerName := cs_Name status\<rparr>"
    and bp: "buildMountPlan request' pod pv (cs_ContainerID status) = Inr plan"
    using assms by (auto simp: mountPlanForPod_def case_sum_Inr_iff case_option_Inr_iff Let_def)
  have "pv_admits cfg pod pv" using az by (simp add: authorizePVForPod_None pv_admits_def)
  moreover have "plan_of request' pod pv status plan"
    using bp r' by (intro buildMountPlan_plan_of) simp_all
  ultimately show ?thesis using that pv st r' by blast
qed

text \<open>A normalized request: complete, for this driver, with validated paths.\<close>

definition normal_request :: "WrapperConfig \<Rightarrow> MountRequest \<Rightarrow> bool" where
  "normal_request cfg r \<longleftrightarrow>
     validateRequestShape (wc_DriverName cfg) r = None \<and>
     ValidateTargetPath (rq_TargetPath r) = Inr (rq_TargetPath r) \<and>
     ValidateSourceSubPath (rq_SourceSubPath r) = Inr (rq_SourceSubPath r)"

lemma ValidateSourceSubPath_Nil [simp]: "ValidateSourceSubPath [] = Inr []"
  by (simp add: ValidateSourceSubPath_def)

lemma ValidateTargetPath_not_Nil: "ValidateTargetPath t = Inr c \<Longrightarrow> c \<noteq> []"
  by (auto simp: ValidateTargetPath_spec abs_path_def)

lemma normalizeMountRequest_Inr:
  assumes "normalizeMountRequest cfg request v = Inr r"
  obtains c sub where "ValidateTargetPath (rq_TargetPath request) = Inr c"
    and "if v then ValidateSourceSubPath (rq_SourceSubPath request) = Inr sub else sub = []"
    and "r = request\<lparr>rq_TargetPath := c, rq_SourceSubPath := sub\<rparr>" and "normal_request cfg r"
proof -
  obtain c where shape: "validateRequestShape (wc_DriverName cfg) request = None"
    and c: "ValidateTargetPath (rq_TargetPath request) = Inr c"
    using assms by (auto simp: normalizeMountRequest_def case_sum_Inr_iff case_option_Inr_iff)
  obtain sub where sub: "if v then ValidateSourceSubPath (rq_SourceSubPath request) = Inr sub else sub = []"
    and r: "r = request\<lparr>rq_TargetPath := c, rq_SourceSubPath := sub\<rparr>"
    using assms shape c
    by (cases v) (auto simp: normalizeMountRequest_def case_sum_Inr_iff Let_def)
  with shape have "normal_request cfg r"
    using ValidateTargetPath_stable [OF c] ValidateTargetPath_not_Nil [OF c]
      ValidateSourceSubPath_stable [of "rq_SourceSubPath request" sub]
    by (auto simp: normal_request_def validateRequestShape_None split: if_splits)
  with c sub r show ?thesis using that by blast
qed

lemma normalize_normal: "normal_request cfg r \<Longrightarrow> normalizeMountRequest cfg r True = Inr r"
  by (simp add: normal_request_def normalizeMountRequest_def)

lemma normal_request_container [simp]:
  "normal_request cfg (r\<lparr>rq_ContainerName := c\<rparr>) = normal_request cfg r"
  by (simp add: normal_request_def validateRequestShape_None)

end
