(* ===== verification/HandlerCorrect.thy ===== *)
theory HandlerCorrect
  imports ServerCorrect
begin

text \<open>
  The handlers mount and unmount of theory Server as transitions: every run is one of a few
  named cases, each with its effect on the desired mounts and on the node. The case lemmas
  carry the properties of the handlers and of theory System.
\<close>

subsection \<open>Calls on the node\<close>

text \<open>What the node goes through: calls of its interface, all for the same plan.\<close>

inductive node_calls :: "'n Mounter \<Rightarrow> MountPlan \<Rightarrow> 'n \<Rightarrow> 'n \<Rightarrow> bool" for m plan where
  none [simp, intro]: "node_calls m plan n n"
| Mount: "node_calls m plan n n1 \<Longrightarrow> nm_Mount m plan n1 = (r, n2) \<Longrightarrow> node_calls m plan n n2"
| Unmount: "node_calls m plan n n1 \<Longrightarrow> nm_Unmount m plan n1 = (r, n2) \<Longrightarrow> node_calls m plan n n2"
| IsMounted: "node_calls m plan n n1 \<Longrightarrow> nm_IsMounted m plan n1 = (b, n2) \<Longrightarrow> node_calls m plan n n2"

lemma node_callsI:
  "nm_Mount m plan n = (r, n') \<Longrightarrow> node_calls m plan n n'"
  "nm_Unmount m plan n = (r, n') \<Longrightarrow> node_calls m plan n n'"
  "nm_IsMounted m plan n = (b, n') \<Longrightarrow> node_calls m plan n n'"
  by (auto intro: node_calls.intros)

lemma node_calls_trans: "node_calls m plan n2 n3 \<Longrightarrow> node_calls m plan n1 n2 \<Longrightarrow> node_calls m plan n1 n3"
  by (induction rule: node_calls.induct) (auto intro: node_calls.intros)

lemma node_Mount_iff:
  "node_Mount plan s = (r, s') \<longleftrightarrow>
     (\<exists>n. nm_Mount (sv_mounter s) plan (sv_node s) = (r, n) \<and> s' = s\<lparr>sv_node := n\<rparr>)"
  by (auto simp: node_Mount_def split: prod.splits)

lemma node_Unmount_iff:
  "node_Unmount plan s = (r, s') \<longleftrightarrow>
     (\<exists>n. nm_Unmount (sv_mounter s) plan (sv_node s) = (r, n) \<and> s' = s\<lparr>sv_node := n\<rparr>)"
  by (auto simp: node_Unmount_def split: prod.splits)

lemma node_IsMounted_iff:
  "node_IsMounted plan s = (b, s') \<longleftrightarrow>
     (\<exists>n. nm_IsMounted (sv_mounter s) plan (sv_node s) = (b, n) \<and> s' = s\<lparr>sv_node := n\<rparr>)"
  by (auto simp: node_IsMounted_def split: prod.splits)

lemma with_node [simp]:
  "state_Get (s\<lparr>sv_node := n\<rparr>) = state_Get s" "same_static s (s\<lparr>sv_node := n\<rparr>)"
  by (simp_all add: state_Get_eq same_static_def)

lemma same_static_mounter: "same_static s s' \<Longrightarrow> sv_mounter s' = sv_mounter s"
  by (simp add: same_static_def)

text \<open>What every handler keeps: the configuration, the invariant, the other targets.\<close>

definition handler_frame :: "desiredMountKey \<Rightarrow> 'n Server \<Rightarrow> 'n Server \<Rightarrow> bool" where
  "handler_frame key s s' \<longleftrightarrow>
     same_static s s' \<and> server_ok s' \<and> (\<forall>k. k \<noteq> key \<longrightarrow> state_Get s' k = state_Get s k)"

lemma handler_frame_refl: "server_ok s \<Longrightarrow> handler_frame key s s"
  by (simp add: handler_frame_def)

lemma handler_frame_trans: "handler_frame key s t \<Longrightarrow> handler_frame key t u \<Longrightarrow> handler_frame key s u"
  by (auto simp: handler_frame_def intro: same_static_trans)

lemma handler_frame_ok: "handler_frame key s s' \<Longrightarrow> server_ok s'"
  by (simp add: handler_frame_def)

lemma handler_frame_mounter: "handler_frame key s s' \<Longrightarrow> sv_mounter s' = sv_mounter s"
  by (simp add: handler_frame_def same_static_def)

lemma Put_handler_frame:
  "server_ok s \<Longrightarrow> state_Put m s = (r, s') \<Longrightarrow> dm_key m = key \<Longrightarrow> handler_frame key s s'"
  by (auto simp: handler_frame_def dest: state_Put_frame sv.put_ok sv.put_frame)

lemma Delete_handler_frame:
  "server_ok s \<Longrightarrow> state_Delete key s = (r, s') \<Longrightarrow> handler_frame key s s'"
  by (auto simp: handler_frame_def dest: state_Delete_frame sv.del_ok sv.del_frame)

lemma node_handler_frame: "server_ok s \<Longrightarrow> handler_frame key s (s\<lparr>sv_node := n\<rparr>)"
  by (simp add: handler_frame_def)

subsection \<open>Rolling back\<close>

lemma restore_effect:
  assumes ok: "server_ok s" and r: "restoreDesiredMount key previous s = (r, s')"
    and key: "\<And>p. previous = Some p \<Longrightarrow> dm_key p = key"
  shows "handler_frame key s s'" and "sv_node s' = sv_node s"
    and "state_Get s' = (if r = None then (state_Get s)(key := previous) else state_Get s)"
proof -
  have "handler_frame key s s' \<and> sv_node s' = sv_node s \<and>
    state_Get s' = (if r = None then (state_Get s)(key := previous) else state_Get s)"
  proof (cases previous)
    case None
    then show ?thesis using ok r Delete_handler_frame [OF ok]
      by (auto simp: restoreDesiredMount_def dest: state_Delete_frame sv.get_del sv.get_del_failed
          split: prod.splits option.splits)
  next
    case (Some p)
    then show ?thesis using ok r key [OF Some] Put_handler_frame [OF ok _ key [OF Some]]
      by (auto simp: restoreDesiredMount_def dest: state_Put_frame sv.get_put sv.get_put_failed
          split: prod.splits option.splits)
  qed
  then show "handler_frame key s s'" and "sv_node s' = sv_node s"
    and "state_Get s' = (if r = None then (state_Get s)(key := previous) else state_Get s)" by auto
qed

text \<open>The rollback was tried and failed: the last thing the handler did was to write back the
  previous intent, or to delete the pending one when there was none, the store refused, and
  its error is part of the reply.\<close>

definition rollback_failed ::
  "desiredMountKey \<Rightarrow> desiredMount option \<Rightarrow> go_error \<Rightarrow> 'n Server \<Rightarrow> bool" where
  "rollback_failed key previous err s' \<longleftrightarrow>
     (\<exists>e msg f t. err = node_failure e (Some (Errorf msg [AWrap f])) \<and>
        (case previous of None \<Rightarrow> state_Delete key t | Some p \<Rightarrow> state_Put p t) = (Some f, s'))"

lemma restore_failed:
  "restoreDesiredMount key previous t = (Some e', s') \<Longrightarrow>
   rollback_failed key previous (node_failure e (Some e')) s'"
  unfolding rollback_failed_def
  by (auto simp: restoreDesiredMount_def split: option.splits prod.splits)

subsection \<open>mount\<close>

text \<open>Persist, mount, record: the three outcomes.\<close>

lemma mount_apply_cases:
  assumes ok: "server_ok s" and run: "mount_apply request plan desired previous s = (r, s')"
    and req: "dm_Request desired = request" and k: "desiredMountKeyFor request = k"
    and prev: "state_Get s k = previous"
  obtains (not_persisted) e where "r = Inl (Errorf ''persist desired mount: %w'' [AWrap e])"
      "state_Get s' = state_Get s" "sv_node s' = sv_node s" "handler_frame k s s'"
    | (not_mounted) e restored where "nm_Mount (sv_mounter s) plan (sv_node s) = (Some e, sv_node s')"
      "r = Inl (node_failure e restored)" "handler_frame k s s'"
      "state_Get s' = (if restored = None then state_Get s else (state_Get s)(k \<mapsto> desired))"
      "restored = None \<or> rollback_failed k previous (node_failure e restored) s'"
    | (mounted) d where "nm_Mount (sv_mounter s) plan (sv_node s) = (None, sv_node s')"
      "r = Inr (mountResult (wc_DriverName (sv_cfg s)) request)" "handler_frame k s s'"
      "state_Get s' = (state_Get s)(k \<mapsto> d)"
      "d = desired \<or> d = desired\<lparr>dm_ContainerID := pl_ContainerID plan\<rparr>"
proof -
  have key: "dm_key desired = k" using dm_key_Request [OF req] k by simp
  obtain r1 s1 where put: "state_Put desired s = (r1, s1)" by (metis surj_pair)
  have f1: "handler_frame k s s1" using Put_handler_frame [OF ok put key] .
  note ok1 = handler_frame_ok [OF f1]
  have n1: "sv_node s1 = sv_node s" "sv_mounter s1 = sv_mounter s" "sv_cfg s1 = sv_cfg s"
    using state_Put_frame [OF put] by (auto simp: same_static_def)
  show ?thesis
  proof (cases r1)
    case (Some e)
    then show ?thesis using run put f1 n1 sv.get_put_failed [OF ok put [unfolded Some]]
      by (intro not_persisted [of e]) (auto simp: mount_apply_def)
  next
    case None
    have g1: "state_Get s1 = (state_Get s)(k \<mapsto> desired)" using sv.get_put [OF ok put [unfolded None]] key by simp
    obtain r2 s2 where mnt: "node_Mount plan s1 = (r2, s2)" by (metis surj_pair)
    then obtain n where n: "nm_Mount (sv_mounter s) plan (sv_node s) = (r2, n)" and s2: "s2 = s1\<lparr>sv_node := n\<rparr>"
      by (auto simp: node_Mount_iff n1)
    have f2: "handler_frame k s s2" unfolding s2
      using f1 node_handler_frame [OF ok1] by (rule handler_frame_trans)
    note ok2 = handler_frame_ok [OF f2]
    show ?thesis
    proof (cases r2)
      case (Some e)
      obtain r3 where rest: "restoreDesiredMount k previous s2 = (r3, s')" and r: "r = Inl (node_failure e r3)"
        using run put None mnt Some k by (auto simp: mount_apply_def split: prod.splits)
      have "\<And>p. previous = Some p \<Longrightarrow> dm_key p = k" using prev sv.get_key [OF ok] by blast
      note re = restore_effect [OF ok2 rest this]
      have "handler_frame k s s'" using f2 re(1) by (rule handler_frame_trans)
      moreover have "state_Get s' = (if r3 = None then state_Get s else (state_Get s)(k \<mapsto> desired))"
        using re(3) prev by (simp add: s2 g1 fun_upd_idem)
      moreover have "r3 = None \<or> rollback_failed k previous (node_failure e r3) s'"
        using restore_failed rest by (cases r3) auto
      ultimately show ?thesis using n r re(2) Some by (intro not_mounted [of e r3]) (auto simp: s2)
    next
      case None2: None
      obtain r3 where put3: "state_Put (desired\<lparr>dm_ContainerID := pl_ContainerID plan\<rparr>) s2 = (r3, s')"
        and r': "r = Inr (mountResult (wc_DriverName (sv_cfg s')) request)"
        using run put None mnt None2 by (auto simp: mount_apply_def split: prod.splits)
      have r: "r = Inr (mountResult (wc_DriverName (sv_cfg s)) request)"
        using r' state_Put_frame [OF put3] n1(3) s2 by (auto simp: same_static_def)
      have f3: "handler_frame k s s'"
        using f2 Put_handler_frame [OF ok2 put3] key by (auto intro: handler_frame_trans)
      have node: "sv_node s' = n" using state_Put_frame [OF put3] s2 by simp
      have "\<exists>d. state_Get s' = (state_Get s)(k \<mapsto> d) \<and>
          (d = desired \<or> d = desired\<lparr>dm_ContainerID := pl_ContainerID plan\<rparr>)"
        using sv.get_put [OF ok2, of "desired\<lparr>dm_ContainerID := pl_ContainerID plan\<rparr>" s']
          sv.get_put_failed [OF ok2, of "desired\<lparr>dm_ContainerID := pl_ContainerID plan\<rparr>" _ s'] put3 key g1 s2
        by (cases r3) auto
      then show ?thesis using mounted n r f3 node None2 by blast
    qed
  qed
qed

text \<open>Refreshing the fingerprint of an intent that is already there.\<close>

lemma refresh_effect:
  assumes ok: "server_ok s" and prev: "state_Get s k = Some previous"
    and run: "refresh_fingerprint fp previous s = (r, s')"
  obtains (failed) e where "r = Inl (Errorf ''persist updated export-root authorization: %w'' [AWrap e])"
      "state_Get s' = state_Get s" "sv_node s' = sv_node s" "handler_frame k s s'"
    | (refreshed) "r = Inr (previous\<lparr>dm_ExportRootKeyFingerprint := fp\<rparr>)"
      "state_Get s' = (state_Get s)(k \<mapsto> previous\<lparr>dm_ExportRootKeyFingerprint := fp\<rparr>)"
      "sv_node s' = sv_node s" "handler_frame k s s'"
proof (cases "dm_ExportRootKeyFingerprint previous = fp")
  case True
  then have "r = Inr (previous\<lparr>dm_ExportRootKeyFingerprint := fp\<rparr>)" "s' = s" "previous\<lparr>dm_ExportRootKeyFingerprint := fp\<rparr> = previous"
    using run by (auto simp: refresh_fingerprint_def)
  then show ?thesis using refreshed prev handler_frame_refl [OF ok] by (auto simp: fun_upd_idem)
next
  case False
  let ?m = "previous\<lparr>dm_ExportRootKeyFingerprint := fp\<rparr>"
  have key: "dm_key ?m = k" using sv.get_key [OF ok prev] by simp
  obtain r1 where put: "state_Put ?m s = (r1, s')"
    and r: "r = (case r1 of None \<Rightarrow> Inr ?m | Some e \<Rightarrow> Inl (Errorf ''persist updated export-root authorization: %w'' [AWrap e]))"
    using run False by (auto simp: refresh_fingerprint_def Let_def split: prod.splits option.splits)
  note f = Put_handler_frame [OF ok put key] state_Put_frame [OF put]
  show ?thesis
  proof (cases r1)
    case None
    then show ?thesis using refreshed f r sv.get_put [OF ok put [unfolded None]] key by auto
  next
    case (Some e)
    then show ?thesis using failed f r sv.get_put_failed [OF ok put [unfolded Some]] by auto
  qed
qed

text \<open>The intent a mount records, with the container it is for once that is persisted.\<close>

definition records_mount :: "MountRequest \<Rightarrow> MountPlan \<Rightarrow> string \<Rightarrow> desiredMount \<Rightarrow> bool" where
  "records_mount request plan fp d \<longleftrightarrow>
     dm_Request d = request \<and> dm_ExportRootAuthorized d = IsNFSExportRoot plan \<and>
     dm_ExportRootKeyFingerprint d = fp \<and> dm_ContainerID d \<in> {[], pl_ContainerID plan}"

text \<open>What a failed mount may leave of the intents: the old ones, the old ones with the
  fingerprint refreshed, or, only when the rollback to those failed, the pending intent.\<close>

definition mount_left ::
  "desiredMountKey \<Rightarrow> desiredMount \<Rightarrow> string \<Rightarrow> 'n Server \<Rightarrow> go_error \<Rightarrow> 'n Server \<Rightarrow> bool" where
  "mount_left k desired fp s err s' \<longleftrightarrow>
     state_Get s' = state_Get s \<or>
     (\<exists>p. state_Get s k = Some p \<and> dm_Request p = dm_Request desired \<and>
          dm_ExportRootAuthorized p = dm_ExportRootAuthorized desired \<and>
          state_Get s' = (state_Get s)(k \<mapsto> p\<lparr>dm_ExportRootKeyFingerprint := fp\<rparr>)) \<or>
     state_Get s' = (state_Get s)(k \<mapsto> desired) \<and>
       rollback_failed k (map_option (\<lambda>p. p\<lparr>dm_ExportRootKeyFingerprint := fp\<rparr>) (state_Get s k)) err s'"

lemma mount_left_node [simp]:
  "mount_left k desired fp (s\<lparr>sv_node := n\<rparr>) err s' = mount_left k desired fp s err s'"
  by (simp add: mount_left_def)

abbreviation fresh_intent :: "MountRequest \<Rightarrow> MountPlan \<Rightarrow> string \<Rightarrow> desiredMount" where
  "fresh_intent request plan fp \<equiv>
     zero_desiredMount\<lparr>dm_Request := request, dm_ExportRootAuthorized := IsNFSExportRoot plan,
       dm_ExportRootKeyFingerprint := fp\<rparr>"

lemma fresh_intent_records: "records_mount request plan fp (fresh_intent request plan fp)"
  by (simp add: records_mount_def zero_desiredMount_def)

text \<open>The outcome of a mount that is not a conflict.\<close>

definition node_says_mounted :: "'n Mounter \<Rightarrow> MountPlan \<Rightarrow> 'n \<Rightarrow> 'n \<Rightarrow> bool" where
  "node_says_mounted m plan n n' \<longleftrightarrow>
     (\<exists>n1. node_calls m plan n n1 \<and> (nm_Mount m plan n1 = (None, n') \<or> nm_IsMounted m plan n1 = (Inr True, n')))"

definition mount_outcome :: "MountRequest \<Rightarrow> MountPlan \<Rightarrow> string \<Rightarrow> 'n Server \<Rightarrow>
    go_error + MountResult \<Rightarrow> 'n Server \<Rightarrow> bool" where
  "mount_outcome request plan fp s r s' \<longleftrightarrow>
     handler_frame (desiredMountKeyFor request) s s' \<and>
     node_calls (sv_mounter s) plan (sv_node s) (sv_node s') \<and>
     (case r of
        Inl e \<Rightarrow> mount_left (desiredMountKeyFor request) (fresh_intent request plan fp) fp s e s'
      | Inr res \<Rightarrow> res = mountResult (wc_DriverName (sv_cfg s)) request \<and>
          node_says_mounted (sv_mounter s) plan (sv_node s) (sv_node s') \<and>
          (\<exists>d. records_mount request plan fp d \<and> state_Get s' = (state_Get s)(desiredMountKeyFor request \<mapsto> d)))"

lemma mount_apply_outcome:
  assumes "server_ok s" and "state_Get s (desiredMountKeyFor request) = previous"
    and "mount_apply request plan (fresh_intent request plan fp) previous s = (r, s')"
    and "\<And>p. previous = Some p \<Longrightarrow> dm_ExportRootKeyFingerprint p = fp"
  shows "mount_outcome request plan fp s r s'"
proof -
  have req: "dm_Request (fresh_intent request plan fp) = request" by simp
  from assms(1,3) req refl assms(2) show ?thesis
  proof (cases rule: mount_apply_cases)
    case (not_persisted e)
    then show ?thesis by (simp add: mount_outcome_def mount_left_def)
  next
    case (not_mounted e restored)
    have "map_option (\<lambda>p. p\<lparr>dm_ExportRootKeyFingerprint := fp\<rparr>) previous = previous"
      using assms(4) by (cases previous) auto
    with not_mounted assms(2) show ?thesis
      by (auto simp: mount_outcome_def mount_left_def intro: node_callsI)
  next
    case (mounted d)
    then have "records_mount request plan fp d" by (auto simp: records_mount_def zero_desiredMount_def)
    with mounted show ?thesis
      by (auto simp: mount_outcome_def node_says_mounted_def intro: node_callsI)
  qed
qed

text \<open>An outcome may be read from the state before the node was asked, and before the
  fingerprint was refreshed.\<close>

lemma mount_outcome_after_node:
  assumes "server_ok s" and "mount_outcome request plan fp (s\<lparr>sv_node := n\<rparr>) r s'"
    and "node_calls (sv_mounter s) plan (sv_node s) n"
  shows "mount_outcome request plan fp s r s'"
proof -
  let ?k = "desiredMountKeyFor request"
  have "handler_frame ?k s s'"
    using assms node_handler_frame [OF assms(1)] by (auto simp: mount_outcome_def intro: handler_frame_trans)
  moreover have "node_says_mounted (sv_mounter s) plan n n' \<Longrightarrow> node_says_mounted (sv_mounter s) plan (sv_node s) n'" for n'
    using assms(3) by (auto simp: node_says_mounted_def intro: node_calls_trans)
  ultimately show ?thesis
    using assms(2,3) by (auto simp: mount_outcome_def intro: node_calls_trans split: sum.splits)
qed

lemma mount_outcome_after_refresh:
  assumes out: "mount_outcome request plan fp s1 r s'" and f: "handler_frame (desiredMountKeyFor request) s s1"
    and node: "sv_node s1 = sv_node s" and prev: "state_Get s (desiredMountKeyFor request) = Some p"
    and same: "dm_Request p = request" "dm_ExportRootAuthorized p = IsNFSExportRoot plan"
    and get: "state_Get s1 = (state_Get s)(desiredMountKeyFor request \<mapsto> p\<lparr>dm_ExportRootKeyFingerprint := fp\<rparr>)"
  shows "mount_outcome request plan fp s r s'"
proof -
  have cfg: "sv_mounter s1 = sv_mounter s" "sv_cfg s1 = sv_cfg s"
    using f by (auto simp: handler_frame_def same_static_def)
  have "handler_frame (desiredMountKeyFor request) s s'"
    using f out by (auto simp: mount_outcome_def intro: handler_frame_trans)
  moreover have "mount_left (desiredMountKeyFor request) (fresh_intent request plan fp) fp s e s'"
    if "mount_left (desiredMountKeyFor request) (fresh_intent request plan fp) fp s1 e s'" for e
    using that prev same by (auto simp: mount_left_def get zero_desiredMount_def)
  ultimately show ?thesis
    using out by (auto simp: mount_outcome_def cfg node get split: sum.splits)
qed

definition mount_conflict :: "MountRequest \<Rightarrow> MountPlan \<Rightarrow> 'n Server \<Rightarrow> bool" where
  "mount_conflict request plan s \<longleftrightarrow>
     (\<exists>p. state_Get s (desiredMountKeyFor request) = Some p \<and>
          (dm_Request p \<noteq> request \<or> dm_ExportRootAuthorized p \<noteq> IsNFSExportRoot plan))"

lemma mount_locked_conflict:
  assumes "mount_conflict request plan s"
  obtains e where "mount_locked request plan fp s = (Inl e, s)" and "errors_Is ErrBadRequest e"
proof -
  obtain p where p: "state_Get s (desiredMountKeyFor request) = Some p"
    and c: "dm_Request p \<noteq> request \<or> dm_ExportRootAuthorized p \<noteq> IsNFSExportRoot plan"
    using assms by (auto simp: mount_conflict_def)
  have "\<exists>e. mount_locked request plan fp s = (Inl e, s) \<and> errors_Is ErrBadRequest e"
    using p c by (cases "dm_Request p = request") (simp_all add: mount_locked_def Let_def)
  then show ?thesis using that by blast
qed

lemma mount_existing_outcome:
  assumes ok: "server_ok s" and prev: "state_Get s (desiredMountKeyFor request) = Some p"
    and req: "dm_Request p = request" and root: "dm_ExportRootAuthorized p = IsNFSExportRoot plan"
    and fp: "dm_ExportRootKeyFingerprint p = fp"
    and run: "mount_existing request plan (fresh_intent request plan fp) p s = (r, s')"
  shows "mount_outcome request plan fp s r s'"
proof (cases "dm_ContainerID p = [] \<or> dm_ContainerID p = pl_ContainerID plan")
  case False
  then show ?thesis using run fp by (auto simp: mount_existing_def intro!: mount_apply_outcome [OF ok prev])
next
  case True
  let ?k = "desiredMountKeyFor request"
  obtain b n where isM: "nm_IsMounted (sv_mounter s) plan (sv_node s) = (b, n)" by (metis surj_pair)
  then have call: "node_calls (sv_mounter s) plan (sv_node s) n" by (rule node_callsI)
  let ?s1 = "s\<lparr>sv_node := n\<rparr>"
  have isM': "node_IsMounted plan s = (b, ?s1)" using isM by (simp add: node_IsMounted_def)
  have intent: "sameMountIntent p (fresh_intent request plan fp)"
    using req root fp by (simp add: sameMountIntent_def)
  have ok1: "server_ok ?s1" using ok by simp
  have prev1: "state_Get ?s1 ?k = Some p" using prev by simp
  have "mount_outcome request plan fp ?s1 r s'" if "b = Inr False"
    using run isM' intent True that fp
    by (auto simp: mount_existing_def intro!: mount_apply_outcome [OF ok1 prev1])
  moreover have "mount_outcome request plan fp s r s'" if "b = Inl e" for e
    using run isM' intent True that call ok
    by (auto simp: mount_existing_def mount_outcome_def mount_left_def intro: node_handler_frame)
  moreover have "mount_outcome request plan fp s r s'" if b: "b = Inr True"
  proof -
    have says: "node_says_mounted (sv_mounter s) plan (sv_node s) n"
      using isM b by (auto simp: node_says_mounted_def)
    show ?thesis
    proof (cases "dm_ContainerID p = pl_ContainerID plan")
      case same: True
      then have "r = Inr (mountResult (wc_DriverName (sv_cfg s)) request)" and "s' = ?s1"
        using run isM' intent b True by (auto simp: mount_existing_def)
      moreover have "records_mount request plan fp p" using req root fp same by (simp add: records_mount_def)
      ultimately show ?thesis
        using prev says call node_handler_frame [OF ok] by (auto simp: mount_outcome_def fun_upd_idem)
    next
      case False
      let ?m = "p\<lparr>dm_ContainerID := pl_ContainerID plan\<rparr>"
      have key: "dm_key ?m = ?k" using sv.get_key [OF ok prev] by simp
      obtain r1 where put: "state_Put ?m ?s1 = (r1, s')"
        and r: "r = (case r1 of None \<Rightarrow> Inr (mountResult (wc_DriverName (sv_cfg s')) request)
                   | Some e \<Rightarrow> Inl (Errorf ''persist mounted container identity: %w'' [AWrap e]))"
        using run isM' intent b True False by (auto simp: mount_existing_def split: prod.splits option.splits)
      have f: "handler_frame ?k s s'"
        using node_handler_frame [OF ok] Put_handler_frame [OF ok1 put key] by (rule handler_frame_trans)
      have n: "sv_node s' = n" "sv_cfg s' = sv_cfg s"
        using state_Put_frame [OF put] by (auto simp: same_static_def)
      have rec: "records_mount request plan fp ?m" using req root fp by (simp add: records_mount_def)
      show ?thesis
      proof (cases r1)
        case None
        then show ?thesis using f n r says call rec sv.get_put [OF ok1 put [unfolded None]] key
          by (auto simp: mount_outcome_def)
      next
        case (Some e)
        then show ?thesis using f n r call sv.get_put_failed [OF ok1 put [unfolded Some]]
          by (auto simp: mount_outcome_def mount_left_def)
      qed
    qed
  qed
  ultimately show ?thesis
    using mount_outcome_after_node [OF ok _ call] by (metis (full_types) old.sum.exhaust)
qed

lemma mount_locked_outcome:
  assumes ok: "server_ok s" and run: "mount_locked request plan fp s = (r, s')"
    and no: "\<not> mount_conflict request plan s"
  shows "mount_outcome request plan fp s r s'"
proof (cases "state_Get s (desiredMountKeyFor request)")
  case None
  then show ?thesis using run mount_apply_outcome [OF ok None] by (simp add: mount_locked_def Let_def)
next
  case (Some p)
  let ?k = "desiredMountKeyFor request"
  have same: "dm_Request p = request" "dm_ExportRootAuthorized p = IsNFSExportRoot plan"
    using no Some by (auto simp: mount_conflict_def)
  obtain r1 s1 where ref: "refresh_fingerprint fp p s = (r1, s1)" by (metis surj_pair)
  from ok Some ref show ?thesis
  proof (cases rule: refresh_effect)
    case (failed e)
    then show ?thesis using run Some same ref
      by (auto simp: mount_locked_def Let_def mount_outcome_def mount_left_def)
  next
    case refreshed
    let ?p = "p\<lparr>dm_ExportRootKeyFingerprint := fp\<rparr>"
    have "mount_existing request plan (fresh_intent request plan fp) ?p s1 = (r, s')"
      using run Some same ref refreshed(1) by (simp add: mount_locked_def Let_def)
    then have "mount_outcome request plan fp s1 r s'"
      using refreshed(2) same
      by (intro mount_existing_outcome [OF handler_frame_ok [OF refreshed(4)]]) simp_all
    then show ?thesis
      using mount_outcome_after_refresh [OF _ refreshed(4,3) Some same refreshed(2)] by simp
  qed
qed

text \<open>
  An authorized mount: everything the code checked before it took the lock, stated over the
  answers of the API server and the configured export-root key. \<open>r\<close> is the normalized
  request with the container it resolved to.
\<close>

definition authorized_mount :: "WrapperConfig \<Rightarrow> kube_client \<Rightarrow> exportRootAuthorizer \<Rightarrow> string \<Rightarrow> string \<Rightarrow>
    MountRequest \<Rightarrow> MountRequest \<Rightarrow> MountPlan \<Rightarrow> string \<Rightarrow> bool" where
  "authorized_mount cfg kube exportRoot token key request r plan fp \<longleftrightarrow>
     normal_request cfg r \<and> authorize exportRoot plan key = Inr fp \<and>
     (\<exists>st pod pv status.
        kc_ReviewToken kube token [wc_TokenAudience cfg] = Inr (Some st) \<and>
        kc_GetPod kube (rq_Namespace r) (rq_PodName r) = Inr pod \<and>
        token_binds_pod cfg st pod \<and> pod_of_request cfg pod r \<and>
        kc_GetPersistentVolume kube (rq_PVName r) = Inr pv \<and> pv_admits cfg pod pv \<and>
        selectContainerStatus pod (rq_ContainerName request) = Inr status \<and>
        ValidateTargetPath (rq_TargetPath request) = Inr (rq_TargetPath r) \<and>
        ValidateSourceSubPath (rq_SourceSubPath request) = Inr (rq_SourceSubPath r) \<and>
        r = request\<lparr>rq_TargetPath := rq_TargetPath r, rq_SourceSubPath := rq_SourceSubPath r,
                    rq_ContainerName := cs_Name status\<rparr> \<and>
        plan_of r pod pv status plan)"

lemma pod_of_request_container [simp]:
  "pod_of_request cfg pod (r\<lparr>rq_ContainerName := c\<rparr>) = pod_of_request cfg pod r"
  by (simp add: pod_of_request_def)

lemma authorizedMountPlan_Inr:
  assumes plan: "authorizedMountPlan cfg kube token request True = Inr (r, plan)"
    and root: "authorize exportRoot plan key = Inr fp"
  shows "authorized_mount cfg kube exportRoot token key request r plan fp"
proof -
  obtain r0 pod where n: "normalizeMountRequest cfg request True = Inr r0"
    and p: "authorizedPodForRequest cfg kube token r0 = Inr pod"
    and m: "mountPlanForPod cfg kube r0 pod = Inr (r, plan)"
    using plan by (auto simp: authorizedMountPlan_def case_sum_Inr_iff)
  obtain c sub where c: "ValidateTargetPath (rq_TargetPath request) = Inr c"
    and sub: "ValidateSourceSubPath (rq_SourceSubPath request) = Inr sub"
    and r0: "r0 = request\<lparr>rq_TargetPath := c, rq_SourceSubPath := sub\<rparr>" "normal_request cfg r0"
    using n by (auto elim: normalizeMountRequest_Inr)
  obtain st where st: "kc_ReviewToken kube token [wc_TokenAudience cfg] = Inr (Some st)"
    "kc_GetPod kube (rq_Namespace r0) (rq_PodName r0) = Inr pod"
    "token_binds_pod cfg st pod" "pod_of_request cfg pod r0"
    using p by (rule authorizedPodForRequest_Inr)
  obtain pv status where pv: "kc_GetPersistentVolume kube (rq_PVName r0) = Inr pv" "pv_admits cfg pod pv"
    "selectContainerStatus pod (rq_ContainerName r0) = Inr status" "r = r0\<lparr>rq_ContainerName := cs_Name status\<rparr>"
    "plan_of r pod pv status plan"
    using m by (rule mountPlanForPod_Inr)
  show ?thesis
    unfolding authorized_mount_def
  proof (intro conjI exI)
    show "normal_request cfg r" using r0(2) pv(4) by simp
  qed (use c sub st pv r0(1) root in simp_all)
qed

lemma mount_cases:
  assumes "mount token key request s = (r, s')"
  obtains (rejected) e where "r = Inl e" "s' = s"
    | (authorized) q plan fp where
      "authorized_mount (sv_cfg s) (sv_kube s) (sv_exportRoot s) token key request q plan fp"
      "mount_locked q plan fp s = (r, s')"
  using assms authorizedMountPlan_Inr
  by (fastforce simp: mount_def split: sum.splits)

subsection \<open>unmount\<close>

text \<open>
  The runs of unmount under the target lock: nothing to do, a target that belongs to another
  PV, an intent of another container or of none, which is only forgotten, and the unmount of
  the container's own mount, which is forgotten first and written back when the node fails.
\<close>

definition node_says_unmounted :: "'n Mounter \<Rightarrow> MountPlan \<Rightarrow> 'n \<Rightarrow> 'n \<Rightarrow> bool" where
  "node_says_unmounted m plan n n' \<longleftrightarrow>
     nm_IsMounted m plan n = (Inr False, n') \<or>
     (\<exists>n1. nm_IsMounted m plan n = (Inr True, n1) \<and> nm_Unmount m plan n1 = (None, n'))"

lemma unmount_locked_cases:
  assumes ok: "server_ok s" and run: "unmount_locked q pod status s = (r, s')"
    and k: "desiredMountKeyFor q = k"
  obtains (absent) "state_Get s k = None" "r = Inr (unmountResult (wc_DriverName (sv_cfg s)) q)" "s' = s"
    | (other_pv) p e where "state_Get s k = Some p" "rq_PVName (dm_Request p) \<noteq> rq_PVName q"
      "r = Inl e" "errors_Is ErrBadRequest e" "s' = s"
    | (not_deleted) p e where "state_Get s k = Some p" "rq_PVName (dm_Request p) = rq_PVName q"
      "r = Inl e" "state_Get s' = state_Get s" "sv_node s' = sv_node s" "handler_frame k s s'"
    | (stale) p where "state_Get s k = Some p" "rq_PVName (dm_Request p) = rq_PVName q"
      "dm_ContainerID p = [] \<or> dm_ContainerID p \<noteq> cs_ContainerID status"
      "r = Inr (unmountResult (wc_DriverName (sv_cfg s)) q)" "state_Get s' = (state_Get s)(k := None)"
      "sv_node s' = sv_node s" "handler_frame k s s'"
    | (own) p n where "state_Get s k = Some p" "rq_PVName (dm_Request p) = rq_PVName q"
      "dm_ContainerID p \<noteq> []" "dm_ContainerID p = cs_ContainerID status" "handler_frame k s s'"
      "node_calls (sv_mounter s) (unmount_plan q pod status) (sv_node s) n" "sv_node s' = n"
      "(r = Inr (unmountResult (wc_DriverName (sv_cfg s)) q) \<and> state_Get s' = (state_Get s)(k := None) \<and>
          node_says_unmounted (sv_mounter s) (unmount_plan q pod status) (sv_node s) n) \<or>
       (\<exists>e. r = Inl e \<and>
          (state_Get s' = state_Get s \<or>
           state_Get s' = (state_Get s)(k := None) \<and> rollback_failed k (Some p) e s'))"
proof (cases "state_Get s k")
  case None
  then have "r = Inr (unmountResult (wc_DriverName (sv_cfg s)) q)" and "s' = s"
    using run k by (auto simp: unmount_locked_def Let_def)
  with None show ?thesis by (rule absent)
next
  case prev: (Some p)
  show ?thesis
  proof (cases "rq_PVName (dm_Request p) = rq_PVName q")
    case False
    then have "\<exists>e. r = Inl e \<and> errors_Is ErrBadRequest e \<and> s' = s"
      using run k prev by (auto simp: unmount_locked_def Let_def)
    then show ?thesis using other_pv [OF prev False] by blast
  next
    case pv: True
    obtain r1 s1 where del: "state_Delete k s = (r1, s1)" by (metis surj_pair)
    have f1: "handler_frame k s s1" using Delete_handler_frame [OF ok del] .
    note ok1 = handler_frame_ok [OF f1]
    have n1: "sv_node s1 = sv_node s" "sv_mounter s1 = sv_mounter s" "sv_cfg s1 = sv_cfg s"
      using state_Delete_frame [OF del] by (auto simp: same_static_def)
    show ?thesis
    proof (cases r1)
      case (Some e)
      then have "state_Get s1 = state_Get s" using del sv.get_del_failed [OF ok] by blast
      moreover have "s' = s1 \<and> (\<exists>e. r = Inl e)"
        using run prev pv k del Some by (auto simp: unmount_locked_def Let_def split: if_splits)
      ultimately show ?thesis using not_deleted [OF prev pv] f1 n1(1) by auto
    next
      case None
      have g1: "state_Get s1 = (state_Get s)(k := None)" using sv.get_del [OF ok] del None by blast
      show ?thesis
      proof (cases "dm_ContainerID p = [] \<or> dm_ContainerID p \<noteq> cs_ContainerID status")
        case True
        then have "s' = s1 \<and> r = Inr (unmountResult (wc_DriverName (sv_cfg s)) q)"
          using run prev pv k del None by (simp add: unmount_locked_def Let_def)
        then show ?thesis using stale [OF prev pv True] f1 n1(1) g1 by auto
      next
        case False
        let ?plan = "unmount_plan q pod status"
        obtain b n where isM: "nm_IsMounted (sv_mounter s) ?plan (sv_node s) = (b, n)" by (metis surj_pair)
        let ?s2 = "s1\<lparr>sv_node := n\<rparr>"
        have isM': "node_IsMounted ?plan s1 = (b, ?s2)" using isM n1 by (simp add: node_IsMounted_def)
        have key: "\<And>x. Some p = Some x \<Longrightarrow> dm_key x = k" using prev sv.get_key [OF ok] by blast
        have undone: thesis
          if rest: "restoreDesiredMount k (Some p) (s1\<lparr>sv_node := m\<rparr>) = (restored, s')"
            and r: "r = Inl (node_failure e restored)" and calls: "node_calls (sv_mounter s) ?plan (sv_node s) m"
          for m e restored
        proof -
          have okm: "server_ok (s1\<lparr>sv_node := m\<rparr>)" using ok1 by simp
          note re = restore_effect [OF okm rest key]
          have "handler_frame k s s'"
            using f1 node_handler_frame [OF ok1] re(1) by (blast intro: handler_frame_trans)
          moreover have "state_Get s' = (if restored = None then state_Get s else (state_Get s)(k := None))"
            using re(3) g1 prev by (auto simp: fun_upd_idem)
          then have "\<exists>e. r = Inl e \<and> (state_Get s' = state_Get s \<or>
              state_Get s' = (state_Get s)(k := None) \<and> rollback_failed k (Some p) e s')"
            using r restore_failed [of k "Some p" "s1\<lparr>sv_node := m\<rparr>" _ s' e] rest by (cases restored) auto
          moreover have "dm_ContainerID p \<noteq> []" "dm_ContainerID p = cs_ContainerID status" "sv_node s' = m"
            using False re(2) by auto
          ultimately show thesis using own [OF prev pv _ _ _ calls _ disjI2] by blast
        qed
        have f2: "handler_frame k s (s1\<lparr>sv_node := m\<rparr>)" for m
          using f1 node_handler_frame [OF ok1] by (rule handler_frame_trans)
        show ?thesis
        proof (cases b)
          case (Inl e)
          then obtain restored where "restoreDesiredMount k (Some p) ?s2 = (restored, s')"
            and "r = Inl (node_failure e restored)"
            using run prev pv k del None False isM' by (auto simp: unmount_locked_def Let_def split: prod.splits)
          then show ?thesis using undone node_callsI(3) [OF isM] by blast
        next
          case (Inr mounted)
          show ?thesis
          proof (cases mounted)
            case no: False
            then have "s' = ?s2" and "r = Inr (unmountResult (wc_DriverName (sv_cfg s)) q)"
              using run prev pv k del None False isM' Inr by (auto simp: unmount_locked_def Let_def)
            then show ?thesis
              using own [of p n] prev pv False f2 isM Inr no g1 node_callsI(3) [OF isM]
              by (auto simp: node_says_unmounted_def)
          next
            case yes: True
            obtain u n2 where um: "nm_Unmount (sv_mounter s) ?plan n = (u, n2)" by (metis surj_pair)
            then have um': "node_Unmount ?plan ?s2 = (u, s1\<lparr>sv_node := n2\<rparr>)"
              using n1 by (simp add: node_Unmount_def)
            have calls: "node_calls (sv_mounter s) ?plan (sv_node s) n2"
              using node_callsI(3) [OF isM] um by (rule node_calls.Unmount)
            show ?thesis
            proof (cases u)
              case u: None
              then have "s' = s1\<lparr>sv_node := n2\<rparr>" and "r = Inr (unmountResult (wc_DriverName (sv_cfg s)) q)"
                using run prev pv k del None False isM' Inr yes um' by (auto simp: unmount_locked_def Let_def)
              then show ?thesis using own [of p n2] prev pv False f2 isM Inr yes g1 calls um u
                by (auto simp: node_says_unmounted_def)
            next
              case (Some e)
              then obtain restored where "restoreDesiredMount k (Some p) (s1\<lparr>sv_node := n2\<rparr>) = (restored, s')"
                and "r = Inl (node_failure e restored)"
                using run prev pv k del None False isM' Inr yes um'
                by (auto simp: unmount_locked_def Let_def split: prod.splits)
              then show ?thesis using undone calls by blast
            qed
          qed
        qed
      qed
    qed
  qed
qed

definition authorized_unmount :: "WrapperConfig \<Rightarrow> kube_client \<Rightarrow> string \<Rightarrow> UnmountRequest \<Rightarrow>
    MountRequest \<Rightarrow> Pod \<Rightarrow> ContainerStatus \<Rightarrow> bool" where
  "authorized_unmount cfg kube token request r pod status \<longleftrightarrow>
     normal_request cfg r \<and>
     (\<exists>st. kc_ReviewToken kube token [wc_TokenAudience cfg] = Inr (Some st) \<and> token_binds_pod cfg st pod) \<and>
     kc_GetPod kube (rq_Namespace r) (rq_PodName r) = Inr pod \<and> pod_of_request cfg pod r \<and>
     selectContainerStatus pod (ur_ContainerName request) = Inr status \<and>
     ValidateTargetPath (ur_TargetPath request) = Inr (rq_TargetPath r) \<and>
     r = (unmount_request request)\<lparr>rq_TargetPath := rq_TargetPath r, rq_ContainerName := cs_Name status\<rparr>"

lemma unmount_cases:
  assumes run: "unmount token request s = (r, s')"
  obtains (rejected) e where "r = Inl e" "s' = s"
    | (authorized) q pod status where
      "authorized_unmount (sv_cfg s) (sv_kube s) token request q pod status"
      "unmount_locked q pod status s = (r, s')"
proof (cases "\<exists>e. r = Inl e \<and> s' = s")
  case True
  then show ?thesis using rejected by blast
next
  case no: False
  obtain r0 pod status where n: "normalizeMountRequest (sv_cfg s) (unmount_request request) False = Inr r0"
    and p: "authorizedPodForRequest (sv_cfg s) (sv_kube s) token r0 = Inr pod"
    and st: "selectContainerStatus pod (rq_ContainerName r0) = Inr status"
    and u: "unmount_locked (r0\<lparr>rq_ContainerName := cs_Name status\<rparr>) pod status s = (r, s')"
    using run no by (auto simp: unmount_def split: sum.splits)
  obtain c where c: "ValidateTargetPath (ur_TargetPath request) = Inr c"
    and r0: "r0 = (unmount_request request)\<lparr>rq_TargetPath := c, rq_SourceSubPath := []\<rparr>"
    and nr: "normal_request (sv_cfg s) r0"
    using n by (auto simp: unmount_request_def elim: normalizeMountRequest_Inr)
  obtain ts where t: "kc_ReviewToken (sv_kube s) token [wc_TokenAudience (sv_cfg s)] = Inr (Some ts)"
    "kc_GetPod (sv_kube s) (rq_Namespace r0) (rq_PodName r0) = Inr pod"
    "token_binds_pod (sv_cfg s) ts pod" "pod_of_request (sv_cfg s) pod r0"
    using p by (rule authorizedPodForRequest_Inr)
  have fields: "rq_Namespace r0 = rq_Namespace (unmount_request request)"
    "rq_PodName r0 = rq_PodName (unmount_request request)" "rq_TargetPath r0 = c" "rq_ContainerName r0 = ur_ContainerName request"
    "r0\<lparr>rq_ContainerName := x\<rparr> = (unmount_request request)\<lparr>rq_TargetPath := c, rq_ContainerName := x\<rparr>" for x
    by (simp_all add: r0 unmount_request_def)
  have "authorized_unmount (sv_cfg s) (sv_kube s) token request
      (r0\<lparr>rq_ContainerName := cs_Name status\<rparr>) pod status"
    unfolding authorized_unmount_def
  proof (intro conjI exI)
    show "normal_request (sv_cfg s) (r0\<lparr>rq_ContainerName := cs_Name status\<rparr>)"
      and "pod_of_request (sv_cfg s) pod (r0\<lparr>rq_ContainerName := cs_Name status\<rparr>)"
      using nr t(4) by simp_all
  qed (use c t st fields in simp_all)
  then show ?thesis using authorized u by blast
qed

end
