(* ===== verification/Reconciler.thy ===== *)
theory Reconciler
  imports HandlerCorrect
begin

text \<open>
  internal/wrapper/reconciler.go: mounting the desired targets again after a container or
  the wrapper restarts. The retry channel is a list, its head the next to be received; the
  goroutines of \<open>RunReconciler\<close> are the callers of these operations, one at a time for
  each target because of the target lock. Timers, contexts that expire and log lines are
  left out; \<open>reconcileErrors\<close> keeps the error where the code keeps its text.
\<close>

subsection \<open>Constants and the retry queue\<close>

definition podWatchQueueSize :: nat where
  "podWatchQueueSize = 1024"

definition reconcileRetryQueueSize :: nat where
  "reconcileRetryQueueSize = 4096"

definition reconcileRetryWorkers :: nat where
  "reconcileRetryWorkers = 4"

text \<open>In milliseconds.\<close>

definition reconcileRetryDelays :: "nat list" where
  "reconcileRetryDelays = [200, 500, 1000, 2000, 5000]"

record reconcileRetry =
  rr_key :: desiredMountKey
  rr_attempt :: nat

type_synonym retries = "reconcileRetry list"

definition set_retrying :: "(desiredMountKey set \<Rightarrow> desiredMountKey set) \<Rightarrow> 'n Server \<Rightarrow> 'n Server" where
  "set_retrying f s = s\<lparr>sv_retrying := f (sv_retrying s)\<rparr>"

definition set_errors ::
  "((desiredMountKey \<rightharpoonup> go_error) \<Rightarrow> (desiredMountKey \<rightharpoonup> go_error)) \<Rightarrow> 'n Server \<Rightarrow> 'n Server" where
  "set_errors f s = s\<lparr>sv_reconcileErrors := f (sv_reconcileErrors s)\<rparr>"

subsection \<open>One desired mount\<close>

text \<open>
  The part of \<open>reconcileMountForPod\<close> before the node is asked: an error, nothing to do
  (\<open>Inr None\<close>), or the intent brought up to date and the plan to mount.
\<close>

definition reconcile_root ::
  "exportRootAuthorizer \<Rightarrow> MountPlan \<Rightarrow> desiredMount \<Rightarrow> go_error + desiredMount" where
  "reconcile_root exportRoot plan current =
     (let isExportRoot = IsNFSExportRoot plan;
          classified =
            (if dm_legacyRootClassificationUnknown current then
               (if isExportRoot \<and> ra_configured exportRoot
                  then Inl (Errorf ''%w: legacy desired mount has no authorization from the current NFS export root key''
                              [AWrap (Sentinel ErrDesiredMountUnauthorized)])
                else Inr (current\<lparr>dm_ExportRootAuthorized := isExportRoot,
                            dm_ExportRootKeyFingerprint := [], dm_legacyRootClassificationUnknown := False\<rparr>))
             else if dm_ExportRootAuthorized current \<noteq> isExportRoot
               then Inl (Errorf ''%w: effective NFS export-root selection differs from the persisted mount''
                           [AWrap (Sentinel ErrDesiredMountUnauthorized)])
             else Inr current)
      in case classified of
           Inl err \<Rightarrow> Inl err
         | Inr current \<Rightarrow>
           if isExportRoot \<and> ra_configured exportRoot \<and>
              \<not> authorizesFingerprint exportRoot (dm_ExportRootKeyFingerprint current)
             then Inl (Errorf ''%w: desired mount has no authorization from the current NFS export root key''
                         [AWrap (Sentinel ErrDesiredMountUnauthorized)])
           else if \<not> isExportRoot \<or> \<not> ra_configured exportRoot
             then Inr (current\<lparr>dm_ExportRootKeyFingerprint := []\<rparr>)
           else Inr current)"

definition reconcile_plan ::
  "WrapperConfig \<Rightarrow> kube_client \<Rightarrow> exportRootAuthorizer \<Rightarrow> desiredMount \<Rightarrow> Pod \<Rightarrow>
   go_error + (desiredMount \<times> MountPlan) option" where
  "reconcile_plan cfg kube exportRoot current pod =
     (case normalizeMountRequest cfg (dm_Request current) True of
        Inl err \<Rightarrow> Inl err
      | Inr request \<Rightarrow>
        (case validatePodIdentity pod request of
           Some err \<Rightarrow> Inl (Errorf ''%w: %v'' [AWrap (Sentinel ErrDesiredMountStale), AVal err])
         | None \<Rightarrow>
           (case validatePodNode pod (wc_NodeName cfg) of
              Some err \<Rightarrow> Inl (Errorf ''%w: %v'' [AWrap (Sentinel ErrDesiredMountStale), AVal err])
            | None \<Rightarrow>
              (case selectContainerStatus pod (rq_ContainerName request) of
                 Inl err \<Rightarrow> Inl (Errorf ''container status for desired mount: %w'' [AWrap err])
               | Inr containerStatus \<Rightarrow>
                 let request = request\<lparr>rq_ContainerName := cs_Name containerStatus\<rparr>;
                     current = current\<lparr>dm_Request := request\<rparr>
                 in if dm_ContainerID current \<noteq> [] \<and> dm_ContainerID current = cs_ContainerID containerStatus
                    then Inr None
                    else (case mountPlanForPod cfg kube request pod of
                            Inl err \<Rightarrow> Inl err
                          | Inr (request, plan) \<Rightarrow>
                            (case reconcile_root exportRoot plan (current\<lparr>dm_Request := request\<rparr>) of
                               Inl err \<Rightarrow> Inl err
                             | Inr current \<Rightarrow> Inr (Some (current, plan))))))))"

text \<open>The part that acts on the node.\<close>

definition record_container :: "desiredMount \<Rightarrow> MountPlan \<Rightarrow> 'n Server \<Rightarrow> go_error option \<times> 'n Server" where
  "record_container current plan s =
     (case state_Put (current\<lparr>dm_ContainerID := pl_ContainerID plan\<rparr>) s of
        (Some err, s) \<Rightarrow> (Some (Errorf ''record reconciled container: %w'' [AWrap err]), s)
      | (None, s) \<Rightarrow> (None, s))"

definition reconcile_mount :: "desiredMount \<Rightarrow> MountPlan \<Rightarrow> 'n Server \<Rightarrow> go_error option \<times> 'n Server" where
  "reconcile_mount current plan s =
     (case node_Mount plan s of
        (Some err, s) \<Rightarrow> (Some err, s)
      | (None, s) \<Rightarrow> record_container current plan s)"

definition reconcile_apply :: "desiredMount \<Rightarrow> MountPlan \<Rightarrow> 'n Server \<Rightarrow> go_error option \<times> 'n Server" where
  "reconcile_apply current plan s =
     (if dm_ContainerID current = [] \<or> dm_ContainerID current = pl_ContainerID plan then
        (case node_IsMounted plan s of
           (Inl err, s) \<Rightarrow> (Some err, s)
         | (Inr True, s) \<Rightarrow>
             if dm_ContainerID current \<noteq> pl_ContainerID plan then record_container current plan s
             else (None, s)
         | (Inr False, s) \<Rightarrow> reconcile_mount current plan s)
      else reconcile_mount current plan s)"

definition reconcileMountForPod :: "desiredMount \<Rightarrow> Pod \<Rightarrow> 'n Server \<Rightarrow> go_error option \<times> 'n Server" where
  "reconcileMountForPod snapshot pod s =
     (case state_Get s (dm_key snapshot) of
        None \<Rightarrow> (None, s)
      | Some current \<Rightarrow>
        if current \<noteq> snapshot then (None, s)
        else (case reconcile_plan (sv_cfg s) (sv_kube s) (sv_exportRoot s) current pod of
                Inl err \<Rightarrow> (Some err, s)
              | Inr None \<Rightarrow> (None, s)
              | Inr (Some (current, plan)) \<Rightarrow> reconcile_apply current plan s))"

definition stale_error :: "string \<Rightarrow> desiredMount \<Rightarrow> go_error" where
  "stale_error f d = Errorf f [AWrap (Sentinel ErrDesiredMountStale),
     AStr (rq_Namespace (dm_Request d)), AStr (rq_PodName (dm_Request d))]"

definition reconcileMount :: "desiredMount \<Rightarrow> 'n Server \<Rightarrow> go_error option \<times> 'n Server" where
  "reconcileMount snapshot s =
     (let r = dm_Request snapshot in
      case kc_GetPod (sv_kube s) (rq_Namespace r) (rq_PodName r) of
        Inl err \<Rightarrow>
          if IsNotFound err then (Some (stale_error ''%w: pod %s/%s no longer exists'' snapshot), s)
          else (Some (Errorf ''get pod %s/%s: %w'' [AStr (rq_Namespace r), AStr (rq_PodName r), AWrap err]), s)
      | Inr pod \<Rightarrow> reconcileMountForPod snapshot pod s)"

subsection \<open>Results and retries\<close>

definition logReconcileError :: "desiredMountKey \<Rightarrow> go_error \<Rightarrow> 'n Server \<Rightarrow> 'n Server" where
  "logReconcileError key err s = set_errors (\<lambda>es. es(key \<mapsto> err)) s"

definition handleReconcileResult :: "desiredMount \<Rightarrow> go_error option \<Rightarrow> 'n Server \<Rightarrow> 'n Server" where
  "handleReconcileResult desired result s =
     (let key = dm_key desired in
      case result of
        None \<Rightarrow> set_errors (\<lambda>es. es(key := None)) s
      | Some err \<Rightarrow>
        if errors_Is ErrDesiredMountStale err then
          (if state_Get s key = Some desired then
             (case state_Delete key s of
                (None, s) \<Rightarrow> set_errors (\<lambda>es. es(key := None)) s
              | (Some deleteErr, s) \<Rightarrow>
                  logReconcileError key
                    (Join [err, Errorf ''delete stale desired mount: %w'' [AWrap deleteErr]]) s)
           else set_errors (\<lambda>es. es(key := None)) s)
        else logReconcileError key err s)"

text \<open>Errors that a retry cannot mend.\<close>

definition settled :: "go_error option \<Rightarrow> bool" where
  "settled result \<longleftrightarrow>
     (case result of
        None \<Rightarrow> True
      | Some err \<Rightarrow> errors_Is ErrDesiredMountStale err \<or> errors_Is ErrDesiredMountUnauthorized err)"

definition scheduleReconcileRetry ::
  "bool \<Rightarrow> desiredMount \<Rightarrow> go_error option \<Rightarrow> 'n Server \<times> retries \<Rightarrow> 'n Server \<times> retries" where
  "scheduleReconcileRetry ctxDone desired result sq =
     (case sq of (s, q) \<Rightarrow>
        let key = dm_key desired in
        if settled result \<or> ctxDone then (s, q)
        else if key \<in> sv_retrying s then (s, q)
        else if length q < reconcileRetryQueueSize
          then (set_retrying (insert key) s, q @ [\<lparr>rr_key = key, rr_attempt = 0\<rparr>])
        else (s, q))"

text \<open>One round of a retry worker, after it received \<open>retry\<close> and waited for its delay.\<close>

definition processReconcileRetry :: "reconcileRetry \<Rightarrow> 'n Server \<times> retries \<Rightarrow> 'n Server \<times> retries" where
  "processReconcileRetry retry sq =
     (case sq of (s, q) \<Rightarrow>
        case state_Get s (rr_key retry) of
          None \<Rightarrow> (set_retrying (\<lambda>ks. ks - {rr_key retry}) s, q)
        | Some desired \<Rightarrow>
          (case reconcileMount desired s of
             (err, s) \<Rightarrow>
               let s = handleReconcileResult desired err s in
               if settled err \<or> rr_attempt retry + 1 \<ge> length reconcileRetryDelays
                 then (set_retrying (\<lambda>ks. ks - {rr_key retry}) s, q)
               else if length q < reconcileRetryQueueSize
                 then (s, q @ [retry\<lparr>rr_attempt := rr_attempt retry + 1\<rparr>])
               else (set_retrying (\<lambda>ks. ks - {rr_key retry}) s, q)))"

text \<open>The worker takes the head of the channel; \<open>None\<close> while it is empty.\<close>

definition processReconcileRetries :: "'n Server \<times> retries \<Rightarrow> ('n Server \<times> retries) option" where
  "processReconcileRetries sq =
     (case sq of (s, []) \<Rightarrow> None | (s, retry # q) \<Rightarrow> Some (processReconcileRetry retry (s, q)))"

subsection \<open>Snapshots and events\<close>

definition pod_string :: "string \<Rightarrow> string \<Rightarrow> string \<Rightarrow> string" where
  "pod_string ns name uid = ns @ [NUL] @ name @ [NUL] @ uid"

definition pod_string_of :: "Pod \<Rightarrow> string" where
  "pod_string_of pod = pod_string (om_Namespace (pod_Metadata pod)) (om_Name (pod_Metadata pod))
     (om_UID (pod_Metadata pod))"

definition request_pod_string :: "MountRequest \<Rightarrow> string" where
  "request_pod_string r = pod_string (rq_Namespace r) (rq_PodName r) (rq_PodUID r)"

text \<open>A later Pod of the snapshot overwrites an earlier one with the same identity.\<close>

definition podsByUID :: "Pod list \<Rightarrow> string \<rightharpoonup> Pod" where
  "podsByUID pods = map_of (rev (map (\<lambda>p. (pod_string_of p, p)) pods))"

definition reconcile_missing :: "desiredMount \<Rightarrow> 'n Server \<Rightarrow> go_error option \<times> 'n Server" where
  "reconcile_missing desired s =
     (let r = dm_Request desired in
      case kc_GetPod (sv_kube s) (rq_Namespace r) (rq_PodName r) of
        Inr livePod \<Rightarrow>
          if sp_NodeName (pod_Spec livePod) \<noteq> [] \<and> sp_NodeName (pod_Spec livePod) \<noteq> wc_NodeName (sv_cfg s)
            then (Some (Errorf ''%w: pod %s/%s moved away from node %s''
                     [AWrap (Sentinel ErrDesiredMountStale), AStr (rq_Namespace r), AStr (rq_PodName r),
                      AStr (wc_NodeName (sv_cfg s))]), s)
          else reconcileMountForPod desired livePod s
      | Inl err \<Rightarrow>
          if IsNotFound err then (Some (stale_error ''%w: pod %s/%s no longer exists'' desired), s)
          else (Some (Errorf ''get pod %s/%s missing from node snapshot: %w''
                   [AStr (rq_Namespace r), AStr (rq_PodName r), AWrap err]), s))"

definition snapshot_step ::
  "bool \<Rightarrow> (string \<rightharpoonup> Pod) \<Rightarrow> desiredMount \<Rightarrow> 'n Server \<times> retries \<Rightarrow> 'n Server \<times> retries" where
  "snapshot_step ctxDone pods desired sq =
     (case sq of (s, q) \<Rightarrow>
        (case (case pods (request_pod_string (dm_Request desired)) of
                 None \<Rightarrow> reconcile_missing desired s
               | Some pod \<Rightarrow> reconcileMountForPod desired pod s) of
           (err, s) \<Rightarrow>
             scheduleReconcileRetry ctxDone desired err (handleReconcileResult desired err s, q)))"

definition reconcilePodSnapshot :: "bool \<Rightarrow> Pod list \<Rightarrow> 'n Server \<times> retries \<Rightarrow> 'n Server \<times> retries" where
  "reconcilePodSnapshot ctxDone pods sq =
     fold (snapshot_step ctxDone (podsByUID pods)) (List_all (sv_state (fst sq))) sq"

definition event_step ::
  "bool \<Rightarrow> PodWatchEvent \<Rightarrow> desiredMount \<Rightarrow> 'n Server \<times> retries \<Rightarrow> 'n Server \<times> retries" where
  "event_step ctxDone event desired sq =
     (case sq of (s, q) \<Rightarrow>
        if we_Type event = ''DELETED''
          then (handleReconcileResult desired (Some (stale_error ''%w: pod %s/%s was deleted'' desired)) s, q)
        else (case reconcileMountForPod desired (we_Pod event) s of
                (err, s) \<Rightarrow>
                  scheduleReconcileRetry ctxDone desired err (handleReconcileResult desired err s, q)))"

definition event_pod_key :: "PodWatchEvent \<Rightarrow> desiredPodKey" where
  "event_pod_key event = PodKey (om_Namespace (pod_Metadata (we_Pod event)))
     (om_Name (pod_Metadata (we_Pod event))) (om_UID (pod_Metadata (we_Pod event)))"

definition reconcilePodEvent ::
  "bool \<Rightarrow> PodWatchEvent \<Rightarrow> 'n Server \<times> retries \<Rightarrow> 'n Server \<times> retries" where
  "reconcilePodEvent ctxDone event sq =
     fold (event_step ctxDone event) (ListForPod (sv_state (fst sq)) (event_pod_key event)) sq"

text \<open>\<open>reconcileAll\<close> asks for each Pod once; \<open>pods\<close> is its cache.\<close>

definition all_step ::
  "desiredMount \<Rightarrow> 'n Server \<times> (string \<rightharpoonup> go_error + Pod) \<Rightarrow> 'n Server \<times> (string \<rightharpoonup> go_error + Pod)" where
  "all_step desired sp =
     (case sp of (s, pods) \<Rightarrow>
        let r = dm_Request desired; podKey = request_pod_string r;
            podState = (case pods podKey of
               Some st \<Rightarrow> st
             | None \<Rightarrow>
               (case kc_GetPod (sv_kube s) (rq_Namespace r) (rq_PodName r) of
                  Inr pod \<Rightarrow> Inr pod
                | Inl err \<Rightarrow>
                    if IsNotFound err then Inl (stale_error ''%w: pod %s/%s no longer exists'' desired)
                    else Inl (Errorf ''get pod %s/%s: %w''
                           [AStr (rq_Namespace r), AStr (rq_PodName r), AWrap err])))
        in case (case podState of Inl err \<Rightarrow> (Some err, s) | Inr pod \<Rightarrow> reconcileMountForPod desired pod s) of
             (err, s) \<Rightarrow> (handleReconcileResult desired err s, pods(podKey \<mapsto> podState)))"

definition reconcileAll :: "bool \<Rightarrow> 'n Server \<Rightarrow> 'n Server" where
  "reconcileAll ctxDone s =
     (if ctxDone then s else fst (fold all_step (List_all (sv_state s)) (s, Map.empty)))"

definition safeContainerID :: "string \<Rightarrow> string" where
  "safeContainerID containerID =
     (if containerID = [] then ''pending''
      else if length containerID \<le> 20 then containerID
      else take 20 containerID @ ''...'')"

end
