(* ===== verification/ReconcileCorrect.thy ===== *)
theory ReconcileCorrect
  imports Reconciler
begin

text \<open>
  What the reconciler does: it acts on an intent only while it is the one it was asked
  about, mounts only what the current policy allows, forgets only stale intents, and keeps
  its retry queue bounded and free of duplicates.
\<close>

subsection \<open>Frames\<close>

text \<open>The parts no operation of the reconciler changes.\<close>

definition same_config :: "'n Server \<Rightarrow> 'n Server \<Rightarrow> bool" where
  "same_config s s' \<longleftrightarrow>
     sv_cfg s' = sv_cfg s \<and> sv_kube s' = sv_kube s \<and> sv_mounter s' = sv_mounter s \<and>
     sv_exportRoot s' = sv_exportRoot s"

lemma same_config_refl [simp]: "same_config s s"
  by (simp add: same_config_def)

lemma same_config_trans: "same_config s t \<Longrightarrow> same_config t u \<Longrightarrow> same_config s u"
  by (simp add: same_config_def)

lemma same_static_config: "same_static s t \<Longrightarrow> same_config s t"
  by (simp add: same_static_def same_config_def)

lemma set_errors_simps [simp]:
  "sv_cfg (set_errors f s) = sv_cfg s" "sv_kube (set_errors f s) = sv_kube s"
  "sv_mounter (set_errors f s) = sv_mounter s" "sv_exportRoot (set_errors f s) = sv_exportRoot s"
  "sv_state (set_errors f s) = sv_state s" "sv_node (set_errors f s) = sv_node s"
  "sv_retrying (set_errors f s) = sv_retrying s" "state_Get (set_errors f s) = state_Get s"
  "sv_reconcileErrors (set_errors f s) = f (sv_reconcileErrors s)"
  by (simp_all add: set_errors_def state_Get_eq)

lemma set_retrying_simps [simp]:
  "sv_cfg (set_retrying f s) = sv_cfg s" "sv_kube (set_retrying f s) = sv_kube s"
  "sv_mounter (set_retrying f s) = sv_mounter s" "sv_exportRoot (set_retrying f s) = sv_exportRoot s"
  "sv_state (set_retrying f s) = sv_state s" "sv_node (set_retrying f s) = sv_node s"
  "sv_retrying (set_retrying f s) = f (sv_retrying s)" "state_Get (set_retrying f s) = state_Get s"
  "sv_reconcileErrors (set_retrying f s) = sv_reconcileErrors s"
  by (simp_all add: set_retrying_def state_Get_eq)

subsection \<open>The plan of a reconcile\<close>

text \<open>
  What holds of an intent \<open>current\<close> that the reconciler is about to mount for \<open>pod\<close>, with
  the intent \<open>d\<close> it will record: the live Pod is the one of the intent, the PV admits it
  under its present annotations, and the export root is authorized by the present key.
\<close>

definition root_allowed :: "exportRootAuthorizer \<Rightarrow> MountPlan \<Rightarrow> desiredMount \<Rightarrow> desiredMount \<Rightarrow> bool" where
  "root_allowed a plan current d \<longleftrightarrow>
     dm_ExportRootAuthorized d = IsNFSExportRoot plan \<and> \<not> dm_legacyRootClassificationUnknown d \<and>
     (if IsNFSExportRoot plan \<and> ra_configured a
      then \<not> dm_legacyRootClassificationUnknown current \<and> dm_ExportRootAuthorized current \<and>
           authorizesFingerprint a (dm_ExportRootKeyFingerprint current) \<and>
           dm_ExportRootKeyFingerprint d = dm_ExportRootKeyFingerprint current
      else dm_ExportRootKeyFingerprint d = []) \<and>
     (dm_legacyRootClassificationUnknown current \<or>
      dm_ExportRootAuthorized current = IsNFSExportRoot plan)"

definition reconcile_ready :: "WrapperConfig \<Rightarrow> kube_client \<Rightarrow> exportRootAuthorizer \<Rightarrow> desiredMount \<Rightarrow>
    Pod \<Rightarrow> desiredMount \<Rightarrow> MountPlan \<Rightarrow> bool" where
  "reconcile_ready cfg kube a current pod d plan \<longleftrightarrow>
     normal_request cfg (dm_Request d) \<and> pod_of_request cfg pod (dm_Request d) \<and>
     dm_ContainerID d = dm_ContainerID current \<and> root_allowed a plan current d \<and>
     (\<exists>pv status. kc_GetPersistentVolume kube (rq_PVName (dm_Request d)) = Inr pv \<and> pv_admits cfg pod pv \<and>
        selectContainerStatus pod (rq_ContainerName (dm_Request current)) = Inr status \<and>
        (dm_ContainerID current = [] \<or> dm_ContainerID current \<noteq> cs_ContainerID status) \<and>
        plan_of (dm_Request d) pod pv status plan \<and>
        rq_ContainerName (dm_Request d) = cs_Name status \<and>
        (\<exists>r. normalizeMountRequest cfg (dm_Request current) True = Inr r \<and>
             dm_Request d = r\<lparr>rq_ContainerName := cs_Name status\<rparr>))"

lemma reconcile_root_Inr:
  assumes "reconcile_root a plan current = Inr d"
  shows "root_allowed a plan current d" and "dm_Request d = dm_Request current"
    and "dm_ContainerID d = dm_ContainerID current"
  using assms
  by (auto simp: reconcile_root_def Let_def root_allowed_def authorizesFingerprint_def
      split: if_splits sum.splits)

text \<open>Choosing the container again by the name just chosen may only fail or agree.\<close>

lemma selectContainerStatus_by_name:
  assumes "selectContainerStatus pod name = Inr status"
    and "selectContainerStatus pod (cs_Name status) = Inr status'"
  shows "status' = status"
proof (cases "cs_Name status = []")
  case False
  then show ?thesis using selectContainerStatus_again [OF assms(1)] assms(2) by simp
next
  case True
  then have "name = []" using selectContainerStatus_Inr(3) [OF assms(1)] by blast
  then show ?thesis using assms True by simp
qed

lemma reconcile_plan_Inr:
  assumes "reconcile_plan cfg kube a current pod = Inr (Some (d, plan))"
  shows "reconcile_ready cfg kube a current pod d plan"
proof -
  obtain r0 status r1 where n: "normalizeMountRequest cfg (dm_Request current) True = Inr r0"
    and pid: "validatePodIdentity pod r0 = None" and pn: "validatePodNode pod (wc_NodeName cfg) = None"
    and st: "selectContainerStatus pod (rq_ContainerName r0) = Inr status"
    and new: "dm_ContainerID current = [] \<or> dm_ContainerID current \<noteq> cs_ContainerID status"
    and mp: "mountPlanForPod cfg kube (r0\<lparr>rq_ContainerName := cs_Name status\<rparr>) pod = Inr (r1, plan)"
    and root: "reconcile_root a plan (current\<lparr>dm_Request := r1\<rparr>) = Inr d"
    using assms
    by (auto simp: reconcile_plan_def Let_def case_sum_Inr_iff case_option_Inr_iff split: if_splits)
  obtain c sub where r0: "r0 = (dm_Request current)\<lparr>rq_TargetPath := c, rq_SourceSubPath := sub\<rparr>"
    and nr: "normal_request cfg r0"
    using n by (auto elim: normalizeMountRequest_Inr)
  obtain pv status' where pv: "kc_GetPersistentVolume kube (rq_PVName r0) = Inr pv" "pv_admits cfg pod pv"
    and st': "selectContainerStatus pod (cs_Name status) = Inr status'"
    and r1: "r1 = r0\<lparr>rq_ContainerName := cs_Name status'\<rparr>" and po: "plan_of r1 pod pv status' plan"
    using mp by (auto elim: mountPlanForPod_Inr)
  have same: "status' = status" using st st' by (rule selectContainerStatus_by_name)
  note rr = reconcile_root_Inr [OF root]
  have req: "dm_Request d = r1" and cid: "dm_ContainerID d = dm_ContainerID current" using rr by simp_all
  have allowed: "root_allowed a plan current d" using rr(1) by (auto simp: root_allowed_def split: if_splits)
  show ?thesis
    unfolding reconcile_ready_def req
  proof (intro conjI exI)
    show "pod_of_request cfg pod r1"
      using pid pn unfolding r1 by (auto simp: pod_of_request_def validatePodIdentity_None validatePodNode_None)
    show "normal_request cfg r1" using nr unfolding r1 by simp
    show "kc_GetPersistentVolume kube (rq_PVName r1) = Inr pv" using pv by (simp add: r1)
    show "selectContainerStatus pod (rq_ContainerName (dm_Request current)) = Inr status"
      using st by (simp add: r0)
    show "plan_of r1 pod pv status plan" using po same by simp
    show "normalizeMountRequest cfg (dm_Request current) True = Inr r0" by (rule n)
    show "r1 = r0\<lparr>rq_ContainerName := cs_Name status\<rparr>" by (simp add: r1 same)
  qed (use pv cid allowed new r1 same in simp_all)
qed

text \<open>An intent in the form the handlers store keeps its request.\<close>

definition stored_form :: "WrapperConfig \<Rightarrow> desiredMount \<Rightarrow> bool" where
  "stored_form cfg d \<longleftrightarrow> normal_request cfg (dm_Request d) \<and> rq_ContainerName (dm_Request d) \<noteq> []"

lemma reconcile_ready_request:
  assumes "reconcile_ready cfg kube a current pod d plan" and "stored_form cfg current"
  shows "dm_Request d = dm_Request current"
proof -
  obtain status where st: "selectContainerStatus pod (rq_ContainerName (dm_Request current)) = Inr status"
    and d: "dm_Request d = (dm_Request current)\<lparr>rq_ContainerName := cs_Name status\<rparr>"
    using assms normalize_normal [of cfg "dm_Request current"]
    by (auto simp: reconcile_ready_def stored_form_def)
  then show ?thesis
    using selectContainerStatus_Inr(3) [OF st] assms(2) by (simp add: stored_form_def)
qed

lemma reconcile_ready_key:
  "reconcile_ready cfg kube a current pod d plan \<Longrightarrow> stored_form cfg current \<Longrightarrow> dm_key d = dm_key current"
  using reconcile_ready_request dm_key_Request by (metis dm_key_Request)

subsection \<open>The effect of a reconcile\<close>

text \<open>The intent after a reconcile is untouched or records the container just mounted.\<close>

definition reconcile_outcome ::
  "desiredMount \<Rightarrow> MountPlan \<Rightarrow> 'n Server \<Rightarrow> go_error option \<Rightarrow> 'n Server \<Rightarrow> bool" where
  "reconcile_outcome d plan s r s' \<longleftrightarrow>
     handler_frame (dm_key d) s s' \<and> node_calls (sv_mounter s) plan (sv_node s) (sv_node s') \<and>
     (state_Get s' = state_Get s \<or>
      state_Get s' = (state_Get s)(dm_key d \<mapsto> d\<lparr>dm_ContainerID := pl_ContainerID plan\<rparr>) \<and> r = None) \<and>
     (r = None \<longrightarrow> node_says_mounted (sv_mounter s) plan (sv_node s) (sv_node s'))"

lemma record_container_effect:
  assumes ok: "server_ok s" and run: "record_container d plan s = (r, s')"
  shows "handler_frame (dm_key d) s s'" and "sv_node s' = sv_node s"
    and "state_Get s' = (if r = None then (state_Get s)(dm_key d \<mapsto> d\<lparr>dm_ContainerID := pl_ContainerID plan\<rparr>)
                         else state_Get s)"
proof -
  let ?m = "d\<lparr>dm_ContainerID := pl_ContainerID plan\<rparr>"
  obtain r1 where put: "state_Put ?m s = (r1, s')" and r: "r = None \<longleftrightarrow> r1 = None"
    using run by (auto simp: record_container_def split: prod.splits option.splits)
  show "handler_frame (dm_key d) s s'" using Put_handler_frame [OF ok put] by simp
  show "sv_node s' = sv_node s" using state_Put_frame [OF put] by simp
  show "state_Get s' = (if r = None then (state_Get s)(dm_key d \<mapsto> ?m) else state_Get s)"
  proof (cases r1)
    case None
    then show ?thesis using r put sv.get_put [OF ok, of ?m s'] by simp
  next
    case (Some e)
    then show ?thesis using r put sv.get_put_failed [OF ok, of ?m e s'] by auto
  qed
qed

lemma record_container_outcome:
  assumes ok: "server_ok s" and run: "record_container d plan (s\<lparr>sv_node := n\<rparr>) = (r, s')"
    and says: "node_says_mounted (sv_mounter s) plan (sv_node s) n"
    and calls: "node_calls (sv_mounter s) plan (sv_node s) n"
  shows "reconcile_outcome d plan s r s'"
proof -
  have "server_ok (s\<lparr>sv_node := n\<rparr>)" using ok by simp
  note e = record_container_effect [OF this run]
  have "handler_frame (dm_key d) s s'"
    using node_handler_frame [OF ok] e(1) by (rule handler_frame_trans)
  then show ?thesis using e(2,3) says calls by (auto simp: reconcile_outcome_def)
qed

lemma reconcile_mount_outcome:
  assumes ok: "server_ok s" and run: "reconcile_mount d plan (s\<lparr>sv_node := n0\<rparr>) = (r, s')"
    and calls: "node_calls (sv_mounter s) plan (sv_node s) n0"
  shows "reconcile_outcome d plan s r s'"
proof -
  obtain b n where m: "nm_Mount (sv_mounter s) plan n0 = (b, n)" by (metis surj_pair)
  then have calls': "node_calls (sv_mounter s) plan (sv_node s) n" using calls by (rule node_calls.Mount [rotated])
  show ?thesis
  proof (cases b)
    case None
    then have "record_container d plan (s\<lparr>sv_node := n\<rparr>) = (r, s')"
      using run m by (simp add: reconcile_mount_def node_Mount_def)
    moreover have "node_says_mounted (sv_mounter s) plan (sv_node s) n"
      using m None calls by (auto simp: node_says_mounted_def)
    ultimately show ?thesis using record_container_outcome [OF ok] calls' by blast
  next
    case (Some e)
    then have "r = Some e" "s' = s\<lparr>sv_node := n\<rparr>"
      using run m by (auto simp: reconcile_mount_def node_Mount_def)
    then show ?thesis using calls' node_handler_frame [OF ok] by (simp add: reconcile_outcome_def)
  qed
qed

lemma reconcile_apply_outcome:
  assumes ok: "server_ok s" and run: "reconcile_apply d plan s = (r, s')"
  shows "reconcile_outcome d plan s r s'"
proof (cases "dm_ContainerID d = [] \<or> dm_ContainerID d = pl_ContainerID plan")
  case False
  then show ?thesis using run reconcile_mount_outcome [OF ok, of d plan "sv_node s" r s']
    by (simp add: reconcile_apply_def)
next
  case True
  obtain b n where m: "nm_IsMounted (sv_mounter s) plan (sv_node s) = (b, n)" by (metis surj_pair)
  then have call: "node_calls (sv_mounter s) plan (sv_node s) n" by (rule node_callsI)
  have m': "node_IsMounted plan s = (b, s\<lparr>sv_node := n\<rparr>)" using m by (simp add: node_IsMounted_def)
  show ?thesis
  proof (cases b)
    case (Inl e)
    then have "r = Some e" "s' = s\<lparr>sv_node := n\<rparr>" using run True m' by (auto simp: reconcile_apply_def)
    then show ?thesis using call node_handler_frame [OF ok] by (simp add: reconcile_outcome_def)
  next
    case (Inr mounted)
    show ?thesis
    proof (cases mounted)
      case False
      then show ?thesis using run True m' Inr reconcile_mount_outcome [OF ok _ call]
        by (simp add: reconcile_apply_def)
    next
      case yes: True
      then have says: "node_says_mounted (sv_mounter s) plan (sv_node s) n"
        using m Inr by (auto simp: node_says_mounted_def)
      show ?thesis
      proof (cases "dm_ContainerID d = pl_ContainerID plan")
        case same: True
        then have "r = None" "s' = s\<lparr>sv_node := n\<rparr>"
          using run m' Inr yes by (auto simp: reconcile_apply_def)
        then show ?thesis using call says node_handler_frame [OF ok] by (simp add: reconcile_outcome_def)
      next
        case False
        then show ?thesis using run True m' Inr yes record_container_outcome [OF ok _ says call]
          by (simp add: reconcile_apply_def)
      qed
    qed
  qed
qed

text \<open>All runs of \<open>reconcileMountForPod\<close>: nothing happens, or the ready plan is applied.\<close>

lemma reconcileMountForPod_cases:
  assumes ok: "server_ok s" and run: "reconcileMountForPod d pod s = (r, s')"
  obtains (unchanged) "s' = s" "state_Get s (dm_key d) = Some d \<or> r = None"
    | (applied) d' plan where "state_Get s (dm_key d) = Some d"
      "reconcile_ready (sv_cfg s) (sv_kube s) (sv_exportRoot s) d pod d' plan"
      "reconcile_outcome d' plan s r s'"
proof (cases "state_Get s (dm_key d) = Some d")
  case False
  then have "s' = s" "r = None"
    using run by (auto simp: reconcileMountForPod_def split: option.splits if_splits)
  then show ?thesis using unchanged by blast
next
  case cur: True
  obtain res where plan: "reconcile_plan (sv_cfg s) (sv_kube s) (sv_exportRoot s) d pod = res" by blast
  show ?thesis
  proof (cases "\<exists>d' plan. res = Inr (Some (d', plan))")
    case True
    then obtain d' plan' where res: "res = Inr (Some (d', plan'))" by blast
    then have "reconcile_apply d' plan' s = (r, s')"
      using run cur plan by (simp add: reconcileMountForPod_def)
    then show ?thesis
      using applied cur reconcile_plan_Inr reconcile_apply_outcome [OF ok] plan res by blast
  next
    case False
    then have "s' = s"
      using run cur plan by (auto simp: reconcileMountForPod_def split: sum.splits option.splits prod.splits)
    then show ?thesis using unchanged cur by blast
  qed
qed

subsection \<open>Results\<close>

text \<open>
  What an operation of the reconciler that starts from \<open>s\<close> keeps: the configuration, the
  invariant of the store, and the intents of all keys outside \<open>K\<close>.
\<close>

definition rec_frame :: "desiredMountKey set \<Rightarrow> 'n Server \<Rightarrow> 'n Server \<Rightarrow> bool" where
  "rec_frame K s s' \<longleftrightarrow>
     same_config s s' \<and> server_ok s' \<and> (\<forall>k. k \<notin> K \<longrightarrow> state_Get s' k = state_Get s k)"

lemma rec_frame_refl: "server_ok s \<Longrightarrow> rec_frame K s s"
  by (simp add: rec_frame_def)

lemma rec_frame_trans: "rec_frame K s t \<Longrightarrow> rec_frame K t u \<Longrightarrow> rec_frame K s u"
  by (auto simp: rec_frame_def intro: same_config_trans)

lemma rec_frame_mono: "rec_frame K s t \<Longrightarrow> K \<subseteq> L \<Longrightarrow> rec_frame L s t"
  by (auto simp: rec_frame_def)

lemma handler_rec_frame: "handler_frame k s s' \<Longrightarrow> rec_frame {k} s s'"
  by (auto simp: handler_frame_def rec_frame_def intro: same_static_config)

lemma same_static_set_errors: "same_config s (set_errors f s)" "same_config s (set_retrying g s)"
  by (simp_all add: same_config_def)

text \<open>
  \<open>handleReconcileResult\<close> deletes the intent it was given and nothing else, and only for a
  stale error and while the intent is still the current one.
\<close>

lemma handleReconcileResult_cases:
  assumes ok: "server_ok s" and run: "handleReconcileResult d r s = s'"
  obtains (kept) "state_Get s' = state_Get s" "sv_state s' = sv_state s" "rec_frame {} s s'"
      "\<And>e. r = Some e \<Longrightarrow> errors_Is ErrDesiredMountStale e \<Longrightarrow> state_Get s (dm_key d) \<noteq> Some d"
    | (deleted) e where "r = Some e" "errors_Is ErrDesiredMountStale e" "state_Get s (dm_key d) = Some d"
      "state_Get s' = (state_Get s)(dm_key d := None)" "rec_frame {dm_key d} s s'"
      "sv_reconcileErrors s' (dm_key d) = None"
    | (not_deleted) e where "r = Some e" "errors_Is ErrDesiredMountStale e" "state_Get s (dm_key d) = Some d"
      "state_Get s' = state_Get s" "rec_frame {} s s'" "sv_reconcileErrors s' (dm_key d) \<noteq> None"
proof (cases "\<exists>e. r = Some e \<and> errors_Is ErrDesiredMountStale e \<and> state_Get s (dm_key d) = Some d")
  case False
  then have "\<exists>f. s' = set_errors f s"
    using run by (auto simp: handleReconcileResult_def logReconcileError_def Let_def split: option.splits)
  then show ?thesis using False ok kept by (auto simp: rec_frame_def same_config_def)
next
  case True
  then obtain e where e: "r = Some e" "errors_Is ErrDesiredMountStale e" "state_Get s (dm_key d) = Some d"
    by blast
  obtain x t where del: "state_Delete (dm_key d) s = (x, t)" by (metis surj_pair)
  have f: "rec_frame {dm_key d} s t" using Delete_handler_frame [OF ok del] by (rule handler_rec_frame)
  show ?thesis
  proof (cases x)
    case None
    then have s': "s' = set_errors (\<lambda>es. es(dm_key d := None)) t"
      using run e del by (simp add: handleReconcileResult_def)
    have "state_Get t = (state_Get s)(dm_key d := None)" using sv.get_del [OF ok] del None by blast
    then show ?thesis using deleted [OF e] f s' by (simp add: rec_frame_def same_config_def)
  next
    case (Some y)
    then have s': "\<exists>z. s' = set_errors (\<lambda>es. es(dm_key d \<mapsto> z)) t"
      using run e del by (auto simp: handleReconcileResult_def logReconcileError_def)
    have "state_Get t = state_Get s" using sv.get_del_failed [OF ok] del Some by blast
    then show ?thesis using not_deleted [OF e] f s' by (auto simp: rec_frame_def same_config_def)
  qed
qed

lemma handleReconcileResult_frame:
  "server_ok s \<Longrightarrow> rec_frame {dm_key d} s (handleReconcileResult d r s)"
  by (rule handleReconcileResult_cases [of s d r "handleReconcileResult d r s"])
     (auto intro: rec_frame_mono)

lemma handleReconcileResult_ok [inv_intros]: "server_ok s \<Longrightarrow> server_ok (handleReconcileResult d r s)"
  using handleReconcileResult_frame [of s d r] by (simp add: rec_frame_def)

lemma handleReconcileResult_node [simp]: "sv_node (handleReconcileResult d r s) = sv_node s"
  by (auto simp: handleReconcileResult_def Let_def logReconcileError_def dest!: state_Delete_frame
      split: option.splits prod.splits)

lemma handleReconcileResult_retrying [simp]: "sv_retrying (handleReconcileResult d r s) = sv_retrying s"
  by (auto simp: handleReconcileResult_def Let_def logReconcileError_def same_static_def
      dest!: state_Delete_frame split: option.splits prod.splits)

lemma reconcileMountForPod_retrying:
  assumes "server_ok s" and "reconcileMountForPod d pod s = (r, s')"
  shows "sv_retrying s' = sv_retrying s"
  using assms
  by (cases rule: reconcileMountForPod_cases)
     (auto simp: reconcile_outcome_def handler_frame_def same_static_def)

lemma reconcileMountForPod_ok:
  assumes "server_ok s" and "reconcileMountForPod d pod s = (r, s')"
  shows "server_ok s'" and "same_config s s'"
  using assms
  by (cases rule: reconcileMountForPod_cases;
      auto simp: reconcile_outcome_def handler_frame_def intro: same_static_config)+

lemma reconcileMount_ok:
  assumes "server_ok s" and "reconcileMount d s = (r, s')"
  shows "server_ok s'" and "sv_retrying s' = sv_retrying s"
  using assms reconcileMountForPod_ok(1) reconcileMountForPod_retrying
  by (fastforce simp: reconcileMount_def Let_def split: sum.splits if_splits)+

subsection \<open>The retry queue\<close>

text \<open>
  With \<open>fl\<close> the retries the workers hold: no key is queued or held twice, \<open>retrying\<close> is
  exactly the set of those keys, the attempts index \<open>reconcileRetryDelays\<close> and the channel
  never exceeds its capacity.
\<close>

definition retry_inv :: "reconcileRetry list \<Rightarrow> 'n Server \<times> retries \<Rightarrow> bool" where
  "retry_inv fl sq \<longleftrightarrow>
     distinct (map rr_key (snd sq @ fl)) \<and> set (map rr_key (snd sq @ fl)) = sv_retrying (fst sq) \<and>
     (\<forall>r \<in> set (snd sq @ fl). rr_attempt r < length reconcileRetryDelays) \<and>
     length (snd sq) \<le> reconcileRetryQueueSize"

lemma length_delays [simp]: "length reconcileRetryDelays = 5"
  by (simp add: reconcileRetryDelays_def)

lemma retry_inv_schedule:
  assumes "retry_inv fl (s, q)" and "sv_retrying s' = sv_retrying s"
  shows "retry_inv fl (scheduleReconcileRetry ctxDone d r (s', q))"
  using assms by (auto simp: scheduleReconcileRetry_def retry_inv_def Let_def)

lemma retry_inv_take: "retry_inv fl (s, retry # q) \<Longrightarrow> retry_inv (retry # fl) (s, q)"
  by (auto simp: retry_inv_def)

lemma retry_inv_process:
  assumes ok: "server_ok s" and inv: "retry_inv (retry # fl) (s, q)"
  shows "retry_inv fl (processReconcileRetry retry (s, q))"
proof (cases "state_Get s (rr_key retry)")
  case None
  then show ?thesis using inv by (auto simp: processReconcileRetry_def retry_inv_def)
next
  case (Some d)
  obtain e t where t: "reconcileMount d s = (e, t)" by (metis surj_pair)
  have "sv_retrying t = sv_retrying s" using reconcileMount_ok(2) [OF ok t] .
  then show ?thesis using inv Some t
    by (auto simp: processReconcileRetry_def retry_inv_def Let_def)
qed

text \<open>The rounds still to come for the queue; each round takes at least one off.\<close>

definition rounds_left :: "retries \<Rightarrow> nat" where
  "rounds_left q = sum_list (map (\<lambda>r. length reconcileRetryDelays - rr_attempt r) q)"

lemma processReconcileRetries_decreases:
  assumes "processReconcileRetries (s, q) = Some (s', q')"
    and "\<forall>r \<in> set q. rr_attempt r < length reconcileRetryDelays"
  shows "rounds_left q' < rounds_left q" and "\<forall>r \<in> set q'. rr_attempt r < length reconcileRetryDelays"
  using assms
  by (auto simp: processReconcileRetries_def processReconcileRetry_def rounds_left_def Let_def
      split: list.splits option.splits prod.splits if_splits)

fun retry_rounds :: "nat \<Rightarrow> 'n Server \<times> retries \<Rightarrow> 'n Server \<times> retries" where
  "retry_rounds 0 sq = sq"
| "retry_rounds (Suc n) sq =
     (case processReconcileRetries sq of None \<Rightarrow> sq | Some sq' \<Rightarrow> retry_rounds n sq')"

lemma retry_rounds_drain:
  assumes "\<forall>r \<in> set (snd sq). rr_attempt r < length reconcileRetryDelays" and "rounds_left (snd sq) \<le> n"
  shows "snd (retry_rounds n sq) = []"
  using assms
proof (induction n arbitrary: sq)
  case 0
  then show ?case by (cases "snd sq") (auto simp: rounds_left_def)
next
  case (Suc n)
  obtain s q where sq: "sq = (s, q)" by (cases sq)
  show ?case
  proof (cases "processReconcileRetries sq")
    case None
    then have "q = []"
      by (cases q) (simp_all add: sq processReconcileRetries_def)
    then show ?thesis using sq None by simp
  next
    case (Some sq')
    then have p: "processReconcileRetries (s, q) = Some (fst sq', snd sq')" using sq by simp
    have q: "\<forall>r \<in> set q. rr_attempt r < length reconcileRetryDelays" using Suc.prems(1) sq by simp
    have "snd (retry_rounds n sq') = []"
      using Suc.IH [of sq'] processReconcileRetries_decreases [OF p q] Suc.prems(2) sq by simp
    then show ?thesis using Some by simp
  qed
qed

lemma rounds_left_bound: "rounds_left q \<le> 5 * length q"
  by (induction q) (auto simp: rounds_left_def)

subsection \<open>Events and snapshots\<close>

lemma event_step_DELETED:
  "we_Type ev = ''DELETED'' \<Longrightarrow>
   event_step ctxDone ev d (s, q) =
     (handleReconcileResult d (Some (stale_error ''%w: pod %s/%s was deleted'' d)) s, q)"
  by (simp add: event_step_def)

lemma stale_error_Is [simp]: "errors_Is ErrDesiredMountStale (stale_error f d)"
  by (simp add: stale_error_def)

text \<open>After the DELETED event every intent of the list is gone, or its deletion has failed
  and is recorded; everything else, the node included, is as before.\<close>

lemma DELETED_fold:
  assumes del: "we_Type ev = ''DELETED''"
    and "server_ok s" and "distinct (map dm_key ds)"
    and "\<forall>d \<in> set ds. state_Get s (dm_key d) = Some d"
    and "fold (event_step ctxDone ev) ds (s, q) = (s', q')"
  shows "rec_frame (dm_key ` set ds) s s' \<and> q' = q \<and> sv_node s' = sv_node s \<and>
    sv_retrying s' = sv_retrying s \<and>
    (\<forall>d \<in> set ds. state_Get s' (dm_key d) = None \<or>
       state_Get s' (dm_key d) = Some d \<and> sv_reconcileErrors s' (dm_key d) \<noteq> None) \<and>
    (\<forall>k. k \<notin> dm_key ` set ds \<longrightarrow> sv_reconcileErrors s' k = sv_reconcileErrors s k)"
  using assms(2-)
proof (induction ds arbitrary: s)
  case Nil
  then show ?case by (simp add: rec_frame_refl)
next
  case (Cons d ds)
  define e where "e = stale_error ''%w: pod %s/%s was deleted'' d"
  let ?t = "handleReconcileResult d (Some e) s"
  have f: "rec_frame {dm_key d} s ?t" using Cons.prems(1) by (rule handleReconcileResult_frame)
  have ok: "server_ok ?t" using f by (simp add: rec_frame_def)
  have cur: "state_Get s (dm_key d) = Some d" using Cons.prems(3) by simp
  have others: "\<forall>x \<in> set ds. state_Get ?t (dm_key x) = Some x"
  proof
    fix x assume x: "x \<in> set ds"
    then have "dm_key x \<noteq> dm_key d" using Cons.prems(2) by (metis distinct.simps(2) image_eqI list.set_map list.simps(9))
    then show "state_Get ?t (dm_key x) = Some x" using f Cons.prems(3) x by (simp add: rec_frame_def)
  qed
  have errs: "\<forall>k. k \<noteq> dm_key d \<longrightarrow> sv_reconcileErrors ?t k = sv_reconcileErrors s k"
    by (auto simp: handleReconcileResult_def Let_def logReconcileError_def same_static_def
        dest!: state_Delete_frame split: option.splits prod.splits)
  have IH: "rec_frame (dm_key ` set ds) ?t s' \<and> q' = q \<and> sv_node s' = sv_node ?t \<and>
    sv_retrying s' = sv_retrying ?t \<and>
    (\<forall>d \<in> set ds. state_Get s' (dm_key d) = None \<or>
       state_Get s' (dm_key d) = Some d \<and> sv_reconcileErrors s' (dm_key d) \<noteq> None) \<and>
    (\<forall>k. k \<notin> dm_key ` set ds \<longrightarrow> sv_reconcileErrors s' k = sv_reconcileErrors ?t k)"
    using Cons.IH [OF ok _ others] Cons.prems(2,4) by (simp add: event_step_DELETED [OF del] flip: e_def)
  have fresh: "dm_key d \<notin> dm_key ` set ds" using Cons.prems(2) by auto
  have here: "state_Get ?t (dm_key d) = None \<or>
      state_Get ?t (dm_key d) = Some d \<and> sv_reconcileErrors ?t (dm_key d) \<noteq> None"
    using Cons.prems(1) refl
    by (rule handleReconcileResult_cases [of s d "Some e" ?t]) (use cur in \<open>auto simp: e_def\<close>)
  have "rec_frame (dm_key ` set (d # ds)) s s'"
    using rec_frame_mono [OF f, of "dm_key ` set (d # ds)"] IH
      rec_frame_mono [of "dm_key ` set ds" ?t s' "dm_key ` set (d # ds)"]
    by (auto intro: rec_frame_trans)
  moreover have "state_Get s' (dm_key d) = state_Get ?t (dm_key d)"
    using IH fresh by (auto simp: rec_frame_def)
  ultimately show ?case using IH here fresh errs by auto
qed

lemma sv_List_all:
  assumes "server_ok s"
  shows "distinct (map dm_key (List_all (sv_state s)))"
    and "d \<in> set (List_all (sv_state s)) \<longleftrightarrow> state_Get s (dm_key d) = Some d"
  using fs.all_sorted [OF assms] fs.in_all_iff [OF assms] by (simp_all add: state_Get_eq)

lemma sv_ListForPod:
  assumes "server_ok s"
  shows "distinct (map dm_key (ListForPod (sv_state s) p))"
    and "d \<in> set (ListForPod (sv_state s) p) \<longleftrightarrow> state_Get s (dm_key d) = Some d \<and> podKeyOf d = p"
  using fs.of_group_sorted [OF assms, of p] fs.of_group_filter [OF assms, of p] fs.in_all_iff [OF assms, of d]
  by (auto simp add: state_Get_eq)

text \<open>The retry queue keeps its invariant through every operation of the reconciler.\<close>

lemma schedule_fst [simp]:
  "sv_state (fst (scheduleReconcileRetry ctxDone d r (s, q))) = sv_state s"
  "same_config s (fst (scheduleReconcileRetry ctxDone d r (s, q)))"
  "sv_node (fst (scheduleReconcileRetry ctxDone d r (s, q))) = sv_node s"
  "state_Get (fst (scheduleReconcileRetry ctxDone d r (s, q))) = state_Get s"
  by (auto simp: scheduleReconcileRetry_def Let_def same_config_def)

lemma retry_inv_same_retrying:
  "retry_inv fl (s, q) \<Longrightarrow> sv_retrying s' = sv_retrying s \<Longrightarrow> retry_inv fl (s', q)"
  by (simp add: retry_inv_def)

lemma event_step_inv:
  assumes "server_ok (fst sq)" and "retry_inv fl sq"
  shows "server_ok (fst (event_step ctxDone ev d sq))" and "retry_inv fl (event_step ctxDone ev d sq)"
proof -
  obtain s q where sq: "sq = (s, q)" by (cases sq)
  obtain r t where t: "reconcileMountForPod d (we_Pod ev) s = (r, t)" by (metis surj_pair)
  have ok: "server_ok s" "retry_inv fl (s, q)" using assms sq by auto
  note ok' = reconcileMountForPod_ok [OF ok(1) t] reconcileMountForPod_retrying [OF ok(1) t]
  show "server_ok (fst (event_step ctxDone ev d sq))"
    using handleReconcileResult_ok [OF ok(1)] handleReconcileResult_ok [OF ok'(1)] t
    by (simp add: event_step_def sq)
  have "retry_inv fl (handleReconcileResult d x s, q)" for x
    using ok(2) by (rule retry_inv_same_retrying) simp
  moreover have "retry_inv fl (scheduleReconcileRetry ctxDone d r (handleReconcileResult d r t, q))"
    using ok(2) by (rule retry_inv_schedule) (simp add: ok'(3))
  ultimately show "retry_inv fl (event_step ctxDone ev d sq)"
    using t by (simp add: event_step_def sq)
qed

lemma snapshot_step_inv:
  assumes "server_ok (fst sq)" and "retry_inv fl sq"
  shows "server_ok (fst (snapshot_step ctxDone pods d sq))" and "retry_inv fl (snapshot_step ctxDone pods d sq)"
proof -
  obtain s q where sq: "sq = (s, q)" by (cases sq)
  have ok: "server_ok s" "retry_inv fl (s, q)" using assms sq by auto
  obtain r t where t: "(case pods (request_pod_string (dm_Request d)) of
      None \<Rightarrow> reconcile_missing d s | Some pod \<Rightarrow> reconcileMountForPod d pod s) = (r, t)"
    by (metis surj_pair)
  then have "(r, t) = (r, s) \<or> (\<exists>pod. reconcileMountForPod d pod s = (r, t))"
    by (auto simp: reconcile_missing_def Let_def split: option.splits sum.splits if_splits)
  then have t': "server_ok t" "sv_retrying t = sv_retrying s"
    using ok(1) reconcileMountForPod_ok(1) [OF ok(1)] reconcileMountForPod_retrying [OF ok(1)] by auto
  from handleReconcileResult_ok [OF t'(1)] show "server_ok (fst (snapshot_step ctxDone pods d sq))"
    by (simp add: snapshot_step_def sq t)
  have "retry_inv fl (scheduleReconcileRetry ctxDone d r (handleReconcileResult d r t, q))"
    using ok(2) by (rule retry_inv_schedule) (simp add: t'(2))
  then show "retry_inv fl (snapshot_step ctxDone pods d sq)" by (simp add: snapshot_step_def sq t)
qed

lemma fold_inv: "P x \<Longrightarrow> (\<And>y x. P x \<Longrightarrow> P (f y x)) \<Longrightarrow> P (fold f ys x)"
  by (induction ys arbitrary: x) simp_all

lemma reconcilePodEvent_inv:
  assumes "server_ok (fst sq)" and "retry_inv fl sq"
  shows "server_ok (fst (reconcilePodEvent c ev sq)) \<and> retry_inv fl (reconcilePodEvent c ev sq)"
  unfolding reconcilePodEvent_def
  by (rule fold_inv [where P = "\<lambda>x. server_ok (fst x) \<and> retry_inv fl x"]) (use assms event_step_inv in blast)+

lemma reconcilePodSnapshot_inv:
  assumes "server_ok (fst sq)" and "retry_inv fl sq"
  shows "server_ok (fst (reconcilePodSnapshot c pods sq)) \<and> retry_inv fl (reconcilePodSnapshot c pods sq)"
  unfolding reconcilePodSnapshot_def
  by (rule fold_inv [where P = "\<lambda>x. server_ok (fst x) \<and> retry_inv fl x"]) (use assms snapshot_step_inv in blast)+

lemma processReconcileRetry_ok:
  assumes ok: "server_ok s"
  shows "server_ok (fst (processReconcileRetry retry (s, q)))"
proof (cases "state_Get s (rr_key retry)")
  case None
  then show ?thesis using ok by (simp add: processReconcileRetry_def)
next
  case (Some d)
  obtain e t where t: "reconcileMount d s = (e, t)" by (metis surj_pair)
  then have "server_ok (handleReconcileResult d e t)"
    using handleReconcileResult_ok reconcileMount_ok(1) [OF ok t] by blast
  then show ?thesis using Some t by (simp add: processReconcileRetry_def Let_def)
qed

lemma retry_rounds_inv:
  assumes "server_ok (fst sq)" and "retry_inv [] sq"
  shows "server_ok (fst (retry_rounds n sq)) \<and> retry_inv [] (retry_rounds n sq)"
  using assms
proof (induction n arbitrary: sq)
  case (Suc n)
  obtain s q where sq: "sq = (s, q)" by (cases sq)
  show ?case
  proof (cases q)
    case Nil
    then show ?thesis using Suc.prems sq by (simp add: processReconcileRetries_def)
  next
    case (Cons retry q')
    have ok: "server_ok s" and inv: "retry_inv [] (s, retry # q')" using Suc.prems sq Cons by simp_all
    have "server_ok (fst (processReconcileRetry retry (s, q')))" using processReconcileRetry_ok [OF ok] .
    moreover have "retry_inv [] (processReconcileRetry retry (s, q'))"
      using retry_inv_process [OF ok retry_inv_take [OF inv]] .
    ultimately show ?thesis using Suc.IH sq Cons by (simp add: processReconcileRetries_def)
  qed
qed simp

end
