(* ===== verification/StoreReload.thy ===== *)
theory StoreReload
  imports StoreCorrect
begin

text \<open>
  Persistence: the JSON of a state file decodes to the mount it was made from, and loading
  the directory after a restart gives back the map that was in memory. \<open>disk_matches\<close>
  says that the directory describes the map; it holds after a load and is kept by every
  Put and Delete that succeeds. File names are hashes of keys, so two keys with the same
  hash would share a file: the hypothesis \<open>no_collision\<close> excludes that.
\<close>

subsection \<open>Encoding and decoding\<close>

lemma json_fold_fields [simp]:
  "json_fold ''api_version'' = ''api_version''" "json_fold ''driver_name'' = ''driver_name''"
  "json_fold ''namespace'' = ''namespace''" "json_fold ''pod_name'' = ''pod_name''"
  "json_fold ''pod_uid'' = ''pod_uid''" "json_fold ''pv_name'' = ''pv_name''"
  "json_fold ''source_sub_path'' = ''source_sub_path''" "json_fold ''target_path'' = ''target_path''"
  "json_fold ''container_name'' = ''container_name''" "json_fold ''request'' = ''request''"
  "json_fold ''container_id'' = ''container_id''"
  "json_fold ''export_root_authorized'' = ''export_root_authorized''"
  "json_fold ''export_root_key_fingerprint'' = ''export_root_key_fingerprint''"
  "json_fold ''version'' = ''version''" "json_fold ''mount'' = ''mount''"
  by (simp_all add: json_fold.simps ascii_lower_def)

lemma decode_opt_str:
  "decode_fields setter (opt_str k v) cur =
     (if v = [] then Some cur else setter (json_fold k) (JStr v) cur)"
  by (simp add: opt_str_def split: option.split)

lemma decode_opt_bool:
  "decode_fields setter (opt_bool k v) cur =
     (if v then setter (json_fold k) (JBool True) cur else Some cur)"
  by (simp add: opt_bool_def split: option.split)

lemma decode_encode_request:
  "decode_struct (set_request strict) (encode_request r) zero_MountRequest = Some r"
  by (cases r) (simp add: decode_struct_def encode_request_def decode_fields_append decode_opt_str
      set_request_def zero_MountRequest_def)

definition clear_legacy :: "desiredMount \<Rightarrow> desiredMount" where
  "clear_legacy m = m\<lparr>dm_legacyRootClassificationUnknown := False\<rparr>"

lemma decode_encode_desiredMount:
  "decode_struct set_desiredMount (encode_desiredMount m) zero_desiredMount = Some (clear_legacy m)"
  using decode_encode_request [of False "dm_Request m"]
  by (cases m) (simp add: decode_struct_def [of set_desiredMount] encode_desiredMount_def decode_fields_append
      decode_opt_str decode_opt_bool set_desiredMount_def zero_desiredMount_def clear_legacy_def)

lemma decode_encode_state:
  assumes "- (2 ^ 63) \<le> sf_Version f" and "sf_Version f < 2 ^ 63"
  shows "decode_state (encode_state f) = Some (f\<lparr>sf_Mount := clear_legacy (sf_Mount f)\<rparr>)"
  using assms decode_encode_desiredMount [of "sf_Mount f"]
  by (cases f) (simp add: decode_state_def encode_state_def decode_struct_def [of set_state] set_state_def
      decode_int_def)

subsection \<open>What a directory entry stands for\<close>

definition skipped :: "string \<times> dir_entry \<Rightarrow> bool" where
  "skipped e \<longleftrightarrow> snd e = SubDir \<or> \<not> HasSuffix (fst e) ''.json''"

definition represents :: "json \<Rightarrow> desiredMount \<Rightarrow> bool" where
  "represents doc m \<longleftrightarrow> (\<exists>st. decode_state doc = Some st \<and> classify_state [] st = Inr m)"

definition entry_of :: "string \<times> dir_entry \<Rightarrow> desiredMount \<Rightarrow> bool" where
  "entry_of e m \<longleftrightarrow> \<not> skipped e \<and> (\<exists>doc. snd e = JsonFile doc \<and> represents doc m) \<and> fst e = mount_file m"

lemma classify_path: "classify_state p st = Inr m \<longleftrightarrow> classify_state [] st = Inr m"
  by (simp add: classify_state_def)

lemma classify_path_Inl: "classify_state p st = Inl e \<Longrightarrow> \<exists>e'. classify_state [] st = Inl e'"
  using classify_path [of p st] by (cases "classify_state [] st") auto

lemma represents_unique: "represents doc m \<Longrightarrow> represents doc m' \<Longrightarrow> m = m'"
  by (auto simp: represents_def)

lemma entry_of_unique: "entry_of e m \<Longrightarrow> entry_of e m' \<Longrightarrow> m = m'"
  by (auto simp: entry_of_def dest: represents_unique)

lemma represents_state_doc: "represents (state_doc m) (clear_legacy m)"
  by (simp add: represents_def decode_encode_state mountStateVersion_def classify_state_def
      legacyMountStateVersion_def)

lemma clear_legacy_id: "\<not> dm_legacyRootClassificationUnknown m \<Longrightarrow> clear_legacy m = m"
  by (simp add: clear_legacy_def)

lemma dm_key_clear_legacy [simp]: "dm_key (clear_legacy m) = dm_key m"
  by (simp add: clear_legacy_def dm_key_def)

lemma HasSuffix_mount_file: "HasSuffix (mountStateFilename k) ''.json''"
  by (simp add: mountStateFilename_def HasSuffix_def HasPrefix_def)

lemma entry_of_state_doc:
  "\<not> dm_legacyRootClassificationUnknown m \<Longrightarrow> entry_of (mount_file m, JsonFile (state_doc m)) m"
  using represents_state_doc [of m]
  by (simp add: entry_of_def skipped_def HasSuffix_mount_file clear_legacy_id)

subsection \<open>Loading\<close>

lemma sys_no_fault: "\<not> dk_fail d (dk_clock d) \<Longrightarrow> sys d = (False, d\<lparr>dk_clock := Suc (dk_clock d)\<rparr>)"
  by (simp add: sys_def)

lemma load_entry_skipped: "skipped e \<Longrightarrow> load_entry e s = (Inr s, st_disk s)"
  by (cases e) (auto simp: load_entry_def skipped_def)

lemma load_entry_Inr:
  assumes "load_entry e s = (Inr s', d')" and "\<not> skipped e"
  obtains m d where "entry_of e m" and "s' = putInMemory m (s\<lparr>st_disk := d\<rparr>)"
    and "dk_files d = dk_files (st_disk s)" and "dk_fail d = dk_fail (st_disk s)"
proof -
  obtain name content where e: "e = (name, content)" by (cases e)
  let ?d = "(st_disk s)\<lparr>dk_clock := Suc (dk_clock (st_disk s))\<rparr>"
  note body = assms(1) [unfolded e load_entry_def]
  have ns: "\<not> (content = SubDir \<or> \<not> HasSuffix name ''.json'')"
    using assms(2) by (simp add: e skipped_def)
  obtain doc st m where doc: "content = JsonFile doc" "decode_state doc = Some st"
      "classify_state (path_Join [st_dir s, name]) st = Inr m" "name = mount_file m"
    and s': "s' = putInMemory m (s\<lparr>st_disk := ?d\<rparr>)"
    using body ns
    by (auto simp: sys_def Let_def split: if_splits dir_entry.splits option.splits sum.splits)
  moreover from doc(3) have "classify_state [] st = Inr m" by (rule classify_path [THEN iffD1])
  ultimately have "entry_of e m"
    using assms(2) by (auto simp: e entry_of_def represents_def)
  then show ?thesis using s' by (intro that [of m ?d]) simp_all
qed

lemma load_entry_total:
  assumes "entry_of e m" and "\<not> dk_fail (st_disk s) (dk_clock (st_disk s))"
  shows "\<exists>d. load_entry e s = (Inr (putInMemory m (s\<lparr>st_disk := d\<rparr>)), d)
             \<and> dk_fail d = dk_fail (st_disk s) \<and> dk_clock d = Suc (dk_clock (st_disk s))"
proof -
  obtain name content where e: "e = (name, content)" by (cases e)
  with assms(1) obtain doc st where "content = JsonFile doc" "decode_state doc = Some st"
    "classify_state [] st = Inr m" "name = mount_file m" "\<not> skipped e"
    by (auto simp: entry_of_def represents_def)
  then show ?thesis
    using assms(2) e
    by (simp add: load_entry_def skipped_def sys_def classify_path [of "path_Join _", THEN iffD2])
qed

lemma st_disk_putInMemory [simp]: "st_disk (putInMemory m s) = st_disk s"
  by (auto simp: putInMemory_def deleteInMemory_def Let_def split: option.splits)

fun entry_mounts :: "(string \<times> dir_entry) list \<Rightarrow> desiredMount list" where
  "entry_mounts [] = []"
| "entry_mounts (e # es) =
     (case snd e of
        JsonFile doc \<Rightarrow>
          (case decode_state doc of
             Some st \<Rightarrow>
               (case classify_state [] st of
                  Inr m \<Rightarrow> if skipped e then entry_mounts es else m # entry_mounts es
                | Inl _ \<Rightarrow> entry_mounts es)
           | None \<Rightarrow> entry_mounts es)
      | _ \<Rightarrow> entry_mounts es)"

lemma entry_mounts_skipped: "skipped e \<Longrightarrow> entry_mounts (e # es) = entry_mounts es"
  by (auto split: dir_entry.splits option.splits sum.splits)

lemma entry_mounts_entry: "entry_of e m \<Longrightarrow> entry_mounts (e # es) = m # entry_mounts es"
  by (auto simp: entry_of_def represents_def)

declare entry_mounts.simps(2) [simp del]

definition good_entry :: "string \<times> dir_entry \<Rightarrow> bool" where
  "good_entry e \<longleftrightarrow> skipped e \<or> (\<exists>m. entry_of e m)"

definition keyed :: "desiredMount list \<Rightarrow> (desiredMountKey \<times> desiredMount) list" where
  "keyed ms = map (\<lambda>m. (dm_key m, m)) ms"

lemma load_entries_Inr:
  assumes "load_entries es s = (Inr s', d')" and "store_inv s"
  shows "(\<forall>e \<in> set es. good_entry e) \<and> store_inv s' \<and> Get s' = Get s ++ map_of (rev (keyed (entry_mounts es)))
           \<and> dk_files (st_disk s') = dk_files (st_disk s)"
  using assms
proof (induction es arbitrary: s)
  case Nil
  then show ?case by (simp add: keyed_def)
next
  case (Cons e es)
  from Cons.prems(1) obtain s1 d1 where e: "load_entry e s = (Inr s1, d1)"
    and es: "load_entries es s1 = (Inr s', d')"
    by (auto split: prod.splits sum.splits)
  show ?case
  proof (cases "skipped e")
    case True
    with e es Cons.IH [of s] Cons.prems show ?thesis
      by (simp add: load_entry_skipped entry_mounts_skipped good_entry_def)
  next
    case False
    from load_entry_Inr [OF e False] obtain m d where m: "entry_of e m"
      and s1: "s1 = putInMemory m (s\<lparr>st_disk := d\<rparr>)" and d: "dk_files d = dk_files (st_disk s)"
      by metis
    from Cons.prems s1 have "store_inv s1" by (simp add: inv_intros)
    with Cons.IH es have ih: "(\<forall>e \<in> set es. good_entry e) \<and> store_inv s' \<and>
        Get s' = Get s1 ++ map_of (rev (keyed (entry_mounts es))) \<and> dk_files (st_disk s') = dk_files (st_disk s1)"
      by blast
    have "Get s1 = (Get s)(dm_key m \<mapsto> m)"
      using Cons.prems s1 by (simp add: Get_putInMemory)
    with ih m d s1 show ?thesis
      by (auto simp: entry_mounts_entry [OF m] good_entry_def keyed_def)
  qed
qed

text \<open>Loading makes two calls on the directory and one for each file it reads: when none of
  those fails and every entry is good, it returns a store.\<close>

lemma load_entries_total:
  assumes "\<forall>e \<in> set es. good_entry e"
    and "\<And>n. dk_clock (st_disk s) \<le> n \<Longrightarrow> n < dk_clock (st_disk s) + length es \<Longrightarrow> \<not> dk_fail (st_disk s) n"
  shows "\<exists>s' d'. load_entries es s = (Inr s', d')"
  using assms
proof (induction es arbitrary: s)
  case Nil
  then show ?case by simp
next
  case (Cons e es)
  show ?case
  proof (cases "skipped e")
    case True
    with Cons show ?thesis by (simp add: load_entry_skipped)
  next
    case False
    with Cons.prems obtain m where "entry_of e m" by (auto simp: good_entry_def)
    moreover have "\<not> dk_fail (st_disk s) (dk_clock (st_disk s))" using Cons.prems(2) by simp
    ultimately obtain d where
      e: "load_entry e s = (Inr (putInMemory m (s\<lparr>st_disk := d\<rparr>)), d)"
      and d: "dk_fail d = dk_fail (st_disk s)" "dk_clock d = Suc (dk_clock (st_disk s))"
      using load_entry_total by blast
    have "\<exists>s' d'. load_entries es (putInMemory m (s\<lparr>st_disk := d\<rparr>)) = (Inr s', d')"
      using Cons.prems d by (intro Cons.IH) simp_all
    with e show ?thesis by simp
  qed
qed

lemma load_total:
  assumes "dir \<noteq> []" and "\<forall>e \<in> set (dk_files d). good_entry e"
    and ok: "\<And>n. dk_clock d \<le> n \<Longrightarrow> n < dk_clock d + 2 + length (dk_files d) \<Longrightarrow> \<not> dk_fail d n"
  shows "\<exists>s' d'. newFileMountStateStore dir d = (Inr s', d')"
proof -
  let ?d0 = "d\<lparr>dk_clock := Suc (Suc (dk_clock d))\<rparr>"
  have "\<exists>s' d'. load_entries (sort_key fst (dk_files d)) (empty_store dir ?d0) = (Inr s', d')"
    using assms by (intro load_entries_total) (auto simp: empty_store_def)
  then show ?thesis
    using ok [of "dk_clock d"] ok [of "Suc (dk_clock d)"] \<open>dir \<noteq> []\<close>
    by (auto simp: newFileMountStateStore_def sys_def)
qed

subsection \<open>The directory describes the map\<close>

definition disk_matches :: "fileMountStateStore \<Rightarrow> bool" where
  "disk_matches s \<longleftrightarrow>
     distinct (map fst (dk_files (st_disk s))) \<and>
     (\<forall>name c. map_of (dk_files (st_disk s)) name = Some c \<longrightarrow>
        skipped (name, c) \<or> (\<exists>m. entry_of (name, c) m \<and> Get s (dm_key m) = Some m)) \<and>
     (\<forall>k m. Get s k = Some m \<longrightarrow>
        (\<exists>c. map_of (dk_files (st_disk s)) (mount_file m) = Some c \<and> entry_of (mount_file m, c) m))"

lemma disk_matches_fileD:
  "disk_matches s \<Longrightarrow> map_of (dk_files (st_disk s)) name = Some c \<Longrightarrow>
   skipped (name, c) \<or> (\<exists>m. entry_of (name, c) m \<and> Get s (dm_key m) = Some m)"
  by (simp add: disk_matches_def)

lemma disk_matches_mountD:
  "disk_matches s \<Longrightarrow> Get s k = Some m \<Longrightarrow>
   \<exists>c. map_of (dk_files (st_disk s)) (mount_file m) = Some c \<and> entry_of (mount_file m, c) m"
  unfolding disk_matches_def by blast

lemma entry_of_file: "entry_of (name, c) m \<Longrightarrow> name = mount_file m"
  by (simp add: entry_of_def)

lemma st_disk_deleteInMemory [simp]: "st_disk (deleteInMemory k s) = st_disk s"
  by (auto simp: deleteInMemory_def Let_def split: option.splits)

definition no_collision :: "fileMountStateStore \<Rightarrow> desiredMountKey \<Rightarrow> bool" where
  "no_collision s k \<longleftrightarrow> inj_on mountStateFilename (insert k (dom (Get s)))"

lemma entry_mounts_distinct:
  assumes "distinct (map fst es)" and "\<forall>e \<in> set es. good_entry e"
  shows "distinct (map dm_key (entry_mounts es)) \<and> (\<forall>m. m \<in> set (entry_mounts es) \<longleftrightarrow> (\<exists>e \<in> set es. entry_of e m))"
  using assms
proof (induction es)
  case Nil
  then show ?case by simp
next
  case (Cons e es)
  then have ih: "distinct (map dm_key (entry_mounts es))"
      "\<And>m. m \<in> set (entry_mounts es) \<longleftrightarrow> (\<exists>e \<in> set es. entry_of e m)" by simp_all
  show ?case
  proof (cases "skipped e")
    case True
    with ih show ?thesis by (auto simp: entry_mounts_skipped entry_of_def)
  next
    case False
    with Cons.prems obtain m where m: "entry_of e m" by (auto simp: good_entry_def)
    have "dm_key m \<notin> dm_key ` set (entry_mounts es)"
    proof
      assume "dm_key m \<in> dm_key ` set (entry_mounts es)"
      then obtain m' e' where "dm_key m' = dm_key m" "e' \<in> set es" "entry_of e' m'"
        using ih(2) by auto
      with m have "fst e' = fst e" by (simp add: entry_of_def)
      with \<open>e' \<in> set es\<close> have "fst e \<in> fst ` set es" by (metis image_eqI)
      with Cons.prems(1) show False by simp
    qed
    with ih m show ?thesis
      by (auto simp: entry_mounts_entry [OF m] dest: entry_of_unique)
  qed
qed

lemma fst_keyed: "map fst (keyed ms) = map dm_key ms"
  by (simp add: keyed_def)

lemma map_of_keyed:
  "distinct (map dm_key ms) \<Longrightarrow> map_of (rev (keyed ms)) k = Some m \<longleftrightarrow> m \<in> set ms \<and> dm_key m = k"
proof -
  assume d: "distinct (map dm_key ms)"
  have "map fst (rev (keyed ms)) = rev (map dm_key ms)"
    by (simp only: fst_keyed rev_map [symmetric])
  with d have "distinct (map fst (rev (keyed ms)))" by simp
  then show ?thesis by (subst map_of_eq_Some_iff) (auto simp: keyed_def)
qed

lemma newFile_load_entries:
  assumes "newFileMountStateStore dir d = (Inr s, d')"
  obtains d0 where "load_entries (sort_key fst (dk_files d)) (empty_store dir d0) = (Inr s, d')"
    and "dk_files d0 = dk_files d"
  using assms by (auto simp: newFileMountStateStore_def sys_def split: if_splits)

lemma load_spec:
  assumes load: "newFileMountStateStore dir d = (Inr s, d')" and dist: "distinct (map fst (dk_files d))"
  shows "store_inv s" and "\<forall>e \<in> set (dk_files d). good_entry e"
    and "dk_files (st_disk s) = dk_files d"
    and "Get s k = Some m \<longleftrightarrow> (\<exists>e \<in> set (dk_files d). entry_of e m) \<and> dm_key m = k"
proof -
  from newFile_load_entries [OF load] obtain d0 where
    l: "load_entries (sort_key fst (dk_files d)) (empty_store dir d0) = (Inr s, d')"
    and d0: "dk_files d0 = dk_files d" .
  have "distinct (map fst (sort_key fst (dk_files d)))"
    using dist mset_eq_imp_distinct_iff [of "map fst (sort_key fst (dk_files d))" "map fst (dk_files d)"] by simp
  moreover note res = load_entries_Inr [OF l store_inv_empty]
  ultimately have em: "distinct (map dm_key (entry_mounts (sort_key fst (dk_files d))))"
    "\<And>m. m \<in> set (entry_mounts (sort_key fst (dk_files d))) \<longleftrightarrow> (\<exists>e \<in> set (dk_files d). entry_of e m)"
    using entry_mounts_distinct [of "sort_key fst (dk_files d)"] by auto
  from res show "store_inv s" and "\<forall>e \<in> set (dk_files d). good_entry e"
    and "dk_files (st_disk s) = dk_files d"
    using d0 by (auto simp: empty_store_def)
  have "Get (empty_store dir d0) = Map.empty" by (rule ext) (simp add: Get_def empty_store_def)
  with res have "Get s = map_of (rev (keyed (entry_mounts (sort_key fst (dk_files d)))))" by simp
  then show "Get s k = Some m \<longleftrightarrow> (\<exists>e \<in> set (dk_files d). entry_of e m) \<and> dm_key m = k"
    using em by (simp add: map_of_keyed)
qed

lemma load_matches:
  assumes load: "newFileMountStateStore dir d = (Inr s, d')" and dist: "distinct (map fst (dk_files d))"
  shows "disk_matches s"
proof -
  note spec = load_spec [OF load dist]
  have "skipped (name, c) \<or> (\<exists>m. entry_of (name, c) m \<and> Get s (dm_key m) = Some m)"
    if "map_of (dk_files d) name = Some c" for name c
    using map_of_SomeD [OF that] spec(2,4) by (fastforce simp: good_entry_def)
  moreover have "\<exists>c. map_of (dk_files d) (mount_file m) = Some c \<and> entry_of (mount_file m, c) m"
    if "Get s k = Some m" for k m
  proof -
    from that spec(4) obtain e where e: "e \<in> set (dk_files d)" "entry_of e m" by blast
    then have "fst e = mount_file m" by (simp add: entry_of_def)
    with e have "(mount_file m, snd e) \<in> set (dk_files d)" and "entry_of (mount_file m, snd e) m"
      by (metis prod.collapse)+
    with dist show ?thesis by (auto intro: map_of_is_SomeI)
  qed
  ultimately show ?thesis using dist spec(3) by (simp add: disk_matches_def)
qed

text \<open>The file of a mount in place, the directory describes the map with the mount, whether
  or not the store has heard of it yet.\<close>

lemma written_matches:
  assumes inv: "store_inv s" and dm: "disk_matches s"
    and leg: "\<not> dm_legacyRootClassificationUnknown m" and coll: "no_collision s (dm_key m)"
    and d: "dk_files d = AList.update (mount_file m) (JsonFile (state_doc m)) (dk_files (st_disk s))"
  shows "disk_matches (putInMemory m (s\<lparr>st_disk := d\<rparr>))"
proof -
  define s' where s': "s' = putInMemory m (s\<lparr>st_disk := d\<rparr>)"
  have files: "map_of (dk_files (st_disk s')) =
      (map_of (dk_files (st_disk s)))(mount_file m \<mapsto> JsonFile (state_doc m))"
    by (simp add: s' d AList.update_conv')
  have get: "Get s' = (Get s)(dm_key m \<mapsto> m)" using inv by (simp add: s' Get_putInMemory)
  have "distinct (map fst (dk_files (st_disk s')))"
    using dm by (simp add: s' d disk_matches_def AList.distinct_update)
  moreover have "skipped (name, c) \<or> (\<exists>m. entry_of (name, c) m \<and> Get s' (dm_key m) = Some m)"
    if c: "map_of (dk_files (st_disk s')) name = Some c" for name c
  proof (cases "name = mount_file m")
    case True
    with c files get entry_of_state_doc [OF leg] show ?thesis by auto
  next
    case False
    with c files have old: "map_of (dk_files (st_disk s)) name = Some c" by simp
    show ?thesis
    proof (cases "skipped (name, c)")
      case True
      then show ?thesis ..
    next
      case ns: False
      with disk_matches_fileD [OF dm old] obtain m0
        where m0: "entry_of (name, c) m0" "Get s (dm_key m0) = Some m0" by blast
      then have "dm_key m0 \<noteq> dm_key m" using False entry_of_file by metis
      with m0 get show ?thesis by auto
    qed
  qed
  moreover have "\<exists>c. map_of (dk_files (st_disk s')) (mount_file m') = Some c \<and> entry_of (mount_file m', c) m'"
    if m': "Get s' k = Some m'" for k m'
  proof (cases "k = dm_key m")
    case True
    with m' get files entry_of_state_doc [OF leg] show ?thesis by simp
  next
    case False
    with m' get have old: "Get s k = Some m'" by simp
    then have "dm_key m' = k" by (rule fs.get_key [OF inv])
    with False old coll have "mount_file m' \<noteq> mount_file m"
      by (auto simp: no_collision_def inj_on_def)
    with disk_matches_mountD [OF dm old] files show ?thesis by simp
  qed
  ultimately have "disk_matches s'" unfolding disk_matches_def by blast
  then show ?thesis by (simp only: s')
qed

lemma Put_matches:
  assumes "Put m s = (None, s')" and "store_inv s" and "disk_matches s"
    and "\<not> dm_legacyRootClassificationUnknown m" and "no_collision s (dm_key m)"
  shows "disk_matches s'"
  using assms by (auto elim!: Put_cases intro: written_matches)

lemma Delete_matches:
  assumes del: "Delete k s = (None, s')" and inv: "store_inv s" and dm: "disk_matches s"
    and coll: "no_collision s k"
  shows "disk_matches s'"
  using del
proof (cases rule: Delete_cases)
  case absent
  with dm show ?thesis by simp
next
  case (removed d)
  have st: "st_disk s' = d" by (simp add: removed(3))
  have files: "map_of (dk_files (st_disk s')) = (map_of (dk_files (st_disk s)))(mountStateFilename k := None)"
    by (simp add: st removed(4) AList.delete_conv')
  have get: "Get s' = (Get s)(k := None)" by (rule fs.get_del [OF inv del])
  have "distinct (map fst (dk_files (st_disk s')))"
    using dm by (simp add: st removed(4) disk_matches_def AList.distinct_delete)
  moreover have "skipped (name, c) \<or> (\<exists>m. entry_of (name, c) m \<and> Get s' (dm_key m) = Some m)"
    if c: "map_of (dk_files (st_disk s')) name = Some c" for name c
  proof -
    from c files have "name \<noteq> mountStateFilename k" "map_of (dk_files (st_disk s)) name = Some c"
      by (auto split: if_splits)
    note c' = disk_matches_fileD [OF dm this(2)] this(1)
    then show ?thesis
    proof (cases "skipped (name, c)")
      case False
      with c'(1) obtain m0 where m0: "entry_of (name, c) m0" "Get s (dm_key m0) = Some m0" by blast
      then have "dm_key m0 \<noteq> k" using c'(2) entry_of_file by metis
      with m0 get show ?thesis by auto
    qed simp
  qed
  moreover have "\<exists>c. map_of (dk_files (st_disk s')) (mount_file m') = Some c \<and> entry_of (mount_file m', c) m'"
    if m': "Get s' k' = Some m'" for k' m'
  proof -
    from m' get have old: "Get s k' = Some m'" and "k' \<noteq> k" by (auto split: if_splits)
    then have "dm_key m' = k'" by (intro fs.get_key [OF inv])
    with \<open>k' \<noteq> k\<close> old coll have "mount_file m' \<noteq> mountStateFilename k"
      by (auto simp: no_collision_def inj_on_def)
    with disk_matches_mountD [OF dm old] files show ?thesis by simp
  qed
  ultimately show ?thesis unfolding disk_matches_def by blast
qed simp

text \<open>A restart that reads the directory without an I/O error gets the same map back.\<close>

lemma reload_same:
  assumes inv: "store_inv s" and dm: "disk_matches s" and "dir \<noteq> []"
    and ok: "\<And>n. \<not> dk_fail d n" and files: "dk_files d = dk_files (st_disk s)"
  shows "\<exists>s' d'. newFileMountStateStore dir d = (Inr s', d') \<and> Get s' = Get s"
proof -
  have good: "good_entry e" if "e \<in> set (dk_files d)" for e
  proof -
    have "map_of (dk_files (st_disk s)) (fst e) = Some (snd e)"
      using that dm files by (auto simp: disk_matches_def intro: map_of_is_SomeI)
    from disk_matches_fileD [OF dm this] show ?thesis by (auto simp: good_entry_def)
  qed
  obtain s' d' where load: "newFileMountStateStore dir d = (Inr s', d')"
    using load_total [of dir d] good ok \<open>dir \<noteq> []\<close> by blast
  have dist: "distinct (map fst (dk_files d))" using dm files by (simp add: disk_matches_def)
  have "Get s' k = Some m \<longleftrightarrow> Get s k = Some m" for k m
  proof
    assume "Get s' k = Some m"
    then obtain e where e: "e \<in> set (dk_files d)" "entry_of e m" "dm_key m = k"
      using load_spec(4) [OF load dist] by blast
    then have "map_of (dk_files (st_disk s)) (fst e) = Some (snd e)"
      using dist files by (auto intro: map_of_is_SomeI)
    from disk_matches_fileD [OF dm this] e(2) have "\<exists>m'. entry_of e m' \<and> Get s (dm_key m') = Some m'"
      by (auto simp: entry_of_def)
    with e show "Get s k = Some m" by (auto dest: entry_of_unique)
  next
    assume m: "Get s k = Some m"
    from disk_matches_mountD [OF dm m] files obtain c where
      "map_of (dk_files d) (mount_file m) = Some c" "entry_of (mount_file m, c) m" by auto
    with m show "Get s' k = Some m"
      using load_spec(4) [OF load dist] fs.get_key [OF inv m] by (blast dest: map_of_SomeD)
  qed
  then have "Get s' = Get s" by (intro ext) (metis option.exhaust)
  with load show ?thesis by blast
qed

end
