(* ===== verification/System.thy ===== *)
theory System
  imports ReconcileCorrect StoreReload
begin

text \<open>
  What all operations of the wrapper keep of its intents, in memory and on disk: \<open>holds P\<close> says
  that every intent has a property \<open>P\<close>, and \<open>rec_ok\<close> adds the fields no operation of the
  reconciler changes. Theory Concurrent builds the invariant of the running wrapper on it.
\<close>

subsection \<open>A property of all intents, in memory and on disk\<close>

definition disk_holds :: "(desiredMount \<Rightarrow> bool) \<Rightarrow> fileMountStateStore \<Rightarrow> bool" where
  "disk_holds P s \<longleftrightarrow>
     distinct (map fst (dk_files (st_disk s))) \<and>
     (\<forall>e \<in> set (dk_files (st_disk s)). good_entry e \<and> (\<forall>m. entry_of e m \<longrightarrow> P m))"

definition holds :: "(desiredMount \<Rightarrow> bool) \<Rightarrow> 'n Server \<Rightarrow> bool" where
  "holds P s \<longleftrightarrow> server_ok s \<and> (\<forall>k m. state_Get s k = Some m \<longrightarrow> P m) \<and> disk_holds P (sv_state s)"

text \<open>Properties that do not look at the container or the legacy flag.\<close>

definition intent_property :: "(desiredMount \<Rightarrow> bool) \<Rightarrow> bool" where
  "intent_property P \<longleftrightarrow> (\<forall>m c. P m \<longrightarrow> P (clear_legacy m) \<and> P (m\<lparr>dm_ContainerID := c\<rparr>))"

lemma intent_propertyD:
  "intent_property P \<Longrightarrow> P m \<Longrightarrow> P (clear_legacy m)"
  "intent_property P \<Longrightarrow> P m \<Longrightarrow> P (m\<lparr>dm_ContainerID := c\<rparr>)"
  by (auto simp: intent_property_def)

lemma holds_server_ok: "holds P s \<Longrightarrow> server_ok s"
  by (simp add: holds_def)

lemma holds_Get: "holds P s \<Longrightarrow> state_Get s k = Some m \<Longrightarrow> P m"
  by (auto simp: holds_def)

lemma set_AList_update: "e \<in> set (AList.update k v xs) \<Longrightarrow> e = (k, v) \<or> e \<in> set xs"
  by (induction xs) (auto split: if_splits)

lemma set_AList_delete: "e \<in> set (AList.delete k xs) \<Longrightarrow> e \<in> set xs"
  by (auto simp: AList.delete_eq)

lemma entry_state_doc: "entry_of (mount_file m, JsonFile (state_doc m)) (clear_legacy m)"
  using represents_state_doc [of m]
  by (simp add: entry_of_def skipped_def HasSuffix_mount_file)

lemma disk_holds_write:
  assumes "disk_holds P s" and "P (clear_legacy m)"
    and "dk_files d = dk_files (st_disk s) \<or>
         dk_files d = AList.update (mount_file m) (JsonFile (state_doc m)) (dk_files (st_disk s))"
  shows "disk_holds P (s\<lparr>st_disk := d\<rparr>)"
proof -
  have new: "good_entry (mount_file m, JsonFile (state_doc m))"
    using entry_state_doc [of m] unfolding good_entry_def by blast
  have newP: "\<forall>x. entry_of (mount_file m, JsonFile (state_doc m)) x \<longrightarrow> P x"
    using entry_of_unique [OF _ entry_state_doc [of m]] assms(2) by metis
  from assms(3) show ?thesis
  proof
    assume "dk_files d = dk_files (st_disk s)"
    then show ?thesis using assms(1) by (simp add: disk_holds_def)
  next
    assume d: "dk_files d = AList.update (mount_file m) (JsonFile (state_doc m)) (dk_files (st_disk s))"
    show ?thesis
      unfolding disk_holds_def
    proof (intro conjI ballI)
      show "distinct (map fst (dk_files (st_disk (s\<lparr>st_disk := d\<rparr>))))"
        using assms(1) by (simp add: d disk_holds_def AList.distinct_update)
      fix e assume "e \<in> set (dk_files (st_disk (s\<lparr>st_disk := d\<rparr>)))"
      then have e: "e = (mount_file m, JsonFile (state_doc m)) \<or> e \<in> set (dk_files (st_disk s))"
        by (simp add: d set_AList_update)
      then show "good_entry e" and "\<forall>m. entry_of e m \<longrightarrow> P m"
        using new newP assms(1) unfolding disk_holds_def by blast+
    qed
  qed
qed

lemma disk_holds_delete:
  assumes "disk_holds P s"
    and "dk_files d = dk_files (st_disk s) \<or> dk_files d = AList.delete name (dk_files (st_disk s))"
  shows "disk_holds P (s\<lparr>st_disk := d\<rparr>)"
proof -
  have "set (dk_files d) \<subseteq> set (dk_files (st_disk s))"
    using assms(2) set_AList_delete [of _ name "dk_files (st_disk s)"] by auto
  moreover have "distinct (map fst (dk_files d))"
    using assms AList.distinct_delete [of "dk_files (st_disk s)" name] by (auto simp: disk_holds_def)
  ultimately show ?thesis using assms(1) by (auto simp: disk_holds_def)
qed

lemma disk_holds_in_memory [simp]:
  "disk_holds P (putInMemory m s) = disk_holds P s"
  "disk_holds P (deleteInMemory k s) = disk_holds P s"
  by (simp_all add: disk_holds_def)

lemma state_Put_holds:
  assumes h: "holds P s" and P: "intent_property P" "P m" and put: "state_Put m s = (r, s')"
  shows "holds P s'"
proof -
  obtain st where st: "Put m (sv_state s) = (r, st)" and s': "s' = s\<lparr>sv_state := st\<rparr>"
    using put by (auto simp: state_Put_def split: prod.splits)
  have "disk_holds P st"
    using st
  proof (cases rule: Put_cases)
    case (stored d)
    then have "disk_holds P (sv_state s\<lparr>st_disk := d\<rparr>)"
      using h by (intro disk_holds_write [where m = m] intent_propertyD(1) [OF P]) (simp_all add: holds_def)
    then show ?thesis using stored by simp
  next
    case (failed d e)
    then show ?thesis
      using h by (auto simp: holds_def intro!: disk_holds_write [where m = m] intent_propertyD(1) [OF P])
  qed
  moreover have "P x" if "state_Get s' k = Some x" for k x
    using that h P(2) sv.get_put [OF holds_server_ok [OF h], of m s']
      sv.get_put_failed [OF holds_server_ok [OF h], of m _ s'] put
    by (cases r) (auto simp: holds_def split: if_splits)
  ultimately show ?thesis
    using sv.put_ok [OF holds_server_ok [OF h] put] by (auto simp: holds_def s')
qed

lemma state_Delete_holds:
  assumes h: "holds P s" and del: "state_Delete k s = (r, s')"
  shows "holds P s'"
proof -
  obtain st where st: "Delete k (sv_state s) = (r, st)" and s': "s' = s\<lparr>sv_state := st\<rparr>"
    using del by (auto simp: state_Delete_def split: prod.splits)
  have "disk_holds P st"
    using st
  proof (cases rule: Delete_cases)
    case absent
    then show ?thesis using h by (simp add: holds_def)
  next
    case (removed d)
    then have "disk_holds P (sv_state s\<lparr>st_disk := d\<rparr>)"
      using h by (intro disk_holds_delete [where name = "mountStateFilename k"]) (simp_all add: holds_def)
    then show ?thesis using removed by simp
  next
    case (failed d e)
    then show ?thesis
      using h by (auto simp: holds_def intro!: disk_holds_delete [where name = "mountStateFilename k"])
  qed
  moreover have "P x" if "state_Get s' j = Some x" for j x
    using that h sv.get_del [OF holds_server_ok [OF h], of k s']
      sv.get_del_failed [OF holds_server_ok [OF h], of k _ s'] del
    by (cases r) (auto simp: holds_def split: if_splits)
  ultimately show ?thesis
    using sv.del_ok [OF holds_server_ok [OF h] del] by (auto simp: holds_def s')
qed

lemma holds_other_fields [simp]:
  "holds P (s\<lparr>sv_node := n\<rparr>) = holds P s" "holds P (set_errors f s) = holds P s"
  "holds P (set_retrying g s) = holds P s" "holds P (s\<lparr>sv_kube := k\<rparr>) = holds P s"
  by (simp_all add: holds_def state_Get_eq set_errors_def set_retrying_def)

lemma node_holds:
  "node_Mount plan s = (r, s') \<Longrightarrow> holds P s' = holds P s"
  "node_Unmount plan s = (r, s') \<Longrightarrow> holds P s' = holds P s"
  "node_IsMounted plan s = (b, s') \<Longrightarrow> holds P s' = holds P s"
  by (auto simp: node_Mount_iff node_Unmount_iff node_IsMounted_iff)

subsection \<open>The operations keep it\<close>

lemma restore_holds:
  assumes "holds P s" and "intent_property P" and "\<And>p. previous = Some p \<Longrightarrow> P p"
    and "restoreDesiredMount k previous s = (r, s')"
  shows "holds P s'"
  using assms by (auto simp: restoreDesiredMount_def dest: state_Put_holds state_Delete_holds
      split: option.splits prod.splits)

lemma mount_apply_holds:
  assumes "holds P s" and "intent_property P" and "P desired" and "\<And>p. previous = Some p \<Longrightarrow> P p"
    and "mount_apply request plan desired previous s = (r, s')"
  shows "holds P s'"
proof -
  note P = assms(2) intent_propertyD(2) [OF assms(2,3)]
  obtain r1 s1 where put: "state_Put desired s = (r1, s1)" by (metis surj_pair)
  have h1: "holds P s1" using state_Put_holds [OF assms(1-3) put] .
  obtain r2 s2 where m: "node_Mount plan s1 = (r2, s2)" by (metis surj_pair)
  have h2: "holds P s2" using node_holds(1) [OF m] h1 by simp
  show ?thesis
    using assms(5) put m h1 state_Put_holds [OF h2 P] restore_holds [OF h2 assms(2,4)]
    by (auto simp: mount_apply_def split: option.splits prod.splits)
qed

lemma refresh_holds:
  assumes "holds P s" and "intent_property P" and "P (p\<lparr>dm_ExportRootKeyFingerprint := fp\<rparr>)"
    and "refresh_fingerprint fp p s = (r, s')"
  shows "holds P s'"
  using assms by (auto simp: refresh_fingerprint_def Let_def dest: state_Put_holds
      split: if_splits option.splits prod.splits)

lemma mount_existing_holds:
  assumes "holds P s" and "intent_property P" and "P desired" and "P p"
    and run: "mount_existing request plan desired p s = (r, s')"
  shows "holds P s'"
proof -
  note P = assms(2) intent_propertyD(2) [OF assms(2,4)]
  obtain b s1 where m: "node_IsMounted plan s = (b, s1)" by (metis surj_pair)
  have h1: "holds P s1" using node_holds(3) [OF m] assms(1) by simp
  have app: "mount_apply request plan desired (Some p) t = (r, s') \<Longrightarrow> holds P t \<Longrightarrow> holds P s'" for t
    using mount_apply_holds [OF _ assms(2,3)] assms(4) by blast
  show ?thesis
    using run m h1 app assms(1) state_Put_holds [OF h1 P]
    by (auto simp: mount_existing_def split: if_splits sum.splits bool.splits option.splits prod.splits)
qed

lemma mount_locked_holds:
  assumes h: "holds P s" and P: "intent_property P" and d: "P (fresh_intent request plan fp)"
    and f: "\<And>p. P p \<Longrightarrow> dm_Request p = request \<Longrightarrow> dm_ExportRootAuthorized p = IsNFSExportRoot plan \<Longrightarrow>
              P (p\<lparr>dm_ExportRootKeyFingerprint := fp\<rparr>)"
    and run: "mount_locked request plan fp s = (r, s')"
  shows "holds P s'"
proof (cases "state_Get s (desiredMountKeyFor request)")
  case None
  then show ?thesis using run mount_apply_holds [OF h P d, of None] by (simp add: mount_locked_def Let_def)
next
  case (Some p)
  show ?thesis
  proof (cases "mount_conflict request plan s")
    case True
    then show ?thesis using mount_locked_conflict [OF True] run h by (metis Pair_inject)
  next
    case False
    then have same: "dm_Request p = request" "dm_ExportRootAuthorized p = IsNFSExportRoot plan"
      using Some by (auto simp: mount_conflict_def)
    let ?p = "p\<lparr>dm_ExportRootKeyFingerprint := fp\<rparr>"
    have p: "P ?p" using holds_Get [OF h Some] same by (rule f)
    obtain r1 s1 where ref: "refresh_fingerprint fp p s = (r1, s1)" by (metis surj_pair)
    have h1: "holds P s1" using refresh_holds [OF h P p ref] .
    have r1: "r1 = Inr ?p \<or> (\<exists>e. r1 = Inl e)"
      using holds_server_ok [OF h] Some ref by (rule refresh_effect) auto
    show ?thesis
    proof (cases "r1 = Inr ?p")
      case True
      then have "mount_existing request plan (fresh_intent request plan fp) ?p s1 = (r, s')"
        using run Some same ref by (simp add: mount_locked_def Let_def)
      then show ?thesis using mount_existing_holds [OF h1 P d p] by blast
    next
      case False
      then have "s' = s1" using r1 run Some same ref by (auto simp: mount_locked_def Let_def)
      then show ?thesis using h1 by simp
    qed
  qed
qed

lemma unmount_locked_holds:
  assumes h: "holds P s" and P: "intent_property P" and run: "unmount_locked q pod status s = (r, s')"
  shows "holds P s'"
proof (cases "state_Get s (desiredMountKeyFor q)")
  case None
  then show ?thesis using run h by (auto simp: unmount_locked_def Let_def)
next
  case (Some p)
  let ?k = "desiredMountKeyFor q" and ?plan = "unmount_plan q pod status"
  have p: "\<And>x. Some p = Some x \<Longrightarrow> P x" using holds_Get [OF h Some] by simp
  obtain r1 s1 where del: "state_Delete ?k s = (r1, s1)" by (metis surj_pair)
  have h1: "holds P s1" using state_Delete_holds [OF h del] .
  obtain b s2 where m: "node_IsMounted ?plan s1 = (b, s2)" by (metis surj_pair)
  have h2: "holds P s2" using node_holds(3) [OF m] h1 by simp
  obtain u s3 where um: "node_Unmount ?plan s2 = (u, s3)" by (metis surj_pair)
  have h3: "holds P s3" using node_holds(2) [OF um] h2 by simp
  have rest: "restoreDesiredMount ?k (Some p) t = (x, y) \<Longrightarrow> holds P t \<Longrightarrow> holds P y" for t x y
    using restore_holds [OF _ P p] by blast
  note simps = unmount_locked_def Let_def Some del m um
  show ?thesis
  proof (cases "rq_PVName (dm_Request p) = rq_PVName q")
    case False
    then show ?thesis using run h by (auto simp: simps)
  next
    case pv: True
    show ?thesis
    proof (cases "dm_ContainerID p = [] \<or> dm_ContainerID p \<noteq> cs_ContainerID status \<or> r1 \<noteq> None")
      case True
      then have "s' = s1" using run pv by (auto simp: simps split: option.splits if_splits)
      then show ?thesis using h1 by simp
    next
      case own: False
      show ?thesis
      proof (cases b)
        case (Inl e)
        then have "s' = snd (restoreDesiredMount ?k (Some p) s2)"
          using run pv own by (simp add: simps split: prod.splits)
        then show ?thesis using rest [OF surjective_pairing h2] by simp
      next
        case (Inr mounted)
        show ?thesis
        proof (cases "mounted \<and> u \<noteq> None")
          case True
          then have "s' = snd (restoreDesiredMount ?k (Some p) s3)"
            using run pv own Inr by (auto simp: simps split: prod.splits)
          then show ?thesis using rest [OF surjective_pairing h3] by simp
        next
          case False
          then have "s' = (if mounted then s3 else s2)"
            using run pv own Inr by (cases mounted) (auto simp: simps)
          then show ?thesis using h2 h3 by simp
        qed
      qed
    qed
  qed
qed

subsection \<open>The intents a handler accepts\<close>

definition intent_ok :: "WrapperConfig \<Rightarrow> desiredMount \<Rightarrow> bool" where
  "intent_ok cfg m \<longleftrightarrow>
     stored_form cfg m \<and> (dm_ExportRootKeyFingerprint m \<noteq> [] \<longrightarrow> dm_ExportRootAuthorized m)"

lemma intent_property_ok: "intent_property (intent_ok cfg)"
  by (simp add: intent_property_def intent_ok_def stored_form_def clear_legacy_def)

text \<open>What the API server guarantees of the Pods it returns: every container has a name.\<close>

definition named_containers :: "kube_client \<Rightarrow> bool" where
  "named_containers kube \<longleftrightarrow>
     (\<forall>ns name pod. kc_GetPod kube ns name = Inr pod \<longrightarrow>
        (\<forall>st \<in> set (ps_ContainerStatuses (pod_Status pod)). cs_Name st \<noteq> []))"

lemma record_container_holds:
  assumes "holds P s" and "intent_property P" and "P d" and "record_container d plan s = (r, s')"
  shows "holds P s'"
  using assms intent_propertyD(2) [OF assms(2,3)]
  by (auto simp: record_container_def dest: state_Put_holds split: option.splits prod.splits)

lemma reconcile_apply_holds:
  assumes h: "holds P s" and P: "intent_property P" "P d" and run: "reconcile_apply d plan s = (r, s')"
  shows "holds P s'"
proof -
  have mnt: "holds P y" if "reconcile_mount d plan t = (x, y)" and "holds P t" for t x y
  proof -
    obtain x1 t1 where nm: "node_Mount plan t = (x1, t1)" by (metis surj_pair)
    have "holds P t1" using node_holds(1) [OF nm, of P] that(2) by simp
    then show "holds P y" using that(1) nm record_container_holds [OF _ P]
      by (auto simp: reconcile_mount_def split: option.splits)
  qed
  obtain b s1 where m: "node_IsMounted plan s = (b, s1)" by (metis surj_pair)
  have h1: "holds P s1" using node_holds(3) [OF m] h by simp
  show ?thesis
    using run m h h1 mnt record_container_holds [OF h1 P]
    by (auto simp: reconcile_apply_def split: if_splits sum.splits bool.splits)
qed

lemma reconcileMountForPod_holds:
  assumes h: "holds (intent_ok (sv_cfg s)) s" and run: "reconcileMountForPod d pod s = (r, s')"
  shows "holds (intent_ok (sv_cfg s)) s'"
proof (cases "state_Get s (dm_key d) = Some d \<and>
    (\<exists>d' plan. reconcile_plan (sv_cfg s) (sv_kube s) (sv_exportRoot s) d pod = Inr (Some (d', plan)))")
  case True
  then obtain d' plan where cur: "state_Get s (dm_key d) = Some d"
    and p: "reconcile_plan (sv_cfg s) (sv_kube s) (sv_exportRoot s) d pod = Inr (Some (d', plan))" by blast
  note ready = reconcile_plan_Inr [OF p]
  have d: "intent_ok (sv_cfg s) d" using holds_Get [OF h cur] .
  then have req: "dm_Request d' = dm_Request d"
    using reconcile_ready_request [OF ready] by (simp add: intent_ok_def)
  have "root_allowed (sv_exportRoot s) plan d d'" using ready by (simp add: reconcile_ready_def)
  then have "intent_ok (sv_cfg s) d'"
    using d req by (auto simp: intent_ok_def stored_form_def root_allowed_def split: if_splits)
  moreover have "reconcile_apply d' plan s = (r, s')"
    using run cur p by (simp add: reconcileMountForPod_def)
  ultimately show ?thesis using reconcile_apply_holds [OF h intent_property_ok] by blast
next
  case False
  then have "s' = s"
    using run by (auto simp: reconcileMountForPod_def split: option.splits if_splits sum.splits)
  then show ?thesis using h by simp
qed

lemma handleReconcileResult_holds: "holds P s \<Longrightarrow> holds P (handleReconcileResult d r s)"
  by (auto simp: handleReconcileResult_def Let_def logReconcileError_def
      dest: state_Delete_holds split: option.splits prod.splits)

text \<open>With the fields that no operation of the reconciler changes.\<close>

definition rec_ok :: "WrapperConfig \<Rightarrow> kube_client \<Rightarrow> exportRootAuthorizer \<Rightarrow> 'n Server \<Rightarrow> bool" where
  "rec_ok cfg kube a s \<longleftrightarrow>
     holds (intent_ok cfg) s \<and> sv_cfg s = cfg \<and> sv_kube s = kube \<and> sv_exportRoot s = a"

lemma rec_ok_reconcile:
  assumes s: "rec_ok cfg kube a s" and run: "reconcileMountForPod d pod s = (r, t)"
  shows "rec_ok cfg kube a t"
proof -
  have h: "holds (intent_ok (sv_cfg s)) s" using s by (simp add: rec_ok_def)
  have "same_config s t" using reconcileMountForPod_ok(2) [OF holds_server_ok [OF h] run] .
  then show ?thesis using s reconcileMountForPod_holds [OF h run] by (simp add: rec_ok_def same_config_def)
qed

lemma rec_ok_handle: "rec_ok cfg kube a s \<Longrightarrow> rec_ok cfg kube a (handleReconcileResult d r s)"
  using handleReconcileResult_frame [of s d r]
  by (auto simp: rec_ok_def rec_frame_def same_config_def dest: holds_server_ok intro: handleReconcileResult_holds)

lemma rec_ok_schedule: "rec_ok cfg kube a s \<Longrightarrow> rec_ok cfg kube a (fst (scheduleReconcileRetry c d r (s, q)))"
  by (auto simp: scheduleReconcileRetry_def Let_def rec_ok_def)

lemma rec_ok_retrying [simp]: "rec_ok cfg kube a (set_retrying f s) = rec_ok cfg kube a s"
  using holds_other_fields(3) [of "intent_ok cfg" f s] by (simp add: rec_ok_def set_retrying_def)

subsection \<open>A new server\<close>

lemma newServerWithState_Inr:
  assumes "newServerWithState readFile cfg kube mounter n st = Inr s"
  shows "sv_cfg s = cfg" "sv_kube s = kube" "sv_mounter s = mounter" "sv_node s = n" "sv_state s = st"
    and "sv_retrying s = {}" "sv_reconcileErrors s = Map.empty" "authorizer_ok (sv_exportRoot s)"
  using assms by (auto simp: newServerWithState_def dest: load_authorizer_ok split: sum.splits)

lemma NewServer_Inr:
  assumes "NewServer readFile cfg kube mounter n d = (Inr s, d')"
  obtains st d1 where "newFileMountStateStore (wc_MountStateDir cfg) d = (Inr st, d1)"
    and "newServerWithState readFile cfg kube mounter n st = Inr s"
  using assms by (auto simp: NewServer_def split: prod.splits sum.splits)

lemma load_holds:
  assumes load: "newFileMountStateStore dir d = (Inr st, d')"
    and d: "distinct (map fst (dk_files d))" "\<And>e m. e \<in> set (dk_files d) \<Longrightarrow> entry_of e m \<Longrightarrow> P m"
    and s: "sv_state s = st"
  shows "holds P s"
  using load_spec [OF load d(1)] d s by (fastforce simp: holds_def disk_holds_def state_Get_eq)

end
