(* ===== verification/HandlerLive.thy ===== *)
theory HandlerLive
  imports HandlerCorrect
begin

text \<open>
  That the handlers return results: with a disk that does not fail, an authorized request
  that does not conflict succeeds when the node does. These lemmas are the converse of the
  case lemmas of theory HandlerCorrect.
\<close>

subsection \<open>A healthy disk\<close>

text \<open>No system call fails, and no directory lies where a state file belongs.\<close>

definition healthy :: "fileMountStateStore \<Rightarrow> bool" where
  "healthy s \<longleftrightarrow> (\<forall>n. \<not> dk_fail (st_disk s) n) \<and> SubDir \<notin> snd ` set (dk_files (st_disk s))"

lemma sys_no_fail: "\<forall>n. \<not> dk_fail d n \<Longrightarrow> sys d = (False, d\<lparr>dk_clock := Suc (dk_clock d)\<rparr>)"
  by (simp add: sys_def)

lemma temp_steps_no_fail:
  "\<forall>n. \<not> dk_fail d n \<Longrightarrow>
   temp_steps ops t d =
     ((None, fold (\<lambda>op. temp_effect op False) ops t), d\<lparr>dk_clock := length ops + dk_clock d\<rparr>)"
  by (induction ops arbitrary: t d) (simp_all add: sys_no_fail)

lemma AList_update_snd: "x \<in> snd ` set (AList.update k v xs) \<Longrightarrow> x = v \<or> x \<in> snd ` set xs"
  by (induction xs) (auto split: if_splits)

lemma AList_delete_snd: "x \<in> snd ` set (AList.delete k xs) \<Longrightarrow> x \<in> snd ` set xs"
  by (auto simp: AList.delete_eq)

lemma writeMountLocked_healthy:
  assumes f: "\<forall>n. \<not> dk_fail d n" and d: "SubDir \<notin> snd ` set (dk_files d)"
  shows "\<exists>d'. writeMountLocked dir m d = (None, d') \<and> dk_fail d' = dk_fail d \<and>
           SubDir \<notin> snd ` set (dk_files d')"
proof -
  have "map_of (dk_files d) (mount_file m) \<noteq> Some SubDir"
    using d by (metis image_eqI map_of_SomeD snd_conv)
  moreover have "SubDir \<notin> snd ` set (AList.update (mount_file m) (JsonFile (state_doc m)) (dk_files d))"
  proof
    assume "SubDir \<in> snd ` set (AList.update (mount_file m) (JsonFile (state_doc m)) (dk_files d))"
    then have "SubDir = JsonFile (state_doc m) \<or> SubDir \<in> snd ` set (dk_files d)"
      by (rule AList_update_snd)
    with d show False by simp
  qed
  ultimately show ?thesis
    using f by (simp add: writeMountLocked_def Let_def sys_no_fail syncDirectory_def rename_temp_def new_temp_def)
qed

lemma Put_healthy:
  assumes "healthy s"
  shows "\<exists>s'. Put m s = (None, s') \<and> healthy s'"
proof -
  obtain d where w: "writeMountLocked (st_dir s) m (st_disk s) = (None, d)" "dk_fail d = dk_fail (st_disk s)"
    "SubDir \<notin> snd ` set (dk_files d)"
    using assms writeMountLocked_healthy [of "st_disk s" "st_dir s" m] unfolding healthy_def by blast
  have "st_disk (putInMemory m t) = st_disk t" for t
    by (simp add: putInMemory_def deleteInMemory_def Let_def split: option.splits)
  then have "healthy (putInMemory m (s\<lparr>st_disk := d\<rparr>))" using w assms by (simp add: healthy_def)
  then show ?thesis using w(1) by (simp add: Put_def)
qed

lemma Delete_healthy:
  assumes "healthy s"
  shows "\<exists>s'. Delete k s = (None, s') \<and> healthy s'"
proof (cases "map_of (st_mounts s) k")
  case None
  then show ?thesis using assms by (simp add: Delete_def)
next
  case (Some m)
  have f: "\<forall>n. \<not> dk_fail (st_disk s) n" using assms by (simp add: healthy_def)
  have d: "SubDir \<notin> snd ` set (AList.delete (mountStateFilename k) (dk_files (st_disk s)))"
    using assms AList_delete_snd unfolding healthy_def by metis
  have dis: "st_disk (deleteInMemory k t) = st_disk t" for t
    by (simp add: deleteInMemory_def Let_def split: option.splits)
  show ?thesis
    using f d Some
    by (simp add: Delete_def Let_def sys_no_fail syncDirectory_def healthy_def dis)
qed

abbreviation sv_healthy :: "'n Server \<Rightarrow> bool" where
  "sv_healthy s \<equiv> healthy (sv_state s)"

lemma state_Put_healthy:
  assumes "sv_healthy s"
  shows "\<exists>s'. state_Put m s = (None, s') \<and> sv_healthy s'"
proof -
  obtain st where "Put m (sv_state s) = (None, st)" "healthy st" using Put_healthy [OF assms] by blast
  then show ?thesis by (simp add: state_Put_def)
qed

lemma state_Delete_healthy:
  assumes "sv_healthy s"
  shows "\<exists>s'. state_Delete k s = (None, s') \<and> sv_healthy s'"
proof -
  obtain st where "Delete k (sv_state s) = (None, st)" "healthy st" using Delete_healthy [OF assms] by blast
  then show ?thesis by (simp add: state_Delete_def)
qed

subsection \<open>mount succeeds\<close>

lemma mount_apply_succeeds:
  assumes h: "sv_healthy s" and m: "nm_Mount (sv_mounter s) plan (sv_node s) = (None, n)"
  shows "\<exists>s'. mount_apply request plan desired previous s =
      (Inr (mountResult (wc_DriverName (sv_cfg s)) request), s')"
proof -
  obtain s1 where put: "state_Put desired s = (None, s1)" and h1: "sv_healthy s1"
    using state_Put_healthy [OF h] by blast
  have s1: "sv_mounter s1 = sv_mounter s" "sv_node s1 = sv_node s" "sv_cfg s1 = sv_cfg s"
    using state_Put_frame [OF put] by (auto simp: same_static_def)
  let ?s2 = "s1\<lparr>sv_node := n\<rparr>"
  have mnt: "node_Mount plan s1 = (None, ?s2)" using m s1 by (simp add: node_Mount_def)
  have "sv_healthy ?s2" using h1 by simp
  then obtain s3 where put2: "state_Put (desired\<lparr>dm_ContainerID := pl_ContainerID plan\<rparr>) ?s2 = (None, s3)"
    using state_Put_healthy by blast
  have "sv_cfg s3 = sv_cfg s" using state_Put_frame [OF put2] s1 by (simp add: same_static_def)
  then show ?thesis using put mnt put2 by (simp add: mount_apply_def)
qed

lemma mount_existing_succeeds:
  assumes h: "sv_healthy s" and up: "\<And>n. \<exists>n'. nm_Mount (sv_mounter s) plan n = (None, n')"
    and asks: "\<And>n. \<exists>b n'. nm_IsMounted (sv_mounter s) plan n = (Inr b, n')"
  shows "\<exists>s'. mount_existing request plan desired p s =
      (Inr (mountResult (wc_DriverName (sv_cfg s)) request), s')"
proof -
  have app: "\<exists>s'. mount_apply request plan desired (Some p) t =
      (Inr (mountResult (wc_DriverName (sv_cfg s)) request), s')"
    if t: "sv_healthy t" "sv_mounter t = sv_mounter s" "sv_cfg t = sv_cfg s" for t :: "'a Server"
  proof -
    obtain n where "nm_Mount (sv_mounter t) plan (sv_node t) = (None, n)" using up t(2) by metis
    from mount_apply_succeeds [OF t(1) this] show ?thesis using t(3) by simp
  qed
  obtain b n where isM: "nm_IsMounted (sv_mounter s) plan (sv_node s) = (Inr b, n)" using asks by blast
  let ?s1 = "s\<lparr>sv_node := n\<rparr>"
  have isM': "node_IsMounted plan s = (Inr b, ?s1)" using isM by (simp add: node_IsMounted_def)
  have h1: "sv_healthy ?s1" using h by simp
  obtain s2 where put: "state_Put (p\<lparr>dm_ContainerID := pl_ContainerID plan\<rparr>) ?s1 = (None, s2)"
    using h1 state_Put_healthy by blast
  have c2: "sv_cfg s2 = sv_cfg s" using state_Put_frame [OF put] by (simp add: same_static_def)
  show ?thesis
    using app [of s] app [of ?s1] h h1 isM' put c2
    by (cases b) (auto simp: mount_existing_def)
qed

lemma mount_locked_succeeds:
  assumes ok: "server_ok s" and h: "sv_healthy s" and no: "\<not> mount_conflict request plan s"
    and up: "\<And>n. \<exists>n'. nm_Mount (sv_mounter s) plan n = (None, n')"
    and asks: "\<And>n. \<exists>b n'. nm_IsMounted (sv_mounter s) plan n = (Inr b, n')"
  shows "\<exists>s'. mount_locked request plan fp s = (Inr (mountResult (wc_DriverName (sv_cfg s)) request), s')"
proof (cases "state_Get s (desiredMountKeyFor request)")
  case None
  obtain n where "nm_Mount (sv_mounter s) plan (sv_node s) = (None, n)" using up by blast
  from mount_apply_succeeds [OF h this] show ?thesis using None by (simp add: mount_locked_def Let_def)
next
  case (Some p)
  have same: "dm_Request p = request" "dm_ExportRootAuthorized p = IsNFSExportRoot plan"
    using no Some by (auto simp: mount_conflict_def)
  let ?p = "p\<lparr>dm_ExportRootKeyFingerprint := fp\<rparr>"
  have "\<exists>q s1. refresh_fingerprint fp p s = (Inr q, s1) \<and> sv_healthy s1"
  proof -
    obtain s1 where "state_Put ?p s = (None, s1)" "sv_healthy s1" using state_Put_healthy [OF h] by blast
    then show ?thesis using h by (simp add: refresh_fingerprint_def Let_def)
  qed
  then obtain q s1 where ref: "refresh_fingerprint fp p s = (Inr q, s1)" and h1: "sv_healthy s1" by blast
  have "handler_frame (desiredMountKeyFor request) s s1"
    using ok Some ref by (rule refresh_effect) auto
  then have s1: "sv_mounter s1 = sv_mounter s" "sv_cfg s1 = sv_cfg s"
    by (auto simp: handler_frame_def same_static_def)
  have up1: "\<And>n. \<exists>n'. nm_Mount (sv_mounter s1) plan n = (None, n')"
    and asks1: "\<And>n. \<exists>b n'. nm_IsMounted (sv_mounter s1) plan n = (Inr b, n')"
    using up asks s1 by simp_all
  obtain s' where "mount_existing request plan (fresh_intent request plan fp) q s1 =
      (Inr (mountResult (wc_DriverName (sv_cfg s1)) request), s')"
    using mount_existing_succeeds [OF h1 up1 asks1] by blast
  then show ?thesis using Some same ref s1 by (simp add: mount_locked_def Let_def)
qed

subsection \<open>unmount succeeds\<close>

lemma unmount_locked_succeeds:
  assumes ok: "server_ok s" and h: "sv_healthy s"
    and pv: "\<And>p. state_Get s (desiredMountKeyFor q) = Some p \<Longrightarrow> rq_PVName (dm_Request p) = rq_PVName q"
    and asks: "\<And>plan n. \<exists>b n'. nm_IsMounted (sv_mounter s) plan n = (Inr b, n')"
    and down: "\<And>plan n. \<exists>n'. nm_Unmount (sv_mounter s) plan n = (None, n')"
  shows "\<exists>s'. unmount_locked q pod status s = (Inr (unmountResult (wc_DriverName (sv_cfg s)) q), s')"
proof (cases "state_Get s (desiredMountKeyFor q)")
  case None
  then show ?thesis by (simp add: unmount_locked_def Let_def)
next
  case (Some p)
  let ?k = "desiredMountKeyFor q" and ?plan = "unmount_plan q pod status"
  obtain s1 where del: "state_Delete ?k s = (None, s1)" using state_Delete_healthy [OF h] by blast
  have s1: "sv_mounter s1 = sv_mounter s" "sv_node s1 = sv_node s"
    using state_Delete_frame [OF del] by (auto simp: same_static_def)
  obtain b n where isM: "nm_IsMounted (sv_mounter s) ?plan (sv_node s) = (Inr b, n)" using asks by blast
  obtain n2 where um: "nm_Unmount (sv_mounter s) ?plan n = (None, n2)" using down by blast
  have "node_IsMounted ?plan s1 = (Inr b, s1\<lparr>sv_node := n\<rparr>)"
    "node_Unmount ?plan (s1\<lparr>sv_node := n\<rparr>) = (None, s1\<lparr>sv_node := n2\<rparr>)"
    using isM um s1 by (simp_all add: node_IsMounted_def node_Unmount_def)
  then show ?thesis using Some del pv [OF Some] by (cases b) (simp_all add: unmount_locked_def Let_def)
qed

end
