(* ===== verification/Example.thy ===== *)
theory Example
  imports System HandlerLive
begin

text \<open>
  A concrete cluster for the witnesses: one Pod with two containers on the node, one PV, a
  node whose state is the list of mounted target paths, and a disk that fails where told.
\<close>

definition ex_cfg :: WrapperConfig where
  "ex_cfg = \<lparr>wc_DriverName = ''nfs.csi'', wc_SocketPath = ''/run/w.sock'', wc_SocketMode = 432,
     wc_TokenAudience = ''wrapper'', wc_KubeTokenFile = [], wc_KubeCAFile = [], wc_StagingRoot = ''/staging'',
     wc_MountStateDir = ''/state'', wc_NodeName = ''node-a'', wc_HostProcRoot = ''/proc'',
     wc_RequestTimeout = 30, wc_EnableMount = True, wc_UnstageAfterMount = False,
     wc_CreateMissingSubPaths = False, wc_CreatedSubPathMode = 493, wc_ExportRootKeyFile = []\<rparr>"

definition ex_pod :: Pod where
  "ex_pod = \<lparr>pod_Metadata = \<lparr>om_Name = ''pod-1'', om_Namespace = ''team-a'', om_UID = ''uid-1'',
       om_Labels = Map.empty, om_Annotations = Map.empty, om_OwnerReferences = []\<rparr>,
     pod_Spec = \<lparr>sp_ServiceAccountName = ''agent'', sp_NodeName = ''node-a'', sp_Volumes = [],
       sp_Containers = [\<lparr>cn_Name = ''init'', cn_Env = []\<rparr>,
         \<lparr>cn_Name = ''main'', cn_Env = [\<lparr>ev_Name = ''SANDBOX_MAIN_CONTAINER'', ev_Value = ''True''\<rparr>]\<rparr>]\<rparr>,
     pod_Status = \<lparr>ps_Phase = ''Running'', ps_ContainerStatuses =
       [\<lparr>cs_Name = ''init'', cs_ContainerID = ''containerd://0'', cs_Ready = True\<rparr>,
        \<lparr>cs_Name = ''main'', cs_ContainerID = ''containerd://1'', cs_Ready = True\<rparr>]\<rparr>\<rparr>"

definition ex_token_status :: TokenReviewStatus where
  "ex_token_status = \<lparr>ts_Authenticated = True, ts_Audiences = [''wrapper''],
     ts_User = \<lparr>tu_Username = ''system:serviceaccount:team-a:agent'', tu_UID = ''u'', tu_Groups = [],
       tu_Extra = [tokenPodNameExtraKey \<mapsto> [''pod-1''], tokenPodUIDExtraKey \<mapsto> [''uid-1'']]\<rparr>,
     ts_Error = []\<rparr>"

text \<open>The PV; \<open>sub\<close> is its subDir attribute.\<close>

definition ex_pv :: "string \<Rightarrow> PersistentVolume" where
  "ex_pv sub = \<lparr>pv_Metadata = \<lparr>om_Name = ''pv-1'', om_Namespace = [], om_UID = ''pv-uid'',
       om_Labels = Map.empty, om_Annotations = [allowNamespaceAnnotation \<mapsto> ''team-b, team-a''],
       om_OwnerReferences = []\<rparr>,
     pv_Spec = \<lparr>vs_ClaimRef = None, vs_CSI = Some \<lparr>csi_Driver = ''nfs.csi'', csi_VolumeHandle = ''h'',
         csi_VolumeAttributes = [''server'' \<mapsto> ''10.0.0.1'', ''share'' \<mapsto> ''/export'', ''subDir'' \<mapsto> sub]\<rparr>,
       vs_MountOptions = []\<rparr>\<rparr>"

definition ex_not_found :: go_error where
  "ex_not_found = ApiError \<lparr>ae_Method = ''GET'', ae_Path = ''/api'', ae_StatusCode = 404,
     ae_Status = ''404 Not Found'', ae_Detail = []\<rparr>"

definition ex_kube :: kube_client where
  "ex_kube = \<lparr>kc_ReviewToken = (\<lambda>t aud. if t = ''tok'' then Inr (Some ex_token_status) else Inr None),
     kc_GetPod = (\<lambda>ns n. if ns = ''team-a'' \<and> n = ''pod-1'' then Inr ex_pod else Inl ex_not_found),
     kc_GetPersistentVolume = (\<lambda>n. if n = ''pv-1'' then Inr (ex_pv ''/teams/a'') else Inl ex_not_found)\<rparr>"

definition ex_mounter :: "bool \<Rightarrow> string list Mounter" where
  "ex_mounter works =
     \<lparr>nm_Mount = (\<lambda>plan ms. if works then (None, pl_TargetPath plan # ms)
                          else (Some (Sentinel (Errno ''ENODEV'')), ms)),
      nm_Unmount = (\<lambda>plan ms. if works then (None, removeAll (pl_TargetPath plan) ms)
                          else (Some (Sentinel (Errno ''EBUSY'')), ms)),
      nm_IsMounted = (\<lambda>plan ms. (Inr (pl_TargetPath plan \<in> set ms), ms))\<rparr>"

definition ex_request :: MountRequest where
  "ex_request = \<lparr>rq_APIVersion = api_Version, rq_DriverName = ''nfs.csi'', rq_Namespace = ''team-a'',
     rq_PodName = ''pod-1'', rq_PodUID = ''uid-1'', rq_PVName = ''pv-1'', rq_SourceSubPath = ''./run//7/'',
     rq_TargetPath = ''/data/../work'', rq_ContainerName = []\<rparr>"

definition ex_normal :: MountRequest where
  "ex_normal = ex_request\<lparr>rq_SourceSubPath := ''run/7'', rq_TargetPath := ''/work'', rq_ContainerName := ''main''\<rparr>"

definition ex_plan :: MountPlan where
  "ex_plan = \<lparr>pl_PV = \<lparr>nv_Name = ''pv-1'', nv_VolumeHandle = ''h'', nv_Server = ''10.0.0.1'',
       nv_Share = ''/export'', nv_SubDir = ''teams/a'', nv_MountOptions = []\<rparr>,
     pl_PodUID = ''uid-1'', pl_ContainerName = ''main'', pl_ContainerID = ''containerd://1'',
     pl_SourceSubPath = ''run/7'', pl_TargetPath = ''/work''\<rparr>"

definition ex_unmount :: UnmountRequest where
  "ex_unmount = \<lparr>ur_APIVersion = api_Version, ur_DriverName = ''nfs.csi'', ur_Namespace = ''team-a'',
     ur_PodName = ''pod-1'', ur_PodUID = ''uid-1'', ur_PVName = ''pv-1'', ur_TargetPath = ''/work/.'',
     ur_ContainerName = ''main''\<rparr>"

text \<open>The disk: empty, failing at the given ticks.\<close>

definition ex_disk :: "nat list \<Rightarrow> disk" where
  "ex_disk faults = \<lparr>dk_files = [], dk_temps = 0, dk_fail = (\<lambda>n. n \<in> set faults), dk_clock = 0\<rparr>"

definition ex_store :: "nat list \<Rightarrow> fileMountStateStore" where
  "ex_store faults = empty_store ''/state'' (ex_disk faults)"

definition ex_server :: "bool \<Rightarrow> fileMountStateStore \<Rightarrow> string list \<Rightarrow> string list Server" where
  "ex_server works st n = \<lparr>sv_cfg = ex_cfg, sv_kube = ex_kube, sv_mounter = ex_mounter works, sv_node = n,
     sv_state = st, sv_reconcileErrors = Map.empty, sv_retrying = {}, sv_exportRoot = no_authorizer\<rparr>"

text \<open>The store with the intent of the request, recorded for the container \<open>c\<close>.\<close>

definition ex_intent :: "string \<Rightarrow> desiredMount" where
  "ex_intent c = zero_desiredMount\<lparr>dm_Request := ex_normal, dm_ContainerID := c\<rparr>"

definition ex_key :: desiredMountKey where
  "ex_key = MountKey ''uid-1'' ''main'' ''/work''"

definition ex_holding :: "string \<Rightarrow> fileMountStateStore" where
  "ex_holding c = putInMemory (ex_intent c) (ex_store [])"

lemma ex_store_ok [simp]: "store_inv (ex_store faults)"
  by (simp add: ex_store_def store_inv_empty)

lemma ex_holding_ok [simp]: "store_inv (ex_holding c)"
  by (simp add: ex_holding_def inv_intros)

lemma ex_key_intent [simp]: "dm_key (ex_intent c) = ex_key"
  by (simp add: ex_intent_def dm_key_def ex_key_def ex_normal_def ex_request_def)

lemma ex_key_normal [simp]: "desiredMountKeyFor ex_normal = ex_key"
  by (simp add: desiredMountKeyFor_eq ex_key_def ex_normal_def ex_request_def)

lemma ex_store_Get [simp]: "Get (ex_store faults) = Map.empty"
  by (rule ext) (simp add: Get_def ex_store_def empty_store_def)

lemma ex_holding_Get [simp]: "Get (ex_holding c) = [ex_key \<mapsto> ex_intent c]"
  by (simp add: ex_holding_def Get_putInMemory)

lemma ex_server_simps [simp]:
  "sv_cfg (ex_server w st n) = ex_cfg" "sv_kube (ex_server w st n) = ex_kube"
  "sv_mounter (ex_server w st n) = ex_mounter w" "sv_node (ex_server w st n) = n"
  "sv_state (ex_server w st n) = st" "sv_exportRoot (ex_server w st n) = no_authorizer"
  "sv_reconcileErrors (ex_server w st n) = Map.empty" "sv_retrying (ex_server w st n) = {}"
  "state_Get (ex_server w st n) = Get st"
  by (simp_all add: ex_server_def state_Get_eq)

lemma ex_authorized: "authorizedMountPlan ex_cfg ex_kube ''tok'' ex_request True = Inr (ex_normal, ex_plan)"
  by code_simp

definition ex_unmounted :: MountRequest where
  "ex_unmounted = (unmount_request ex_unmount)\<lparr>rq_TargetPath := ''/work''\<rparr>"

definition ex_status :: ContainerStatus where
  "ex_status = \<lparr>cs_Name = ''main'', cs_ContainerID = ''containerd://1'', cs_Ready = True\<rparr>"

lemma ex_normalize: "normalizeMountRequest ex_cfg (unmount_request ex_unmount) False = Inr ex_unmounted"
  by code_simp

end
