(* ===== verification/AccessProps.thy ===== *)
theory AccessProps
  imports Example
begin

text \<open>
  The properties of the checks in front of a mount: the path policies, the Pod-bound token,
  the PV allowlists, the choice of the container and the export-root key.
\<close>

subsection \<open>Paths\<close>

text \<open>C11. ValidateTargetPath accepts exactly the absolute NUL-free paths whose cleaned
  segments are outside the denied trees and files, and returns the cleaned path; dots,
  repeated slashes and trailing slashes do not get around the lists.\<close>

theorem target_path_policy:
  "ValidateTargetPath t = Inr c \<longleftrightarrow>
     NUL \<notin> set t \<and> path_IsAbs t \<and> target_allowed (target_segs t) \<and> c = abs_path (target_segs t)"
  by (rule ValidateTargetPath_spec)

text \<open>C14. A validated source sub path stays below whatever directory it is joined to: the
  cleaned segments of the joined path are those of the directory followed by the proper
  segments of the sub path, which are the ones the fd walk of the mounter opens.\<close>

theorem source_sub_path_confined:
  assumes "ValidateSourceSubPath s = Inr c" and "path_IsAbs stage"
  shows "path_Join [stage, c] = abs_path (target_segs stage @ source_segs s) \<and>
    all_proper (source_segs s) \<and> sourceSubPathSegments c = Inr (source_segs s)"
proof -
  from assms(1) have s: "no_parent s" "NUL \<notin> set s" and c: "c = join_on slash (source_segs s)"
    by (simp_all add: ValidateSourceSubPath_spec)
  from s(1) have proper: "all_proper (source_segs s)" by (rule all_proper_source_segs)
  then have np: "no_parent c" and segs: "source_segs c = source_segs s"
    unfolding c by (simp_all add: no_parent_join source_segs_join)
  have "path_Join [stage, c] = abs_path (target_segs stage @ source_segs s)"
    using path_Join_confined [OF assms(2) np] segs by simp
  moreover have "sourceSubPathSegments c = Inr (source_segs s)"
    using np segs NUL_join_source [OF s(2)] not_abs_join [OF proper]
    by (simp add: sourceSubPathSegments_spec c)
  ultimately show ?thesis using proper by blast
qed

lemma source_sub_path_confined_witness:
  "path_Join [''/stage/pv'', ''a/b''] = abs_path (target_segs ''/stage/pv'' @ source_segs ''./a//b/'') \<and>
   sourceSubPathSegments ''a/b'' = Inr (source_segs ''./a//b/'')"
proof -
  have "ValidateSourceSubPath ''./a//b/'' = Inr ''a/b''" by code_simp
  moreover have "path_IsAbs ''/stage/pv''" by code_simp
  ultimately show ?thesis using source_sub_path_confined by blast
qed

text \<open>C23. A plan is for the NFS export root exactly when neither the PV's subDir attribute,
  however it is spelled, nor the request names a directory below the export.\<close>

theorem export_root_exact:
  assumes "buildMountPlan request pod pv cid = Inr plan" and "vs_CSI (pv_Spec pv) = Some csi"
  shows "IsNFSExportRoot plan \<longleftrightarrow>
    source_segs (TrimSpace (firstNonEmpty [map_str (csi_VolumeAttributes csi) ''subDir'',
      map_str (csi_VolumeAttributes csi) ''subdir''])) = [] \<and> rq_SourceSubPath request = []"
proof -
  let ?v = "firstNonEmpty [map_str (csi_VolumeAttributes csi) ''subDir'', map_str (csi_VolumeAttributes csi) ''subdir'']"
  have n: "NormalizeNFSSubDir ?v = Inr (nv_SubDir (pl_PV plan))"
    and sub: "pl_SourceSubPath plan = rq_SourceSubPath request"
    using assms by (auto elim: buildMountPlan_Inr)
  from n have np: "no_parent (TrimSpace ?v)"
    and d: "nv_SubDir (pl_PV plan) = join_on slash (source_segs (TrimSpace ?v))"
    by (simp_all add: NormalizeNFSSubDir_spec)
  have "nv_SubDir (pl_PV plan) = [] \<longleftrightarrow> source_segs (TrimSpace ?v) = []"
    unfolding d using source_segs_join [OF all_proper_source_segs [OF np]]
    by (auto simp: source_segs_def)
  then show ?thesis using sub by (simp add: IsNFSExportRoot_def)
qed

lemma export_root_exact_witness:
  "\<exists>plan. buildMountPlan (ex_normal\<lparr>rq_SourceSubPath := []\<rparr>) ex_pod (ex_pv '' /./ '') ''c'' = Inr plan \<and>
     IsNFSExportRoot plan"
proof -
  obtain plan where plan: "buildMountPlan (ex_normal\<lparr>rq_SourceSubPath := []\<rparr>) ex_pod (ex_pv '' /./ '') ''c'' = Inr plan"
  proof -
    have "\<not> isl (buildMountPlan (ex_normal\<lparr>rq_SourceSubPath := []\<rparr>) ex_pod (ex_pv '' /./ '') ''c'')"
      by code_simp
    then show ?thesis using that by (cases "buildMountPlan (ex_normal\<lparr>rq_SourceSubPath := []\<rparr>) ex_pod (ex_pv '' /./ '') ''c''") auto
  qed
  obtain csi where csi: "vs_CSI (pv_Spec (ex_pv '' /./ '')) = Some csi"
    and a: "csi_VolumeAttributes csi = [''server'' \<mapsto> ''10.0.0.1'', ''share'' \<mapsto> ''/export'', ''subDir'' \<mapsto> '' /./ '']"
    by (auto simp: ex_pv_def)
  have "source_segs (TrimSpace (firstNonEmpty [map_str [''server'' \<mapsto> ''10.0.0.1'', ''share'' \<mapsto> ''/export'',
      ''subDir'' \<mapsto> '' /./ ''] ''subDir'', map_str [''server'' \<mapsto> ''10.0.0.1'', ''share'' \<mapsto> ''/export'',
      ''subDir'' \<mapsto> '' /./ ''] ''subdir''])) = []"
    by code_simp
  then show ?thesis using export_root_exact [OF plan csi] plan a by simp
qed

subsection \<open>Identity\<close>

text \<open>C21. A request is taken for a Pod exactly when the token review is authentic, for the
  wrapper's audience and bound to that very Pod (service account, name and UID), the live
  Pod has the identity of the request, is not finished and runs on this node.\<close>

theorem pod_authorized_iff:
  "authorizedPodForRequest cfg kube token request = Inr pod \<longleftrightarrow>
     (\<exists>st. kc_ReviewToken kube token [wc_TokenAudience cfg] = Inr (Some st) \<and>
        kc_GetPod kube (rq_Namespace request) (rq_PodName request) = Inr pod \<and>
        token_binds_pod cfg st pod \<and> pod_of_request cfg pod request) \<and>
     rq_PodName request \<noteq> [] \<and> rq_PodUID request \<noteq> []"
proof
  assume a: "authorizedPodForRequest cfg kube token request = Inr pod"
  then obtain st where st: "kc_ReviewToken kube token [wc_TokenAudience cfg] = Inr (Some st)"
    "kc_GetPod kube (rq_Namespace request) (rq_PodName request) = Inr pod"
    "token_binds_pod cfg st pod" "pod_of_request cfg pod request"
    by (rule authorizedPodForRequest_Inr)
  moreover have "rq_PodName request \<noteq> [] \<and> rq_PodUID request \<noteq> []"
    using a by (auto simp: authorizedPodForRequest_def success_iff split: option.splits)
  ultimately show "(\<exists>st. kc_ReviewToken kube token [wc_TokenAudience cfg] = Inr (Some st) \<and>
        kc_GetPod kube (rq_Namespace request) (rq_PodName request) = Inr pod \<and>
        token_binds_pod cfg st pod \<and> pod_of_request cfg pod request) \<and>
     rq_PodName request \<noteq> [] \<and> rq_PodUID request \<noteq> []" by blast
next
  assume "(\<exists>st. kc_ReviewToken kube token [wc_TokenAudience cfg] = Inr (Some st) \<and>
        kc_GetPod kube (rq_Namespace request) (rq_PodName request) = Inr pod \<and>
        token_binds_pod cfg st pod \<and> pod_of_request cfg pod request) \<and>
     rq_PodName request \<noteq> [] \<and> rq_PodUID request \<noteq> []"
  then show "authorizedPodForRequest cfg kube token request = Inr pod"
    by (auto simp: authorizedPodForRequest_def success_iff token_binds_pod_def pod_of_request_def prefix_def)
qed

text \<open>C22. A PV admits a Pod exactly when it is a CSI volume of this driver and each of its
  two allowlist annotations is absent or a list of exact, non-empty, non-wildcard names
  that holds the Pod's namespace and service account.\<close>

theorem pv_policy_iff:
  "authorizePVForPod (wc_DriverName cfg) pod pv = None \<longleftrightarrow> pv_admits cfg pod pv"
  by (auto simp: authorizePVForPod_None pv_admits_def)

text \<open>The container a request resolves to is one of the Pod's, has started, is the named
  one if a name was given, and is found again under its own name, so that later requests
  and the reconciler meet the same target.\<close>

lemma container_selection:
  assumes "selectContainerStatus pod name = Inr status"
  shows "status \<in> set (ps_ContainerStatuses (pod_Status pod)) \<and> cs_ContainerID status \<noteq> [] \<and>
    (name \<noteq> [] \<longrightarrow> cs_Name status = name) \<and>
    (cs_Name status \<noteq> [] \<longrightarrow> selectContainerStatus pod (cs_Name status) = Inr status)"
  using selectContainerStatus_Inr [OF assms] selectContainerStatus_again [OF assms] by blast

subsection \<open>The export-root key\<close>

text \<open>The key file is accepted exactly when its trimmed contents have 32 to 4096 visible
  ASCII characters; without a configured file there is no key.\<close>

lemma export_root_key_loading:
  "loadExportRootAuthorizer readFile keyFile = Inr a \<longleftrightarrow>
     (if keyFile = [] then a = no_authorizer
      else \<exists>data. readFile keyFile = Inr data \<and>
        32 \<le> length (TrimSpace data) \<and> length (TrimSpace data) \<le> 4096 \<and>
        list_all (\<lambda>c. CHR 0x21 \<le> c \<and> c \<le> CHR 0x7e) (TrimSpace data) \<and>
        a = \<lparr>ra_configured = True, ra_keyHash = sha256 (TrimSpace data),
             ra_fingerprint = hex_encode (sha256 (TrimSpace data))\<rparr>)"
  by (auto simp: loadExportRootAuthorizer_def Let_def minimumExportRootKeyLength_def
      maximumExportRootKeyLength_def visible_ascii_def list_all_iff not_less split: sum.splits)

text \<open>C24. With a loaded key, an export-root mount is authorized exactly for a header whose
  trimmed value has the key's SHA-256, the fingerprint it yields is the one the reconciler
  accepts later, and mounts below the root need no key.\<close>

theorem export_root_authorization:
  assumes "loadExportRootAuthorizer readFile keyFile = Inr a" and "keyFile \<noteq> []"
    and "readFile keyFile = Inr data"
  shows "authorize a plan header = Inr fp \<longleftrightarrow>
    (if IsNFSExportRoot plan
     then sha256 (TrimSpace header) = sha256 (TrimSpace data) \<and> authorizesFingerprint a fp
     else fp = [])"
proof -
  have ok: "authorizer_ok a" using assms(1) by (rule load_authorizer_ok)
  have a: "ra_configured a" "ra_keyHash a = sha256 (TrimSpace data)"
    using assms by (auto simp: loadExportRootAuthorizer_def Let_def split: if_splits)
  show ?thesis
    using a authorizer_ok_fingerprint [OF ok a(1)]
    by (auto simp: authorize_Inr authorizesFingerprint_def)
qed

lemma export_root_authorization_witness:
  "\<exists>a. loadExportRootAuthorizer (\<lambda>f. Inr (replicate 40 (CHR ''k''))) ''/key'' = Inr a \<and>
     authorize a (ex_plan\<lparr>pl_SourceSubPath := []\<rparr>) ''no'' = Inr []"
proof -
  let ?key = "replicate 40 (CHR ''k'')"
  have t: "TrimSpace ?key = ?key" by code_simp
  have v: "\<forall>c \<in> set ?key. visible_ascii c" by code_simp
  obtain a where a: "loadExportRootAuthorizer (\<lambda>f. Inr ?key) ''/key'' = Inr a"
    using v by (auto simp: loadExportRootAuthorizer_def t Let_def minimumExportRootKeyLength_def
        maximumExportRootKeyLength_def)
  have "\<not> IsNFSExportRoot (ex_plan\<lparr>pl_SourceSubPath := []\<rparr>)" by code_simp
  then have "authorize a (ex_plan\<lparr>pl_SourceSubPath := []\<rparr>) ''no'' = Inr []"
    using export_root_authorization [OF a, of ?key] by simp
  with a show ?thesis by blast
qed

end
