(* ===== verification/StoreProps.thy ===== *)
theory StoreProps
  imports Example
begin

text \<open>
  The properties of the mount state store: a map with an index, kept in memory and, file by
  file, on disk.
\<close>

subsection \<open>The map\<close>

text \<open>C9. Whatever fails on disk, Put and Delete keep the two maps of the store consistent
  and are, seen through Get, a map update when they report success and nothing when they
  report an error.\<close>

theorem store_refines_map:
  assumes "store_inv s" and "Put m s = (r, s1)" and "Delete k s = (q, s2)"
  shows "store_inv s1 \<and> Get s1 = (if r = None then (Get s)(dm_key m \<mapsto> m) else Get s) \<and>
    store_inv s2 \<and> Get s2 = (if q = None then (Get s)(k := None) else Get s)"
  using assms fs.put_ok [OF assms(1,2)] fs.del_ok [OF assms(1,3)]
    fs.get_put fs.get_put_failed fs.get_del fs.get_del_failed
  by (cases r; cases q) auto

lemma store_refines_map_witness:
  "\<exists>s1 s2. Put (ex_intent ''c'') (ex_store []) = (None, s1) \<and> Get s1 = [ex_key \<mapsto> ex_intent ''c''] \<and>
     Delete ex_key s1 = (None, s2) \<and> Get s2 = Map.empty"
proof -
  have "healthy (ex_store [])" by (simp add: healthy_def ex_store_def empty_store_def ex_disk_def)
  then obtain s1 where s1: "Put (ex_intent ''c'') (ex_store []) = (None, s1)" and h: "healthy s1"
    using Put_healthy by blast
  obtain s2 where s2: "Delete ex_key s1 = (None, s2)" using Delete_healthy [OF h] by blast
  obtain q s3 where s3: "Delete ex_key (ex_store []) = (q, s3)" by (metis surj_pair)
  have inv: "store_inv s1" and g1: "Get s1 = [ex_key \<mapsto> ex_intent ''c'']"
    using store_refines_map [OF ex_store_ok s1 s3] by simp_all
  obtain r s4 where s4: "Put (ex_intent ''c'') s1 = (r, s4)" by (metis surj_pair)
  have "Get s2 = Map.empty" using store_refines_map [OF inv s4 s2] g1 by simp
  then show ?thesis using s1 s2 g1 by blast
qed

text \<open>The listings: List is the intents of the map in the order of their keys, without
  duplicates, and ListForPod, which reads the index, is its sublist for the Pod.\<close>

lemma store_listings:
  assumes "store_inv s"
  shows "set (List_all s) = ran (Get s) \<and> sorted (map dm_key (List_all s)) \<and>
    distinct (map dm_key (List_all s)) \<and>
    ListForPod s p = filter (\<lambda>m. desiredPodKeyFor (dm_Request m) = p) (List_all s)"
  using fs.all_set [OF assms] fs.all_sorted [OF assms] fs.of_group_filter [OF assms] by blast

subsection \<open>The directory\<close>

text \<open>A state file decodes to the intent it was written from, as a version 2 file; only
  the in-memory mark of a version 1 intent is not part of it.\<close>

lemma state_file_round_trip:
  "decode_state (encode_state \<lparr>sf_Version = mountStateVersion, sf_Mount = m\<rparr>) =
     Some \<lparr>sf_Version = mountStateVersion, sf_Mount = m\<lparr>dm_legacyRootClassificationUnknown := False\<rparr>\<rparr>"
  by (subst decode_encode_state) (simp_all add: mountStateVersion_def clear_legacy_def)

text \<open>The machine, or the process, stops when it makes its \<open>n\<close>-th call: that call and all
  later ones have no effect.\<close>

definition stops_at :: "nat \<Rightarrow> fileMountStateStore \<Rightarrow> fileMountStateStore" where
  "stops_at n s = s\<lparr>st_disk := (st_disk s)\<lparr>dk_fail := \<lambda>k. n \<le> k \<or> dk_fail (st_disk s) k\<rparr>\<rparr>"

lemma represented_entry: "fst e = mount_file m \<Longrightarrow> snd e = JsonFile (state_doc m) \<Longrightarrow> entry_of e (clear_legacy m)"
  using represents_state_doc [of m]
  by (cases e) (simp add: entry_of_def skipped_def HasSuffix_mount_file)

lemma AList_update_elem: "e \<in> set (AList.update k v xs) \<Longrightarrow> e = (k, v) \<or> e \<in> set xs"
  by (induction xs) (auto split: if_splits)

lemma Put_directory:
  assumes "Put m s = (r, s')"
  shows "(dk_files (st_disk s') = dk_files (st_disk s) \<and> r \<noteq> None) \<or>
    dk_files (st_disk s') = AList.update (mount_file m) (JsonFile (state_doc m)) (dk_files (st_disk s))"
  using assms by (auto elim!: Put_cases)

text \<open>C20. Put writes a temporary file (created, made private, written, synced, closed) and
  renames it over the file of the mount. In every pattern of failing calls the directory is
  afterwards the old one, and then Put reports an error, or the old one with the whole
  document under the mount's file name. The same holds of what is left when the machine
  stops at any call of a Put, where of a file only what was synced survives: every file of
  the directory is then an old one or one that decodes to the mount, never half a
  document.\<close>

theorem put_is_atomic:
  assumes "Put m s = (r, s')" and "Put m (stops_at n s) = (q, t)"
  shows "((dk_files (st_disk s') = dk_files (st_disk s) \<and> r \<noteq> None) \<or>
     dk_files (st_disk s') = AList.update (mountStateFilename (dm_key m))
       (JsonFile (encode_state \<lparr>sf_Version = mountStateVersion, sf_Mount = m\<rparr>)) (dk_files (st_disk s))) \<and>
    (dk_files (st_disk t) = dk_files (st_disk s) \<or>
     dk_files (st_disk t) = AList.update (mountStateFilename (dm_key m))
       (JsonFile (encode_state \<lparr>sf_Version = mountStateVersion, sf_Mount = m\<rparr>)) (dk_files (st_disk s))) \<and>
    (\<forall>e. e \<in> set (dk_files (st_disk t)) \<longrightarrow>
       e \<in> set (dk_files (st_disk s)) \<or> entry_of e (clear_legacy m))"
proof -
  have same: "dk_files (st_disk (stops_at n s)) = dk_files (st_disk s)" by (simp add: stops_at_def)
  note stopped = Put_directory [OF assms(2), unfolded same]
  have "entry_of e (clear_legacy m)" if "e = (mount_file m, JsonFile (state_doc m))" for e
    using that by (simp add: represented_entry)
  then have "\<forall>e. e \<in> set (dk_files (st_disk t)) \<longrightarrow>
      e \<in> set (dk_files (st_disk s)) \<or> entry_of e (clear_legacy m)"
    using stopped AList_update_elem by metis
  with Put_directory [OF assms(1)] stopped show ?thesis by blast
qed

lemma put_is_atomic_witness:
  "\<exists>e s' q t. Put (ex_intent []) (ex_store [2]) = (Some e, s') \<and>
     (dk_files (st_disk s') = [] \<or> fst ` set (dk_files (st_disk s')) = {mountStateFilename ex_key}) \<and>
     Put (ex_intent []) (stops_at 1 (ex_store [2])) = (q, t) \<and>
     (\<forall>e. e \<in> set (dk_files (st_disk t)) \<longrightarrow> entry_of e (clear_legacy (ex_intent [])))"
proof -
  have "\<exists>e d. writeMountLocked ''/state'' (ex_intent []) (ex_disk [2]) = (Some e, d)"
    by (simp add: writeMountLocked_def ex_disk_def sys_def Let_def split: prod.splits)
  then obtain e s' where put: "Put (ex_intent []) (ex_store [2]) = (Some e, s')"
    by (auto simp: Put_def ex_store_def empty_store_def)
  obtain q t where stopped: "Put (ex_intent []) (stops_at 1 (ex_store [2])) = (q, t)" by (metis surj_pair)
  have "dk_files (st_disk (ex_store [2])) = []"
    by (simp add: ex_store_def empty_store_def ex_disk_def)
  then show ?thesis using put_is_atomic [OF put stopped] put stopped by auto
qed

text \<open>C27. Loading a directory succeeds exactly with the intents of its state files, each
  under the key its file name is the hash of, in a consistent store; then every entry is
  good: one the loader skips, or a readable state file of a known version under its own
  name. It fails only when the directory has no name, when one of the calls it makes (two
  on the directory, one for each file) fails, or when an entry is not good.\<close>

theorem load_exact:
  assumes "newFileMountStateStore dir d = (r, d')" and "distinct (map fst (dk_files d))"
  shows "case r of
      Inr s \<Rightarrow> store_inv s \<and> dk_files (st_disk s) = dk_files d \<and> (\<forall>e \<in> set (dk_files d). good_entry e) \<and>
        (\<forall>k m. Get s k = Some m \<longleftrightarrow> (\<exists>e \<in> set (dk_files d). entry_of e m) \<and> dm_key m = k)
    | Inl err \<Rightarrow> dir = [] \<or>
        (\<exists>n. dk_clock d \<le> n \<and> n < dk_clock d + 2 + length (dk_files d) \<and> dk_fail d n) \<or>
        (\<exists>e \<in> set (dk_files d). \<not> good_entry e)"
proof (cases r)
  case (Inl err)
  with assms(1) have "\<nexists>t d'. newFileMountStateStore dir d = (Inr t, d')" by simp
  with load_total [of dir d] Inl show ?thesis by auto
next
  case (Inr s)
  note load = assms(1) [unfolded Inr]
  show ?thesis using load_spec [OF load assms(2)] by (simp add: Inr)
qed

lemma load_exact_witness:
  "\<exists>s d'. newFileMountStateStore ''/state''
      ((ex_disk [])\<lparr>dk_files := [(mountStateFilename ex_key, JsonFile (state_doc (ex_intent ''c''))),
         (''old.json'', SubDir)]\<rparr>) = (Inr s, d') \<and>
     Get s = [ex_key \<mapsto> ex_intent ''c'']"
proof -
  let ?d = "(ex_disk [])\<lparr>dk_files := [(mountStateFilename ex_key, JsonFile (state_doc (ex_intent ''c''))),
      (''old.json'', SubDir)]\<rparr>"
  have m: "entry_of (mountStateFilename ex_key, JsonFile (state_doc (ex_intent ''c''))) (ex_intent ''c'')"
    using entry_of_state_doc [of "ex_intent ''c''"] ex_key_intent [of "''c''"]
    by (simp only:) (simp add: ex_intent_def zero_desiredMount_def)
  have skip: "skipped (''old.json'', SubDir)" by (simp add: skipped_def)
  have "length (mountStateFilename ex_key) \<noteq> length ''old.json''" by (simp add: mountStateFilename_def)
  then have dist: "distinct (map fst (dk_files ?d))" by auto
  obtain r d' where load: "newFileMountStateStore ''/state'' ?d = (r, d')" by (metis surj_pair)
  note exact = load_exact [OF load dist]
  have "\<forall>e \<in> set (dk_files ?d). good_entry e" using m skip by (auto simp: good_entry_def)
  moreover have "\<not> dk_fail ?d n" for n by (simp add: ex_disk_def)
  ultimately obtain s where s: "r = Inr s"
    using exact by (cases r) auto
  have one: "entry_of (mountStateFilename ex_key, JsonFile (state_doc (ex_intent ''c''))) i \<longleftrightarrow>
      i = ex_intent ''c''" for i
    using m entry_of_unique by blast
  have "\<not> entry_of (''old.json'', SubDir) i" for i using skip by (simp add: entry_of_def)
  then have "Get s k = Some i \<longleftrightarrow> k = ex_key \<and> i = ex_intent ''c''" for k i
    using exact one by (auto simp: s)
  then have "Get s k = Some i \<longleftrightarrow> [ex_key \<mapsto> ex_intent ''c''] k = Some i" for k i by auto
  then have "Get s k = [ex_key \<mapsto> ex_intent ''c''] k" for k by (metis option.exhaust)
  then have "Get s = [ex_key \<mapsto> ex_intent ''c'']" by (rule ext)
  then show ?thesis using load s by blast
qed

text \<open>C19. A restart gets back what was stored: after a successful Put of a version 2 intent
  on a directory that describes the store, loading the directory gives the same map.\<close>

theorem restart_keeps_put:
  assumes "Put m s = (None, s')" and "store_inv s" and "disk_matches s"
    and "\<not> dm_legacyRootClassificationUnknown m" and "no_collision s (dm_key m)"
    and "dir \<noteq> []" and "\<And>n. \<not> dk_fail d n" and "dk_files d = dk_files (st_disk s')"
  shows "\<exists>t d'. newFileMountStateStore dir d = (Inr t, d') \<and> Get t = (Get s)(dm_key m \<mapsto> m)"
proof -
  have "disk_matches s'" using assms(1-5) by (rule Put_matches)
  then obtain t d' where "newFileMountStateStore dir d = (Inr t, d')" "Get t = Get s'"
    using reload_same [OF fs.put_ok [OF assms(2,1)] _ assms(6-8)] by blast
  then show ?thesis using fs.get_put [OF assms(2,1)] by auto
qed

lemma restart_keeps_put_witness:
  "\<exists>s' t d'. Put (ex_intent ''c'') (ex_store []) = (None, s') \<and>
     newFileMountStateStore ''/state'' (st_disk s') = (Inr t, d') \<and> Get t = [ex_key \<mapsto> ex_intent ''c'']"
proof -
  have "healthy (ex_store [])" by (simp add: healthy_def ex_store_def empty_store_def ex_disk_def)
  then obtain s' where put: "Put (ex_intent ''c'') (ex_store []) = (None, s')" and h: "healthy s'"
    using Put_healthy by blast
  have "disk_matches (ex_store [])"
    by (simp add: disk_matches_def) (simp add: ex_store_def empty_store_def ex_disk_def)
  moreover have "\<not> dm_legacyRootClassificationUnknown (ex_intent ''c'')"
    by (simp add: ex_intent_def zero_desiredMount_def)
  moreover have "no_collision (ex_store []) (dm_key (ex_intent ''c''))" by (simp add: no_collision_def)
  moreover have "\<And>n. \<not> dk_fail (st_disk s') n" using h by (simp add: healthy_def)
  ultimately have "\<exists>t d'. newFileMountStateStore ''/state'' (st_disk s') = (Inr t, d') \<and>
      Get t = (Get (ex_store []))(dm_key (ex_intent ''c'') \<mapsto> ex_intent ''c'')"
    by (intro restart_keeps_put [OF put]) simp_all
  then show ?thesis using put by auto
qed

text \<open>A Put whose eighth call, the sync of the directory, is the one that fails.\<close>

lemma Put_sync_fails:
  assumes "\<And>n. dk_fail (st_disk s) n \<longleftrightarrow> n = dk_clock (st_disk s) + 7"
    and "map_of (dk_files (st_disk s)) (mount_file m) \<noteq> Some SubDir"
  shows "\<exists>e d. Put m s = (Some e, s\<lparr>st_disk := d\<rparr>) \<and>
    dk_files d = AList.update (mount_file m) (JsonFile (state_doc m)) (dk_files (st_disk s))"
proof -
  have ticks: "sys (st_disk s\<lparr>dk_clock := c\<rparr>) =
      (c = dk_clock (st_disk s) + 7, st_disk s\<lparr>dk_clock := Suc c\<rparr>)"
    "sys (st_disk s) = (False, st_disk s\<lparr>dk_clock := Suc (dk_clock (st_disk s))\<rparr>)"
    "sys (st_disk s\<lparr>dk_files := f, dk_clock := c\<rparr>) =
      (c = dk_clock (st_disk s) + 7, st_disk s\<lparr>dk_files := f, dk_clock := Suc c\<rparr>)" for c f
    using assms(1) by (simp_all add: sys_def)
  have comm: "(d::disk)\<lparr>dk_clock := c, dk_files := f\<rparr> = d\<lparr>dk_files := f, dk_clock := c\<rparr>" for d c f by simp
  show ?thesis
    using assms(2)
    by (simp add: Put_def writeMountLocked_def Let_def ticks syncDirectory_def rename_temp_def new_temp_def comm)
       (rule exI, rule conjI, rule refl, simp)
qed

text \<open>C29. A Put whose last step, the directory sync, fails reports an error and leaves the
  map alone, yet the new file is in place: a restart on that directory then finds the
  intent of a mount the client was told had failed, beside all the intents there were.\<close>

theorem failed_put_can_persist:
  assumes "\<And>n. dk_fail (st_disk s) n \<longleftrightarrow> n = dk_clock (st_disk s) + 7"
    and "map_of (dk_files (st_disk s)) (mountStateFilename (dm_key m)) \<noteq> Some SubDir"
    and "store_inv s" and "disk_matches s" and "\<not> dm_legacyRootClassificationUnknown m"
    and "no_collision s (dm_key m)" and "st_dir s \<noteq> []"
  shows "\<exists>e d. Put m s = (Some e, s\<lparr>st_disk := d\<rparr>) \<and>
    dk_files d = AList.update (mountStateFilename (dm_key m))
      (JsonFile (encode_state \<lparr>sf_Version = mountStateVersion, sf_Mount = m\<rparr>)) (dk_files (st_disk s)) \<and>
    (\<exists>t d'. newFileMountStateStore (st_dir s) (d\<lparr>dk_fail := \<lambda>_. False\<rparr>) = (Inr t, d') \<and>
       Get t = (Get s)(dm_key m \<mapsto> m))"
proof -
  obtain e d where put: "Put m s = (Some e, s\<lparr>st_disk := d\<rparr>)"
    and d: "dk_files d = AList.update (mount_file m) (JsonFile (state_doc m)) (dk_files (st_disk s))"
    using Put_sync_fails [OF assms(1,2)] by blast
  let ?s' = "putInMemory m (s\<lparr>st_disk := d\<rparr>)"
  have "\<exists>t d'. newFileMountStateStore (st_dir s) (d\<lparr>dk_fail := \<lambda>_. False\<rparr>) = (Inr t, d') \<and> Get t = Get ?s'"
    using assms(3-7) written_matches [OF assms(3-6) d]
    by (intro reload_same) (simp_all add: inv_intros)
  moreover have "Get ?s' = (Get s)(dm_key m \<mapsto> m)" using assms(3) by (simp add: Get_putInMemory)
  ultimately show ?thesis using put d by auto
qed

lemma failed_put_can_persist_witness:
  "\<exists>e s' t d'. Put (ex_intent []) (ex_store [7]) = (Some e, s') \<and> Get s' = Map.empty \<and>
     newFileMountStateStore ''/state'' ((st_disk s')\<lparr>dk_fail := \<lambda>_. False\<rparr>) = (Inr t, d') \<and>
     Get t = [ex_key \<mapsto> ex_intent []]"
proof -
  let ?s = "ex_store [7]" and ?m = "ex_intent []"
  have "\<exists>e d. Put ?m ?s = (Some e, ?s\<lparr>st_disk := d\<rparr>) \<and>
      dk_files d = AList.update (mountStateFilename (dm_key ?m))
        (JsonFile (encode_state \<lparr>sf_Version = mountStateVersion, sf_Mount = ?m\<rparr>)) (dk_files (st_disk ?s)) \<and>
      (\<exists>t d'. newFileMountStateStore (st_dir ?s) (d\<lparr>dk_fail := \<lambda>_. False\<rparr>) = (Inr t, d') \<and>
         Get t = (Get ?s)(dm_key ?m \<mapsto> ?m))"
  proof (rule failed_put_can_persist)
    show "disk_matches ?s"
      by (simp add: disk_matches_def) (simp add: ex_store_def empty_store_def ex_disk_def)
    show "\<not> dm_legacyRootClassificationUnknown ?m" by (simp add: ex_intent_def zero_desiredMount_def)
    show "no_collision ?s (dm_key ?m)" by (simp add: no_collision_def)
  qed (simp_all add: ex_store_def empty_store_def ex_disk_def store_inv_empty [unfolded empty_store_def])
  then show ?thesis by (fastforce simp: ex_store_def empty_store_def Get_def)
qed

end
