(* ===== verification/HandlerProps.thy ===== *)
theory HandlerProps
  imports Example
begin

text \<open>
  The properties of the request handlers: who may cause an effect, what a success and a
  failure leave behind, and when the handlers succeed.
\<close>

subsection \<open>Runs of the example\<close>

lemma ex_healthy: "healthy (ex_store [])"
  by (simp add: healthy_def ex_store_def empty_store_def ex_disk_def)

lemma ex_holding_healthy: "healthy (ex_holding c)"
proof -
  have "st_disk (putInMemory m t) = st_disk t" for m t
    by (simp add: putInMemory_def deleteInMemory_def Let_def split: option.splits)
  then show ?thesis by (simp add: healthy_def ex_holding_def ex_store_def empty_store_def ex_disk_def)
qed

lemma ex_mount: "mount ''tok'' [] ex_request (ex_server w st n) = mount_locked ex_normal ex_plan [] (ex_server w st n)"
  by (simp add: mount_def ex_authorized authorize_def no_authorizer_def)

lemma ex_not_root: "\<not> IsNFSExportRoot ex_plan"
  by code_simp

lemma ex_no_conflict: "\<not> mount_conflict ex_normal ex_plan (ex_server w (ex_store f) n)"
  by (simp add: mount_conflict_def)

lemma ex_mounter_simps [simp]:
  "nm_Mount (ex_mounter w) plan ms = (if w then (None, pl_TargetPath plan # ms) else (Some (Sentinel (Errno ''ENODEV'')), ms))"
  "nm_Unmount (ex_mounter w) plan ms = (if w then (None, removeAll (pl_TargetPath plan) ms) else (Some (Sentinel (Errno ''EBUSY'')), ms))"
  "nm_IsMounted (ex_mounter w) plan ms = (Inr (pl_TargetPath plan \<in> set ms), ms)"
  by (simp_all add: ex_mounter_def)

lemma ex_mount_run:
  "\<exists>s'. mount ''tok'' [] ex_request (ex_server True (ex_store []) []) = (Inr (mountResult ''nfs.csi'' ex_normal), s')"
proof -
  have "\<exists>s'. mount_locked ex_normal ex_plan [] (ex_server True (ex_store []) []) =
      (Inr (mountResult (wc_DriverName (sv_cfg (ex_server True (ex_store []) []))) ex_normal), s')"
    using ex_healthy ex_no_conflict by (intro mount_locked_succeeds) simp_all
  then show ?thesis by (simp add: ex_mount ex_cfg_def)
qed

lemma ex_unmount_pod: "authorizedPodForRequest ex_cfg ex_kube ''tok'' ex_unmounted = Inr ex_pod"
proof -
  have "token_binds_pod ex_cfg ex_token_status ex_pod" by code_simp
  moreover have "pod_of_request ex_cfg ex_pod ex_unmounted" by code_simp
  moreover have "kc_ReviewToken ex_kube ''tok'' [wc_TokenAudience ex_cfg] = Inr (Some ex_token_status)"
    "kc_GetPod ex_kube ''team-a'' ''pod-1'' = Inr ex_pod" by (simp_all add: ex_kube_def)
  moreover have "rq_Namespace ex_unmounted = ''team-a''" "rq_PodName ex_unmounted = ''pod-1''"
    "rq_PodUID ex_unmounted = ''uid-1''"
    by (simp_all add: ex_unmounted_def unmount_request_def ex_unmount_def)
  ultimately show ?thesis
    by (auto simp: authorizedPodForRequest_def success_iff token_binds_pod_def pod_of_request_def prefix_def)
qed

lemma ex_unmount_status: "selectContainerStatus ex_pod (rq_ContainerName ex_unmounted) = Inr ex_status"
  by code_simp

lemma ex_unmounted_same: "ex_unmounted\<lparr>rq_ContainerName := cs_Name ex_status\<rparr> = ex_unmounted"
  by (simp add: ex_unmounted_def unmount_request_def ex_unmount_def ex_status_def)

lemma ex_unmount_run:
  "unmount ''tok'' ex_unmount (ex_server w st n) = unmount_locked ex_unmounted ex_pod ex_status (ex_server w st n)"
  by (simp add: unmount_def ex_normalize ex_unmount_pod ex_unmount_status ex_unmounted_same)

lemma ex_unmount_key [simp]: "desiredMountKeyFor ex_unmounted = ex_key"
  by (simp add: desiredMountKeyFor_eq ex_key_def ex_unmounted_def unmount_request_def ex_unmount_def)

lemma ex_intent_PV [simp]: "rq_PVName (dm_Request (ex_intent c)) = rq_PVName ex_unmounted"
  by (simp add: ex_intent_def ex_normal_def ex_request_def ex_unmounted_def unmount_request_def ex_unmount_def)

lemma ex_intent_ContainerID [simp]: "dm_ContainerID (ex_intent c) = c"
  by (simp add: ex_intent_def)

subsection \<open>mount\<close>

text \<open>C1. mount changes anything at all only for an authorized request: the token is bound to
  the Pod the API server returned for the request, the PV admits the Pod, the target is
  outside the denied paths, and when the plan is for the export root and a key is
  configured, the key of the header has the configured key's hash. The change is confined to
  the one target, and the node is only asked for the plan whose every field is the PV's, the
  Pod's, the container's or the request's: name, volume handle, server, share, subDir and
  mount options are those of the PV the API server returned, and it is for the export root
  exactly when the PV's subDir and the request's sub path name no directory below it.\<close>

theorem mount_only_authorized:
  assumes "server_ok s" and "mount token key request s = (r, s')" and "s' \<noteq> s"
  shows "\<exists>q plan fp pod pv csi status.
    authorized_mount (sv_cfg s) (sv_kube s) (sv_exportRoot s) token key request q plan fp \<and>
    kc_GetPod (sv_kube s) (rq_Namespace q) (rq_PodName q) = Inr pod \<and>
    kc_GetPersistentVolume (sv_kube s) (rq_PVName q) = Inr pv \<and> vs_CSI (pv_Spec pv) = Some csi \<and>
    selectContainerStatus pod (rq_ContainerName request) = Inr status \<and>
    plan_of q pod pv status plan \<and>
    (IsNFSExportRoot plan \<longleftrightarrow>
       source_segs (TrimSpace (first_attribute (csi_VolumeAttributes csi) ''subDir'' ''subdir'')) = [] \<and>
       rq_SourceSubPath q = []) \<and>
    (IsNFSExportRoot plan \<and> ra_configured (sv_exportRoot s) \<longrightarrow>
       sha256 (TrimSpace key) = ra_keyHash (sv_exportRoot s)) \<and>
    target_allowed (target_segs (pl_TargetPath plan)) \<and>
    node_calls (sv_mounter s) plan (sv_node s) (sv_node s') \<and> same_static s s' \<and>
    (\<forall>k. k \<noteq> desiredMountKeyFor q \<longrightarrow> state_Get s' k = state_Get s k)"
  using assms(2)
proof (cases rule: mount_cases)
  case (rejected e)
  then show ?thesis using assms(3) by simp
next
  case (authorized q plan fp)
  have "\<not> mount_conflict q plan s"
    using authorized(2) assms(3) mount_locked_conflict by (metis Pair_inject)
  note out = mount_locked_outcome [OF assms(1) authorized(2) this]
  obtain pod pv status where pod: "kc_GetPod (sv_kube s) (rq_Namespace q) (rq_PodName q) = Inr pod"
      "kc_GetPersistentVolume (sv_kube s) (rq_PVName q) = Inr pv"
      "selectContainerStatus pod (rq_ContainerName request) = Inr status"
    and plan: "plan_of q pod pv status plan"
    using authorized(1) unfolding authorized_mount_def by blast
  from plan obtain csi where csi: "vs_CSI (pv_Spec pv) = Some csi"
    and root: "IsNFSExportRoot plan \<longleftrightarrow>
       source_segs (TrimSpace (first_attribute (csi_VolumeAttributes csi) ''subDir'' ''subdir'')) = [] \<and>
       rq_SourceSubPath q = []"
    by (rule plan_of_root)
  have key: "IsNFSExportRoot plan \<and> ra_configured (sv_exportRoot s) \<longrightarrow>
      sha256 (TrimSpace key) = ra_keyHash (sv_exportRoot s)"
    using authorized(1) by (simp add: authorized_mount_def authorize_Inr)
  have "pl_TargetPath plan = rq_TargetPath q" "normal_request (sv_cfg s) q"
    using authorized(1) plan by (auto simp: authorized_mount_def plan_of_def)
  then have "target_allowed (target_segs (pl_TargetPath plan))"
    by (simp add: normal_request_def ValidateTargetPath_spec)
  then show ?thesis
    using out authorized(1) pod csi plan root key unfolding mount_outcome_def handler_frame_def by blast
qed

lemma mount_only_authorized_witness:
  "\<exists>s'. mount ''tok'' [] ex_request (ex_server True (ex_store []) []) = (Inr (mountResult ''nfs.csi'' ex_normal), s') \<and>
     (\<exists>q plan fp. authorized_mount ex_cfg ex_kube no_authorizer ''tok'' [] ex_request q plan fp)"
proof -
  obtain s' where run: "mount ''tok'' [] ex_request (ex_server True (ex_store []) []) =
      (Inr (mountResult ''nfs.csi'' ex_normal), s')" using ex_mount_run by blast
  have ne: "s' \<noteq> ex_server True (ex_store []) []"
  proof
    assume "s' = ex_server True (ex_store []) []"
    then have "mount_outcome ex_normal ex_plan [] (ex_server True (ex_store []) [])
        (Inr (mountResult ''nfs.csi'' ex_normal)) (ex_server True (ex_store []) [])"
      using mount_locked_outcome [OF _ _ ex_no_conflict] run by (simp add: ex_mount)
    then obtain d where "state_Get (ex_server True (ex_store []) []) =
        (state_Get (ex_server True (ex_store []) []))(desiredMountKeyFor ex_normal \<mapsto> d)"
      unfolding mount_outcome_def sum.case by blast
    then have "state_Get (ex_server True (ex_store []) []) (desiredMountKeyFor ex_normal) = Some d"
      by (metis fun_upd_same)
    then show False by simp
  qed
  have "server_ok (ex_server True (ex_store []) [])" by simp
  from mount_only_authorized [OF this run ne] show ?thesis using run by auto
qed

text \<open>C4. What mount leaves behind. On success the node has reported the target mounted and
  the intent of the request is recorded, with the export-root authorization it was given. On
  an error the intents are what they were, or have the refreshed fingerprint; the pending
  intent stays only when the handler tried to take it back (to restore the intent it had
  replaced, or to delete it where there was none) and the store failed that call.\<close>

theorem mount_effect:
  assumes "server_ok s" and "mount token key request s = (r, s')"
  shows "s' = s \<and> isl r \<or>
    (\<exists>q plan fp. authorized_mount (sv_cfg s) (sv_kube s) (sv_exportRoot s) token key request q plan fp \<and>
       (case r of
          Inr res \<Rightarrow> res = mountResult (wc_DriverName (sv_cfg s)) q \<and>
            node_says_mounted (sv_mounter s) plan (sv_node s) (sv_node s') \<and>
            (\<exists>d. records_mount q plan fp d \<and> state_Get s' = (state_Get s)(desiredMountKeyFor q \<mapsto> d))
        | Inl e \<Rightarrow> mount_left (desiredMountKeyFor q) (fresh_intent q plan fp) fp s e s'))"
  using assms(2)
proof (cases rule: mount_cases)
  case (rejected e)
  then show ?thesis by simp
next
  case (authorized q plan fp)
  show ?thesis
  proof (cases "mount_conflict q plan s")
    case True
    then obtain e where "mount_locked q plan fp s = (Inl e, s)" by (rule mount_locked_conflict)
    then show ?thesis using authorized(2) by auto
  next
    case False
    note out = mount_locked_outcome [OF assms(1) authorized(2) False]
    then have "case r of
          Inr res \<Rightarrow> res = mountResult (wc_DriverName (sv_cfg s)) q \<and>
            node_says_mounted (sv_mounter s) plan (sv_node s) (sv_node s') \<and>
            (\<exists>d. records_mount q plan fp d \<and> state_Get s' = (state_Get s)(desiredMountKeyFor q \<mapsto> d))
        | Inl e \<Rightarrow> mount_left (desiredMountKeyFor q) (fresh_intent q plan fp) fp s e s'"
      by (cases r) (simp_all add: mount_outcome_def)
    then show ?thesis using authorized(1) by blast
  qed
qed

lemma mount_effect_witness:
  "\<exists>s' q d. mount ''tok'' [] ex_request (ex_server True (ex_store []) []) = (Inr (mountResult ''nfs.csi'' ex_normal), s') \<and>
     state_Get s' (desiredMountKeyFor q) = Some d"
proof -
  obtain s' where run: "mount ''tok'' [] ex_request (ex_server True (ex_store []) []) =
      (Inr (mountResult ''nfs.csi'' ex_normal), s')" using ex_mount_run by blast
  have "server_ok (ex_server True (ex_store []) [])" by simp
  from mount_effect [OF this run] obtain q d where
    "state_Get s' = (state_Get (ex_server True (ex_store []) []))(desiredMountKeyFor q \<mapsto> d)" by auto
  then have "state_Get s' (desiredMountKeyFor q) = Some d" by simp
  then show ?thesis using run by blast
qed

text \<open>A target that is already taken by another request, or whose effective export-root
  selection has changed, is refused with 400 and nothing changes.\<close>

lemma mount_conflict_refused:
  assumes "authorizedMountPlan (sv_cfg s) (sv_kube s) token request True = Inr (q, plan)"
    and "authorize (sv_exportRoot s) plan key = Inr fp"
    and "state_Get s (desiredMountKeyFor q) = Some p"
    and "dm_Request p \<noteq> q \<or> dm_ExportRootAuthorized p \<noteq> IsNFSExportRoot plan"
  shows "\<exists>e. mount token key request s = (Inl e, s) \<and> requestErrorStatus e = 400"
proof -
  have "mount_conflict q plan s" using assms(3,4) by (auto simp: mount_conflict_def)
  then obtain e where "mount_locked q plan fp s = (Inl e, s)" "errors_Is ErrBadRequest e"
    by (rule mount_locked_conflict)
  then show ?thesis using assms(1,2) by (simp add: mount_def requestErrorStatus_def)
qed

text \<open>C25. With a healthy disk and a working node every authorized request that does not
  conflict is mounted: the handler returns the result.\<close>

theorem mount_succeeds:
  assumes "server_ok s" and "sv_healthy s"
    and "authorizedMountPlan (sv_cfg s) (sv_kube s) token request True = Inr (q, plan)"
    and "authorize (sv_exportRoot s) plan key = Inr fp" and "\<not> mount_conflict q plan s"
    and "\<And>n. \<exists>n'. nm_Mount (sv_mounter s) plan n = (None, n')"
    and "\<And>n. \<exists>b n'. nm_IsMounted (sv_mounter s) plan n = (Inr b, n')"
  shows "\<exists>s'. mount token key request s = (Inr (mountResult (wc_DriverName (sv_cfg s)) q), s')"
  using mount_locked_succeeds [OF assms(1,2,5,6,7)] assms(3,4) by (simp add: mount_def)

lemma mount_succeeds_witness:
  "\<exists>s'. mount ''tok'' [] ex_request (ex_server True (ex_holding []) []) = (Inr (mountResult ''nfs.csi'' ex_normal), s')"
proof -
  let ?s = "ex_server True (ex_holding []) []"
  have "\<exists>s'. mount ''tok'' [] ex_request ?s = (Inr (mountResult (wc_DriverName (sv_cfg ?s)) ex_normal), s')"
    by (rule mount_succeeds [where plan = ex_plan and fp = "[]"])
      (simp_all add: ex_authorized ex_holding_healthy authorize_def no_authorizer_def mount_conflict_def
        ex_intent_def zero_desiredMount_def ex_not_root)
  then show ?thesis by (simp add: ex_cfg_def)
qed

text \<open>A mount repeated for a container that is already recorded, while the node still has
  it, returns the same result and changes no intent and no file.\<close>

lemma mount_repeated:
  assumes "authorizedMountPlan (sv_cfg s) (sv_kube s) token request True = Inr (q, plan)"
    and "authorize (sv_exportRoot s) plan key = Inr fp"
    and "state_Get s (desiredMountKeyFor q) = Some d" and "records_mount q plan fp d"
    and "dm_ContainerID d = pl_ContainerID plan"
    and "nm_IsMounted (sv_mounter s) plan (sv_node s) = (Inr True, n)"
  shows "mount token key request s =
    (Inr (mountResult (wc_DriverName (sv_cfg s)) q), s\<lparr>sv_node := n\<rparr>)"
proof -
  have d: "dm_Request d = q" "dm_ExportRootAuthorized d = IsNFSExportRoot plan"
    "dm_ExportRootKeyFingerprint d = fp" using assms(4) by (simp_all add: records_mount_def)
  then have "mount_locked q plan fp s = mount_existing q plan (fresh_intent q plan fp) d s"
    using assms(3) by (simp add: mount_locked_def Let_def refresh_fingerprint_def)
  also have "\<dots> = (Inr (mountResult (wc_DriverName (sv_cfg s)) q), s\<lparr>sv_node := n\<rparr>)"
    using assms(5,6) d by (simp add: mount_existing_def sameMountIntent_def node_IsMounted_def)
  finally show ?thesis using assms(1,2) by (simp add: mount_def)
qed

text \<open>When the node cannot mount a new target, the caller gets the node error and the
  intents are exactly as before: the pending intent has been withdrawn.\<close>

lemma mount_rolls_back:
  assumes "server_ok s" and "sv_healthy s"
    and "authorizedMountPlan (sv_cfg s) (sv_kube s) token request True = Inr (q, plan)"
    and "authorize (sv_exportRoot s) plan key = Inr fp"
    and "state_Get s (desiredMountKeyFor q) = None"
    and "nm_Mount (sv_mounter s) plan (sv_node s) = (Some e, n)"
  shows "\<exists>s'. mount token key request s = (Inl (Join [Sentinel ErrNodeOperation, e]), s') \<and>
    state_Get s' = state_Get s \<and> sv_node s' = n"
proof -
  let ?k = "desiredMountKeyFor q" and ?d = "fresh_intent q plan fp"
  have key: "dm_key ?d = ?k" by (rule dm_key_Request) simp
  obtain s1 where put: "state_Put ?d s = (None, s1)" and h1: "sv_healthy s1"
    using state_Put_healthy [OF assms(2)] by blast
  have s1: "sv_mounter s1 = sv_mounter s" "sv_node s1 = sv_node s" "server_ok s1"
    "state_Get s1 = (state_Get s)(?k \<mapsto> ?d)"
    using state_Put_frame [OF put] sv.put_ok [OF assms(1) put] sv.get_put [OF assms(1) put] key
    by (auto simp: same_static_def)
  let ?s2 = "s1\<lparr>sv_node := n\<rparr>"
  have mnt: "node_Mount plan s1 = (Some e, ?s2)" using assms(6) s1 by (simp add: node_Mount_def)
  have "sv_healthy ?s2" "server_ok ?s2" using h1 s1(3) by simp_all
  then obtain s3 where del: "state_Delete ?k ?s2 = (None, s3)" using state_Delete_healthy by blast
  have "state_Get s3 = (state_Get ?s2)(?k := None)" using sv.get_del [OF \<open>server_ok ?s2\<close> del] .
  then have "state_Get s3 = state_Get s" using s1(4) assms(5) by (simp add: fun_upd_idem)
  moreover have "sv_node s3 = n" using state_Delete_frame [OF del] by simp
  moreover have "mount_locked q plan fp s = (Inl (Join [Sentinel ErrNodeOperation, e]), s3)"
    using assms(5) put mnt del
    by (simp add: mount_locked_def Let_def mount_apply_def restoreDesiredMount_def node_failure_def)
  ultimately show ?thesis using assms(3,4) by (simp add: mount_def)
qed

subsection \<open>unmount\<close>

lemma unmount_locked_effect:
  assumes "server_ok s" and "unmount_locked q pod status s = (r, s')"
  shows "same_static s s' \<and>
       (case r of
          Inr res \<Rightarrow> res = unmountResult (wc_DriverName (sv_cfg s)) q \<and>
            state_Get s' = (state_Get s)(desiredMountKeyFor q := None) \<and>
            (\<forall>p. state_Get s (desiredMountKeyFor q) = Some p \<longrightarrow> rq_PVName (dm_Request p) = rq_PVName q \<and>
               (if dm_ContainerID p \<noteq> [] \<and> dm_ContainerID p = cs_ContainerID status
                then node_says_unmounted (sv_mounter s) (unmount_plan q pod status) (sv_node s) (sv_node s')
                else sv_node s' = sv_node s))
        | Inl e \<Rightarrow> state_Get s' = state_Get s \<or>
            state_Get s' = (state_Get s)(desiredMountKeyFor q := None) \<and>
            rollback_failed (desiredMountKeyFor q) (state_Get s (desiredMountKeyFor q)) e s') \<and>
       (sv_node s' = sv_node s \<or>
        node_calls (sv_mounter s) (unmount_plan q pod status) (sv_node s) (sv_node s') \<and>
        (\<exists>p. state_Get s (desiredMountKeyFor q) = Some p \<and> rq_PVName (dm_Request p) = rq_PVName q \<and>
           dm_ContainerID p = cs_ContainerID status \<and> dm_ContainerID p \<noteq> []))"
  using assms refl by (cases rule: unmount_locked_cases) (auto simp: handler_frame_def fun_upd_idem)

text \<open>C5. What unmount does. It needs the same Pod-bound token. On success the intent of the
  target, if there was one, is gone and no other has changed, and it was for the requested
  PV: an intent of the container that is running is forgotten only with the node saying
  that nothing is mounted or that Unmount succeeded, any other without touching the node. On an error the
  intents are as before; the one intent is missing only when writing it back was tried and
  the store failed that call. The node is touched only for an intent of the requested PV and
  of the very container that is running, and only through a plan for the target.\<close>

theorem unmount_effect:
  assumes "server_ok s" and "unmount token request s = (r, s')"
  shows "s' = s \<and> isl r \<or>
    (\<exists>q pod status. authorized_unmount (sv_cfg s) (sv_kube s) token request q pod status \<and> same_static s s' \<and>
       (case r of
          Inr res \<Rightarrow> res = unmountResult (wc_DriverName (sv_cfg s)) q \<and>
            state_Get s' = (state_Get s)(desiredMountKeyFor q := None) \<and>
            (\<forall>p. state_Get s (desiredMountKeyFor q) = Some p \<longrightarrow> rq_PVName (dm_Request p) = rq_PVName q \<and>
               (if dm_ContainerID p \<noteq> [] \<and> dm_ContainerID p = cs_ContainerID status
                then node_says_unmounted (sv_mounter s) (unmount_plan q pod status) (sv_node s) (sv_node s')
                else sv_node s' = sv_node s))
        | Inl e \<Rightarrow> state_Get s' = state_Get s \<or>
            state_Get s' = (state_Get s)(desiredMountKeyFor q := None) \<and>
            rollback_failed (desiredMountKeyFor q) (state_Get s (desiredMountKeyFor q)) e s') \<and>
       (sv_node s' = sv_node s \<or>
        node_calls (sv_mounter s) (unmount_plan q pod status) (sv_node s) (sv_node s') \<and>
        (\<exists>p. state_Get s (desiredMountKeyFor q) = Some p \<and> rq_PVName (dm_Request p) = rq_PVName q \<and>
           dm_ContainerID p = cs_ContainerID status \<and> dm_ContainerID p \<noteq> [])))"
  using assms(2)
proof (cases rule: unmount_cases)
  case (rejected e)
  then show ?thesis by simp
next
  case (authorized q pod status)
  then show ?thesis using unmount_locked_effect [OF assms(1) authorized(2)] by blast
qed

lemma unmount_effect_witness:
  "\<exists>s'. unmount ''tok'' ex_unmount (ex_server True (ex_holding ''containerd://1'') [''/work'']) =
      (Inr (unmountResult ''nfs.csi'' ex_unmounted), s') \<and> state_Get s' ex_key = None"
proof -
  let ?s = "ex_server True (ex_holding ''containerd://1'') [''/work'']"
  have ok: "server_ok ?s" by simp
  have "\<exists>s'. unmount_locked ex_unmounted ex_pod ex_status ?s =
      (Inr (unmountResult (wc_DriverName (sv_cfg ?s)) ex_unmounted), s')"
    by (rule unmount_locked_succeeds) (simp_all add: ex_holding_healthy split: if_splits)
  then obtain s' where run: "unmount ''tok'' ex_unmount ?s = (Inr (unmountResult ''nfs.csi'' ex_unmounted), s')"
    by (auto simp: ex_unmount_run ex_cfg_def)
  from unmount_effect [OF ok run] obtain q pod status where
    au: "authorized_unmount ex_cfg ex_kube ''tok'' ex_unmount q pod status"
    and q: "unmountResult ''nfs.csi'' ex_unmounted = unmountResult (wc_DriverName ex_cfg) q"
    "state_Get s' = (state_Get ?s)(desiredMountKeyFor q := None)"
    by auto
  have eq: "q = (unmount_request ex_unmount)\<lparr>rq_TargetPath := rq_TargetPath q, rq_ContainerName := cs_Name status\<rparr>"
    using au unfolding authorized_unmount_def by blast
  have uid: "rq_PodUID q = ''uid-1''" by (subst eq) (simp add: unmount_request_def ex_unmount_def)
  have "desiredMountKeyFor q = ex_key"
    using q(1) uid
    by (simp add: desiredMountKeyFor_eq ex_key_def unmountResult_def ex_unmounted_def unmount_request_def ex_unmount_def)
  then show ?thesis using run q(2) by simp
qed

text \<open>With a healthy disk and a working node every authorized unmount of the registered PV
  returns its result.\<close>

lemma unmount_succeeds:
  assumes "server_ok s" and "sv_healthy s"
    and "normalizeMountRequest (sv_cfg s) (unmount_request request) False = Inr r"
    and "authorizedPodForRequest (sv_cfg s) (sv_kube s) token r = Inr pod"
    and "selectContainerStatus pod (rq_ContainerName r) = Inr status"
    and "q = r\<lparr>rq_ContainerName := cs_Name status\<rparr>"
    and "\<And>p. state_Get s (desiredMountKeyFor q) = Some p \<Longrightarrow> rq_PVName (dm_Request p) = rq_PVName q"
    and "\<And>plan n. \<exists>b n'. nm_IsMounted (sv_mounter s) plan n = (Inr b, n')"
    and "\<And>plan n. \<exists>n'. nm_Unmount (sv_mounter s) plan n = (None, n')"
  shows "\<exists>s'. unmount token request s = (Inr (unmountResult (wc_DriverName (sv_cfg s)) q), s')"
  using unmount_locked_succeeds [OF assms(1,2), of q pod status] assms(3-9) by (simp add: unmount_def)

lemma ex_unmount_works:
  "\<exists>s'. unmount ''tok'' ex_unmount (ex_server True (ex_holding ''containerd://1'') [''/work'']) =
      (Inr (unmountResult ''nfs.csi'' ex_unmounted), s')"
proof -
  let ?s = "ex_server True (ex_holding ''containerd://1'') [''/work'']"
  have "\<exists>s'. unmount ''tok'' ex_unmount ?s = (Inr (unmountResult (wc_DriverName (sv_cfg ?s)) ex_unmounted), s')"
    by (rule unmount_succeeds [where r = ex_unmounted and pod = ex_pod and status = ex_status])
      (simp_all add: ex_holding_healthy ex_normalize ex_unmount_pod ex_unmount_status ex_unmounted_same split: if_splits)
  then show ?thesis by (simp add: ex_cfg_def)
qed

text \<open>C28. An intent that is still pending, because recording its container failed after the
  mount had succeeded, is unmounted in name only: unmount forgets it and reports success
  without asking the node, so the mount itself stays.\<close>

theorem pending_unmount_leaves_node:
  assumes "server_ok s" and "sv_healthy s" and "state_Get s (desiredMountKeyFor q) = Some p"
    and "rq_PVName (dm_Request p) = rq_PVName q" and "dm_ContainerID p = []"
  shows "\<exists>s'. unmount_locked q pod status s = (Inr (unmountResult (wc_DriverName (sv_cfg s)) q), s') \<and>
    state_Get s' = (state_Get s)(desiredMountKeyFor q := None) \<and> sv_node s' = sv_node s"
proof -
  obtain s1 where del: "state_Delete (desiredMountKeyFor q) s = (None, s1)"
    using state_Delete_healthy [OF assms(2)] by blast
  then show ?thesis
    using assms(3-5) sv.get_del [OF assms(1) del] state_Delete_frame [OF del]
    by (simp add: unmount_locked_def Let_def)
qed

lemma pending_unmount_leaves_node_witness:
  "\<exists>s'. unmount ''tok'' ex_unmount (ex_server True (ex_holding []) [''/work'']) =
      (Inr (unmountResult ''nfs.csi'' ex_unmounted), s') \<and> sv_node s' = [''/work''] \<and> state_Get s' = Map.empty"
proof -
  let ?s = "ex_server True (ex_holding []) [''/work'']"
  have "\<exists>s'. unmount_locked ex_unmounted ex_pod ex_status ?s =
      (Inr (unmountResult (wc_DriverName (sv_cfg ?s)) ex_unmounted), s') \<and>
      state_Get s' = (state_Get ?s)(desiredMountKeyFor ex_unmounted := None) \<and> sv_node s' = sv_node ?s"
    by (rule pending_unmount_leaves_node [where p = "ex_intent []"]) (simp_all add: ex_holding_healthy)
  then show ?thesis by (auto simp: ex_unmount_run ex_cfg_def)
qed

subsection \<open>Replies\<close>

text \<open>A well-formed HTTP request whose body is malformed as a mount request (wrong version
  or driver, missing fields, a forbidden target or source path) is answered with 400 before
  anything is asked or changed.\<close>

lemma malformed_request_400:
  assumes "hr_Method r = ''POST''" and "bearerToken (hr_Authorization r) = Inr token"
    and "Option.bind (hr_Body r) (\<lambda>j. decode_struct (set_request True) j zero_MountRequest) = Some request"
    and "normalizeMountRequest (sv_cfg s) request True = Inl e"
  shows "handleMount r s = (Reply_Error 400 e, s)"
proof -
  have "errors_Is ErrBadRequest e"
    using assms(4) validateRequestShape_bad
    by (auto simp: normalizeMountRequest_def Let_def split: option.splits sum.splits)
  then show ?thesis
    using assms by (simp add: handleMount_def mount_def authorizedMountPlan_def requestErrorStatus_def)
qed

end
