(* ===== verification/ReconcileProps.thy ===== *)
theory ReconcileProps
  imports Example
begin

text \<open>
  The properties of the reconciler: what it mounts, what it forgets, and that its retries
  end.
\<close>

subsection \<open>Mounting again\<close>

text \<open>C6. Take an intent in the form the handlers store it (normalized, with a container
  name) and the Pod the reconciler is handed: the informer's snapshot of it when an event or
  the first sync starts the reconcile, what GetPod answers in a retry or for a Pod the sync
  has not seen. The reconciler changes something only if that intent is still the current
  one, the handed Pod is the Pod of the intent (namespace, name, UID, not finished, on this
  node) with a container other than the recorded one, and the PV that the API server returns now
  admits the Pod and the export-root key of now its plan. It then touches no other target,
  asks the node only for the plan whose every field is that PV's, the Pod's, the container's
  or the intent's, and records the new container only after the node has reported the
  mount.\<close>

theorem reconcile_safe:
  assumes "server_ok s" and "stored_form (sv_cfg s) d"
    and "reconcileMountForPod d pod s = (r, s')" and "s' \<noteq> s"
  shows "state_Get s (dm_key d) = Some d \<and>
    (\<exists>pv status plan d'. kc_GetPersistentVolume (sv_kube s) (rq_PVName (dm_Request d)) = Inr pv \<and>
       pod_of_request (sv_cfg s) pod (dm_Request d) \<and> pv_admits (sv_cfg s) pod pv \<and>
       selectContainerStatus pod (rq_ContainerName (dm_Request d)) = Inr status \<and>
       (dm_ContainerID d = [] \<or> dm_ContainerID d \<noteq> cs_ContainerID status) \<and>
       plan_of (dm_Request d) pod pv status plan \<and> root_allowed (sv_exportRoot s) plan d d' \<and>
       dm_Request d' = dm_Request d \<and>
       handler_frame (dm_key d) s s' \<and> node_calls (sv_mounter s) plan (sv_node s) (sv_node s') \<and>
       (r = None \<longrightarrow> node_says_mounted (sv_mounter s) plan (sv_node s) (sv_node s')) \<and>
       (state_Get s' = state_Get s \<or>
        r = None \<and> state_Get s' = (state_Get s)(dm_key d \<mapsto> d'\<lparr>dm_ContainerID := pl_ContainerID plan\<rparr>)))"
  using assms(1,3)
proof (cases rule: reconcileMountForPod_cases)
  case unchanged
  then show ?thesis using assms(4) by simp
next
  case (applied d' plan)
  note req = reconcile_ready_request [OF applied(2) assms(2)]
  note key = reconcile_ready_key [OF applied(2) assms(2)]
  obtain pv status where "kc_GetPersistentVolume (sv_kube s) (rq_PVName (dm_Request d)) = Inr pv"
    "pv_admits (sv_cfg s) pod pv" "selectContainerStatus pod (rq_ContainerName (dm_Request d)) = Inr status"
    "dm_ContainerID d = [] \<or> dm_ContainerID d \<noteq> cs_ContainerID status"
    "plan_of (dm_Request d) pod pv status plan"
    using applied(2) unfolding reconcile_ready_def req by blast
  moreover have "pod_of_request (sv_cfg s) pod (dm_Request d)" "root_allowed (sv_exportRoot s) plan d d'"
    using applied(2) unfolding reconcile_ready_def req by blast+
  ultimately show ?thesis
    using applied(1,3) req unfolding reconcile_outcome_def key by blast
qed

lemma ex_stored_form: "stored_form ex_cfg (ex_intent c)"
proof -
  have "stored_form ex_cfg (ex_intent [])" by code_simp
  then show ?thesis by (simp add: stored_form_def ex_intent_def)
qed

lemma reconcile_safe_witness:
  "\<exists>r s'. reconcileMountForPod (ex_intent ''containerd://0'') ex_pod
       (ex_server True (ex_holding ''containerd://0'') []) = (r, s') \<and>
     s' \<noteq> ex_server True (ex_holding ''containerd://0'') [] \<and>
     state_Get (ex_server True (ex_holding ''containerd://0'') []) ex_key = Some (ex_intent ''containerd://0'')"
proof -
  let ?d = "ex_intent ''containerd://0''" and ?s = "ex_server True (ex_holding ''containerd://0'') []"
  obtain r s' where run: "reconcileMountForPod ?d ex_pod ?s = (r, s')" by (metis surj_pair)
  let ?ok = "case reconcile_plan ex_cfg ex_kube no_authorizer ?d ex_pod of
      Inr (Some (d, plan)) \<Rightarrow> dm_ContainerID d = ''containerd://0'' \<and> pl_ContainerID plan = ''containerd://1'' \<and>
        pl_TargetPath plan = ''/work'' | _ \<Rightarrow> False"
  have "?ok" by code_simp
  then obtain d plan where p: "reconcile_plan ex_cfg ex_kube no_authorizer ?d ex_pod = Inr (Some (d, plan))"
    and d: "dm_ContainerID d = ''containerd://0''" "pl_ContainerID plan = ''containerd://1''" "pl_TargetPath plan = ''/work''"
    by (auto split: sum.splits option.splits prod.splits)
  have "reconcile_mount d plan ?s = (r, s')"
    using run p d by (simp add: reconcileMountForPod_def reconcile_apply_def)
  then have rec: "record_container d plan (?s\<lparr>sv_node := [''/work'']\<rparr>) = (r, s')"
    using d by (simp add: reconcile_mount_def node_Mount_def ex_mounter_def)
  have "server_ok (?s\<lparr>sv_node := [''/work'']\<rparr>)" by simp
  from record_container_effect(2) [OF this rec] have "sv_node s' = [''/work'']" by simp
  then have ne: "s' \<noteq> ?s" by auto
  have "server_ok ?s" "stored_form (sv_cfg ?s) ?d" using ex_stored_form by simp_all
  from reconcile_safe [OF this run ne] show ?thesis using run ne by simp
qed

text \<open>While the container of an intent is still the one recorded, the reconciler neither
  asks the node nor touches the store.\<close>

lemma reconcile_same_container:
  assumes "stored_form (sv_cfg s) d" and "pod_of_request (sv_cfg s) pod (dm_Request d)"
    and "selectContainerStatus pod (rq_ContainerName (dm_Request d)) = Inr status"
    and "dm_ContainerID d = cs_ContainerID status"
  shows "reconcileMountForPod d pod s = (None, s)"
proof -
  have "cs_ContainerID status \<noteq> []" using selectContainerStatus_Inr(2) [OF assms(3)] .
  moreover have "normalizeMountRequest (sv_cfg s) (dm_Request d) True = Inr (dm_Request d)"
    using assms(1) by (simp add: stored_form_def normalize_normal)
  moreover have "validatePodIdentity pod (dm_Request d) = None" "validatePodNode pod (wc_NodeName (sv_cfg s)) = None"
    using assms(2) by (auto simp: pod_of_request_def validatePodIdentity_None validatePodNode_None)
  ultimately have "reconcile_plan (sv_cfg s) (sv_kube s) (sv_exportRoot s) d pod = Inr None"
    using assms(3,4) by (simp add: reconcile_plan_def Let_def)
  then show ?thesis by (simp add: reconcileMountForPod_def split: option.splits)
qed

text \<open>After the export-root key is rotated, an intent for the export root that was
  authorized by another key is not mounted again: the reconciler reports it unauthorized,
  changes nothing, and handling that result keeps the intent.\<close>

lemma reconcile_rotated_key:
  assumes "state_Get s (dm_key d) = Some d" and "stored_form (sv_cfg s) d"
    and "pod_of_request (sv_cfg s) pod (dm_Request d)"
    and "selectContainerStatus pod (rq_ContainerName (dm_Request d)) = Inr status"
    and "dm_ContainerID d \<noteq> cs_ContainerID status"
    and "mountPlanForPod (sv_cfg s) (sv_kube s) (dm_Request d) pod = Inr (q, plan)"
    and "IsNFSExportRoot plan" and "ra_configured (sv_exportRoot s)"
    and "dm_ExportRootKeyFingerprint d \<noteq> ra_fingerprint (sv_exportRoot s)"
  shows "\<exists>e. reconcileMountForPod d pod s = (Some e, s) \<and>
    errors_Is ErrDesiredMountUnauthorized e \<and> \<not> errors_Is ErrDesiredMountStale e \<and>
    state_Get (handleReconcileResult d (Some e) s) = state_Get s"
proof -
  have "normalizeMountRequest (sv_cfg s) (dm_Request d) True = Inr (dm_Request d)"
    using assms(2) by (simp add: stored_form_def normalize_normal)
  moreover have "validatePodIdentity pod (dm_Request d) = None" "validatePodNode pod (wc_NodeName (sv_cfg s)) = None"
    using assms(3) by (auto simp: pod_of_request_def validatePodIdentity_None validatePodNode_None)
  moreover have "cs_Name status = rq_ContainerName (dm_Request d)"
    using selectContainerStatus_Inr(3) [OF assms(4)] assms(2) by (simp add: stored_form_def)
  then have same: "(dm_Request d)\<lparr>rq_ContainerName := cs_Name status\<rparr> = dm_Request d" by simp
  have "\<exists>e. reconcile_root (sv_exportRoot s) plan (d\<lparr>dm_Request := q\<rparr>) = Inl e \<and>
      errors_Is ErrDesiredMountUnauthorized e \<and> \<not> errors_Is ErrDesiredMountStale e"
    using assms(7-9) by (auto simp: reconcile_root_def Let_def authorizesFingerprint_def)
  then obtain e where "reconcile_root (sv_exportRoot s) plan (d\<lparr>dm_Request := q\<rparr>) = Inl e"
    and e: "errors_Is ErrDesiredMountUnauthorized e" "\<not> errors_Is ErrDesiredMountStale e" by blast
  ultimately have "reconcile_plan (sv_cfg s) (sv_kube s) (sv_exportRoot s) d pod = Inl e"
    using assms(4-6) by (simp add: reconcile_plan_def Let_def same)
  then have "reconcileMountForPod d pod s = (Some e, s)"
    using assms(1) by (simp add: reconcileMountForPod_def)
  moreover have "state_Get (handleReconcileResult d (Some e) s) = state_Get s"
    using e(2) by (simp add: handleReconcileResult_def logReconcileError_def)
  ultimately show ?thesis using e by blast
qed

text \<open>C30. An intent of a version 1 state file for the export root can be adopted while no key
  is configured; once it has been written back to disk (as a failed unmount does) the file no
  longer says that its root authorization is unknown, and after a restart the reconciler
  refuses it.\<close>

theorem legacy_intent_rewritten:
  assumes "classify_state path st = Inr m" and "sf_Version st = legacyMountStateVersion"
    and "IsNFSExportRoot plan" and "\<not> ra_configured a"
  shows "(\<exists>d. reconcile_root a plan m = Inr d) \<and>
    (\<exists>m' e. represents (encode_state \<lparr>sf_Version = mountStateVersion, sf_Mount = m\<rparr>) m' \<and>
       reconcile_root a plan m' = Inl e \<and> errors_Is ErrDesiredMountUnauthorized e)"
proof -
  have m: "dm_legacyRootClassificationUnknown m" "\<not> dm_ExportRootAuthorized m"
    using assms(1,2) by (auto simp: classify_state_def legacyMountStateVersion_def mountStateVersion_def)
  have "\<exists>d. reconcile_root a plan m = Inr d"
    using m assms(3,4) by (simp add: reconcile_root_def Let_def)
  moreover have "\<exists>e. reconcile_root a plan (clear_legacy m) = Inl e \<and> errors_Is ErrDesiredMountUnauthorized e"
    using m assms(3,4) by (simp add: reconcile_root_def Let_def clear_legacy_def)
  ultimately show ?thesis using represents_state_doc [of m] by blast
qed

lemma legacy_intent_rewritten_witness:
  "\<exists>m d. classify_state [] \<lparr>sf_Version = 1, sf_Mount = ex_intent ''c''\<rparr> = Inr m \<and>
     reconcile_root no_authorizer (ex_plan\<lparr>pl_PV := (pl_PV ex_plan)\<lparr>nv_SubDir := []\<rparr>, pl_SourceSubPath := []\<rparr>) m = Inr d"
proof -
  obtain m where m: "classify_state [] \<lparr>sf_Version = 1, sf_Mount = ex_intent ''c''\<rparr> = Inr m"
    by (simp add: classify_state_def legacyMountStateVersion_def mountStateVersion_def)
  have "IsNFSExportRoot (ex_plan\<lparr>pl_PV := (pl_PV ex_plan)\<lparr>nv_SubDir := []\<rparr>, pl_SourceSubPath := []\<rparr>)"
    by (simp add: IsNFSExportRoot_def)
  moreover have "\<not> ra_configured no_authorizer" by (simp add: no_authorizer_def)
  ultimately show ?thesis
    using legacy_intent_rewritten [OF m] m by (simp add: legacyMountStateVersion_def)
qed

subsection \<open>Forgetting\<close>

text \<open>C12. Handling a reconcile result removes an intent only if the error says that it is stale
  and the intent is still the one that was reconciled; no other error, and no newer intent,
  is ever removed, and the node is not touched.\<close>

theorem only_stale_forgotten:
  assumes "server_ok s" and "state_Get (handleReconcileResult d r s) k \<noteq> state_Get s k"
  shows "k = dm_key d \<and> state_Get s k = Some d \<and> state_Get (handleReconcileResult d r s) k = None \<and>
    (\<exists>e. r = Some e \<and> errors_Is ErrDesiredMountStale e) \<and>
    sv_node (handleReconcileResult d r s) = sv_node s"
  using assms(1) refl
proof (cases rule: handleReconcileResult_cases [of s d r "handleReconcileResult d r s"])
  case (deleted e)
  then show ?thesis using assms(2) by (auto split: if_splits)
qed (use assms(2) in simp_all)

lemma only_stale_forgotten_witness:
  "state_Get (handleReconcileResult (ex_intent ''c'') (Some (Sentinel ErrDesiredMountStale))
     (ex_server True (ex_holding ''c'') [])) ex_key = None"
proof -
  let ?s = "ex_server True (ex_holding ''c'') []" and ?r = "Some (Sentinel ErrDesiredMountStale)"
  have "healthy (ex_holding ''c'')"
  proof -
    have "st_disk (putInMemory m t) = st_disk t" for m t
      by (simp add: putInMemory_def deleteInMemory_def Let_def split: option.splits)
    then show ?thesis by (simp add: healthy_def ex_holding_def ex_store_def empty_store_def ex_disk_def)
  qed
  then obtain s1 where del: "state_Delete ex_key ?s = (None, s1)"
    using state_Delete_healthy [of ?s ex_key] by auto
  have ok: "server_ok ?s" by simp
  have "state_Get (handleReconcileResult (ex_intent ''c'') ?r ?s) ex_key = None"
    using del sv.get_del [OF ok del] by (simp add: handleReconcileResult_def)
  then have ne: "state_Get (handleReconcileResult (ex_intent ''c'') ?r ?s) ex_key \<noteq> state_Get ?s ex_key" by simp
  from only_stale_forgotten [OF ok ne] show ?thesis by simp
qed

text \<open>The DELETED event of a Pod forgets every intent of exactly that Pod (one that could
  not be deleted is still there, with its error recorded), leaves all other intents and the
  node alone and schedules nothing.\<close>

lemma deleted_pod_forgotten:
  assumes "server_ok s" and "we_Type ev = ''DELETED''"
    and "reconcilePodEvent ctxDone ev (s, q) = (s', q')"
  shows "q' = q \<and> sv_node s' = sv_node s \<and>
    (\<forall>k d. state_Get s k = Some d \<longrightarrow>
       (if desiredPodKeyFor (dm_Request d) = event_pod_key ev
        then state_Get s' k = None \<or> state_Get s' k = Some d \<and> sv_reconcileErrors s' k \<noteq> None
        else state_Get s' k = Some d)) \<and>
    (\<forall>k. state_Get s k = None \<longrightarrow> state_Get s' k = None)"
proof -
  let ?ds = "ListForPod (sv_state s) (event_pod_key ev)"
  have ds: "distinct (map dm_key ?ds)"
    "\<And>d. d \<in> set ?ds \<longleftrightarrow> state_Get s (dm_key d) = Some d \<and> podKeyOf d = event_pod_key ev"
    using sv_ListForPod [OF assms(1)] by auto
  have "fold (event_step ctxDone ev) ?ds (s, q) = (s', q')"
    using assms(3) by (simp add: reconcilePodEvent_def)
  from DELETED_fold [OF assms(2,1) ds(1) _ this] ds(2)
  have f: "rec_frame (dm_key ` set ?ds) s s'" "q' = q" "sv_node s' = sv_node s"
    "\<forall>d \<in> set ?ds. state_Get s' (dm_key d) = None \<or>
       state_Get s' (dm_key d) = Some d \<and> sv_reconcileErrors s' (dm_key d) \<noteq> None" by auto
  have key: "state_Get s k = Some d \<Longrightarrow> dm_key d = k" for k d using sv.get_key [OF assms(1)] .
  have "if podKeyOf d = event_pod_key ev
        then state_Get s' k = None \<or> state_Get s' k = Some d \<and> sv_reconcileErrors s' k \<noteq> None
        else state_Get s' k = Some d" if d: "state_Get s k = Some d" for k d
  proof (cases "podKeyOf d = event_pod_key ev")
    case True
    then have "d \<in> set ?ds" using ds(2) d key [OF d] by simp
    then show ?thesis using f(4) key [OF d] True by auto
  next
    case False
    then have "k \<notin> dm_key ` set ?ds" using ds(2) d key by (metis imageE option.inject)
    then show ?thesis using f(1) d False by (simp add: rec_frame_def)
  qed
  moreover have "state_Get s' k = None" if "state_Get s k = None" for k
  proof -
    have "k \<notin> dm_key ` set ?ds" using ds(2) that by (metis imageE option.distinct(1))
    then show ?thesis using f(1) that by (simp add: rec_frame_def)
  qed
  ultimately show ?thesis using f(2,3) by blast
qed

subsection \<open>Retrying\<close>

text \<open>C13. Retries end: left to itself, a queue whose attempts are in range is empty after at
  most five rounds for each entry, whatever the node and the API server answer, and then
  no key is marked as retrying, so that every intent can be scheduled again.\<close>

theorem retries_end:
  assumes "server_ok s" and "retry_inv [] (s, q)"
  shows "snd (retry_rounds (5 * length q) (s, q)) = [] \<and>
    sv_retrying (fst (retry_rounds (5 * length q) (s, q))) = {}"
proof -
  have att: "\<forall>r \<in> set q. rr_attempt r < length reconcileRetryDelays" using assms(2) by (simp add: retry_inv_def)
  have e: "snd (retry_rounds (5 * length q) (s, q)) = []"
    using retry_rounds_drain [of "(s, q)"] att rounds_left_bound by simp
  have "retry_inv [] (retry_rounds n (s, q))" for n
    using retry_rounds_inv [of "(s, q)" n] assms by simp
  then show ?thesis using e by (metis append_Nil list.set(1) list.simps(8) retry_inv_def)
qed

lemma retries_end_witness:
  "snd (retry_rounds 5 (set_retrying (insert ex_key) (ex_server False (ex_holding ''containerd://0'') []),
     [\<lparr>rr_key = ex_key, rr_attempt = 0\<rparr>])) = []"
proof -
  let ?s = "set_retrying (insert ex_key) (ex_server False (ex_holding ''containerd://0'') [])"
  have "server_ok ?s" by simp
  moreover have "retry_inv [] (?s, [\<lparr>rr_key = ex_key, rr_attempt = 0\<rparr>])"
    by (simp add: retry_inv_def reconcileRetryQueueSize_def)
  ultimately show ?thesis using retries_end [of ?s "[\<lparr>rr_key = ex_key, rr_attempt = 0\<rparr>]"] by simp
qed

end
