(* ===== verification/Kernel.thy ===== *)
theory Kernel
  imports GoErrors Paths
begin

unbundle bit_operations_syntax

text \<open>
  The interface between the node mounter and the operating system. The system is a
  parameter: a record of functions that answer a call given everything that was called
  before. So it may fail any call, hold any files, and change at any time on its own account
  (other processes, the network), and nothing is assumed of it here. A world is a system
  together with the trace of the calls made to it, newest first; what the calls mean for
  the calling thread and its file descriptors is a function of the trace, defined in the
  second half as the manual pages document it.
\<close>

subsection \<open>Calls\<close>

datatype flag = O_PATH | O_DIRECTORY | O_NOFOLLOW | O_CLOEXEC | O_RDONLY
  | OPEN_TREE_CLONE | OPEN_TREE_CLOEXEC | AT_EMPTY_PATH
  | MOVE_MOUNT_F_EMPTY_PATH | MOVE_MOUNT_T_EMPTY_PATH | MS_BIND

text \<open>
  The calls of golang.org/x/sys/unix and of package os the mounter makes, with their
  arguments, the command it runs, the test of its context, and its locks; and those of the
  wrapper command for its socket.
\<close>

datatype syscall =
    SysOpen string "flag list"                  \<comment> \<open>\<open>unix.Open\<close>\<close>
  | SysOpenat int string "flag list"            \<comment> \<open>\<open>unix.Openat\<close>\<close>
  | SysMkdirat int string "32 word"             \<comment> \<open>\<open>unix.Mkdirat\<close>\<close>
  | SysClose int                                \<comment> \<open>\<open>unix.Close\<close>, \<open>File.Close\<close>\<close>
  | SysOpenTree int string "flag list"          \<comment> \<open>\<open>unix.OpenTree\<close>\<close>
  | SysMoveMount int string int string "flag list" \<comment> \<open>\<open>unix.MoveMount\<close>\<close>
  | SysMount string string string "flag list" string \<comment> \<open>\<open>unix.Mount\<close>\<close>
  | SysUnmount string                           \<comment> \<open>\<open>unix.Unmount\<close> with flags 0\<close>
  | SysSetns int                                \<comment> \<open>\<open>setns\<close> with \<open>CLONE_NEWNS\<close>\<close>
  | SysUnshareFS                                \<comment> \<open>\<open>unshare\<close> with \<open>CLONE_FS\<close>\<close>
  | SysFchdir int | SysChroot string | SysChdir string
  | OsOpen string                               \<comment> \<open>\<open>os.Open\<close>\<close>
  | OsRead int                                  \<comment> \<open>all reads of an open file by the scanner\<close>
  | OsReadFile string | OsReadDir string | OsMkdirAll string "32 word" | OsRemove string
  | OsLstat string                              \<comment> \<open>\<open>os.Lstat\<close>\<close>
  | OsChmod string "32 word"
  | NetListen string                            \<comment> \<open>\<open>net.Listen("unix", path)\<close>\<close>
  | Command "string list"                       \<comment> \<open>\<open>exec.CommandContext(...).CombinedOutput()\<close>\<close>
  | CtxErr                                      \<comment> \<open>\<open>ctx.Err()\<close>\<close>
  | LockStaging nat | UnlockStaging nat | LockOSThread | UnlockOSThread
  | Warning string                              \<comment> \<open>a warning printed to standard error\<close>

text \<open>\<open>AT_FDCWD\<close>.\<close>

definition AT_FDCWD :: int where "AT_FDCWD = - 100"

definition returns_fd :: "syscall \<Rightarrow> bool" where
  "returns_fd c \<longleftrightarrow> (case c of SysOpen p fs \<Rightarrow> True | SysOpenat d p fs \<Rightarrow> True
     | SysOpenTree d p fs \<Rightarrow> True | OsOpen p \<Rightarrow> True | NetListen p \<Rightarrow> True | _ \<Rightarrow> False)"

text \<open>One call with its outcome: \<open>None\<close> or the error, and the descriptor it returned.\<close>

record event =
  ev_call :: syscall
  ev_errno :: "string option"
  ev_fd :: int

text \<open>
  The system: whether a call fails and with which error, and what a successful one returns: a
  descriptor, a text (file contents, the output of a command, also of a failing one, the
  printed mode of a file), or the entries of a directory with a mark for directories.
\<close>

record kernel =
  kn_errno :: "event list \<Rightarrow> syscall \<Rightarrow> string option"
  kn_fd :: "event list \<Rightarrow> syscall \<Rightarrow> int"
  kn_text :: "event list \<Rightarrow> syscall \<Rightarrow> string"
  kn_entries :: "event list \<Rightarrow> syscall \<Rightarrow> (string \<times> bool) list"

record world =
  wd_kernel :: kernel
  wd_trace :: "event list"

definition answer :: "world \<Rightarrow> syscall \<Rightarrow> event" where
  "answer w c = \<lparr>ev_call = c, ev_errno = kn_errno (wd_kernel w) (wd_trace w) c,
     ev_fd = (if returns_fd c then kn_fd (wd_kernel w) (wd_trace w) c else 0)\<rparr>"

definition kcall :: "syscall \<Rightarrow> world \<Rightarrow> string option \<times> world" where
  "kcall c w = (ev_errno (answer w c), w\<lparr>wd_trace := answer w c # wd_trace w\<rparr>)"

text \<open>The Go signatures: an error, a descriptor or an error, a text with an error.\<close>

definition call_err :: "syscall \<Rightarrow> world \<Rightarrow> go_error option \<times> world" where
  "call_err c w = (let (r, w') = kcall c w in (map_option (\<lambda>e. Sentinel (Errno e)) r, w'))"

definition call_fd :: "syscall \<Rightarrow> world \<Rightarrow> (go_error + int) \<times> world" where
  "call_fd c w =
     (let (r, w') = kcall c w in
      (case r of Some e \<Rightarrow> Inl (Sentinel (Errno e)) | None \<Rightarrow> Inr (kn_fd (wd_kernel w) (wd_trace w) c), w'))"

definition call_text :: "syscall \<Rightarrow> world \<Rightarrow> (string \<times> go_error option) \<times> world" where
  "call_text c w =
     (let (r, w') = call_err c w in ((kn_text (wd_kernel w) (wd_trace w) c, r), w'))"

definition call_entries :: "syscall \<Rightarrow> world \<Rightarrow> (go_error + (string \<times> bool) list) \<times> world" where
  "call_entries c w =
     (let (r, w') = call_err c w in
      (case r of Some e \<Rightarrow> Inl e | None \<Rightarrow> Inr (sort_key fst (kn_entries (wd_kernel w) (wd_trace w) c)), w'))"

text \<open>A call whose outcome the code ignores, and one that cannot fail.\<close>

definition ignored :: "syscall \<Rightarrow> world \<Rightarrow> world" where
  "ignored c w = snd (kcall c w)"

definition record_call :: "syscall \<Rightarrow> world \<Rightarrow> world" where
  "record_call c w = w\<lparr>wd_trace := \<lparr>ev_call = c, ev_errno = None, ev_fd = 0\<rparr> # wd_trace w\<rparr>"

abbreviation close :: "int \<Rightarrow> world \<Rightarrow> world" where
  "close fd \<equiv> ignored (SysClose fd)"

text \<open>\<open>defer\<close>: the deferred call runs after the rest of the function, on every return.\<close>

definition deferring :: "(world \<Rightarrow> world) \<Rightarrow> (world \<Rightarrow> 'r \<times> world) \<Rightarrow> world \<Rightarrow> 'r \<times> world" where
  "deferring d body w = (let (r, w') = body w in (r, d w'))"

subsection \<open>Open file descriptors\<close>

text \<open>\<open>close\<close> releases the descriptor even when it reports an error (close(2)).\<close>

definition closed_fd :: "syscall \<Rightarrow> int option" where
  "closed_fd c = (case c of SysClose fd \<Rightarrow> Some fd | _ \<Rightarrow> None)"

definition fds_step :: "event \<Rightarrow> int set \<Rightarrow> int set" where
  "fds_step e fds =
     (case closed_fd (ev_call e) of
        Some fd \<Rightarrow> fds - {fd}
      | None \<Rightarrow> if returns_fd (ev_call e) \<and> ev_errno e = None then insert (ev_fd e) fds else fds)"

primrec open_fds :: "event list \<Rightarrow> int set" where
  "open_fds [] = {}"
| "open_fds (e # tr) = fds_step e (open_fds tr)"

text \<open>A new descriptor is not negative and not one that is in use (open(2)).\<close>

definition fresh_fds :: "kernel \<Rightarrow> bool" where
  "fresh_fds K \<longleftrightarrow> (\<forall>tr c. returns_fd c \<longrightarrow> 0 \<le> kn_fd K tr c \<and> kn_fd K tr c \<notin> open_fds tr)"

text \<open>The path a descriptor was last opened with.\<close>

definition path_argument :: "syscall \<Rightarrow> string option" where
  "path_argument c = (case c of SysOpen p fs \<Rightarrow> Some p | OsOpen p \<Rightarrow> Some p | _ \<Rightarrow> None)"

primrec opened_path :: "event list \<Rightarrow> int \<Rightarrow> string option" where
  "opened_path [] fd = None"
| "opened_path (e # tr) fd =
     (if returns_fd (ev_call e) \<and> ev_errno e = None \<and> ev_fd e = fd then path_argument (ev_call e)
      else opened_path tr fd)"

text \<open>
  The directory a descriptor stands for, when the trace determines it: a path opened as a
  directory without following a link in its last component, and the names of the entries
  then entered one by one, none of them a link. A clone of a mount stands for the directory
  it was cloned from.
\<close>

definition fd_dir_of :: "(int \<Rightarrow> (string \<times> string list) option) \<Rightarrow> syscall \<Rightarrow> (string \<times> string list) option" where
  "fd_dir_of dirs c =
     (case c of
        SysOpen p fs \<Rightarrow> if O_NOFOLLOW \<in> set fs \<and> O_DIRECTORY \<in> set fs then Some (p, []) else None
      | SysOpenat d name fs \<Rightarrow>
          if O_NOFOLLOW \<in> set fs \<and> O_DIRECTORY \<in> set fs \<and> proper_seg name
          then map_option (\<lambda>(p, names). (p, names @ [name])) (dirs d) else None
      | SysOpenTree d p fs \<Rightarrow>
          if OPEN_TREE_CLONE \<in> set fs then
            if p = [] \<and> AT_EMPTY_PATH \<in> set fs then dirs d else if d = AT_FDCWD then Some (p, []) else None
          else None
      | _ \<Rightarrow> None)"

primrec fd_dir :: "event list \<Rightarrow> int \<Rightarrow> (string \<times> string list) option" where
  "fd_dir [] fd = None"
| "fd_dir (e # tr) fd =
     (if returns_fd (ev_call e) \<and> ev_errno e = None \<and> ev_fd e = fd then fd_dir_of (fd_dir tr) (ev_call e)
      else fd_dir tr fd)"

definition fd_meaning :: "event list \<Rightarrow> int \<Rightarrow> string option \<times> (string \<times> string list) option" where
  "fd_meaning tr fd = (opened_path tr fd, fd_dir tr fd)"

subsection \<open>The mount namespace and root of the thread\<close>

text \<open>
  A namespace is the mounter's own one or the one of the namespace file that was entered;
  \<open>PROC/self/ns/mnt\<close> is the own one. A root is the root of a namespace or a directory
  by the path it was opened with. \<open>setns\<close> to a mount namespace sets root and working
  directory of the thread to the root of the namespace.
\<close>

datatype mnt_ns = Own_ns | Ns_of string
datatype place = Root_of mnt_ns | Dir string | Unknown_place

record thread =
  th_ns :: mnt_ns
  th_root :: place
  th_cwd :: place

definition own_ns_file :: "string \<Rightarrow> bool" where
  "own_ns_file p \<longleftrightarrow>
     (let xs = split_on (CHR ''/'') p in drop (length xs - 3) xs = [''self'', ''ns'', ''mnt''])"

definition ns_of_fd :: "event list \<Rightarrow> int \<Rightarrow> mnt_ns" where
  "ns_of_fd tr fd =
     (case opened_path tr fd of
        Some p \<Rightarrow> if own_ns_file p then Own_ns else Ns_of p
      | None \<Rightarrow> Ns_of [])"

definition place_of_fd :: "event list \<Rightarrow> int \<Rightarrow> place" where
  "place_of_fd tr fd =
     (case opened_path tr fd of
        Some p \<Rightarrow> if p = ''/'' then Root_of Own_ns else Dir p
      | None \<Rightarrow> Unknown_place)"

definition start_thread :: thread where
  "start_thread = \<lparr>th_ns = Own_ns, th_root = Root_of Own_ns, th_cwd = Root_of Own_ns\<rparr>"

definition thread_step :: "event list \<Rightarrow> syscall \<Rightarrow> thread \<Rightarrow> thread" where
  "thread_step tr c t =
     (case c of
        SysSetns fd \<Rightarrow>
          let n = ns_of_fd tr fd in \<lparr>th_ns = n, th_root = Root_of n, th_cwd = Root_of n\<rparr>
      | SysFchdir fd \<Rightarrow> t\<lparr>th_cwd := place_of_fd tr fd\<rparr>
      | SysChdir p \<Rightarrow> t\<lparr>th_cwd := if p = ''/'' then th_root t else Unknown_place\<rparr>
      | SysChroot p \<Rightarrow> t\<lparr>th_root := if p = ''.'' then th_cwd t else Unknown_place\<rparr>
      | _ \<Rightarrow> t)"

primrec thread_of :: "event list \<Rightarrow> thread" where
  "thread_of [] = start_thread"
| "thread_of (e # tr) =
     (if ev_errno e \<noteq> None then thread_of tr else thread_step tr (ev_call e) (thread_of tr))"

end
