(* ===== verification/FileModes.thy ===== *)
theory FileModes
  imports GoErrors GoStrings
begin

unbundle bit_operations_syntax

text \<open>
  File modes: \<open>ParseFileMode\<close> and \<open>FormatFileMode\<close> of internal/config/config.go, the flag
  type \<open>fileModeValue\<close> of cmd/wrapper/main.go, and \<open>createdSubPathUnixMode\<close> of
  internal/node/mounter_linux.go, which gives the mode to \<open>mkdirat\<close>. An \<open>os.FileMode\<close>
  is a 32-bit word whose low nine bits are the permission bits of Unix; the setuid, setgid
  and sticky bits are its bits 23, 22 and 20, while Unix has them in the bits 11, 10 and 9.
\<close>

subsection \<open>Digits\<close>

definition digit_value :: "char \<Rightarrow> int" where
  "digit_value c = int (of_char c) - 48"

definition digits_value :: "int \<Rightarrow> string \<Rightarrow> int" where
  "digits_value base s = foldl (\<lambda>n c. n * base + digit_value c) 0 s"

definition is_octal :: "char \<Rightarrow> bool" where
  "is_octal c \<longleftrightarrow> 0 \<le> digit_value c \<and> digit_value c < 8"

subsection \<open>strconv.ParseUint in base 8\<close>

definition num_error :: "string \<Rightarrow> string \<Rightarrow> go_error" where
  "num_error value reason =
     Errorf ''strconv.ParseUint: parsing %q: %w'' [AStr value, AWrap (Sentinel (Errno reason))]"

text \<open>The loop stops at the first character that is no digit or takes the value over the
  maximum, so the error is the one met first.\<close>

fun octal_loop :: "string \<Rightarrow> int \<Rightarrow> int \<Rightarrow> string \<Rightarrow> go_error + int" where
  "octal_loop value maxVal n [] = Inr n"
| "octal_loop value maxVal n (c # cs) =
     (if \<not> is_octal c then Inl (num_error value ''invalid syntax'')
      else let n1 = n * 8 + digit_value c in
        if n1 > maxVal then Inl (num_error value ''value out of range'')
        else octal_loop value maxVal n1 cs)"

definition ParseUint_octal :: "string \<Rightarrow> nat \<Rightarrow> go_error + int" where
  "ParseUint_octal value bitSize =
     (if value = [] then Inl (num_error value ''invalid syntax'')
      else octal_loop value (2 ^ bitSize - 1) 0 value)"

subsection \<open>os.FileMode\<close>

definition ModePerm :: "32 word" where "ModePerm = 0x1FF"
definition ModeSetuid :: "32 word" where "ModeSetuid = 0x800000"
definition ModeSetgid :: "32 word" where "ModeSetgid = 0x400000"
definition ModeSticky :: "32 word" where "ModeSticky = 0x100000"

text \<open>\<open>0o770\<close>, in internal/config/config.go and again in internal/node/types.go.\<close>

definition DefaultCreatedSubPathMode :: "32 word" where "DefaultCreatedSubPathMode = 0x1F8"

definition mode_bit :: "bool \<Rightarrow> 32 word \<Rightarrow> 32 word \<Rightarrow> 32 word" where
  "mode_bit b flag mode = (if b then mode OR flag else mode)"

definition file_mode_of :: "int \<Rightarrow> 32 word" where
  "file_mode_of parsed =
     mode_bit (parsed AND 0x200 \<noteq> 0) ModeSticky
      (mode_bit (parsed AND 0x400 \<noteq> 0) ModeSetgid
       (mode_bit (parsed AND 0x800 \<noteq> 0) ModeSetuid
        (of_int (parsed AND 0x1FF))))"

definition ParseFileMode :: "string \<Rightarrow> go_error + 32 word" where
  "ParseFileMode value =
     (case ParseUint_octal value 16 of
        Inl err \<Rightarrow> Inl (Errorf ''parse %q as an octal file mode: %w'' [AStr value, AWrap err])
      | Inr parsed \<Rightarrow>
          if parsed > 0xFFF then Inl (Errorf ''file mode %q exceeds 07777'' [AStr value])
          else if parsed = 0 then Inl (Errorf ''file mode %q must be at least 0001'' [AStr value])
          else Inr (file_mode_of parsed))"

text \<open>The translation back to Unix bits, which the program writes twice.\<close>

definition unix_bits :: "32 word \<Rightarrow> 32 word" where
  "unix_bits mode =
     mode_bit (mode AND ModeSticky \<noteq> 0) 0x200
      (mode_bit (mode AND ModeSetgid \<noteq> 0) 0x400
       (mode_bit (mode AND ModeSetuid \<noteq> 0) 0x800
        (mode AND ModePerm)))"

text \<open>\<open>fmt.Sprintf("%04o", n)\<close>.\<close>

fun octal_digits :: "nat \<Rightarrow> string" where
  "octal_digits n =
     (if n < 8 then [char_of (48 + n)] else octal_digits (n div 8) @ [char_of (48 + n mod 8)])"

declare octal_digits.simps [simp del]

definition pad_octal :: "string \<Rightarrow> string" where
  "pad_octal s = replicate (4 - length s) (CHR ''0'') @ s"

definition FormatFileMode :: "32 word \<Rightarrow> string" where
  "FormatFileMode mode = pad_octal (octal_digits (unat (unix_bits mode)))"

definition createdSubPathUnixMode :: "32 word \<Rightarrow> 32 word" where
  "createdSubPathUnixMode mode =
     (let mode = (if mode = 0 then DefaultCreatedSubPathMode else mode) in unix_bits mode)"

subsection \<open>The flag type of the wrapper command\<close>

text \<open>A value holds a pointer to the mode, \<open>None\<close> for a nil one; \<open>Set\<close> writes through it.\<close>

definition fileModeValue_String :: "32 word option \<Rightarrow> string" where
  "fileModeValue_String target = (case target of None \<Rightarrow> [] | Some mode \<Rightarrow> FormatFileMode mode)"

definition fileModeValue_Set :: "string \<Rightarrow> 32 word \<Rightarrow> go_error option \<times> 32 word" where
  "fileModeValue_Set raw target =
     (case ParseFileMode raw of Inl err \<Rightarrow> (Some err, target) | Inr mode \<Rightarrow> (None, mode))"

subsection \<open>The value of a parsed mode\<close>

lemma is_octalD: "is_octal c \<Longrightarrow> 0 \<le> digit_value c"
  by (simp add: is_octal_def)

lemma octal_loop_Inr:
  "octal_loop v m n s = Inr x \<Longrightarrow> 0 \<le> n \<Longrightarrow>
     list_all is_octal s \<and> x = foldl (\<lambda>n c. n * 8 + digit_value c) n s \<and> 0 \<le> x \<and> (n \<le> m \<longrightarrow> x \<le> m)"
proof (induction v m n s rule: octal_loop.induct)
  case (2 v m n c cs)
  then show ?case by (auto simp: Let_def is_octal_def split: if_splits)
qed simp

lemma foldl_octal_mono: "list_all is_octal s \<Longrightarrow> (0::int) \<le> n \<Longrightarrow> n \<le> foldl (\<lambda>n c. n * 8 + digit_value c) n s"
proof (induction s arbitrary: n)
  case (Cons c s)
  then have d: "0 \<le> digit_value c" and s: "list_all is_octal s" by (simp_all add: is_octalD)
  have "n \<le> n * 8 + digit_value c" using d Cons.prems(2) by simp
  also have "\<dots> \<le> foldl (\<lambda>n c. n * 8 + digit_value c) (n * 8 + digit_value c) s"
    using Cons.IH [OF s, of "n * 8 + digit_value c"] d Cons.prems(2) by simp
  finally show ?case by simp
qed simp

lemma octal_loop_ok:
  "list_all is_octal s \<Longrightarrow> 0 \<le> n \<Longrightarrow> foldl (\<lambda>n c. n * 8 + digit_value c) n s \<le> m \<Longrightarrow>
     octal_loop v m n s = Inr (foldl (\<lambda>n c. n * 8 + digit_value c) n s)"
proof (induction v m n s rule: octal_loop.induct)
  case (2 v m n c cs)
  then have d: "0 \<le> digit_value c" and cs: "list_all is_octal cs" and c: "is_octal c"
    by (simp_all add: is_octalD)
  have "n * 8 + digit_value c \<le> foldl (\<lambda>n c. n * 8 + digit_value c) (n * 8 + digit_value c) cs"
    using foldl_octal_mono [OF cs] d "2.prems"(2) by simp
  then have "n * 8 + digit_value c \<le> m" using "2.prems"(3) by simp
  then show ?case using 2 c d by (simp add: Let_def)
qed simp

lemma ParseUint_octal_iff:
  "ParseUint_octal v b = Inr x \<longleftrightarrow>
     v \<noteq> [] \<and> list_all is_octal v \<and> x = digits_value 8 v \<and> x \<le> 2 ^ b - 1"
proof
  assume "ParseUint_octal v b = Inr x"
  then show "v \<noteq> [] \<and> list_all is_octal v \<and> x = digits_value 8 v \<and> x \<le> 2 ^ b - 1"
    using octal_loop_Inr [of v "2 ^ b - 1" 0 v x] by (auto simp: ParseUint_octal_def digits_value_def split: if_splits)
next
  assume "v \<noteq> [] \<and> list_all is_octal v \<and> x = digits_value 8 v \<and> x \<le> 2 ^ b - 1"
  then show "ParseUint_octal v b = Inr x"
    using octal_loop_ok [of v 0 "2 ^ b - 1" v] by (simp add: ParseUint_octal_def digits_value_def)
qed

lemma digits_value_nonneg: "list_all is_octal v \<Longrightarrow> 0 \<le> digits_value 8 v"
  using foldl_octal_mono [of v 0] by (simp add: digits_value_def)

lemma ParseFileMode_iff:
  "ParseFileMode v = Inr m \<longleftrightarrow>
     v \<noteq> [] \<and> list_all is_octal v \<and> 1 \<le> digits_value 8 v \<and> digits_value 8 v \<le> 0xFFF \<and>
     m = file_mode_of (digits_value 8 v)"
proof (cases "ParseUint_octal v 16")
  case (Inl err)
  then have "\<nexists>x. ParseUint_octal v 16 = Inr x" by simp
  then have "\<not> (v \<noteq> [] \<and> list_all is_octal v \<and> digits_value 8 v \<le> 2 ^ 16 - 1)"
    unfolding ParseUint_octal_iff by blast
  then show ?thesis using Inl by (auto simp: ParseFileMode_def)
next
  case (Inr x)
  then have "v \<noteq> []" "list_all is_octal v" "x = digits_value 8 v" by (simp_all add: ParseUint_octal_iff)
  then show ?thesis using Inr digits_value_nonneg [of v] by (auto simp: ParseFileMode_def)
qed

subsection \<open>Bits\<close>

lemma bit_flag: "f = 2 ^ k \<Longrightarrow> k < 32 \<Longrightarrow> bit (f :: 32 word) j \<longleftrightarrow> j = k"
  by (auto simp only: bit_exp_iff possible_bit_word len_num0 len_num1 len_bit0 len_bit1)

lemma bit_flag_int: "f = 2 ^ k \<Longrightarrow> bit (f :: int) j \<longleftrightarrow> j = k"
  by (auto simp only: bit_exp_iff possible_bit_int)

lemma bit_ModePerm: "bit ModePerm j \<longleftrightarrow> j < 9"
proof -
  have m: "ModePerm = mask 9" by (simp add: ModePerm_def mask_eq_exp_minus_1)
  show ?thesis unfolding m by (auto simp: bit_mask_iff)
qed

lemma bit_flags:
  "bit ModeSticky j \<longleftrightarrow> j = 20" "bit ModeSetgid j \<longleftrightarrow> j = 22" "bit ModeSetuid j \<longleftrightarrow> j = 23"
  "bit (0x200 :: 32 word) j \<longleftrightarrow> j = 9" "bit (0x400 :: 32 word) j \<longleftrightarrow> j = 10"
  "bit (0x800 :: 32 word) j \<longleftrightarrow> j = 11"
  by (rule bit_flag; simp add: ModeSticky_def ModeSetgid_def ModeSetuid_def)+

lemma bit_flags_int:
  "bit (0x200 :: int) j \<longleftrightarrow> j = 9" "bit (0x400 :: int) j \<longleftrightarrow> j = 10" "bit (0x800 :: int) j \<longleftrightarrow> j = 11"
  by (rule bit_flag_int; simp)+

lemma nonzero_bit: "(n :: 'a::semiring_bits) \<noteq> 0 \<Longrightarrow> \<exists>j. bit n j"
proof (rule ccontr)
  assume "n \<noteq> 0" "\<nexists>j. bit n j"
  then have "n = 0" by (intro bit_eqI) simp
  with \<open>n \<noteq> 0\<close> show False by contradiction
qed

lemma and_flag:
  assumes "\<And>j. bit (f :: 32 word) j \<longleftrightarrow> j = k"
  shows "w AND f \<noteq> 0 \<longleftrightarrow> bit w k"
proof
  assume "w AND f \<noteq> 0"
  then obtain j where "bit (w AND f) j" using nonzero_bit by blast
  then show "bit w k" using assms by (auto simp: bit_and_iff)
next
  assume "bit w k"
  then have "bit (w AND f) k" using assms by (simp add: bit_and_iff)
  then show "w AND f \<noteq> 0" by auto
qed

lemma and_flag_int:
  assumes "\<And>j. bit (f :: int) j \<longleftrightarrow> j = k"
  shows "n AND f \<noteq> 0 \<longleftrightarrow> bit n k"
proof
  assume "n AND f \<noteq> 0"
  then obtain j where "bit (n AND f) j" using nonzero_bit by blast
  then show "bit n k" using assms by (auto simp: bit_and_iff)
next
  assume "bit n k"
  then have "bit (n AND f) k" using assms by (simp add: bit_and_iff)
  then show "n AND f \<noteq> 0" by auto
qed

lemma bit_mode_bit: "bit (mode_bit b f w) j \<longleftrightarrow> bit w j \<or> b \<and> bit f j"
  by (simp add: mode_bit_def bit_or_iff)

lemma bit_perm_int: "bit (of_int (n AND 0x1FF) :: 32 word) j \<longleftrightarrow> j < 9 \<and> bit n j"
proof -
  have m: "(0x1FF :: int) = mask 9" by (simp add: mask_eq_exp_minus_1)
  show ?thesis unfolding m by (auto simp: bit_of_int_iff bit_and_iff bit_mask_iff)
qed

lemma bit_file_mode_of:
  "bit (file_mode_of n) j \<longleftrightarrow>
     (j < 9 \<and> bit n j) \<or> (j = 20 \<and> bit n 9) \<or> (j = 22 \<and> bit n 10) \<or> (j = 23 \<and> bit n 11)"
  unfolding file_mode_of_def bit_mode_bit bit_flags bit_perm_int
    and_flag_int [OF bit_flags_int(1)] and_flag_int [OF bit_flags_int(2)] and_flag_int [OF bit_flags_int(3)]
  by blast

lemma bit_unix_bits:
  "bit (unix_bits m) j \<longleftrightarrow>
     (j < 9 \<and> bit m j) \<or> (j = 9 \<and> bit m 20) \<or> (j = 10 \<and> bit m 22) \<or> (j = 11 \<and> bit m 23)"
  unfolding unix_bits_def bit_mode_bit bit_flags bit_and_iff bit_ModePerm
    and_flag [OF bit_flags(1)] and_flag [OF bit_flags(2)] and_flag [OF bit_flags(3)]
  by blast

lemma bit_all_modes:
  "bit (ModePerm OR ModeSetuid OR ModeSetgid OR ModeSticky) j \<longleftrightarrow> j < 9 \<or> j = 20 \<or> j = 22 \<or> j = 23"
  unfolding bit_or_iff bit_flags bit_ModePerm by blast

lemma bit_small_int: "0 \<le> (n::int) \<Longrightarrow> n \<le> 0xFFF \<Longrightarrow> bit n j \<Longrightarrow> j < 12"
proof -
  assume "0 \<le> n" "n \<le> 0xFFF" and b: "bit n j"
  then have "take_bit 12 n = n" by (simp add: take_bit_int_eq_self_iff)
  then show "j < 12" using b by (metis bit_take_bit_iff)
qed

lemma unix_bits_file_mode_of:
  assumes "0 \<le> n" and "n \<le> 0xFFF"
  shows "unix_bits (file_mode_of n) = of_int n"
proof (rule bit_word_eqI)
  fix j assume "j < LENGTH(32)"
  have j: "bit n j \<Longrightarrow> j < 9 \<or> j = 9 \<or> j = 10 \<or> j = 11"
    using bit_small_int [OF assms, of j] by linarith
  show "bit (unix_bits (file_mode_of n)) j = bit (of_int n :: 32 word) j"
    using j \<open>j < LENGTH(32)\<close> by (auto simp: bit_unix_bits bit_file_mode_of bit_simps)
qed

definition only_mode_bits :: "32 word \<Rightarrow> bool" where
  "only_mode_bits m \<longleftrightarrow> m AND NOT (ModePerm OR ModeSetuid OR ModeSetgid OR ModeSticky) = 0"

lemma only_mode_bits_iff: "only_mode_bits m \<longleftrightarrow> (\<forall>j. bit m j \<longrightarrow> j < 9 \<or> j = 20 \<or> j = 22 \<or> j = 23)"
proof
  assume "only_mode_bits m"
  then have "\<not> bit (m AND NOT (ModePerm OR ModeSetuid OR ModeSetgid OR ModeSticky)) j" for j
    by (simp add: only_mode_bits_def)
  then have "\<not> (bit m j \<and> j < 32 \<and> \<not> (j < 9 \<or> j = 20 \<or> j = 22 \<or> j = 23))" for j
    unfolding bit_and_iff bit_not_iff bit_all_modes by (simp add: possible_bit_word)
  then show "\<forall>j. bit m j \<longrightarrow> j < 9 \<or> j = 20 \<or> j = 22 \<or> j = 23"
    using bit_imp_le_length [of m] by fastforce
next
  assume *: "\<forall>j. bit m j \<longrightarrow> j < 9 \<or> j = 20 \<or> j = 22 \<or> j = 23"
  have "\<not> bit (m AND NOT (ModePerm OR ModeSetuid OR ModeSetgid OR ModeSticky)) j" for j
    unfolding bit_and_iff bit_not_iff bit_all_modes using * by blast
  then show "only_mode_bits m" unfolding only_mode_bits_def using nonzero_bit by blast
qed

lemma file_mode_of_unix_bits:
  assumes "only_mode_bits m"
  shows "file_mode_of (uint (unix_bits m)) = m"
proof (rule bit_word_eqI)
  fix j assume "j < LENGTH(32)"
  then show "bit (file_mode_of (uint (unix_bits m))) j = bit m j"
    using assms by (auto simp: only_mode_bits_iff bit_unix_bits bit_file_mode_of bit_uint_iff)
qed

lemma file_mode_of_bits: "only_mode_bits (file_mode_of n)"
  by (auto simp: only_mode_bits_iff bit_file_mode_of)

lemma unix_bits_le: "unat (unix_bits m) \<le> 0xFFF"
proof -
  have "take_bit 12 (unix_bits m) = unix_bits m"
    by (rule bit_word_eqI) (auto simp: bit_take_bit_iff bit_unix_bits)
  then have "unat (unix_bits m) = take_bit 12 (unat (unix_bits m))" by (metis unsigned_take_bit_eq)
  then have "unat (unix_bits m) < 2 ^ 12" by (metis take_bit_nat_less_exp)
  then show ?thesis by simp
qed

subsection \<open>Printing and parsing again\<close>

lemma digit_value_char [simp]: "d < 8 \<Longrightarrow> digit_value (char_of (48 + d :: nat)) = int d"
  by (simp add: digit_value_def)

lemma is_octal_char [simp]: "d < 8 \<Longrightarrow> is_octal (char_of (48 + d :: nat))"
  by (simp add: is_octal_def)

lemma octal_digits_parse:
  "list_all is_octal (octal_digits n) \<and> digits_value 8 (octal_digits n) = int n \<and> octal_digits n \<noteq> []"
proof (induction n rule: octal_digits.induct)
  case (1 n)
  show ?case
  proof (cases "n < 8")
    case True
    then show ?thesis by (simp add: octal_digits.simps [of n] digits_value_def)
  next
    case False
    have "int (n div 8) * 8 + int (n mod 8) = int n" by (simp add: zdiv_int zmod_int)
    then show ?thesis using 1 [OF False] False by (simp add: octal_digits.simps [of n] digits_value_def)
  qed
qed

lemma digits_value_zeros: "digits_value 8 (replicate k (CHR ''0'') @ s) = digits_value 8 s"
proof -
  have "digit_value (CHR ''0'') = 0" by (simp add: digit_value_def)
  then have "foldl (\<lambda>n c. n * 8 + digit_value c) 0 (replicate k (CHR ''0'')) = (0::int)"
    by (induction k) simp_all
  then show ?thesis by (simp add: digits_value_def)
qed

lemma ParseFileMode_FormatFileMode:
  assumes "only_mode_bits m" and "m \<noteq> 0"
  shows "ParseFileMode (FormatFileMode m) = Inr m"
proof -
  define n where "n = unat (unix_bits m)"
  let ?s = "FormatFileMode m"
  have again: "file_mode_of (int n) = m"
    using file_mode_of_unix_bits [OF assms(1)] unfolding n_def by (simp only: uint_nat)
  have "file_mode_of 0 = 0" by (rule bit_word_eqI) (simp add: bit_file_mode_of)
  then have "n \<noteq> 0" using again assms(2) by (cases "n = 0") auto
  have "n \<le> 0xFFF" unfolding n_def by (rule unix_bits_le)
  have "is_octal (CHR ''0'')" by (simp add: is_octal_def digit_value_def)
  then have "list_all is_octal ?s" "?s \<noteq> []" "digits_value 8 ?s = int n"
    using octal_digits_parse [of n]
    by (auto simp: FormatFileMode_def pad_octal_def digits_value_zeros list_all_iff simp flip: n_def)
  then show ?thesis
    using \<open>n \<noteq> 0\<close> \<open>n \<le> 0xFFF\<close> by (simp add: ParseFileMode_iff again)
qed

lemma length_octal_digits: "n < 8 ^ k \<Longrightarrow> 0 < k \<Longrightarrow> length (octal_digits n) \<le> k"
proof (induction n arbitrary: k rule: octal_digits.induct)
  case (1 n)
  show ?case
  proof (cases "n < 8")
    case False
    then obtain j where k: "k = Suc j" and j: "0 < j" using "1.prems" by (cases k) (auto, cases "k - 1", auto)
    have "n div 8 < 8 ^ j" using "1.prems"(1) by (simp add: k less_mult_imp_div_less)
    then show ?thesis using "1.IH" [OF False _ j] False by (simp add: octal_digits.simps [of n] k)
  qed (use "1.prems" in \<open>simp add: octal_digits.simps [of n]\<close>)
qed

lemma length_FormatFileMode: "length (FormatFileMode m) = 4"
  using length_octal_digits [of "unat (unix_bits m)" 4] unix_bits_le [of m]
  by (simp add: FormatFileMode_def pad_octal_def)

end
