(* ===== verification/NodeText.thy ===== *)
theory NodeText
  imports PathPolicy FileModes
begin

text \<open>
  The text the Linux node mounter reads: the mountinfo files of the kernel as
  \<open>bufio.Scanner\<close>, \<open>strings.Fields\<close> and \<open>strings.NewReplacer\<close> take them apart, container
  ids and the cgroup file of a process. All
  functions are pure and executable; the functions of internal/node/mounter_linux.go that
  open the files are in theory NodeMount. The second half relates the reading to the
  format the kernel writes.
\<close>

subsection \<open>strings.Contains, strings.Cut and strings.Fields\<close>

fun Contains :: "string \<Rightarrow> string \<Rightarrow> bool" where
  "Contains [] sub = (sub = [])"
| "Contains (c # s) sub = (HasPrefix (c # s) sub \<or> Contains s sub)"

text \<open>The part after the first \<open>sep\<close>, if \<open>sep\<close> occurs.\<close>

fun Cut_after :: "string \<Rightarrow> string \<Rightarrow> string option" where
  "Cut_after [] sep = (if sep = [] then Some [] else None)"
| "Cut_after (c # s) sep =
     (if HasPrefix (c # s) sep then Some (drop (length sep) (c # s)) else Cut_after s sep)"

definition flush_field :: "string \<Rightarrow> string list" where
  "flush_field cur = (if cur = [] then [] else [cur])"

text \<open>
  \<open>strings.Fields\<close> cuts at every Unicode space. \<open>trim_len space_encodings s\<close> is the length
  of the space at the head of \<open>s\<close>, 0 if there is none; the lead byte of a space cannot occur
  inside another rune.
\<close>

function fields_loop :: "string \<Rightarrow> string \<Rightarrow> string list" where
  "fields_loop cur s =
     (case s of [] \<Rightarrow> flush_field cur
      | c # cs \<Rightarrow>
        (let n = trim_len space_encodings s in
         if n = 0 then fields_loop (cur @ [c]) cs
         else flush_field cur @ fields_loop [] (drop n s)))"
  by pat_completeness auto
termination
  by (relation "measure (\<lambda>(cur, s). length s)") auto

declare fields_loop.simps [simp del]

definition Fields :: "string \<Rightarrow> string list" where
  "Fields s = fields_loop [] s"

subsection \<open>bufio.Scanner\<close>

definition LF :: char where "LF = CHR 0x0A"
definition CR :: char where "CR = CHR 0x0D"

text \<open>
  The lines of a text: a last line without a newline counts, an empty rest does not. A
  line of 64 KiB or more does not fit the buffer and ends the scan with \<open>ErrTooLong\<close>.
\<close>

definition raw_lines :: "string \<Rightarrow> string list" where
  "raw_lines s = (let ls = split_on LF s in if last ls = [] then butlast ls else ls)"

definition maxScanTokenSize :: nat where
  "maxScanTokenSize = 65536"

definition dropCR :: "string \<Rightarrow> string" where
  "dropCR l = (if l \<noteq> [] \<and> last l = CR then butlast l else l)"

definition scan_lines :: "string \<Rightarrow> string list" where
  "scan_lines s = map dropCR (takeWhile (\<lambda>l. length l < maxScanTokenSize) (raw_lines s))"

definition scan_too_long :: "string \<Rightarrow> bool" where
  "scan_too_long s = (\<exists>l \<in> set (raw_lines s). maxScanTokenSize \<le> length l)"

subsection \<open>mountinfo\<close>

text \<open>The pairs given to \<open>strings.NewReplacer\<close>, in their order.\<close>

definition mountinfo_escapes :: "(string \<times> char) list" where
  "mountinfo_escapes =
     [([CHR 0x5C, CHR ''0'', CHR ''4'', CHR ''0''], CHR '' ''),
      ([CHR 0x5C, CHR ''0'', CHR ''1'', CHR ''1''], CHR 0x09),
      ([CHR 0x5C, CHR ''0'', CHR ''1'', CHR ''2''], CHR 0x0A),
      ([CHR 0x5C, CHR ''1'', CHR ''3'', CHR ''4''], CHR 0x5C)]"

function decodeMountInfoPath :: "string \<Rightarrow> string" where
  "decodeMountInfoPath s =
     (case s of [] \<Rightarrow> []
      | c # cs \<Rightarrow>
        (case List.find (\<lambda>(old, new). HasPrefix s old) mountinfo_escapes of
           Some (old, new) \<Rightarrow> new # decodeMountInfoPath (drop 4 s)
         | None \<Rightarrow> c # decodeMountInfoPath cs))"
  by pat_completeness auto
termination
  by (relation "measure length") auto

declare decodeMountInfoPath.simps [simp del]

text \<open>The mount point a line of mountinfo names, if the line has its five fields.\<close>

definition line_mount_point :: "string \<Rightarrow> string option" where
  "line_mount_point line =
     (let fields = Fields line in
      if length fields < 5 then None else Some (decodeMountInfoPath (fields ! 4)))"

text \<open>The mount points below \<open>root\<close>, longest path first, as CleanupStagingRoot unmounts
  them. \<open>sort.Slice\<close> leaves the order of equally long paths open; the model keeps it.\<close>

definition mount_points_below :: "string \<Rightarrow> string list \<Rightarrow> string list" where
  "mount_points_below root lines =
     sort_key (\<lambda>m. - int (length m))
       (filter (\<lambda>m. HasPrefix m (path_Clean root @ ''/'')) (List.map_filter line_mount_point lines))"

subsection \<open>Container ids\<close>

definition normalizeContainerID :: "string \<Rightarrow> string" where
  "normalizeContainerID containerID =
     (case Cut_after containerID ''://'' of Some value \<Rightarrow> value | None \<Rightarrow> containerID)"

fun containsAny :: "string \<Rightarrow> string list \<Rightarrow> bool" where
  "containsAny value [] = False"
| "containsAny value (needle # needles) =
     (if needle \<noteq> [] \<and> Contains value needle then True else containsAny value needles)"

definition is_digit :: "char \<Rightarrow> bool" where
  "is_digit c \<longleftrightarrow> CHR ''0'' \<le> c \<and> c \<le> CHR ''9''"

definition isNumeric :: "string \<Rightarrow> bool" where
  "isNumeric value \<longleftrightarrow> list_all is_digit value \<and> value \<noteq> []"

definition planSafeContainerID :: "string \<Rightarrow> string" where
  "planSafeContainerID containerID =
     (let normalized = normalizeContainerID containerID in
      if length normalized \<le> 12 then normalized else take 12 normalized @ ''...'')"

text \<open>\<open>strconv.Atoi\<close> on a string of digits: \<open>None\<close> when the value exceeds an \<open>int64\<close>.\<close>

definition Atoi_digits :: "string \<Rightarrow> int option" where
  "Atoi_digits s = (let n = digits_value 10 s in if n < 2 ^ 63 then Some n else None)"

text \<open>\<open>strconv.Itoa\<close>.\<close>

fun decimal_digits :: "nat \<Rightarrow> string" where
  "decimal_digits n =
     (if n < 10 then [char_of (48 + n)] else decimal_digits (n div 10) @ [char_of (48 + n mod 10)])"

declare decimal_digits.simps [simp del]

definition Itoa :: "int \<Rightarrow> string" where
  "Itoa n = (if n < 0 then CHR ''-'' # decimal_digits (nat (- n)) else decimal_digits (nat n))"

definition pod_needles :: "string \<Rightarrow> string list" where
  "pod_needles podUID = [podUID, map (\<lambda>c. if c = CHR ''-'' then CHR ''_'' else c) podUID]"

definition container_needles :: "string \<Rightarrow> string list" where
  "container_needles normalizedID =
     (if length normalizedID > 12 then [normalizedID, take 12 normalizedID] else [normalizedID])"

definition cgroup_matches :: "string \<Rightarrow> string \<Rightarrow> string \<Rightarrow> bool" where
  "cgroup_matches podUID normalizedID cgroup \<longleftrightarrow>
     containsAny cgroup (pod_needles podUID) \<and> containsAny cgroup (container_needles normalizedID)"

end
