(* ===== verification/NodeMount.thy ===== *)
theory NodeMount
  imports Kernel NodeText Server
begin

text \<open>
  The Linux node mounter, internal/node/mounter_linux.go: every function that talks to the
  system, as a function on the worlds of theory Kernel, with the calls in the order of the
  code and the deferred calls at every return. A failing call leads to the branch of the
  code that handles it.
\<close>

subsection \<open>Configuration (internal/node/types.go)\<close>

record NodeConfig =
  nc_DriverName :: string
  nc_StagingRoot :: string
  nc_HostProcRoot :: string
  nc_EnableMount :: bool
  nc_UnstageAfterMount :: bool
  nc_CreateMissingSubPaths :: bool
  nc_CreatedSubPathMode :: "32 word"
  nc_Timeout :: int

definition self_mountinfo :: string where
  "self_mountinfo = ''/proc/self/mountinfo''"

definition stagingLockStripes :: nat where
  "stagingLockStripes = 128"

text \<open>The loop is the FNV-1a hash also used by \<open>targetLock\<close>.\<close>

definition stagingLock :: "string \<Rightarrow> nat" where
  "stagingLock key = unat (fold fnv_byte key (2166136261 :: 32 word) mod of_nat stagingLockStripes)"

subsection \<open>Reading mountinfo\<close>

text \<open>
  The scanner reads the file to its end, an error, or a line too long for its buffer, and
  hands out the lines met before; \<open>isMountPoint\<close> stops at the first that matches.
\<close>

definition scan_file :: "int \<Rightarrow> world \<Rightarrow> (string list \<times> go_error option) \<times> world" where
  "scan_file file w =
     (let ((text, err), w) = call_text (OsRead file) w in
      ((scan_lines text,
        if scan_too_long text then Some (Sentinel (Errno ''bufio.Scanner: token too long'')) else err), w))"

definition isMountPoint :: "string \<Rightarrow> string \<Rightarrow> world \<Rightarrow> (go_error + bool) \<times> world" where
  "isMountPoint mountInfoPath target w =
     (case call_fd (OsOpen mountInfoPath) w of
        (Inl err, w) \<Rightarrow> (Inl (Errorf ''open mountinfo %s: %w'' [AStr mountInfoPath, AWrap err]), w)
      | (Inr file, w) \<Rightarrow>
          deferring (close file) (\<lambda>w.
            let cleanTarget = path_Clean target;
                ((lines, err), w) = scan_file file w
            in if cleanTarget \<in> set (List.map_filter line_mount_point lines) then (Inr True, w)
               else (case err of
                   Some err \<Rightarrow> (Inl (Errorf ''scan mountinfo %s: %w'' [AStr mountInfoPath, AWrap err]), w)
                 | None \<Rightarrow> (Inr False, w))) w)"

definition mountPointsUnderRoot :: "string \<Rightarrow> string \<Rightarrow> world \<Rightarrow> (go_error + string list) \<times> world" where
  "mountPointsUnderRoot mountInfoPath root w =
     (case call_fd (OsOpen mountInfoPath) w of
        (Inl err, w) \<Rightarrow> (Inl (Errorf ''open mountinfo %s: %w'' [AStr mountInfoPath, AWrap err]), w)
      | (Inr file, w) \<Rightarrow>
          deferring (close file) (\<lambda>w.
            let ((lines, err), w) = scan_file file w
            in (case err of
                  Some err \<Rightarrow> (Inl (Errorf ''scan mountinfo %s: %w'' [AStr mountInfoPath, AWrap err]), w)
                | None \<Rightarrow> (Inr (mount_points_below root lines), w))) w)"

subsection \<open>Staging\<close>

definition mountNFS :: "NodePV \<Rightarrow> string \<Rightarrow> world \<Rightarrow> go_error option \<times> world" where
  "mountNFS pv target w =
     (let remotePath =
            (if nv_SubDir pv \<noteq> [] \<and> nv_SubDir pv \<noteq> ''/''
             then rev (TrimLeft_slash (rev (nv_Share pv))) @ ''/'' @ TrimLeft_slash (nv_SubDir pv)
             else nv_Share pv);
          source = nv_Server pv @ '':'' @ remotePath;
          data = join_on (CHR '','') (nv_MountOptions pv);
          args = [''mount'', ''-t'', ''nfs''] @ (if data \<noteq> [] then [''-o'', data] else []) @ [source, target];
          ((output, err), w) = call_text (Command args) w
      in case err of
           None \<Rightarrow> (None, w)
         | Some err \<Rightarrow>
             (let detail = TrimSpace output in
              if detail \<noteq> [] then
                (Some (Errorf ''mount nfs source for pv %s: %w: %s'' [AStr (nv_Name pv), AWrap err, AStr detail]), w)
              else (Some (Errorf ''mount nfs source for pv %s: %w'' [AStr (nv_Name pv), AWrap err]), w)))"

definition not_exist :: "go_error \<Rightarrow> bool" where
  "not_exist err \<longleftrightarrow> errors_Is (Errno ''ENOENT'') err"

definition cleanupStagingPath :: "string \<Rightarrow> world \<Rightarrow> go_error option \<times> world" where
  "cleanupStagingPath stagePath w =
     (case isMountPoint self_mountinfo stagePath w of
        (Inl err, w) \<Rightarrow> (Some err, w)
      | (Inr mounted, w) \<Rightarrow>
          (case (if mounted then call_err (SysUnmount stagePath) w else (None, w)) of
             (Some err, w) \<Rightarrow> (Some (Errorf ''unmount staged path: %w'' [AWrap err]), w)
           | (None, w) \<Rightarrow>
               (case call_err (OsRemove stagePath) w of
                  (Some err, w) \<Rightarrow>
                    if \<not> not_exist err then (Some (Errorf ''remove staged path: %w'' [AWrap err]), w)
                    else (None, w)
                | (None, w) \<Rightarrow> (None, w))))"

definition warnCleanupStagingPath :: "string \<Rightarrow> world \<Rightarrow> world" where
  "warnCleanupStagingPath stagePath w =
     (case cleanupStagingPath stagePath w of
        (Some err, w) \<Rightarrow> record_call (Warning (''warning: cleanup staging path '' @ stagePath)) w
      | (None, w) \<Rightarrow> w)"

fun unmount_all :: "string list \<Rightarrow> go_error option list \<Rightarrow> world \<Rightarrow> go_error option list \<times> world" where
  "unmount_all [] errs w = (errs, w)"
| "unmount_all (mountPath # mounts) errs w =
     (case call_err (SysUnmount mountPath) w of
        (Some err, w) \<Rightarrow>
          unmount_all mounts (errs @ [Some (Errorf ''unmount %s: %w'' [AStr mountPath, AWrap err])]) w
      | (None, w) \<Rightarrow> unmount_all mounts errs w)"

fun remove_all :: "string \<Rightarrow> (string \<times> bool) list \<Rightarrow> go_error option list \<Rightarrow> world \<Rightarrow>
    go_error option list \<times> world" where
  "remove_all stagingRoot [] errs w = (errs, w)"
| "remove_all stagingRoot ((name, is_dir) # entries) errs w =
     (if \<not> is_dir then remove_all stagingRoot entries errs w
      else let path = path_Join [stagingRoot, name] in
        (case call_err (OsRemove path) w of
           (Some err, w) \<Rightarrow>
             if \<not> not_exist err then
               remove_all stagingRoot entries
                 (errs @ [Some (Errorf ''remove staging path %s: %w'' [AStr path, AWrap err])]) w
             else remove_all stagingRoot entries errs w
         | (None, w) \<Rightarrow> remove_all stagingRoot entries errs w))"

text \<open>The nested \<open>errors.Join\<close> calls are one join of the errors in their order.\<close>

definition CleanupStagingRoot :: "string \<Rightarrow> world \<Rightarrow> go_error option \<times> world" where
  "CleanupStagingRoot stagingRoot w =
     (case mountPointsUnderRoot self_mountinfo stagingRoot w of
        (Inl err, w) \<Rightarrow> (Some err, w)
      | (Inr mounts, w) \<Rightarrow>
          (let (errs, w) = unmount_all mounts [] w in
           case call_entries (OsReadDir stagingRoot) w of
             (Inl err, w) \<Rightarrow>
               if not_exist err then (errors_Join errs, w)
               else (errors_Join (errs @ [Some (Errorf ''read staging root %s: %w''
                       [AStr stagingRoot, AWrap err])]), w)
           | (Inr entries, w) \<Rightarrow>
               (let (errs, w) = remove_all stagingRoot entries errs w in (errors_Join errs, w))))"

subsection \<open>The walk to the source directory\<close>

definition sourceSubPathOpenError :: "string \<Rightarrow> string \<Rightarrow> go_error \<Rightarrow> bool \<Rightarrow> go_error" where
  "sourceSubPathOpenError sourceSubPath stagePath err missingIsBad =
     (let badPath = errors_Is (Errno ''ENOTDIR'') err \<or> errors_Is (Errno ''ELOOP'') err \<or>
            errors_Is (Errno ''ENAMETOOLONG'') err \<or> (missingIsBad \<and> errors_Is (Errno ''ENOENT'') err)
      in if badPath then
           Errorf ''%w: open source_sub_path %s under staged mount %s: %v''
             [AWrap (Sentinel ErrBadSourceSubPath), AStr sourceSubPath, AStr stagePath, AVal err]
         else Errorf ''open source_sub_path %s under staged mount %s: %w''
             [AStr sourceSubPath, AStr stagePath, AWrap err])"

definition sourceSubPathCreateError :: "string \<Rightarrow> string \<Rightarrow> go_error \<Rightarrow> go_error" where
  "sourceSubPathCreateError sourceSubPath stagePath err =
     Errorf ''create source_sub_path %s under staged mount %s: %w''
       [AStr sourceSubPath, AStr stagePath, AWrap err]"

definition closeDirectoryWalkFDs :: "int \<Rightarrow> int \<Rightarrow> world \<Rightarrow> world" where
  "closeDirectoryWalkFDs dirFD currentFD w =
     (let w = (if currentFD \<noteq> dirFD then close currentFD w else w) in close dirFD w)"

definition nofollow :: "flag list" where
  "nofollow = [O_PATH, O_DIRECTORY, O_NOFOLLOW, O_CLOEXEC]"

text \<open>The body of the loop for one segment: the descriptor of the next directory.\<close>

definition open_segment :: "string \<Rightarrow> string \<Rightarrow> bool \<Rightarrow> 32 word \<Rightarrow> int \<Rightarrow> string \<Rightarrow> world \<Rightarrow>
    (go_error + int) \<times> world" where
  "open_segment sourceSubPath stagePath createMissing mode currentFD segment w =
     (case call_fd (SysOpenat currentFD segment nofollow) w of
        (Inr nextFD, w) \<Rightarrow> (Inr nextFD, w)
      | (Inl err, w) \<Rightarrow>
          if errors_Is (Errno ''ENOENT'') err \<and> createMissing then
            (let (mkdirErr, w) = call_err (SysMkdirat currentFD segment (createdSubPathUnixMode mode)) w in
             if mkdirErr \<noteq> None \<and> \<not> errors_Is (Errno ''EEXIST'') (the mkdirErr) then
               (Inl (sourceSubPathCreateError sourceSubPath stagePath (the mkdirErr)), w)
             else
               (case call_fd (SysOpenat currentFD segment nofollow) w of
                  (Inl err, w) \<Rightarrow> (Inl (sourceSubPathOpenError sourceSubPath stagePath err False), w)
                | (Inr nextFD, w) \<Rightarrow> (Inr nextFD, w)))
          else (Inl (sourceSubPathOpenError sourceSubPath stagePath err (\<not> createMissing)), w))"

fun walk_loop :: "string \<Rightarrow> string \<Rightarrow> bool \<Rightarrow> 32 word \<Rightarrow> int \<Rightarrow> int \<Rightarrow> string list \<Rightarrow> world \<Rightarrow>
    (go_error + int) \<times> world" where
  "walk_loop sourceSubPath stagePath createMissing mode dirFD currentFD [] w =
     (if currentFD = dirFD then (Inr dirFD, w) else (Inr currentFD, close dirFD w))"
| "walk_loop sourceSubPath stagePath createMissing mode dirFD currentFD (segment # segments) w =
     (case open_segment sourceSubPath stagePath createMissing mode currentFD segment w of
        (Inl err, w) \<Rightarrow> (Inl err, closeDirectoryWalkFDs dirFD currentFD w)
      | (Inr nextFD, w) \<Rightarrow>
          (let w = (if currentFD \<noteq> dirFD then close currentFD w else w) in
           walk_loop sourceSubPath stagePath createMissing mode dirFD nextFD segments w))"

definition openDirectoryNoFollow :: "string \<Rightarrow> string \<Rightarrow> bool \<Rightarrow> 32 word \<Rightarrow> world \<Rightarrow>
    (go_error + int) \<times> world" where
  "openDirectoryNoFollow stagePath sourceSubPath createMissing mode w =
     (case sourceSubPathSegments sourceSubPath of
        Inl err \<Rightarrow> (Inl err, w)
      | Inr segments \<Rightarrow>
          (case call_fd (SysOpen stagePath nofollow) w of
             (Inl err, w) \<Rightarrow> (Inl (Errorf ''open staged mount %s: %w'' [AStr stagePath, AWrap err]), w)
           | (Inr dirFD, w) \<Rightarrow>
               if segments = [] then (Inr dirFD, w)
               else walk_loop sourceSubPath stagePath createMissing mode dirFD dirFD segments w))"

subsection \<open>Mount sources\<close>

definition openTreeMountSource :: "string \<Rightarrow> string \<Rightarrow> bool \<Rightarrow> 32 word \<Rightarrow> world \<Rightarrow>
    (go_error + int \<times> string) \<times> world" where
  "openTreeMountSource stagePath sourceSubPath createMissing mode w =
     (if sourceSubPath = [] then
        (case call_fd (SysOpenTree AT_FDCWD stagePath [OPEN_TREE_CLONE, OPEN_TREE_CLOEXEC]) w of
           (Inl err, w) \<Rightarrow> (Inl (Errorf ''clone staged mount %s: %w'' [AStr stagePath, AWrap err]), w)
         | (Inr fd, w) \<Rightarrow> (Inr (fd, stagePath), w))
      else
        (case openDirectoryNoFollow stagePath sourceSubPath createMissing mode w of
           (Inl err, w) \<Rightarrow> (Inl err, w)
         | (Inr sourceFD, w) \<Rightarrow>
             deferring (close sourceFD) (\<lambda>w.
               case call_fd (SysOpenTree sourceFD [] [OPEN_TREE_CLONE, OPEN_TREE_CLOEXEC, AT_EMPTY_PATH]) w of
                 (Inl err, w) \<Rightarrow> (Inl (Errorf ''clone staged source_sub_path %s under %s: %w''
                     [AStr sourceSubPath, AStr stagePath, AWrap err]), w)
               | (Inr fd, w) \<Rightarrow> (Inr (fd, path_Join [stagePath, sourceSubPath]), w)) w))"

record legacyMountSource =
  lg_FD :: int
  lg_Description :: string

definition legacyMountSource_Close :: "legacyMountSource \<Rightarrow> world \<Rightarrow> world" where
  "legacyMountSource_Close s = close (lg_FD s)"

definition legacyMountSource_Path :: "legacyMountSource \<Rightarrow> string" where
  "legacyMountSource_Path s = path_Join [''/proc/self/fd'', Itoa (lg_FD s)]"

definition openLegacyMountSource :: "string \<Rightarrow> string \<Rightarrow> bool \<Rightarrow> 32 word \<Rightarrow> world \<Rightarrow>
    (go_error + legacyMountSource) \<times> world" where
  "openLegacyMountSource stagePath sourceSubPath createMissing mode w =
     (let sourcePath = (if sourceSubPath \<noteq> [] then path_Join [stagePath, sourceSubPath] else stagePath) in
      case openDirectoryNoFollow stagePath sourceSubPath createMissing mode w of
        (Inl err, w) \<Rightarrow> (Inl err, w)
      | (Inr fd, w) \<Rightarrow> (Inr \<lparr>lg_FD = fd, lg_Description = sourcePath\<rparr>, w))"

subsection \<open>The process of a container\<close>

text \<open>
  The loop over the entries of the proc directory. Only a numeric directory is looked at;
  one whose cgroup file cannot be read or whose number does not fit an \<open>int\<close> is passed over.
\<close>

fun find_pid :: "string \<Rightarrow> string \<Rightarrow> string \<Rightarrow> (string \<times> bool) list \<Rightarrow> world \<Rightarrow> int option \<times> world" where
  "find_pid procRoot podUID normalizedID [] w = (None, w)"
| "find_pid procRoot podUID normalizedID ((name, is_dir) # entries) w =
     (if \<not> is_dir \<or> \<not> isNumeric name then find_pid procRoot podUID normalizedID entries w
      else
        (let ((data, err), w) = call_text (OsReadFile (path_Join [procRoot, name, ''cgroup''])) w in
         if err \<noteq> None then find_pid procRoot podUID normalizedID entries w
         else if cgroup_matches podUID normalizedID data then
           (case Atoi_digits name of
              None \<Rightarrow> find_pid procRoot podUID normalizedID entries w
            | Some pid \<Rightarrow> (Some pid, w))
         else find_pid procRoot podUID normalizedID entries w))"

definition findContainerPID :: "string \<Rightarrow> string \<Rightarrow> string \<Rightarrow> world \<Rightarrow> (go_error + int) \<times> world" where
  "findContainerPID procRoot podUID containerID w =
     (let normalizedID = normalizeContainerID containerID in
      if normalizedID = [] then (Inl (Errorf ''container id is empty'' []), w)
      else
        (case call_entries (OsReadDir procRoot) w of
           (Inl err, w) \<Rightarrow> (Inl (Errorf ''read proc root %s: %w'' [AStr procRoot, AWrap err]), w)
         | (Inr entries, w) \<Rightarrow>
             (case find_pid procRoot podUID normalizedID entries w of
                (Some pid, w) \<Rightarrow> (Inr pid, w)
              | (None, w) \<Rightarrow>
                  (Inl (Errorf ''cannot find process for pod uid %s container %s''
                     [AStr podUID, AStr (planSafeContainerID containerID)]), w))))"

subsection \<open>Entering the container's mount namespace\<close>

text \<open>A step that returns from the function with an error when the call fails.\<close>

definition or_fail :: "(go_error \<Rightarrow> go_error) \<Rightarrow> go_error option \<times> world \<Rightarrow>
    (world \<Rightarrow> go_error option \<times> world) \<Rightarrow> go_error option \<times> world" where
  "or_fail wrap step rest =
     (case step of (Some err, w) \<Rightarrow> (Some (wrap err), w) | (None, w) \<Rightarrow> rest w)"

definition with_fd :: "(go_error \<Rightarrow> go_error) \<Rightarrow> syscall \<Rightarrow> world \<Rightarrow>
    (int \<Rightarrow> world \<Rightarrow> go_error option \<times> world) \<Rightarrow> go_error option \<times> world" where
  "with_fd wrap c w rest =
     (case call_fd c w of
        (Inl err, w) \<Rightarrow> (Some (wrap err), w)
      | (Inr fd, w) \<Rightarrow> deferring (close fd) (rest fd) w)"

definition pid_path :: "string \<Rightarrow> int \<Rightarrow> string list \<Rightarrow> string" where
  "pid_path procRoot pid elems = path_Join (procRoot # Itoa pid # elems)"

text \<open>
  What the three operations in a container have in common, in the order of the code: the
  thread is locked and unshared, both namespace files are opened, the container's namespace
  is entered, and on every return the own namespace again, before files are closed and the
  thread is given back.
\<close>

definition in_namespace :: "string \<Rightarrow> int \<Rightarrow> (world \<Rightarrow> go_error option \<times> world) \<Rightarrow> world \<Rightarrow>
    go_error option \<times> world" where
  "in_namespace procRoot targetPID body w =
     deferring (record_call UnlockOSThread) (\<lambda>w.
       or_fail (\<lambda>err. Errorf ''unshare filesystem attributes: %w'' [AWrap err])
         (call_err SysUnshareFS w) (\<lambda>w.
       with_fd (\<lambda>err. Errorf ''open current mount namespace: %w'' [AWrap err])
         (OsOpen (path_Join [procRoot, ''self'', ''ns'', ''mnt''])) w (\<lambda>selfMountNS w.
       with_fd (\<lambda>err. Errorf ''open target mount namespace for pid %d: %w'' [AInt targetPID, AWrap err])
         (OsOpen (pid_path procRoot targetPID [''ns'', ''mnt''])) w (\<lambda>targetMountNS w.
       or_fail (\<lambda>err. Errorf ''enter target mount namespace for pid %d: %w'' [AInt targetPID, AWrap err])
         (call_err (SysSetns targetMountNS) w)
         (deferring (ignored (SysSetns selfMountNS)) body)))))
     (record_call LockOSThread w)"

definition already_mounted :: "string \<Rightarrow> go_error" where
  "already_mounted targetPath = Errorf ''target path %s is already a mount point'' [AStr targetPath]"

text \<open>The target must not be a mount point before and after its directory is made.\<close>

definition not_mounted :: "string \<Rightarrow> string \<Rightarrow> world \<Rightarrow> go_error option \<times> world" where
  "not_mounted targetMountInfo targetPath w =
     (case isMountPoint targetMountInfo targetPath w of
        (Inl err, w) \<Rightarrow> (Some err, w)
      | (Inr mounted, w) \<Rightarrow> if mounted then (Some (already_mounted targetPath), w) else (None, w))"

definition prepare_target :: "string \<Rightarrow> int \<Rightarrow> string \<Rightarrow> world \<Rightarrow> go_error option \<times> world" where
  "prepare_target procRoot targetPID targetPath w =
     (let targetMountInfo = pid_path procRoot targetPID [''mountinfo''];
          targetInContainerRoot = pid_path procRoot targetPID [''root'', TrimPrefix targetPath ''/''] in
      or_fail id (not_mounted targetMountInfo targetPath w) (\<lambda>w.
      or_fail (\<lambda>err. Errorf ''create target path %s: %w'' [AStr targetPath, AWrap err])
        (call_err (OsMkdirAll targetInContainerRoot 0x1ED) w) (\<lambda>w.
      not_mounted targetMountInfo targetPath w)))"

definition moveMountIntoContainerNamespace :: "string \<Rightarrow> int \<Rightarrow> int \<Rightarrow> string \<Rightarrow> string \<Rightarrow> world \<Rightarrow>
    go_error option \<times> world" where
  "moveMountIntoContainerNamespace procRoot targetPID sourceFD sourceDescription targetPath w =
     (let targetInContainerRoot = pid_path procRoot targetPID [''root'', TrimPrefix targetPath ''/''] in
      or_fail id (prepare_target procRoot targetPID targetPath w) (\<lambda>w.
      with_fd (\<lambda>err. Errorf ''open target path %s: %w'' [AStr targetPath, AWrap err])
        (SysOpen targetInContainerRoot [O_PATH, O_DIRECTORY, O_CLOEXEC]) w (\<lambda>targetFD w.
      in_namespace procRoot targetPID (\<lambda>w.
        or_fail (\<lambda>err. Errorf ''bind mount pv source %s to %s: %w''
            [AStr sourceDescription, AStr targetPath, AWrap err])
          (call_err (SysMoveMount sourceFD [] targetFD []
             [MOVE_MOUNT_F_EMPTY_PATH, MOVE_MOUNT_T_EMPTY_PATH]) w)
          (\<lambda>w. (None, w))) w)))"

definition legacyBindMountIntoContainerNamespace :: "string \<Rightarrow> int \<Rightarrow> string \<Rightarrow> string \<Rightarrow> string \<Rightarrow>
    world \<Rightarrow> go_error option \<times> world" where
  "legacyBindMountIntoContainerNamespace procRoot targetPID sourcePath sourceDescription targetPath w =
     (let targetInContainerRoot = pid_path procRoot targetPID [''root'', TrimPrefix targetPath ''/''] in
      or_fail id (prepare_target procRoot targetPID targetPath w) (\<lambda>w.
      in_namespace procRoot targetPID (\<lambda>w.
        or_fail (\<lambda>err. Errorf ''bind mount pv source %s to %s with legacy mount API: %w''
            [AStr sourceDescription, AStr targetPath, AWrap err])
          (call_err (SysMount sourcePath targetInContainerRoot [] [MS_BIND] []) w)
          (\<lambda>w. (None, w))) w))"

definition enterRoot :: "int \<Rightarrow> world \<Rightarrow> go_error option \<times> world" where
  "enterRoot rootFD w =
     or_fail (\<lambda>err. Errorf ''change directory to root fd: %w'' [AWrap err]) (call_err (SysFchdir rootFD) w) (\<lambda>w.
     or_fail (\<lambda>err. Errorf ''chroot: %w'' [AWrap err]) (call_err (SysChroot ''.'') w) (\<lambda>w.
     or_fail (\<lambda>err. Errorf ''change directory to /: %w'' [AWrap err]) (call_err (SysChdir ''/'') w) (\<lambda>w.
     (None, w))))"

definition restoreRoot :: "int \<Rightarrow> int \<Rightarrow> world \<Rightarrow> world" where
  "restoreRoot rootFD cwdFD w =
     (case call_err (SysFchdir rootFD) w of
        (Some err, w) \<Rightarrow> record_call (Warning ''warning: restore root directory'') w
      | (None, w) \<Rightarrow>
          (case call_err (SysChroot ''.'') w of
             (Some err, w) \<Rightarrow> record_call (Warning ''warning: restore root'') w
           | (None, w) \<Rightarrow>
               (case call_err (SysFchdir cwdFD) w of
                  (Some err, w) \<Rightarrow> record_call (Warning ''warning: restore working directory'') w
                | (None, w) \<Rightarrow> w)))"

definition unmountInContainerNamespace :: "string \<Rightarrow> int \<Rightarrow> string \<Rightarrow> world \<Rightarrow> go_error option \<times> world" where
  "unmountInContainerNamespace procRoot targetPID targetPath w =
     (case isMountPoint (pid_path procRoot targetPID [''mountinfo'']) targetPath w of
        (Inl err, w) \<Rightarrow> (Some err, w)
      | (Inr mounted, w) \<Rightarrow>
          if \<not> mounted then (Some (Errorf ''target path %s is not a mount point'' [AStr targetPath]), w)
          else
            with_fd (\<lambda>err. Errorf ''open target container root for pid %d: %w'' [AInt targetPID, AWrap err])
              (SysOpen (pid_path procRoot targetPID [''root'']) [O_RDONLY, O_DIRECTORY, O_CLOEXEC]) w (\<lambda>targetRoot w.
            with_fd (\<lambda>err. Errorf ''open current root: %w'' [AWrap err])
              (SysOpen ''/'' [O_RDONLY, O_DIRECTORY, O_CLOEXEC]) w (\<lambda>selfRoot w.
            with_fd (\<lambda>err. Errorf ''open current working directory: %w'' [AWrap err])
              (SysOpen ''.'' [O_RDONLY, O_DIRECTORY, O_CLOEXEC]) w (\<lambda>selfCWD w.
            in_namespace procRoot targetPID (\<lambda>w.
              or_fail (\<lambda>err. Errorf ''enter target root for pid %d: %w'' [AInt targetPID, AWrap err])
                (enterRoot targetRoot w)
                (deferring (restoreRoot selfRoot selfCWD) (\<lambda>w.
                  or_fail (\<lambda>err. Errorf ''unmount target path %s: %w'' [AStr targetPath, AWrap err])
                    (call_err (SysUnmount targetPath) w)
                    (\<lambda>w. (None, w))))) w))))"

subsection \<open>The operations of the mounter\<close>

definition bindMountWithModernAPI :: "NodeConfig \<Rightarrow> int \<Rightarrow> string \<Rightarrow> string \<Rightarrow> string \<Rightarrow> world \<Rightarrow>
    go_error option \<times> world" where
  "bindMountWithModernAPI cfg targetPID stagePath sourceSubPath targetPath w =
     (case openTreeMountSource stagePath sourceSubPath (nc_CreateMissingSubPaths cfg)
             (nc_CreatedSubPathMode cfg) w of
        (Inl err, w) \<Rightarrow> (Some err, w)
      | (Inr (sourceFD, sourceDescription), w) \<Rightarrow>
          deferring (close sourceFD)
            (moveMountIntoContainerNamespace (nc_HostProcRoot cfg) targetPID sourceFD sourceDescription targetPath) w)"

definition bindMountWithLegacyAPI :: "NodeConfig \<Rightarrow> int \<Rightarrow> string \<Rightarrow> string \<Rightarrow> string \<Rightarrow> world \<Rightarrow>
    go_error option \<times> world" where
  "bindMountWithLegacyAPI cfg targetPID stagePath sourceSubPath targetPath w =
     (case openLegacyMountSource stagePath sourceSubPath (nc_CreateMissingSubPaths cfg)
             (nc_CreatedSubPathMode cfg) w of
        (Inl err, w) \<Rightarrow> (Some err, w)
      | (Inr source, w) \<Rightarrow>
          deferring (legacyMountSource_Close source)
            (legacyBindMountIntoContainerNamespace (nc_HostProcRoot cfg) targetPID
               (legacyMountSource_Path source) (lg_Description source) targetPath) w)"

text \<open>The part of \<open>Mount\<close> that runs with the staging lock held and the cleanup deferred.\<close>

definition staged_mount :: "NodeConfig \<Rightarrow> MountPlan \<Rightarrow> string \<Rightarrow> world \<Rightarrow> go_error option \<times> world" where
  "staged_mount cfg plan stagePath w =
     or_fail (\<lambda>err. Errorf ''create staging path %s: %w'' [AStr stagePath, AWrap err])
       (call_err (OsMkdirAll stagePath 0x1E8) w) (\<lambda>w.
     case isMountPoint self_mountinfo stagePath w of
       (Inl err, w) \<Rightarrow> (Some err, w)
     | (Inr mounted, w) \<Rightarrow>
         or_fail id (if \<not> mounted then mountNFS (pl_PV plan) stagePath w else (None, w)) (\<lambda>w.
         case findContainerPID (nc_HostProcRoot cfg) (pl_PodUID plan) (pl_ContainerID plan) w of
           (Inl err, w) \<Rightarrow> (Some err, w)
         | (Inr pid, w) \<Rightarrow>
             (case bindMountWithModernAPI cfg pid stagePath (pl_SourceSubPath plan) (pl_TargetPath plan) w of
                (None, w) \<Rightarrow> (None, w)
              | (Some err, w) \<Rightarrow>
                  if \<not> errors_Is (Errno ''ENOSYS'') err then (Some err, w)
                  else bindMountWithLegacyAPI cfg pid stagePath (pl_SourceSubPath plan) (pl_TargetPath plan) w)))"

definition no_container_id :: "MountPlan \<Rightarrow> go_error" where
  "no_container_id plan = Errorf ''container %s has empty container id'' [AStr (pl_ContainerName plan)]"

definition linux_Mount :: "NodeConfig \<Rightarrow> MountPlan \<Rightarrow> world \<Rightarrow> go_error option \<times> world" where
  "linux_Mount cfg plan w =
     (if \<not> nc_EnableMount cfg then (Some (Sentinel ErrMountDisabled), w)
      else or_fail id (call_err CtxErr w) (\<lambda>w.
        if nv_Server (pl_PV plan) = [] \<or> nv_Share (pl_PV plan) = [] then
          (Some (Errorf ''pv %s is missing nfs server or share attributes'' [AStr (nv_Name (pl_PV plan))]), w)
        else if pl_ContainerID plan = [] then (Some (no_container_id plan), w)
        else
          let stripe = stagingLock (nv_Name (pl_PV plan));
              stagePath = path_Join [nc_StagingRoot cfg, nv_Name (pl_PV plan)] in
          deferring (record_call (UnlockStaging stripe))
            (deferring (if nc_UnstageAfterMount cfg then warnCleanupStagingPath stagePath else (\<lambda>w. w))
              (staged_mount cfg plan stagePath))
            (record_call (LockStaging stripe) w)))"

definition linux_Unmount :: "NodeConfig \<Rightarrow> MountPlan \<Rightarrow> world \<Rightarrow> go_error option \<times> world" where
  "linux_Unmount cfg plan w =
     (if \<not> nc_EnableMount cfg then (Some (Sentinel ErrMountDisabled), w)
      else or_fail id (call_err CtxErr w) (\<lambda>w.
        if pl_ContainerID plan = [] then (Some (no_container_id plan), w)
        else case findContainerPID (nc_HostProcRoot cfg) (pl_PodUID plan) (pl_ContainerID plan) w of
            (Inl err, w) \<Rightarrow> (Some err, w)
          | (Inr pid, w) \<Rightarrow> unmountInContainerNamespace (nc_HostProcRoot cfg) pid (pl_TargetPath plan) w))"

definition linux_IsMounted :: "NodeConfig \<Rightarrow> MountPlan \<Rightarrow> world \<Rightarrow> (go_error + bool) \<times> world" where
  "linux_IsMounted cfg plan w =
     (if \<not> nc_EnableMount cfg then (Inl (Sentinel ErrMountDisabled), w)
      else case call_err CtxErr w of
          (Some err, w) \<Rightarrow> (Inl err, w)
        | (None, w) \<Rightarrow>
            if pl_ContainerID plan = [] then (Inl (no_container_id plan), w)
            else
              (case findContainerPID (nc_HostProcRoot cfg) (pl_PodUID plan) (pl_ContainerID plan) w of
                 (Inl err, w) \<Rightarrow> (Inl err, w)
               | (Inr pid, w) \<Rightarrow>
                   isMountPoint (pid_path (nc_HostProcRoot cfg) pid [''mountinfo'']) (pl_TargetPath plan) w))"

text \<open>\<open>NewMounter\<close>, as the handlers and the reconciler see it.\<close>

definition NewMounter :: "NodeConfig \<Rightarrow> world Mounter" where
  "NewMounter cfg = \<lparr>nm_Mount = linux_Mount cfg, nm_Unmount = linux_Unmount cfg,
     nm_IsMounted = linux_IsMounted cfg\<rparr>"

end
