(* ===== verification/NodeNames.thy ===== *)
theory NodeNames
  imports NodeText
begin

text \<open>Decimal numbers and their place in paths below the proc directory.\<close>

lemma set_clean_segs: "x \<in> set (clean_segs r xs st) \<Longrightarrow> x \<in> set xs \<or> x \<in> set st \<or> x = ''..''"
  by (induction r xs st rule: clean_segs.induct) (auto split: if_splits list.splits)

lemma clean_segs_no_slash: "slash \<notin> set x" if "x \<in> set (clean_segs r (split_on slash s) [])"
  using set_clean_segs [OF that] sep_not_in_split by auto

subsection \<open>Numbers in paths\<close>

lemma decimal_digits_value:
  "list_all is_digit (decimal_digits n) \<and> digits_value 10 (decimal_digits n) = int n \<and> decimal_digits n \<noteq> []"
proof (induction n rule: decimal_digits.induct)
  case (1 n)
  have d: "is_digit (char_of (48 + d))" "digit_value (char_of (48 + d)) = int d" if "d < 10" for d :: nat
    using that by (simp_all add: is_digit_def digit_value_def less_eq_char_def)
  show ?case
  proof (cases "n < 10")
    case True
    then show ?thesis using d by (simp add: decimal_digits.simps [of n] digits_value_def)
  next
    case False
    have "int (n div 10) * 10 + int (n mod 10) = int n" by (simp add: zdiv_int zmod_int)
    then show ?thesis using 1 [OF False] False d [of "n mod 10"]
      by (simp add: decimal_digits.simps [of n] digits_value_def)
  qed
qed

lemma Itoa_digits:
  assumes "0 \<le> n"
  shows "isNumeric (Itoa n)" and "digits_value 10 (Itoa n) = n"
  using decimal_digits_value [of "nat n"] assms by (simp_all add: Itoa_def isNumeric_def)

lemma set_Itoa: "set (Itoa n) \<subseteq> insert (CHR ''-'') {c. is_digit c}" and Itoa_not_Nil: "Itoa n \<noteq> []"
  using decimal_digits_value [of "nat n"] decimal_digits_value [of "nat (- n)"]
  by (auto simp: Itoa_def list_all_iff)

lemma digit_chars: "\<not> is_digit (CHR ''/'')" "\<not> is_digit (CHR ''.'')" "\<not> is_digit (CHR ''s'')"
  by (simp_all add: is_digit_def less_eq_char_def)

lemma proper_Itoa: "proper_seg (Itoa n)" and Itoa_not_self: "Itoa n \<noteq> ''self''"
  using set_Itoa [of n] Itoa_not_Nil [of n] digit_chars by (auto simp: proper_seg_def)

text \<open>The last segments of a joined path are those that were joined.\<close>

lemma path_Join_segments:
  assumes "all_proper xs" and "xs \<noteq> []"
  shows "\<exists>pre. split_on slash (path_Join (root # xs)) = pre @ xs"
proof -
  define t where "t = join_on slash xs"
  define s where "s = (if root = [] then t else root @ slash # t)"
  define pre where "pre = (if root = [] then [] else split_on slash root)"
  define st where "st = clean_segs (path_IsAbs s) pre []"
  let ?ys = "rev st @ xs"
  have t: "split_on slash t = xs" unfolding t_def using assms by (simp add: split_on_join_on proper_no_slash)
  have tn: "t \<noteq> []" unfolding t_def by (rule join_proper_not_Nil [OF assms])
  have "filter (\<lambda>e. e \<noteq> []) xs = xs" using assms(1) by (auto simp: filter_id_conv dest: proper_segD)
  then have j: "path_Join (root # xs) = path_Clean s" and ne: "s \<noteq> []"
    using assms(2) tn by (auto simp: path_Join_def s_def t_def join_on_Cons split: list.split)
  have sp: "split_on slash s = pre @ xs" by (simp add: s_def pre_def split_on_append t)
  have segs: "rev (clean_segs (path_IsAbs s) (split_on slash s) []) = ?ys"
    unfolding sp using assms(1) by (simp add: st_def clean_segs_append clean_segs_id)
  have "\<forall>x \<in> set st. slash \<notin> set x" using clean_segs_no_slash by (auto simp: st_def pre_def)
  then have sj: "split_on slash (join_on slash ?ys) = ?ys"
    using assms proper_no_slash by (intro split_on_join_on) auto
  have nj: "join_on slash ?ys \<noteq> []" using assms by (auto simp: join_on_eq_Nil append_eq_Cons_conv)
  have "path_Clean s = (if path_IsAbs s then [slash] else []) @ join_on slash ?ys"
    using ne nj segs by (cases "path_IsAbs s") (simp_all add: path_Clean_def Let_def)
  then have "split_on slash (path_Clean s) = (if path_IsAbs s then [[]] else []) @ ?ys"
    by (simp add: sj)
  then show ?thesis by (simp add: j)
qed

end
