(* ===== verification/NodeTrace.thy ===== *)
theory NodeTrace
  imports NodeMount NodeNames
begin

text \<open>
  Reasoning about runs of the node mounter. \<open>keeps R m\<close> says that every run of \<open>m\<close> relates the
  world before to the world after by \<open>R\<close>. The locale \<open>call_relation\<close> has the rules for the
  constructs of theory NodeMount, given that \<open>R\<close> survives single calls and a descriptor
  that is opened, used and closed; \<open>calm_relation\<close> extends it to the larger operations.
  They are interpreted on the relations that make the mounter tidy: descriptors closed,
  thread back in its own namespace.
\<close>

definition keeps :: "(world \<Rightarrow> world \<Rightarrow> bool) \<Rightarrow> (world \<Rightarrow> 'r \<times> world) \<Rightarrow> bool" where
  "keeps R m \<longleftrightarrow> (\<forall>w. R w (snd (m w)))"

text \<open>A run that returns a descriptor on success, which the caller closes later.\<close>

definition opens :: "(world \<Rightarrow> world \<Rightarrow> bool) \<Rightarrow> (world \<Rightarrow> ('e + int) \<times> world) \<Rightarrow> bool" where
  "opens R m \<longleftrightarrow> (\<forall>w. case m w of (Inl e, w1) \<Rightarrow> R w w1
     | (Inr fd, w1) \<Rightarrow> \<forall>w2. R w1 w2 \<longrightarrow> R w (close fd w2))"

lemma call_runs:
  "snd (call_err c w) = snd (kcall c w)" "snd (call_text c w) = snd (kcall c w)"
  "snd (call_entries c w) = snd (kcall c w)" "snd (call_fd c w) = snd (kcall c w)"
  by (simp_all add: call_err_def call_text_def call_entries_def call_fd_def split: prod.splits)

subsection \<open>Rules for sequences of calls\<close>

locale call_relation =
  fixes R :: "world \<Rightarrow> world \<Rightarrow> bool"
    and plain :: "syscall \<Rightarrow> bool"
  assumes refl: "R w w"
    and trans: "R w1 w2 \<Longrightarrow> R w2 w3 \<Longrightarrow> R w1 w3"
    and step: "plain c \<Longrightarrow> R w (snd (kcall c w))"
    and recorded: "plain c \<Longrightarrow> R w (record_call c w)"
    and bracket: "returns_fd c \<Longrightarrow> opens R (call_fd c)"
begin

lemma keepsI: "(\<And>w. R w (snd (m w))) \<Longrightarrow> keeps R m"
  by (simp add: keeps_def)

lemma keeps_return: "keeps R (\<lambda>w. (r, w))"
  by (simp add: keeps_def refl)

lemma keeps_call:
  assumes "plain c"
  shows "keeps R (call_err c)" "keeps R (call_text c)" "keeps R (call_entries c)"
  using step [OF assms] by (simp_all add: keeps_def call_runs)

lemma keeps_bind:
  assumes "keeps R m" and "\<And>r. keeps R (f r)"
  shows "keeps R (\<lambda>w. case m w of (r, w') \<Rightarrow> f r w')"
  unfolding keeps_def
proof
  fix w
  obtain r w1 where m: "m w = (r, w1)" by fastforce
  then have "R w w1" using assms(1) by (simp add: keeps_def) (metis snd_conv)
  moreover have "R w1 (snd (f r w1))" using assms(2) by (simp add: keeps_def)
  ultimately show "R w (snd (case m w of (r, w') \<Rightarrow> f r w'))" using trans m by auto
qed

lemma keeps_sum:
  "(\<And>e. keeps R (f e)) \<Longrightarrow> (\<And>x. keeps R (g x)) \<Longrightarrow> keeps R (\<lambda>w. case s of Inl e \<Rightarrow> f e w | Inr x \<Rightarrow> g x w)"
  by (cases s) simp_all

lemma keeps_option:
  "keeps R f \<Longrightarrow> (\<And>x. keeps R (g x)) \<Longrightarrow> keeps R (\<lambda>w. case p of None \<Rightarrow> f w | Some x \<Rightarrow> g x w)"
  by (cases p) simp_all

lemma keeps_prod: "(\<And>a b. keeps R (h a b)) \<Longrightarrow> keeps R (\<lambda>w. (case q of (a, b) \<Rightarrow> h a b) w)"
  "(\<And>a b. keeps R (h a b)) \<Longrightarrow> keeps R (\<lambda>w. case q of (a, b) \<Rightarrow> h a b w)"
  by (cases q; simp)+

lemma keeps_if: "keeps R f \<Longrightarrow> keeps R g \<Longrightarrow> keeps R (\<lambda>w. if b then f w else g w)"
  by (cases b) simp_all

lemma keeps_deferring:
  assumes "\<And>w. R w (d w)" and "keeps R m"
  shows "keeps R (deferring d m)"
  unfolding keeps_def
proof
  fix w
  obtain r w1 where m: "m w = (r, w1)" by fastforce
  then have "R w w1" using assms(2) by (simp add: keeps_def) (metis snd_conv)
  then show "R w (snd (deferring d m w))" using trans [OF _ assms(1)] m by (simp add: deferring_def)
qed

lemma keeps_after:
  assumes "\<And>w. R w (d w)" and "keeps R m"
  shows "keeps R (\<lambda>w. m (d w))"
  using assms trans by (simp add: keeps_def) blast

lemma keeps_opens:
  assumes "opens R m" and "\<And>e. keeps R (f e)" and "\<And>fd. keeps R (g fd)"
  shows "keeps R (\<lambda>w. case m w of (Inl e, w) \<Rightarrow> f e w | (Inr fd, w) \<Rightarrow> deferring (close fd) (g fd) w)"
  unfolding keeps_def
proof
  fix w
  obtain r w1 where m: "m w = (r, w1)" by fastforce
  show "R w (snd (case m w of (Inl e, w) \<Rightarrow> f e w | (Inr fd, w) \<Rightarrow> deferring (close fd) (g fd) w))"
  proof (cases r)
    case (Inl e)
    have "R w w1" using assms(1) m Inl by (auto simp: opens_def dest: spec [of _ w])
    then show ?thesis using assms(2) [of e] m Inl trans by (auto simp: keeps_def)
  next
    case (Inr fd)
    have "R w1 (snd (g fd w1))" using assms(3) by (simp add: keeps_def)
    then have "R w (close fd (snd (g fd w1)))"
      using assms(1) m Inr by (auto simp: opens_def dest: spec [of _ w])
    then show ?thesis using m Inr by (cases "g fd w1") (simp add: deferring_def)
  qed
qed

lemma keeps_with_fd:
  "returns_fd c \<Longrightarrow> (\<And>fd. keeps R (g fd)) \<Longrightarrow> keeps R (\<lambda>w. with_fd f c w g)"
  unfolding with_fd_def by (rule keeps_opens [OF bracket keeps_return])

lemma keeps_or_fail:
  "keeps R m \<Longrightarrow> keeps R g \<Longrightarrow> keeps R (\<lambda>w. or_fail f (m w) g)"
  unfolding or_fail_def by (intro keeps_bind keeps_option keeps_return)

lemmas keeps_rules = keeps_or_fail keeps_with_fd keeps_bind keeps_sum keeps_option keeps_prod keeps_if keeps_return

lemma keeps_scan_file: "plain (OsRead f) \<Longrightarrow> keeps R (scan_file f)"
  unfolding scan_file_def [abs_def] Let_def by (intro keeps_rules keeps_call)

lemma keeps_isMountPoint: "(\<And>f. plain (OsRead f)) \<Longrightarrow> keeps R (isMountPoint p t)"
  unfolding isMountPoint_def [abs_def] Let_def
  by (rule keeps_opens [OF bracket keeps_return])
    (simp add: returns_fd_def, intro keeps_rules keeps_scan_file, assumption)

lemma keeps_mountPointsUnderRoot: "(\<And>f. plain (OsRead f)) \<Longrightarrow> keeps R (mountPointsUnderRoot p t)"
  unfolding mountPointsUnderRoot_def [abs_def] Let_def
  by (rule keeps_opens [OF bracket keeps_return])
    (simp add: returns_fd_def, intro keeps_rules keeps_scan_file, assumption)

lemma keeps_find_pid:
  assumes "\<And>p. plain (OsReadFile p)"
  shows "keeps R (find_pid procRoot uid cid entries)"
proof (induction entries)
  case Nil
  have "find_pid procRoot uid cid [] = (\<lambda>w. (None, w))" by (rule ext) simp
  then show ?case by (simp add: keeps_return)
next
  case (Cons e entries)
  obtain name is_dir where e: "e = (name, is_dir)" by fastforce
  have "find_pid procRoot uid cid (e # entries) = (\<lambda>w. if \<not> is_dir \<or> \<not> isNumeric name then find_pid procRoot uid cid entries w
      else case call_text (OsReadFile (path_Join [procRoot, name, ''cgroup''])) w of
        (r, w) \<Rightarrow> (case r of (data, err) \<Rightarrow> if err \<noteq> None then find_pid procRoot uid cid entries w
          else if cgroup_matches uid cid data then
            (case Atoi_digits name of None \<Rightarrow> find_pid procRoot uid cid entries w | Some pid \<Rightarrow> (Some pid, w))
          else find_pid procRoot uid cid entries w))"
    by (rule ext) (simp add: e Let_def split: prod.splits)
  then show ?case using Cons.IH assms by (simp add: keeps_rules keeps_call)
qed

lemma keeps_findContainerPID:
  "(\<And>p. plain (OsReadFile p)) \<Longrightarrow> (\<And>p. plain (OsReadDir p)) \<Longrightarrow> keeps R (findContainerPID procRoot uid cid)"
  unfolding findContainerPID_def [abs_def] Let_def
  by (intro keeps_rules keeps_call keeps_find_pid)

lemma keeps_linux_IsMounted:
  assumes "\<And>f. plain (OsRead f)" "\<And>p. plain (OsReadFile p)" "\<And>p. plain (OsReadDir p)" "plain CtxErr"
  shows "keeps R (linux_IsMounted cfg plan)"
  unfolding linux_IsMounted_def [abs_def]
  by (intro keeps_rules keeps_call keeps_findContainerPID keeps_isMountPoint assms)

end

subsection \<open>Calm calls\<close>

text \<open>
  The calls that neither return or close a descriptor, nor change the thread or pin a
  goroutine to it, nor bind a mount.
\<close>

definition calm :: "syscall \<Rightarrow> bool" where
  "calm c \<longleftrightarrow> (case c of
      SysMkdirat d n m \<Rightarrow> True | SysUnmount p \<Rightarrow> True | SysUnshareFS \<Rightarrow> True | OsRead f \<Rightarrow> True
    | OsReadFile p \<Rightarrow> True | OsReadDir p \<Rightarrow> True | OsMkdirAll p m \<Rightarrow> True | OsRemove p \<Rightarrow> True
    | Command args \<Rightarrow> True | CtxErr \<Rightarrow> True | LockStaging n \<Rightarrow> True | UnlockStaging n \<Rightarrow> True
    | Warning t \<Rightarrow> True | OsLstat p \<Rightarrow> True | OsChmod p m \<Rightarrow> True | _ \<Rightarrow> False)"

lemma calm_calls [simp]:
  "calm (SysMkdirat d s m)" "calm (SysUnmount p)" "calm SysUnshareFS" "calm (OsRead f)"
  "calm (OsReadFile p)" "calm (OsReadDir p)" "calm (OsMkdirAll p m)" "calm (OsRemove p)"
  "calm (Command args)" "calm CtxErr" "calm (LockStaging n)" "calm (UnlockStaging n)"
  "calm (Warning t)" "calm (OsLstat p)" "calm (OsChmod p m)"
  by (simp_all add: calm_def)

locale calm_relation = call_relation +
  assumes calm_plain: "calm c \<Longrightarrow> plain c"
begin

lemmas calm_keeps = keeps_call [OF calm_plain]

lemma isMountPoint_keeps: "keeps R (isMountPoint p t)"
  by (intro keeps_isMountPoint calm_plain calm_calls)

lemma findContainerPID_keeps: "keeps R (findContainerPID root uid cid)"
  by (intro keeps_findContainerPID calm_plain calm_calls)

lemma mountNFS_keeps: "keeps R (mountNFS pv target)"
  unfolding mountNFS_def [abs_def] Let_def by (intro keeps_rules calm_keeps calm_calls)

lemma cleanupStagingPath_keeps: "keeps R (cleanupStagingPath p)"
  unfolding cleanupStagingPath_def [abs_def]
  by (intro keeps_rules calm_keeps isMountPoint_keeps calm_calls)

lemma warnCleanupStagingPath_keeps: "R w (warnCleanupStagingPath p w)"
proof -
  obtain r w1 where c: "cleanupStagingPath p w = (r, w1)" by fastforce
  then have "R w w1" using cleanupStagingPath_keeps [of p] by (simp add: keeps_def) (metis snd_conv)
  then show ?thesis
    using c trans recorded [OF calm_plain [OF calm_calls(13)]] by (cases r) (simp_all add: warnCleanupStagingPath_def)
qed

lemma call_err_keeps: "calm c \<Longrightarrow> call_err c w = (r, w1) \<Longrightarrow> R w w1"
  using step [OF calm_plain, of c w] call_runs(1) [of c w] by simp

lemma unmount_all_keeps: "R w (snd (unmount_all mounts errs w))"
proof (induction mounts arbitrary: errs w)
  case (Cons m mounts)
  obtain r w1 where c: "call_err (SysUnmount m) w = (r, w1)" by fastforce
  have "R w w1" by (rule call_err_keeps [OF calm_calls(2) c])
  then have "R w (snd (unmount_all mounts es w1))" for es by (rule trans [OF _ Cons.IH])
  then show ?case using c by (cases r) simp_all
qed (simp add: refl)

lemma remove_all_keeps: "R w (snd (remove_all root entries errs w))"
proof (induction root entries errs w rule: remove_all.induct)
  case (2 root name is_dir entries errs w)
  obtain r w1 where c: "call_err (OsRemove (path_Join [root, name])) w = (r, w1)" by fastforce
  have "R w w1" by (rule call_err_keeps [OF calm_calls(8) c])
  then show ?case using 2 c trans by (cases r) (auto simp: Let_def)
qed (simp add: refl)

lemma CleanupStagingRoot_keeps: "keeps R (CleanupStagingRoot root)"
proof -
  have 1: "keeps R (unmount_all mounts errs)" for mounts errs
    by (simp add: keeps_def unmount_all_keeps)
  have 2: "keeps R (remove_all root entries errs)" for entries errs
    by (simp add: keeps_def remove_all_keeps)
  show ?thesis
    unfolding CleanupStagingRoot_def [abs_def] Let_def
    by (intro keeps_rules calm_keeps keeps_mountPointsUnderRoot 1 2 calm_plain calm_calls)
qed

lemma prepare_target_keeps: "keeps R (prepare_target root pid target)"
  unfolding prepare_target_def [abs_def] not_mounted_def [abs_def] Let_def
  by (intro keeps_rules calm_keeps isMountPoint_keeps calm_calls)

lemma linux_IsMounted_keeps: "keeps R (linux_IsMounted cfg plan)"
  by (intro keeps_linux_IsMounted calm_plain calm_calls)

end

subsection \<open>Descriptors and the thread\<close>

definition fd_tidy :: "world \<Rightarrow> world \<Rightarrow> bool" where
  "fd_tidy w w' \<longleftrightarrow> wd_kernel w' = wd_kernel w \<and>
     (fresh_fds (wd_kernel w) \<longrightarrow> open_fds (wd_trace w') = open_fds (wd_trace w) \<and>
        (\<forall>fd \<in> open_fds (wd_trace w). fd_meaning (wd_trace w') fd = fd_meaning (wd_trace w) fd))"

text \<open>Entering a namespace through the file of the own namespace does not fail.\<close>

definition setns_works :: "kernel \<Rightarrow> bool" where
  "setns_works K \<longleftrightarrow> (\<forall>tr fd. ns_of_fd tr fd = Own_ns \<longrightarrow> kn_errno K tr (SysSetns fd) = None)"

definition at_home :: "event list \<Rightarrow> bool" where
  "at_home tr \<longleftrightarrow> th_ns (thread_of tr) = Own_ns \<and> th_root (thread_of tr) = Root_of Own_ns"

definition tidy :: "world \<Rightarrow> world \<Rightarrow> bool" where
  "tidy w w' \<longleftrightarrow> fd_tidy w w' \<and>
     (fresh_fds (wd_kernel w) \<and> setns_works (wd_kernel w) \<and> at_home (wd_trace w) \<longrightarrow> at_home (wd_trace w'))"

definition fd_plain :: "syscall \<Rightarrow> bool" where
  "fd_plain c \<longleftrightarrow> \<not> returns_fd c \<and> closed_fd c = None"

definition thread_plain :: "syscall \<Rightarrow> bool" where
  "thread_plain c \<longleftrightarrow> (case c of SysSetns fd \<Rightarrow> False | SysFchdir fd \<Rightarrow> False | SysChroot p \<Rightarrow> False
     | SysChdir p \<Rightarrow> False | _ \<Rightarrow> True)"

definition plain_call :: "syscall \<Rightarrow> bool" where
  "plain_call c \<longleftrightarrow> fd_plain c \<and> thread_plain c"

lemma kcall_world [simp]:
  "wd_kernel (snd (kcall c w)) = wd_kernel w" "wd_trace (snd (kcall c w)) = answer w c # wd_trace w"
  "fst (kcall c w) = ev_errno (answer w c)"
  by (simp_all add: kcall_def)

lemma record_call_world [simp]:
  "wd_kernel (record_call c w) = wd_kernel w"
  "wd_trace (record_call c w) = \<lparr>ev_call = c, ev_errno = None, ev_fd = 0\<rparr> # wd_trace w"
  by (simp_all add: record_call_def)

lemma answer_call [simp]: "ev_call (answer w c) = c"
  by (simp add: answer_def)

lemma thread_plain_step: "thread_plain (ev_call e) \<Longrightarrow> thread_of (e # tr) = thread_of tr"
  by (cases "ev_call e") (simp_all add: thread_plain_def thread_step_def)

lemma fd_plain_step:
  "fd_plain (ev_call e) \<Longrightarrow> open_fds (e # tr) = open_fds tr \<and> fd_meaning (e # tr) fd = fd_meaning tr fd"
  by (simp add: fd_plain_def fds_step_def fd_meaning_def)

lemma fd_tidy_refl: "fd_tidy w w"
  by (simp add: fd_tidy_def)

lemma fd_tidy_trans: "fd_tidy w1 w2 \<Longrightarrow> fd_tidy w2 w3 \<Longrightarrow> fd_tidy w1 w3"
  by (simp add: fd_tidy_def)

lemma fd_tidy_call: "fd_plain c \<Longrightarrow> fd_tidy w (snd (kcall c w))"
  using fd_plain_step [of "answer w c"] by (simp add: fd_tidy_def del: open_fds.simps)

lemma fd_tidy_record: "fd_plain c \<Longrightarrow> fd_tidy w (record_call c w)"
  using fd_plain_step [of "\<lparr>ev_call = c, ev_errno = None, ev_fd = 0\<rparr>"]
  by (simp add: fd_tidy_def del: open_fds.simps)

text \<open>What a successful call for a descriptor does, and what closing it restores.\<close>

definition opened :: "int \<Rightarrow> world \<Rightarrow> world \<Rightarrow> bool" where
  "opened fd w w' \<longleftrightarrow> wd_kernel w' = wd_kernel w \<and>
     (fresh_fds (wd_kernel w) \<longrightarrow> fd \<notin> open_fds (wd_trace w) \<and>
        open_fds (wd_trace w') = insert fd (open_fds (wd_trace w)) \<and>
        (\<forall>f \<in> open_fds (wd_trace w). fd_meaning (wd_trace w') f = fd_meaning (wd_trace w) f))"

lemma call_fd_cases:
  "call_fd c w = (Inl e, w') \<Longrightarrow> w' = snd (kcall c w) \<and> ev_errno (answer w c) \<noteq> None"
  "call_fd c w = (Inr fd, w') \<Longrightarrow> w' = snd (kcall c w) \<and> ev_errno (answer w c) = None \<and>
     fd = kn_fd (wd_kernel w) (wd_trace w) c"
  by (auto simp: call_fd_def kcall_def split: option.splits)

lemma call_fd_opened:
  assumes "returns_fd c" and "call_fd c w = (Inr fd, w')"
  shows "opened fd w w'" and "ev_call (hd (wd_trace w')) = c"
proof -
  have w': "w' = snd (kcall c w)" and ok: "ev_errno (answer w c) = None"
    and fd: "fd = kn_fd (wd_kernel w) (wd_trace w) c"
    using call_fd_cases(2) [OF assms(2)] by simp_all
  have "ev_fd (answer w c) = fd" using assms(1) fd by (simp add: answer_def)
  moreover have "closed_fd c = None" using assms(1) by (cases c) (simp_all add: returns_fd_def closed_fd_def)
  ultimately show "opened fd w w'"
    using assms(1) ok fd by (auto simp: opened_def w' fds_step_def fresh_fds_def fd_meaning_def)
  show "ev_call (hd (wd_trace w')) = c" by (simp add: w')
qed

lemma call_fd_failed:
  assumes "returns_fd c" and "call_fd c w = (Inl e, w')"
  shows "fd_tidy w w'"
  using call_fd_cases(1) [OF assms(2)] assms(1)
  by (cases c) (auto simp: fd_tidy_def fds_step_def closed_fd_def returns_fd_def fd_meaning_def)

lemma close_world [simp]: "wd_kernel (close fd w) = wd_kernel w"
  "open_fds (wd_trace (close fd w)) = open_fds (wd_trace w) - {fd}"
  "fd_meaning (wd_trace (close fd w)) f = fd_meaning (wd_trace w) f"
  "thread_of (wd_trace (close fd w)) = thread_of (wd_trace w)"
  by (simp_all add: ignored_def fds_step_def closed_fd_def returns_fd_def thread_step_def fd_meaning_def)

lemma opened_close:
  assumes "opened fd w w1" and "fd_tidy w1 w2"
  shows "fd_tidy w (close fd w2)"
  using assms by (auto simp: opened_def fd_tidy_def)

lemma calm_fd_plain: "calm c \<Longrightarrow> fd_plain c"
  by (cases c) (simp_all add: calm_def fd_plain_def returns_fd_def closed_fd_def)

lemma calm_plain_call: "calm c \<Longrightarrow> plain_call c"
  by (cases c) (simp_all add: calm_def plain_call_def thread_plain_def fd_plain_def returns_fd_def closed_fd_def)

lemma plain_pins [simp]: "plain_call LockOSThread" "plain_call UnlockOSThread"
  by (simp_all add: plain_call_def thread_plain_def fd_plain_def returns_fd_def closed_fd_def)

interpretation fdr: calm_relation fd_tidy fd_plain
proof
  fix c assume c: "returns_fd c"
  show "opens fd_tidy (call_fd c)"
    unfolding opens_def
    using call_fd_failed [OF c] call_fd_opened(1) [OF c] opened_close
    by (auto split: prod.split sum.split) blast
qed (auto intro: fd_tidy_refl fd_tidy_trans fd_tidy_call fd_tidy_record calm_fd_plain)

lemma at_home_thread: "thread_of tr' = thread_of tr \<Longrightarrow> at_home tr' = at_home tr"
  by (simp add: at_home_def)

lemma thread_call_fd:
  "returns_fd c \<Longrightarrow> thread_of (wd_trace (snd (call_fd c w))) = thread_of (wd_trace w)"
  by (simp add: call_runs del: thread_of.simps)
    (rule thread_plain_step, cases c; simp add: returns_fd_def thread_plain_def)

interpretation tdr: calm_relation tidy plain_call
proof
  fix w1 w2 w3 assume "tidy w1 w2" "tidy w2 w3"
  then show "tidy w1 w3" using fd_tidy_trans by (auto simp: tidy_def fd_tidy_def)
next
  fix c w assume c: "plain_call c"
  have t: "thread_of (wd_trace (snd (kcall c w))) = thread_of (wd_trace w)"
    using thread_plain_step [of "answer w c"] c by (simp add: plain_call_def del: thread_of.simps)
  show "tidy w (snd (kcall c w))"
    using c fd_tidy_call [of c w] at_home_thread [OF t] by (simp add: tidy_def plain_call_def)
next
  fix c w assume c: "plain_call c"
  have t: "thread_of (wd_trace (record_call c w)) = thread_of (wd_trace w)"
    using thread_plain_step [of "\<lparr>ev_call = c, ev_errno = None, ev_fd = 0\<rparr>"] c
    by (simp add: plain_call_def del: thread_of.simps)
  show "tidy w (record_call c w)"
    using c fd_tidy_record [of c w] at_home_thread [OF t] by (simp add: tidy_def plain_call_def)
next
  fix c assume c: "returns_fd c"
  show "opens tidy (call_fd c)"
    unfolding opens_def
  proof
    fix w
    obtain r w1 where m: "call_fd c w = (r, w1)" by fastforce
    have t: "thread_of (wd_trace w1) = thread_of (wd_trace w)" using thread_call_fd [OF c, of w] m by simp
    show "case call_fd c w of (Inl e, w1) \<Rightarrow> tidy w w1
       | (Inr fd, w1) \<Rightarrow> \<forall>w2. tidy w1 w2 \<longrightarrow> tidy w (close fd w2)"
    proof (cases r)
      case (Inl e)
      then show ?thesis using call_fd_failed [OF c, of w] m at_home_thread [OF t] by (simp add: tidy_def)
    next
      case (Inr fd)
      have o: "opened fd w w1" using call_fd_opened(1) [OF c, of w] m Inr by simp
      have "tidy w (close fd w2)" if "tidy w1 w2" for w2
        using opened_close [OF o, of w2] that at_home_thread [OF t] o
        by (simp add: tidy_def opened_def at_home_def)
      then show ?thesis using m Inr by simp
    qed
  qed
qed (simp_all add: tidy_def fd_tidy_refl calm_plain_call)

subsection \<open>Bind mounts\<close>

text \<open>
  The bind mounts a trace made, newest first: the namespace the thread was in, the directory
  the source stands for and the path of the target. The legacy call names its source
  \<open>/proc/self/fd/N\<close>.
\<close>

record bind =
  bd_ns :: mnt_ns
  bd_source :: "(string \<times> string list) option"
  bd_target :: "string option"

definition proc_fd_prefix :: string where
  "proc_fd_prefix = ''/proc/self/fd/''"

definition source_of_path :: "event list \<Rightarrow> string \<Rightarrow> (string \<times> string list) option" where
  "source_of_path tr p =
     (if HasPrefix p proc_fd_prefix \<and> isNumeric (TrimPrefix p proc_fd_prefix)
      then fd_dir tr (digits_value 10 (TrimPrefix p proc_fd_prefix)) else None)"

definition bind_of :: "event list \<Rightarrow> syscall \<Rightarrow> bind option" where
  "bind_of tr c =
     (case c of
        SysMoveMount src p tgt q fs \<Rightarrow>
          Some \<lparr>bd_ns = th_ns (thread_of tr), bd_source = fd_dir tr src, bd_target = opened_path tr tgt\<rparr>
      | SysMount p q t fs d \<Rightarrow>
          Some \<lparr>bd_ns = th_ns (thread_of tr), bd_source = source_of_path tr p, bd_target = Some q\<rparr>
      | _ \<Rightarrow> None)"

primrec binds :: "event list \<Rightarrow> bind list" where
  "binds [] = []"
| "binds (e # tr) =
     (if ev_errno e \<noteq> None then binds tr
      else (case bind_of tr (ev_call e) of Some b \<Rightarrow> b # binds tr | None \<Rightarrow> binds tr))"

definition no_bind :: "syscall \<Rightarrow> bool" where
  "no_bind c \<longleftrightarrow> (\<forall>tr. bind_of tr c = None)"

definition quiet :: "world \<Rightarrow> world \<Rightarrow> bool" where
  "quiet w w' \<longleftrightarrow> fd_tidy w w' \<and> binds (wd_trace w') = binds (wd_trace w)"

definition quiet_plain :: "syscall \<Rightarrow> bool" where
  "quiet_plain c \<longleftrightarrow> fd_plain c \<and> no_bind c"

lemma binds_step: "no_bind (ev_call e) \<Longrightarrow> binds (e # tr) = binds tr"
  by (simp add: no_bind_def)

lemma no_bind_calls [simp]:
  "returns_fd c \<Longrightarrow> no_bind c" "no_bind (SysClose f)" "no_bind (SysSetns f)" "no_bind (SysFchdir f)"
  "no_bind (SysChroot p)" "no_bind (SysChdir p)" "calm c \<Longrightarrow> no_bind c"
  by (cases c; simp add: no_bind_def bind_of_def returns_fd_def calm_def)+

lemma binds_close [simp]: "binds (wd_trace (close fd w)) = binds (wd_trace w)"
  by (simp add: ignored_def bind_of_def)

interpretation qtr: calm_relation quiet quiet_plain
proof
  fix c w assume c: "quiet_plain c"
  have "binds (wd_trace (snd (kcall c w))) = binds (wd_trace w)"
    using binds_step [of "answer w c"] c by (simp add: quiet_plain_def del: binds.simps)
  then show "quiet w (snd (kcall c w))"
    using c fd_tidy_call [of c w] by (simp add: quiet_def quiet_plain_def)
next
  fix c w assume c: "quiet_plain c"
  have "binds (wd_trace (record_call c w)) = binds (wd_trace w)"
    using binds_step [of "\<lparr>ev_call = c, ev_errno = None, ev_fd = 0\<rparr>"] c
    by (simp add: quiet_plain_def del: binds.simps)
  then show "quiet w (record_call c w)"
    using c fd_tidy_record [of c w] by (simp add: quiet_def quiet_plain_def)
next
  fix c assume c: "returns_fd c"
  have b: "binds (wd_trace (snd (call_fd c w))) = binds (wd_trace w)" for w
    using binds_step [of "answer w c"] no_bind_calls(1) [OF c] by (simp add: call_runs del: binds.simps)
  show "opens quiet (call_fd c)"
    unfolding opens_def
  proof
    fix w
    obtain r w1 where m: "call_fd c w = (r, w1)" by fastforce
    have "binds (wd_trace w1) = binds (wd_trace w)" using b [of w] m by simp
    then show "case call_fd c w of (Inl e, w1) \<Rightarrow> quiet w w1
       | (Inr fd, w1) \<Rightarrow> \<forall>w2. quiet w1 w2 \<longrightarrow> quiet w (close fd w2)"
      using call_fd_failed [OF c, of w] call_fd_opened(1) [OF c, of w] opened_close m
      by (cases r) (auto simp: quiet_def)
  qed
qed (auto simp: quiet_def quiet_plain_def calm_fd_plain intro: fd_tidy_refl fd_tidy_trans)

end
