(* ===== verification/NodeTidy.thy ===== *)
theory NodeTidy
  imports NodeTrace
begin

text \<open>
  The operations of the node mounter leave nothing behind: whatever the system answers, every
  descriptor a run opened is closed when it returns, and the thread is back in the mount
  namespace and root it came from.
\<close>

subsection \<open>Descriptors a run holds\<close>

definition holding :: "int set \<Rightarrow> world \<Rightarrow> world \<Rightarrow> bool" where
  "holding F w w' \<longleftrightarrow> wd_kernel w' = wd_kernel w \<and> thread_of (wd_trace w') = thread_of (wd_trace w) \<and>
     binds (wd_trace w') = binds (wd_trace w) \<and>
     (fresh_fds (wd_kernel w) \<longrightarrow> F \<inter> open_fds (wd_trace w) = {} \<and>
        open_fds (wd_trace w') = F \<union> open_fds (wd_trace w) \<and>
        (\<forall>f \<in> open_fds (wd_trace w). fd_meaning (wd_trace w') f = fd_meaning (wd_trace w) f))"

lemma holding_refl: "holding {} w w"
  by (simp add: holding_def)

lemma holding_tidy: "holding {} w w' \<Longrightarrow> tidy w w'"
  by (simp add: holding_def tidy_def fd_tidy_def at_home_def)

lemma holding_close: "holding F w w' \<Longrightarrow> holding (F - {fd}) w (close fd w')"
  if "fresh_fds (wd_kernel w) \<longrightarrow> fd \<in> F"
  using that by (auto simp: holding_def)

lemma holding_quiet: "holding {} w w' \<Longrightarrow> quiet w w'"
  by (simp add: holding_def quiet_def fd_tidy_def)

lemma holding_then_quiet: "holding {fd} w w1 \<Longrightarrow> quiet w1 w2 \<Longrightarrow> quiet w (close fd w2)"
  by (auto simp: holding_def quiet_def fd_tidy_def)

lemma holding_then_tidy: "holding {fd} w w1 \<Longrightarrow> tidy w1 w2 \<Longrightarrow> tidy w (close fd w2)"
  by (auto simp: holding_def tidy_def fd_tidy_def at_home_def)

lemma holding_calm:
  assumes "calm c" and "holding F w w'"
  shows "holding F w (snd (kcall c w'))"
  using assms(2) calm_fd_plain [OF assms(1)] calm_plain_call [OF assms(1)] no_bind_calls(7) [OF assms(1)]
    fd_plain_step [of "answer w' c" "wd_trace w'"] thread_plain_step [of "answer w' c" "wd_trace w'"]
    binds_step [of "answer w' c" "wd_trace w'"]
  by (simp add: holding_def plain_call_def del: open_fds.simps thread_of.simps binds.simps)

lemma call_fd_binds: "returns_fd c \<Longrightarrow> binds (wd_trace (snd (call_fd c w))) = binds (wd_trace w)"
  using binds_step [of "answer w c"] by (simp add: call_runs del: binds.simps)

lemma holding_call_fd:
  assumes "returns_fd c" and "holding F w w'"
  shows "call_fd c w' = (Inl e, w2) \<Longrightarrow> holding F w w2"
    and "call_fd c w' = (Inr fd, w2) \<Longrightarrow> holding (insert fd F) w w2 \<and>
      (fresh_fds (wd_kernel w) \<longrightarrow> fd \<notin> F \<and> fd \<notin> open_fds (wd_trace w))"
proof -
  assume c: "call_fd c w' = (Inl e, w2)"
  have "binds (wd_trace w2) = binds (wd_trace w')" using call_fd_binds [OF assms(1), of w'] c by simp
  moreover have "thread_of (wd_trace w2) = thread_of (wd_trace w')"
    using thread_call_fd [OF assms(1), of w'] c by simp
  moreover have "fd_tidy w' w2" by (rule call_fd_failed [OF assms(1) c])
  ultimately show "holding F w w2"
    using assms(2) by (auto simp: holding_def fd_tidy_def)
next
  assume c: "call_fd c w' = (Inr fd, w2)"
  have "binds (wd_trace w2) = binds (wd_trace w')" using call_fd_binds [OF assms(1), of w'] c by simp
  moreover have "thread_of (wd_trace w2) = thread_of (wd_trace w')"
    using thread_call_fd [OF assms(1), of w'] c by simp
  moreover have "opened fd w' w2" by (rule call_fd_opened(1) [OF assms(1) c])
  ultimately show "holding (insert fd F) w w2 \<and>
      (fresh_fds (wd_kernel w) \<longrightarrow> fd \<notin> F \<and> fd \<notin> open_fds (wd_trace w))"
    using assms(2) by (auto simp: holding_def opened_def)
qed

subsection \<open>The walk\<close>

lemma nofollow_returns [simp]:
  "returns_fd (SysOpenat d s fs)" "returns_fd (SysOpen p fs)" "returns_fd (SysOpenTree d p fs)" "returns_fd (OsOpen p)"
  by (simp_all add: returns_fd_def)

lemma bind_calls [simp]: "plain_call (SysMoveMount f p g q fs)" "plain_call (SysMount p q r fs s)"
  by (simp_all add: plain_call_def fd_plain_def thread_plain_def returns_fd_def closed_fd_def)

lemma fd_plain_calls [simp]: "plain_call c \<Longrightarrow> fd_plain c"
  "fd_plain (SysSetns f)" "fd_plain (SysFchdir f)" "fd_plain (SysChroot p)" "fd_plain (SysChdir p)"
  by (simp_all add: plain_call_def fd_plain_def returns_fd_def closed_fd_def)

lemmas calm_plain_calls = calm_calls [THEN calm_plain_call]

lemma call_err_world: "call_err c w = (r, w') \<Longrightarrow> w' = snd (kcall c w)"
  using call_runs(1) [of c w] by simp

text \<open>The three ways a step of the walk can go: it ends with the first open, with a failed
  \<open>mkdirat\<close>, or with the second open.\<close>

lemma open_segment_cases:
  fixes sub st cm mode cur seg
  defines "at \<equiv> SysOpenat cur seg nofollow" and "mk \<equiv> SysMkdirat cur seg (createdSubPathUnixMode mode)"
  assumes "open_segment sub st cm mode cur seg w = (r, w')"
  shows "(\<exists>fd. r = Inr fd \<and> call_fd at w = (Inr fd, w')) \<or>
    (\<exists>e e1. r = Inl e \<and> call_fd at w = (Inl e1, w') \<and> e = sourceSubPathOpenError sub st e1 (\<not> cm) \<and>
       \<not> (errors_Is (Errno ''ENOENT'') e1 \<and> cm)) \<or>
    (\<exists>e1 w1 e2. call_fd at w = (Inl e1, w1) \<and> cm \<and> errors_Is (Errno ''ENOENT'') e1 \<and>
       call_err mk w1 = (Some e2, w') \<and> \<not> errors_Is (Errno ''EEXIST'') e2 \<and>
       r = Inl (sourceSubPathCreateError sub st e2)) \<or>
    (\<exists>e1 w1 m r2. call_fd at w = (Inl e1, w1) \<and> cm \<and> errors_Is (Errno ''ENOENT'') e1 \<and>
       call_err mk w1 = (m, snd (kcall mk w1)) \<and> (\<forall>e. m = Some e \<longrightarrow> errors_Is (Errno ''EEXIST'') e) \<and>
       call_fd at (snd (kcall mk w1)) = (r2, w') \<and>
       (case r2 of Inl e \<Rightarrow> r = Inl (sourceSubPathOpenError sub st e False) | Inr fd \<Rightarrow> r = Inr fd))"
proof -
  obtain r1 w1 where c1: "call_fd at w = (r1, w1)" by fastforce
  obtain m w2 where c2: "call_err mk w1 = (m, w2)" by fastforce
  obtain r3 w3 where c3: "call_fd at w2 = (r3, w3)" by fastforce
  have w2: "w2 = snd (kcall mk w1)" using call_err_world [OF c2] .
  show ?thesis
    using assms(3) c1 c2 c3 unfolding open_segment_def at_def [symmetric] mk_def [symmetric]
    by (auto simp: w2 Let_def split: sum.splits if_splits option.splits)
qed

lemma open_segment_holding:
  assumes h: "holding F w0 w" and run: "open_segment sub st cm mode cur seg w = (r, w')"
  shows "case r of Inl e \<Rightarrow> holding F w0 w' | Inr fd \<Rightarrow> holding (insert fd F) w0 w' \<and>
      (fresh_fds (wd_kernel w0) \<longrightarrow> fd \<notin> F \<and> fd \<notin> open_fds (wd_trace w0))"
proof -
  note op = holding_call_fd [OF nofollow_returns(1)] and mk = holding_calm [OF calm_calls(1)]
  from open_segment_cases [OF run] show ?thesis
  proof (elim disjE exE conjE)
    fix e1 w1 m r2
    assume "call_fd (SysOpenat cur seg nofollow) w = (Inl e1, w1)"
    then have "holding F w0 (snd (kcall (SysMkdirat cur seg (createdSubPathUnixMode mode)) w1))"
      using mk op(1) [OF h] by blast
    moreover assume "call_fd (SysOpenat cur seg nofollow)
        (snd (kcall (SysMkdirat cur seg (createdSubPathUnixMode mode)) w1)) = (r2, w')"
      and "case r2 of Inl e \<Rightarrow> r = Inl (sourceSubPathOpenError sub st e False) | Inr fd \<Rightarrow> r = Inr fd"
    ultimately show ?thesis using op by (cases r2) simp_all
  next
    fix e1 w1 e2
    assume "call_fd (SysOpenat cur seg nofollow) w = (Inl e1, w1)"
    then have "holding F w0 w1" using op(1) [OF h] by blast
    then have "holding F w0 (snd (kcall (SysMkdirat cur seg (createdSubPathUnixMode mode)) w1))" by (rule mk)
    moreover assume "call_err (SysMkdirat cur seg (createdSubPathUnixMode mode)) w1 = (Some e2, w')"
      and r: "r = Inl (sourceSubPathCreateError sub st e2)"
    then have "w' = snd (kcall (SysMkdirat cur seg (createdSubPathUnixMode mode)) w1)" by (intro call_err_world)
    ultimately show ?thesis by (simp only: r sum.case)
  qed (use op [OF h] in auto)
qed

lemma walk_loop_holding:
  assumes "holding {dir, cur} w0 w"
  shows "walk_loop sub st cm mode dir cur segs w = (Inl e, w') \<Longrightarrow> holding {} w0 w'"
    and "walk_loop sub st cm mode dir cur segs w = (Inr fd, w') \<Longrightarrow> holding {fd} w0 w'"
proof -
  have "case walk_loop sub st cm mode dir cur segs w of (Inl e, w') \<Rightarrow> holding {} w0 w' | (Inr fd, w') \<Rightarrow> holding {fd} w0 w'"
    using assms
  proof (induction segs arbitrary: cur w)
    case Nil
    then show ?case using holding_close [of w0 dir "{dir, cur}" w] by (auto simp: insert_Diff_if)
  next
    case (Cons seg segs)
    obtain r w1 where o: "open_segment sub st cm mode cur seg w = (r, w1)" by fastforce
    show ?case
    proof (cases r)
      case (Inl e)
      have h: "holding {dir, cur} w0 w1" using open_segment_holding [OF Cons.prems o] Inl by simp
      have "holding {} w0 (closeDirectoryWalkFDs dir cur w1)"
      proof (cases "cur = dir")
        case True
        then show ?thesis using holding_close [of w0 dir "{dir}" w1] h by (simp add: closeDirectoryWalkFDs_def)
      next
        case False
        have "holding {dir} w0 (close cur w1)"
          using holding_close [of w0 cur "{dir, cur}" w1] h False by (simp add: insert_Diff_if)
        then show ?thesis
          using holding_close [of w0 dir "{dir}" "close cur w1"] False by (simp add: closeDirectoryWalkFDs_def)
      qed
      then show ?thesis using o Inl by simp
    next
      case (Inr fd)
      have h: "holding {fd, dir, cur} w0 w1" and new: "fresh_fds (wd_kernel w0) \<longrightarrow> fd \<noteq> cur"
        using open_segment_holding [OF Cons.prems o] Inr by auto
      let ?w = "if cur \<noteq> dir then close cur w1 else w1"
      have "holding {dir, fd} w0 ?w"
      proof (cases "cur = dir")
        case True
        then show ?thesis using h by (simp add: insert_commute)
      next
        case False
        have "holding ({fd, dir, cur} - {cur}) w0 (close cur w1)"
          by (rule holding_close [OF _ h]) simp
        moreover have "fresh_fds (wd_kernel w0) \<Longrightarrow> {fd, dir, cur} - {cur} = {dir, fd}"
          using new False by auto
        ultimately show ?thesis using False by (simp add: holding_def)
      qed
      then show ?thesis using Cons.IH o Inr by (simp add: Let_def)
    qed
  qed
  then show "walk_loop sub st cm mode dir cur segs w = (Inl e, w') \<Longrightarrow> holding {} w0 w'"
    and "walk_loop sub st cm mode dir cur segs w = (Inr fd, w') \<Longrightarrow> holding {fd} w0 w'"
    by simp_all
qed

lemma openDirectoryNoFollow_holding:
  assumes "openDirectoryNoFollow st sub cm mode w = (r, w')"
  shows "case r of Inl e \<Rightarrow> holding {} w w' | Inr fd \<Rightarrow> holding {fd} w w'"
proof (cases "sourceSubPathSegments sub")
  case (Inl e)
  then show ?thesis using assms holding_refl by (auto simp: openDirectoryNoFollow_def)
next
  case (Inr segs)
  obtain q w1 where o: "call_fd (SysOpen st nofollow) w = (q, w1)" by fastforce
  show ?thesis
  proof (cases q)
    case (Inl e)
    then have "holding {} w w1" using holding_call_fd(1) [OF nofollow_returns(2) holding_refl] o by blast
    then show ?thesis using Inl o assms Inr by (auto simp: openDirectoryNoFollow_def)
  next
    case d: (Inr dir)
    have h: "holding {dir} w w1" using holding_call_fd(2) [OF nofollow_returns(2) holding_refl] o d by blast
    show ?thesis
    proof (cases "segs = []")
      case True
      then show ?thesis using assms Inr o d h by (auto simp: openDirectoryNoFollow_def)
    next
      case False
      then have "walk_loop sub st cm mode dir dir segs w1 = (r, w')"
        using assms Inr o d by (simp add: openDirectoryNoFollow_def)
      then show ?thesis using walk_loop_holding [of dir dir w w1] h by (cases r) simp_all
    qed
  qed
qed

subsection \<open>The own namespace\<close>

lemma own_ns_file_self: "own_ns_file (path_Join [procRoot, ''self'', ''ns'', ''mnt''])"
proof -
  have "all_proper [''self'', ''ns'', ''mnt'']" by (simp add: proper_seg_def)
  then obtain pre where
      "split_on slash (path_Join [procRoot, ''self'', ''ns'', ''mnt'']) = pre @ [''self'', ''ns'', ''mnt'']"
    using path_Join_segments [of "[''self'', ''ns'', ''mnt'']" procRoot] by auto
  then show ?thesis by (simp add: own_ns_file_def)
qed

lemma at_home_after_setns:
  assumes "ns_of_fd (wd_trace w) fd = Own_ns" and "setns_works (wd_kernel w)"
  shows "at_home (wd_trace (ignored (SysSetns fd) w))"
  using assms by (simp add: ignored_def at_home_def setns_works_def answer_def thread_step_def Let_def)

text \<open>Whatever runs in the container's namespace, the thread comes back.\<close>

definition has_own_ns :: "int \<Rightarrow> world \<Rightarrow> bool" where
  "has_own_ns own w \<longleftrightarrow> (fresh_fds (wd_kernel w) \<longrightarrow> own \<in> open_fds (wd_trace w) \<and>
     (\<exists>p. opened_path (wd_trace w) own = Some p \<and> own_ns_file p))"

lemma has_own_ns_tidy: "has_own_ns own w \<Longrightarrow> fd_tidy w w' \<Longrightarrow> has_own_ns own w'"
  by (auto simp: has_own_ns_def fd_tidy_def fd_meaning_def)

lemma body_then_home:
  assumes body: "keeps fd_tidy body" and own: "has_own_ns own w" and w': "w' = snd (deferring (ignored (SysSetns own)) body w)"
  shows "fd_tidy w w'" and "fresh_fds (wd_kernel w) \<and> setns_works (wd_kernel w) \<Longrightarrow> at_home (wd_trace w')"
proof -
  obtain r w1 where b: "body w = (r, w1)" by fastforce
  then have t1: "fd_tidy w w1" using body by (simp add: keeps_def) (metis snd_conv)
  have w': "w' = ignored (SysSetns own) w1" by (simp add: w' deferring_def b)
  show "fd_tidy w w'"
    using fd_tidy_trans [OF t1] fd_tidy_call [of "SysSetns own" w1] by (simp add: w' ignored_def)
  assume k: "fresh_fds (wd_kernel w) \<and> setns_works (wd_kernel w)"
  have "has_own_ns own w1" by (rule has_own_ns_tidy [OF own t1])
  then have "ns_of_fd (wd_trace w1) own = Own_ns"
    using k t1 by (auto simp: has_own_ns_def fd_tidy_def ns_of_fd_def)
  then show "at_home (wd_trace w')"
    unfolding w' using k t1 by (intro at_home_after_setns) (simp_all add: fd_tidy_def)
qed

definition target_part :: "string \<Rightarrow> int \<Rightarrow> int \<Rightarrow> (world \<Rightarrow> go_error option \<times> world) \<Rightarrow> int \<Rightarrow> world \<Rightarrow>
    go_error option \<times> world" where
  "target_part procRoot targetPID own body tgt w =
     or_fail (\<lambda>err. Errorf ''enter target mount namespace for pid %d: %w'' [AInt targetPID, AWrap err])
       (call_err (SysSetns tgt) w) (deferring (ignored (SysSetns own)) body)"

lemma target_part_tidy:
  assumes "keeps fd_tidy body" and "has_own_ns own w"
  shows "tidy w (snd (target_part procRoot pid own body tgt w))"
proof -
  obtain r w1 where c: "call_err (SysSetns tgt) w = (r, w1)" by fastforce
  then have w1: "w1 = snd (kcall (SysSetns tgt) w)" by (rule call_err_world)
  have t1: "fd_tidy w w1" unfolding w1 by (rule fd_tidy_call) simp
  show ?thesis
  proof (cases r)
    case None
    define w2 where "w2 = snd (deferring (ignored (SysSetns own)) body w1)"
    note home = body_then_home [OF assms(1) has_own_ns_tidy [OF assms(2) t1] w2_def]
    have "fd_tidy w w2" by (rule fd_tidy_trans [OF t1 home(1)])
    moreover have "fresh_fds (wd_kernel w) \<and> setns_works (wd_kernel w) \<longrightarrow> at_home (wd_trace w2)"
      using home(2) t1 by (simp add: fd_tidy_def)
    moreover have "snd (target_part procRoot pid own body tgt w) = w2"
      using None c by (simp add: target_part_def or_fail_def w2_def)
    ultimately show ?thesis by (simp add: tidy_def)
  next
    case (Some e)
    then have "ev_errno (answer w (SysSetns tgt)) \<noteq> None"
      using c by (auto simp: call_err_def kcall_def)
    then have "thread_of (wd_trace w1) = thread_of (wd_trace w)" by (auto simp: w1)
    then show ?thesis using Some c t1 by (simp add: target_part_def or_fail_def tidy_def at_home_def)
  qed
qed

lemma holding_own_ns:
  assumes "call_fd (OsOpen p) w = (Inr own, w')" and "own_ns_file p"
  shows "has_own_ns own w'"
  using call_fd_cases(2) [OF assms(1)] assms(2) call_fd_opened(1) [OF nofollow_returns(4) assms(1)]
  by (auto simp: has_own_ns_def opened_def path_argument_def answer_def returns_fd_def)

lemma in_namespace_tidy:
  assumes body: "keeps fd_tidy body"
  shows "keeps tidy (in_namespace procRoot pid body)"
proof -
  let ?own = "path_Join [procRoot, ''self'', ''ns'', ''mnt'']"
  let ?tgt = "pid_path procRoot pid [''ns'', ''mnt'']"
  let ?f = "\<lambda>err. Errorf ''open current mount namespace: %w'' [AWrap err]"
  let ?g = "\<lambda>err. Errorf ''open target mount namespace for pid %d: %w'' [AInt pid, AWrap err]"
  define rest where "rest = (\<lambda>own w. with_fd ?g (OsOpen ?tgt) w (target_part procRoot pid own body))"
  have rest: "tidy w (snd (rest own w))" if own: "has_own_ns own w" for own w
  proof -
    obtain r w1 where c: "call_fd (OsOpen ?tgt) w = (r, w1)" by fastforce
    show ?thesis
    proof (cases r)
      case (Inl e)
      have "holding {} w w1" using holding_call_fd(1) [OF nofollow_returns(4) holding_refl] c Inl by blast
      then show ?thesis using holding_tidy c Inl by (simp add: rest_def with_fd_def)
    next
      case (Inr tgt)
      have h: "holding {tgt} w w1" using holding_call_fd(2) [OF nofollow_returns(4) holding_refl] c Inr by blast
      have "has_own_ns own w1" using own h by (auto simp: has_own_ns_def holding_def fd_meaning_def)
      then have "tidy w1 (snd (target_part procRoot pid own body tgt w1))" by (rule target_part_tidy [OF body])
      then show ?thesis using holding_then_tidy [OF h] c Inr
        by (cases "target_part procRoot pid own body tgt w1") (simp add: rest_def with_fd_def deferring_def)
    qed
  qed
  have own: "keeps tidy (\<lambda>w. with_fd ?f (OsOpen ?own) w rest)"
  proof (rule tdr.keepsI)
    fix w
    obtain r w1 where c: "call_fd (OsOpen ?own) w = (r, w1)" by fastforce
    show "tidy w (snd (with_fd ?f (OsOpen ?own) w rest))"
    proof (cases r)
      case (Inl e)
      have "holding {} w w1" using holding_call_fd(1) [OF nofollow_returns(4) holding_refl] c Inl by blast
      then show ?thesis using holding_tidy c Inl by (simp add: with_fd_def)
    next
      case (Inr own)
      have h: "holding {own} w w1" using holding_call_fd(2) [OF nofollow_returns(4) holding_refl] c Inr by blast
      have "tidy w1 (snd (rest own w1))"
        by (rule rest [OF holding_own_ns [OF _ own_ns_file_self]]) (use c Inr in simp)
      then show ?thesis using holding_then_tidy [OF h] c Inr
        by (cases "rest own w1") (simp add: with_fd_def deferring_def)
    qed
  qed
  have "in_namespace procRoot pid body = (\<lambda>w. deferring (record_call UnlockOSThread) (\<lambda>w.
       or_fail (\<lambda>err. Errorf ''unshare filesystem attributes: %w'' [AWrap err]) (call_err SysUnshareFS w)
         (\<lambda>w. with_fd ?f (OsOpen ?own) w rest)) (record_call LockOSThread w))"
    unfolding rest_def target_part_def [abs_def] by (rule ext) (simp add: in_namespace_def)
  moreover have "keeps tidy (\<lambda>w. deferring (record_call UnlockOSThread) (\<lambda>w.
       or_fail (\<lambda>err. Errorf ''unshare filesystem attributes: %w'' [AWrap err]) (call_err SysUnshareFS w)
         (\<lambda>w. with_fd ?f (OsOpen ?own) w rest)) (record_call LockOSThread w))"
    by (rule tdr.keeps_after)
      (intro tdr.keeps_deferring tdr.keeps_or_fail tdr.keeps_call own tdr.recorded; simp add: calm_plain_call)+
  ultimately show ?thesis by simp
qed

subsection \<open>All operations\<close>

lemma simple_body_fd_tidy: "plain_call c \<Longrightarrow> keeps fd_tidy (\<lambda>w. or_fail f (call_err c w) (\<lambda>w. (None, w)))"
  by (intro fdr.keeps_rules fdr.keeps_call fd_plain_calls(1))

lemma moveMount_tidy: "keeps tidy (moveMountIntoContainerNamespace root pid src desc target)"
  unfolding moveMountIntoContainerNamespace_def [abs_def] Let_def
  by (intro tdr.keeps_or_fail tdr.keeps_with_fd tdr.prepare_target_keeps in_namespace_tidy simple_body_fd_tidy
      bind_calls nofollow_returns)

lemma legacyBind_tidy: "keeps tidy (legacyBindMountIntoContainerNamespace root pid src desc target)"
  unfolding legacyBindMountIntoContainerNamespace_def [abs_def] Let_def
  by (intro tdr.keeps_or_fail tdr.prepare_target_keeps in_namespace_tidy simple_body_fd_tidy bind_calls)

lemma enterRoot_fd_tidy: "keeps fd_tidy (enterRoot fd)"
  unfolding enterRoot_def [abs_def] by (intro fdr.keeps_rules fdr.keeps_call fd_plain_calls)

lemma restoreRoot_fd_tidy: "fd_tidy w (restoreRoot root cwd w)"
proof -
  have s: "fd_tidy w w'" if "call_err c w = (r, w')" "fd_plain c" for c r w w'
    using call_err_world [OF that(1)] fd_tidy_call [OF that(2)] by simp
  have rec: "fd_tidy w (record_call (Warning t) w)" for t w by (rule fd_tidy_record) (simp add: calm_fd_plain)
  obtain r1 w1 where c1: "call_err (SysFchdir root) w = (r1, w1)" by fastforce
  obtain r2 w2 where c2: "call_err (SysChroot ''.'') w1 = (r2, w2)" by fastforce
  obtain r3 w3 where c3: "call_err (SysFchdir cwd) w2 = (r3, w3)" by fastforce
  have t1: "fd_tidy w w1" using s [OF c1] by simp
  then have t2: "fd_tidy w w2" using s [OF c2] fd_tidy_trans by simp
  then have t3: "fd_tidy w w3" using s [OF c3] fd_tidy_trans by simp
  show ?thesis
    using t1 t2 t3 fd_tidy_trans [OF _ rec]
    by (simp add: restoreRoot_def c1 c2 c3 split: option.split)
qed

lemma unmountIn_tidy: "keeps tidy (unmountInContainerNamespace root pid target)"
  unfolding unmountInContainerNamespace_def [abs_def]
  by (intro tdr.keeps_rules in_namespace_tidy tdr.isMountPoint_keeps fdr.keeps_or_fail fdr.keeps_deferring
      enterRoot_fd_tidy restoreRoot_fd_tidy simple_body_fd_tidy nofollow_returns calm_plain_calls)

lemma linux_Unmount_tidy: "keeps tidy (linux_Unmount cfg plan)"
  unfolding linux_Unmount_def [abs_def]
  by (intro tdr.keeps_rules tdr.keeps_call tdr.findContainerPID_keeps unmountIn_tidy calm_plain_calls)

lemma openTreeMountSource_holding:
  assumes "openTreeMountSource st sub cm mode w = (r, w')"
  shows "case r of Inl e \<Rightarrow> tidy w w' | Inr (fd, desc) \<Rightarrow> holding {fd} w w'"
proof (cases "sub = []")
  case True
  obtain q w1 where c: "call_fd (SysOpenTree AT_FDCWD st [OPEN_TREE_CLONE, OPEN_TREE_CLOEXEC]) w = (q, w1)"
    by fastforce
  show ?thesis
  proof (cases q)
    case (Inl e)
    have "holding {} w w1" using holding_call_fd(1) [OF nofollow_returns(3) holding_refl] c Inl by blast
    then show ?thesis using assms True c Inl holding_tidy by (auto simp: openTreeMountSource_def)
  next
    case (Inr fd)
    have "holding {fd} w w1" using holding_call_fd(2) [OF nofollow_returns(3) holding_refl] c Inr by blast
    then show ?thesis using assms True c Inr by (auto simp: openTreeMountSource_def)
  qed
next
  case False
  obtain q w1 where c: "openDirectoryNoFollow st sub cm mode w = (q, w1)" by fastforce
  note h1 = openDirectoryNoFollow_holding [OF c]
  show ?thesis
  proof (cases q)
    case (Inl e)
    then show ?thesis using assms False c h1 holding_tidy by (auto simp: openTreeMountSource_def)
  next
    case (Inr src)
    let ?c = "SysOpenTree src [] [OPEN_TREE_CLONE, OPEN_TREE_CLOEXEC, AT_EMPTY_PATH]"
    obtain q2 w2 where c2: "call_fd ?c w1 = (q2, w2)" by fastforce
    have h: "holding {src} w w1" using h1 Inr by simp
    show ?thesis
    proof (cases q2)
      case (Inl e)
      have "holding {src} w w2" using holding_call_fd(1) [OF nofollow_returns(3) h] c2 Inl by blast
      then have "holding {} w (close src w2)" using holding_close [of w src "{src}" w2] by simp
      then show ?thesis
        using assms False c Inr c2 Inl holding_tidy by (auto simp: openTreeMountSource_def deferring_def)
    next
      case fd: (Inr fd)
      have h2: "holding {fd, src} w w2" and new: "fresh_fds (wd_kernel w) \<longrightarrow> fd \<noteq> src"
        using holding_call_fd(2) [OF nofollow_returns(3) h] c2 fd by blast+
      have "holding ({fd, src} - {src}) w (close src w2)" by (rule holding_close [OF _ h2]) simp
      then have "holding {fd} w (close src w2)" using new by (auto simp: holding_def)
      then show ?thesis
        using assms False c Inr c2 fd by (auto simp: openTreeMountSource_def deferring_def)
    qed
  qed
qed

lemma modernAPI_tidy: "keeps tidy (bindMountWithModernAPI cfg pid st sub target)"
proof (rule tdr.keepsI)
  fix w
  obtain r w1 where c: "openTreeMountSource st sub (nc_CreateMissingSubPaths cfg) (nc_CreatedSubPathMode cfg) w = (r, w1)"
    by fastforce
  note h = openTreeMountSource_holding [OF c]
  show "tidy w (snd (bindMountWithModernAPI cfg pid st sub target w))"
  proof (cases r)
    case (Inl e)
    then show ?thesis using c h by (simp add: bindMountWithModernAPI_def)
  next
    case (Inr p)
    obtain fd desc where p: "p = (fd, desc)" by fastforce
    let ?m = "moveMountIntoContainerNamespace (nc_HostProcRoot cfg) pid fd desc target"
    have "tidy w1 (snd (?m w1))" using moveMount_tidy by (simp add: keeps_def)
    then have "tidy w (close fd (snd (?m w1)))" using holding_then_tidy h Inr p by simp
    then show ?thesis using c Inr p by (cases "?m w1") (simp add: bindMountWithModernAPI_def deferring_def)
  qed
qed

lemma legacyAPI_tidy: "keeps tidy (bindMountWithLegacyAPI cfg pid st sub target)"
proof (rule tdr.keepsI)
  fix w
  obtain r w1 where c: "openDirectoryNoFollow st sub (nc_CreateMissingSubPaths cfg) (nc_CreatedSubPathMode cfg) w = (r, w1)"
    by fastforce
  note h = openDirectoryNoFollow_holding [OF c]
  show "tidy w (snd (bindMountWithLegacyAPI cfg pid st sub target w))"
  proof (cases r)
    case (Inl e)
    then show ?thesis using c h holding_tidy by (simp add: bindMountWithLegacyAPI_def openLegacyMountSource_def Let_def)
  next
    case (Inr fd)
    define src where "src = \<lparr>lg_FD = fd, lg_Description = (if sub \<noteq> [] then path_Join [st, sub] else st)\<rparr>"
    let ?m = "legacyBindMountIntoContainerNamespace (nc_HostProcRoot cfg) pid (legacyMountSource_Path src)
      (lg_Description src) target"
    have "tidy w1 (snd (?m w1))" using legacyBind_tidy by (simp add: keeps_def)
    then have "tidy w (close fd (snd (?m w1)))" using holding_then_tidy h Inr by simp
    moreover have "bindMountWithLegacyAPI cfg pid st sub target w = deferring (close fd) ?m w1"
      using c Inr by (simp add: bindMountWithLegacyAPI_def openLegacyMountSource_def Let_def src_def
          legacyMountSource_Close_def)
    ultimately show ?thesis by (cases "?m w1") (simp add: deferring_def)
  qed
qed

lemma staged_mount_tidy: "keeps tidy (staged_mount cfg plan st)"
  unfolding staged_mount_def [abs_def]
  by (intro tdr.keeps_rules tdr.keeps_call tdr.isMountPoint_keeps tdr.mountNFS_keeps tdr.findContainerPID_keeps
      modernAPI_tidy legacyAPI_tidy calm_plain_calls)

lemma linux_Mount_tidy: "keeps tidy (linux_Mount cfg plan)"
proof -
  let ?pv = "nv_Name (pl_PV plan)"
  let ?st = "path_Join [nc_StagingRoot cfg, ?pv]"
  let ?clean = "if nc_UnstageAfterMount cfg then warnCleanupStagingPath ?st else (\<lambda>w. w)"
  have clean: "tidy w (?clean w)" for w by (simp add: tdr.refl tdr.warnCleanupStagingPath_keeps)
  have locked: "keeps tidy (\<lambda>w. deferring (record_call (UnlockStaging (stagingLock ?pv)))
      (deferring ?clean (staged_mount cfg plan ?st)) (record_call (LockStaging (stagingLock ?pv)) w))"
    by (rule tdr.keeps_after)
      (intro tdr.keeps_deferring staged_mount_tidy clean tdr.recorded calm_plain_call calm_calls)+
  show ?thesis
    unfolding linux_Mount_def [abs_def] Let_def
    by (intro tdr.keeps_rules tdr.keeps_call locked calm_plain_calls)
qed

end
