(* ===== verification/NodeBinds.thy ===== *)
theory NodeBinds
  imports NodeTidy
begin

text \<open>
  What the operations of the node mounter do to the mounts of the system: the walk stays
  below the staged mount and follows no link; \<open>Mount\<close> makes exactly one bind mount, from
  the source directory of the plan to its target in the container, when it returns nil, and
  none when it returns an error; \<open>Unmount\<close> unmounts the target in the container's root.
\<close>

subsection \<open>The walk stays below the staged mount\<close>

text \<open>
  The calls a walk along \<open>segs\<close> below \<open>st\<close> may make: opening \<open>st\<close> itself, and opening or
  making the next segment in a directory that stands for a prefix of \<open>segs\<close>; links are never
  followed.
\<close>

definition next_segment :: "string \<Rightarrow> string list \<Rightarrow> event list \<Rightarrow> int \<Rightarrow> string \<Rightarrow> bool" where
  "next_segment st segs tr d name \<longleftrightarrow>
     (\<exists>k < length segs. fd_dir tr d = Some (st, take k segs) \<and> name = segs ! k)"

definition walk_call :: "string \<Rightarrow> string list \<Rightarrow> event list \<Rightarrow> syscall \<Rightarrow> bool" where
  "walk_call st segs tr c \<longleftrightarrow>
     (case c of
        SysOpen p fs \<Rightarrow> p = st \<and> O_NOFOLLOW \<in> set fs
      | SysOpenat d name fs \<Rightarrow> O_NOFOLLOW \<in> set fs \<and> next_segment st segs tr d name
      | SysMkdirat d name m \<Rightarrow> next_segment st segs tr d name
      | SysClose fd \<Rightarrow> True
      | _ \<Rightarrow> False)"

text \<open>Every call between two worlds is one of those.\<close>

definition confined :: "string \<Rightarrow> string list \<Rightarrow> world \<Rightarrow> world \<Rightarrow> bool" where
  "confined st segs w w' \<longleftrightarrow> (\<exists>new. wd_trace w' = new @ wd_trace w \<and>
     (\<forall>later e earlier. new = later @ e # earlier \<longrightarrow> walk_call st segs (earlier @ wd_trace w) (ev_call e)))"

lemma confined_refl: "confined st segs w w"
  by (simp add: confined_def)

lemma confined_trans:
  assumes "confined st segs w1 w2" and "confined st segs w2 w3"
  shows "confined st segs w1 w3"
proof -
  obtain a where a: "wd_trace w2 = a @ wd_trace w1"
      "\<And>l e r. a = l @ e # r \<Longrightarrow> walk_call st segs (r @ wd_trace w1) (ev_call e)"
    using assms(1) unfolding confined_def by blast
  obtain b where b: "wd_trace w3 = b @ wd_trace w2"
      "\<And>l e r. b = l @ e # r \<Longrightarrow> walk_call st segs (r @ wd_trace w2) (ev_call e)"
    using assms(2) unfolding confined_def by blast
  have "walk_call st segs (r @ wd_trace w1) (ev_call e)" if "b @ a = l @ e # r" for l e r
  proof -
    from that consider us where "b = l @ us" "us @ a = e # r" | us where "b @ us = l" "a = us @ e # r"
      by (auto simp: append_eq_append_conv2)
    then show ?thesis
    proof cases
      case 1
      then show ?thesis using a b by (cases us) auto
    next
      case 2
      then show ?thesis using a(2) by blast
    qed
  qed
  then show ?thesis unfolding confined_def using a(1) b(1) by (intro exI [of _ "b @ a"]) auto
qed

lemma confined_call:
  assumes "walk_call st segs (wd_trace w) c"
  shows "confined st segs w (snd (kcall c w))"
  unfolding confined_def
  by (rule exI [of _ "[answer w c]"]) (use assms in \<open>auto simp: Cons_eq_append_conv\<close>)

lemma confined_close: "confined st segs w (close fd w)"
  unfolding ignored_def by (rule confined_call) (simp add: walk_call_def)

lemma fd_dir_calm: "calm c \<Longrightarrow> fd_dir (wd_trace (snd (kcall c w))) d = fd_dir (wd_trace w) d"
  using calm_fd_plain [of c] by (simp add: fd_plain_def)

lemma fd_dir_close [simp]: "fd_dir (wd_trace (close fd w)) d = fd_dir (wd_trace w) d"
  by (simp add: ignored_def returns_fd_def)

lemma open_segment_dir:
  assumes run: "open_segment sub st cm mode cur seg w = (r, w')"
    and k: "k < length segs" "fd_dir (wd_trace w) cur = Some (st, take k segs)" "seg = segs ! k"
    and proper: "proper_seg seg"
  shows "confined st segs w w'" and "r = Inr fd \<Longrightarrow> fd_dir (wd_trace w') fd = Some (st, take (Suc k) segs)"
proof -
  let ?at = "SysOpenat cur seg nofollow" and ?mk = "SysMkdirat cur seg (createdSubPathUnixMode mode)"
  have at: "walk_call st segs (wd_trace v) ?at" and mk: "walk_call st segs (wd_trace v) ?mk"
    if "fd_dir (wd_trace v) cur = Some (st, take k segs)" for v
    using that k by (auto simp: walk_call_def next_segment_def nofollow_def)
  have dir: "fd_dir (wd_trace v') fd = Some (st, take (Suc k) segs)"
    if "call_fd ?at v = (Inr fd, v')" "fd_dir (wd_trace v) cur = Some (st, take k segs)" for v v' fd
  proof -
    have "take k segs @ [segs ! k] = take (Suc k) segs" using k(1) by (simp add: take_Suc_conv_app_nth)
    then show ?thesis
      using call_fd_cases(2) [OF that(1)] that(2) proper k(3)
      by (simp add: answer_def returns_fd_def fd_dir_of_def nofollow_def)
  qed
  have one: "confined st segs v v'" if "call_fd ?at v = (q, v')" "fd_dir (wd_trace v) cur = Some (st, take k segs)" for q v v'
    using confined_call [OF at [OF that(2)]] call_runs(4) [of ?at v] that(1) by simp
  have "confined st segs w w' \<and> (\<forall>fd. r = Inr fd \<longrightarrow> fd_dir (wd_trace w') fd = Some (st, take (Suc k) segs))"
    using open_segment_cases [OF run]
  proof (elim disjE exE conjE)
    fix e1 w1 m r2
    assume c1: "call_fd ?at w = (Inl e1, w1)" and c2: "call_fd ?at (snd (kcall ?mk w1)) = (r2, w')"
      and r: "case r2 of Inl e \<Rightarrow> r = Inl (sourceSubPathOpenError sub st e False) | Inr fd \<Rightarrow> r = Inr fd"
    have d1: "fd_dir (wd_trace w1) cur = Some (st, take k segs)"
      using call_fd_cases(1) [OF c1] k(2) by auto
    then have d2: "fd_dir (wd_trace (snd (kcall ?mk w1))) cur = Some (st, take k segs)"
      using fd_dir_calm [OF calm_calls(1)] by simp
    have "confined st segs w w'"
      using confined_trans [OF confined_trans [OF one [OF c1 k(2)] confined_call [OF mk [OF d1]]] one [OF c2 d2]] .
    then show ?thesis using r c2 dir [OF _ d2] by (cases r2) auto
  next
    fix e1 w1 e2
    assume c1: "call_fd ?at w = (Inl e1, w1)" and c2: "call_err ?mk w1 = (Some e2, w')"
      and r: "r = Inl (sourceSubPathCreateError sub st e2)"
    have d1: "fd_dir (wd_trace w1) cur = Some (st, take k segs)"
      using call_fd_cases(1) [OF c1] k(2) by auto
    show ?thesis
      using confined_trans [OF one [OF c1 k(2)] confined_call [OF mk [OF d1]]] call_err_world [OF c2] r by simp
  next
    fix fd assume "r = Inr fd" and c: "call_fd ?at w = (Inr fd, w')"
    then show ?thesis using one [OF c k(2)] dir [OF c k(2)] by simp
  next
    fix e e1 assume "r = Inl e" and c: "call_fd ?at w = (Inl e1, w')"
    then show ?thesis using one [OF c k(2)] by simp
  qed
  then show "confined st segs w w'" and "r = Inr fd \<Longrightarrow> fd_dir (wd_trace w') fd = Some (st, take (Suc k) segs)"
    by simp_all
qed

lemma walk_loop_confined:
  assumes "walk_loop sub st cm mode dir cur (drop k segs) w = (r, w')"
    and "fd_dir (wd_trace w) cur = Some (st, take k segs)" and "k \<le> length segs" and "all_proper segs"
  shows "confined st segs w w' \<and> (\<forall>fd. r = Inr fd \<longrightarrow> fd_dir (wd_trace w') fd = Some (st, segs))"
  using assms
proof (induction "drop k segs" arbitrary: k cur w)
  case Nil
  then show ?case by (auto simp: confined_refl confined_close split: if_splits)
next
  case (Cons seg rest)
  have k: "k < length segs" and seg: "seg = segs ! k" and rest: "rest = drop (Suc k) segs"
    using Cons.hyps(2) by (metis Cons_nth_drop_Suc drop_eq_Nil linorder_not_le list.distinct(1) list.inject)+
  have proper: "proper_seg seg" using Cons.prems(4) k seg by simp
  obtain q w1 where o: "open_segment sub st cm mode cur seg w = (q, w1)" by fastforce
  note conf = open_segment_dir [OF o k Cons.prems(2) seg proper]
  have run: "walk_loop sub st cm mode dir cur (seg # rest) w = (r, w')"
    using Cons.prems(1) Cons.hyps(2) by simp
  show ?case
  proof (cases q)
    case (Inl e)
    have "confined st segs w1 (closeDirectoryWalkFDs dir cur w1)"
      using confined_close confined_trans [OF confined_close confined_close]
      by (simp add: closeDirectoryWalkFDs_def Let_def)
    then show ?thesis using run o Inl confined_trans [OF conf(1)] by auto
  next
    case (Inr fd)
    let ?w = "if cur \<noteq> dir then close cur w1 else w1"
    have c: "confined st segs w ?w" using confined_trans [OF conf(1) confined_close] conf(1) by simp
    have d: "fd_dir (wd_trace ?w) fd = Some (st, take (Suc k) segs)" using conf(2) [OF Inr] by simp
    have "walk_loop sub st cm mode dir fd (drop (Suc k) segs) ?w = (r, w')"
      using run o Inr rest by (simp add: Let_def)
    then have "confined st segs ?w w' \<and> (\<forall>fd. r = Inr fd \<longrightarrow> fd_dir (wd_trace w') fd = Some (st, segs))"
      by (rule Cons.hyps(1) [OF rest]) (use d k Cons.prems(4) in simp_all)
    then show ?thesis using confined_trans [OF c] by blast
  qed
qed

lemma openDirectoryNoFollow_confined:
  assumes "openDirectoryNoFollow st sub cm mode w = (r, w')"
  shows "confined st (source_segs sub) w w'"
    and "r = Inr fd \<Longrightarrow> fd_dir (wd_trace w') fd = Some (st, source_segs sub) \<and> all_proper (source_segs sub) \<and>
      sourceSubPathSegments sub = Inr (source_segs sub)"
proof -
  have "confined st (source_segs sub) w w' \<and> (\<forall>fd. r = Inr fd \<longrightarrow>
      fd_dir (wd_trace w') fd = Some (st, source_segs sub) \<and> all_proper (source_segs sub) \<and>
      sourceSubPathSegments sub = Inr (source_segs sub))"
  proof (cases "sourceSubPathSegments sub")
    case (Inl e)
    then show ?thesis using assms confined_refl by (auto simp: openDirectoryNoFollow_def)
  next
    case (Inr segs)
    then have segs: "segs = source_segs sub" and proper: "all_proper segs"
      using all_proper_source_segs by (auto simp: sourceSubPathSegments_spec)
    obtain q w1 where o: "call_fd (SysOpen st nofollow) w = (q, w1)" by fastforce
    have c1: "confined st segs w w1"
      using confined_call [of st segs w "SysOpen st nofollow"] call_runs(4) [of "SysOpen st nofollow" w] o
      by (simp add: walk_call_def nofollow_def)
    show ?thesis
    proof (cases q)
      case q: (Inl e)
      then show ?thesis using assms o Inr c1 segs by (auto simp: openDirectoryNoFollow_def)
    next
      case q: (Inr dir)
      have d1: "fd_dir (wd_trace w1) dir = Some (st, take 0 segs)"
        using call_fd_cases(2) [of "SysOpen st nofollow" w dir w1] o q
        by (simp add: answer_def returns_fd_def fd_dir_of_def nofollow_def)
      show ?thesis
      proof (cases "segs = []")
        case True
        then show ?thesis using assms o Inr q c1 d1 segs by (auto simp: openDirectoryNoFollow_def)
      next
        case False
        then have "walk_loop sub st cm mode dir dir (drop 0 segs) w1 = (r, w')"
          using assms o Inr q by (simp add: openDirectoryNoFollow_def)
        from walk_loop_confined [OF this d1 _ proper]
        show ?thesis using confined_trans [OF c1] segs proper Inr by auto
      qed
    qed
  qed
  then show "confined st (source_segs sub) w w'"
    and "r = Inr fd \<Longrightarrow> fd_dir (wd_trace w') fd = Some (st, source_segs sub) \<and> all_proper (source_segs sub) \<and>
      sourceSubPathSegments sub = Inr (source_segs sub)"
    by simp_all
qed

subsection \<open>Namespaces and legacy sources\<close>

lemma pid_ns_not_own: "\<not> own_ns_file (pid_path root pid [''ns'', ''mnt''])"
proof -
  have "all_proper [Itoa pid, ''ns'', ''mnt'']" using proper_Itoa by (simp add: proper_seg_def)
  then obtain pre where "split_on slash (pid_path root pid [''ns'', ''mnt'']) = pre @ [Itoa pid, ''ns'', ''mnt'']"
    using path_Join_segments [of "[Itoa pid, ''ns'', ''mnt'']" root] unfolding pid_path_def by auto
  then show ?thesis using Itoa_not_self by (simp add: own_ns_file_def)
qed

lemma legacy_source:
  assumes "0 \<le> fd"
  shows "source_of_path tr (legacyMountSource_Path \<lparr>lg_FD = fd, lg_Description = d\<rparr>) = fd_dir tr fd"
proof -
  have p: "path_Join [''/proc/self/fd'', Itoa fd] = proc_fd_prefix @ Itoa fd"
  proof -
    have all: "all_proper [''proc'', ''self'', ''fd'', Itoa fd]" using proper_Itoa by (simp add: proper_seg_def)
    have "path_Join [''/proc/self/fd'', Itoa fd] = path_Clean (slash # join_on slash [''proc'', ''self'', ''fd'', Itoa fd])"
      using Itoa_not_Nil [of fd] by (simp add: path_Join_def)
    also have "\<dots> = slash # join_on slash [''proc'', ''self'', ''fd'', Itoa fd]"
      by (rule path_Clean_canonical_rooted [OF all])
    finally show ?thesis by (simp add: proc_fd_prefix_def)
  qed
  show ?thesis using Itoa_digits [OF assms] by (simp add: legacyMountSource_Path_def source_of_path_def p)
qed

subsection \<open>What the thread does in the container\<close>

text \<open>Descriptors may be open in addition, those open before keep their meaning.\<close>

definition growing :: "world \<Rightarrow> world \<Rightarrow> bool" where
  "growing w w' \<longleftrightarrow> wd_kernel w' = wd_kernel w \<and> binds (wd_trace w') = binds (wd_trace w) \<and>
     (fresh_fds (wd_kernel w) \<longrightarrow> open_fds (wd_trace w) \<subseteq> open_fds (wd_trace w') \<and>
        (\<forall>f \<in> open_fds (wd_trace w). fd_meaning (wd_trace w') f = fd_meaning (wd_trace w) f))"

lemma growing_trans: "growing w1 w2 \<Longrightarrow> growing w2 w3 \<Longrightarrow> growing w1 w3"
  unfolding growing_def by (auto simp: subset_iff)

lemma holding_growing: "holding F w w' \<Longrightarrow> growing w w'"
  by (auto simp: growing_def holding_def)

lemma quiet_growing: "quiet w w' \<Longrightarrow> growing w w'"
  by (auto simp: growing_def quiet_def fd_tidy_def)

lemma calm_growing: "calm c \<Longrightarrow> growing w (record_call c w)" "calm c \<Longrightarrow> growing w (snd (kcall c w))"
  using qtr.recorded [of c w] qtr.step [of c w] qtr.calm_plain [of c] quiet_growing by auto

lemma setns_growing: "growing w (snd (kcall (SysSetns fd) w))"
  using qtr.step [of "SysSetns fd" w] quiet_growing by (simp add: quiet_plain_def)

text \<open>The calls around the body of \<open>in_namespace\<close> bind nothing.\<close>

lemma same_binds:
  "binds (wd_trace (ignored (SysSetns fd) w)) = binds (wd_trace w)"
  "binds (wd_trace (record_call UnlockOSThread w)) = binds (wd_trace w)"
  by (simp_all add: ignored_def bind_of_def)

definition ns_path :: "string \<Rightarrow> int \<Rightarrow> string" where
  "ns_path root pid = pid_path root pid [''ns'', ''mnt'']"

lemma with_fd_cases:
  assumes "with_fd f c w g = (r, w')" and "returns_fd c"
  shows "(\<exists>e w1. r = Some e \<and> holding {} w w1 \<and> w' = w1) \<or>
    (\<exists>fd w1 w2. call_fd c w = (Inr fd, w1) \<and> holding {fd} w w1 \<and> g fd w1 = (r, w2) \<and> w' = close fd w2)"
proof -
  obtain q w1 where c: "call_fd c w = (q, w1)" by fastforce
  show ?thesis
  proof (cases q)
    case (Inl e)
    have "holding {} w w1" using holding_call_fd(1) [OF assms(2) holding_refl] c Inl by blast
    then show ?thesis using assms(1) c Inl by (auto simp: with_fd_def)
  next
    case (Inr fd)
    have "holding {fd} w w1" using holding_call_fd(2) [OF assms(2) holding_refl] c Inr by blast
    then show ?thesis using assms(1) c Inr by (auto simp: with_fd_def deferring_def split: prod.splits)
  qed
qed

lemma entered_ns:
  assumes "call_fd (OsOpen p) w = (Inr fd, w1)" and "call_err (SysSetns fd) w1 = (None, w2)" and "\<not> own_ns_file p"
  shows "th_ns (thread_of (wd_trace w2)) = Ns_of p"
proof -
  have "opened_path (wd_trace w1) fd = Some p"
    using call_fd_cases(2) [OF assms(1)] by (simp add: answer_def returns_fd_def path_argument_def)
  moreover have "w2 = snd (kcall (SysSetns fd) w1)" by (rule call_err_world [OF assms(2)])
  moreover have "ev_errno (answer w1 (SysSetns fd)) = None"
    using assms(2) by (simp add: call_err_def kcall_def)
  ultimately show ?thesis using assms(3) by (simp add: thread_step_def ns_of_fd_def Let_def)
qed

lemma in_namespace_run:
  assumes "in_namespace root pid body w = (r, w')"
  shows "(r \<noteq> None \<and> binds (wd_trace w') = binds (wd_trace w)) \<or>
    (\<exists>w1 w2. growing w w1 \<and> th_ns (thread_of (wd_trace w1)) = Ns_of (ns_path root pid) \<and>
       body w1 = (r, w2) \<and> binds (wd_trace w') = binds (wd_trace w2))"
proof -
  let ?own = "OsOpen (path_Join [root, ''self'', ''ns'', ''mnt''])"
  let ?tgt = "OsOpen (ns_path root pid)"
  let ?w0 = "record_call LockOSThread w"
  obtain u w1 where u: "call_err SysUnshareFS ?w0 = (u, w1)" by fastforce
  have g0: "growing w ?w0"
    by (rule quiet_growing, rule qtr.recorded)
      (simp add: quiet_plain_def no_bind_def bind_of_def fd_plain_def returns_fd_def closed_fd_def)
  have g1: "growing w w1"
    using growing_trans [OF g0 calm_growing(2) [OF calm_calls(3)]] call_err_world [OF u] by simp
  show ?thesis
  proof (cases u)
    case (Some e)
    then have r: "r \<noteq> None" and w': "w' = record_call UnlockOSThread w1"
      using assms u by (auto simp: in_namespace_def deferring_def or_fail_def)
    have "binds (wd_trace w') = binds (wd_trace w1)" unfolding w' by (rule same_binds)
    then show ?thesis using r g1 by (simp add: growing_def)
  next
    case None
    obtain w3 where c: "with_fd (\<lambda>err. Errorf ''open current mount namespace: %w'' [AWrap err]) ?own w1
        (\<lambda>own w. with_fd (\<lambda>err. Errorf ''open target mount namespace for pid %d: %w'' [AInt pid, AWrap err])
          ?tgt w (target_part root pid own body)) = (r, w3)" and w': "w' = record_call UnlockOSThread w3"
      using assms u None unfolding target_part_def [abs_def]
      by (auto simp: in_namespace_def deferring_def or_fail_def ns_path_def split: prod.splits)
    have unlock: "binds (wd_trace w') = binds (wd_trace w3)" unfolding w' by (rule same_binds)
    from with_fd_cases [OF c nofollow_returns(4)] show ?thesis
    proof (elim disjE exE conjE)
      fix e w2 assume "r = Some e" "holding {} w1 w2" "w3 = w2"
      then show ?thesis using g1 unlock by (simp add: growing_def holding_def)
    next
      fix own w2 w4
      assume h2: "holding {own} w1 w2" and w3: "w3 = close own w4"
        and t: "with_fd (\<lambda>err. Errorf ''open target mount namespace for pid %d: %w'' [AInt pid, AWrap err])
          ?tgt w2 (target_part root pid own body) = (r, w4)"
      have g2: "growing w w2" by (rule growing_trans [OF g1 holding_growing [OF h2]])
      from with_fd_cases [OF t nofollow_returns(4)] show ?thesis
      proof (elim disjE exE conjE)
        fix e w5 assume "r = Some e" "holding {} w2 w5" "w4 = w5"
        then show ?thesis using g2 unlock w3 by (simp add: growing_def holding_def)
      next
        fix tgt w5 w6
        assume h5: "holding {tgt} w2 w5" and w4: "w4 = close tgt w6" and ct: "call_fd ?tgt w2 = (Inr tgt, w5)"
          and b: "target_part root pid own body tgt w5 = (r, w6)"
        have g5: "growing w w5" by (rule growing_trans [OF g2 holding_growing [OF h5]])
        obtain s w7 where s: "call_err (SysSetns tgt) w5 = (s, w7)" by fastforce
        have g7: "growing w w7" using growing_trans [OF g5 setns_growing] call_err_world [OF s] by simp
        have last: "binds (wd_trace w') = binds (wd_trace w6)" by (simp add: unlock w3 w4)
        show ?thesis
        proof (cases s)
          case (Some e)
          then show ?thesis using b s g7 last by (auto simp: target_part_def or_fail_def growing_def)
        next
          case None
          obtain w8 where "body w7 = (r, w8)" and "w6 = ignored (SysSetns own) w8"
            using b s None by (auto simp: target_part_def or_fail_def deferring_def split: prod.splits)
          moreover have "th_ns (thread_of (wd_trace w7)) = Ns_of (ns_path root pid)"
            using entered_ns [OF ct] s None pid_ns_not_own unfolding ns_path_def by blast
          ultimately show ?thesis using g7 last by (auto simp: same_binds)
        qed
      qed
    qed
  qed
qed

subsection \<open>The bind mount\<close>

lemma bind_body:
  assumes "or_fail f (call_err c w) (\<lambda>w. (None, w)) = (r, w')" and "bind_of (wd_trace w) c = Some b"
  shows "binds (wd_trace w') = (if r = None then [b] else []) @ binds (wd_trace w)"
proof -
  obtain s w1 where s: "call_err c w = (s, w1)" by fastforce
  have "w1 = snd (kcall c w)" by (rule call_err_world [OF s])
  then have "binds (wd_trace w1) = (if s = None then [b] else []) @ binds (wd_trace w)"
    using s assms(2) by (auto simp: call_err_def kcall_def)
  then show ?thesis using assms(1) s by (auto simp: or_fail_def split: option.splits)
qed

definition target_in_container :: "string \<Rightarrow> int \<Rightarrow> string \<Rightarrow> string" where
  "target_in_container root pid target = pid_path root pid [''root'', TrimPrefix target ''/'']"

definition the_bind :: "string \<Rightarrow> int \<Rightarrow> (string \<times> string list) option \<Rightarrow> string \<Rightarrow> bind" where
  "the_bind root pid src target = \<lparr>bd_ns = Ns_of (ns_path root pid), bd_source = src,
     bd_target = Some (target_in_container root pid target)\<rparr>"

lemma or_fail_cases:
  "or_fail f s g = (r, w') \<Longrightarrow> (\<exists>e. r = Some e \<and> w' = snd s) \<or> (fst s = None \<and> g (snd s) = (r, w'))"
  by (cases s) (auto simp: or_fail_def split: option.splits)

lemma prepare_target_quiet: "quiet w (snd (prepare_target root pid target w))"
  using qtr.prepare_target_keeps by (simp add: keeps_def)

lemma moveMount_binds:
  assumes run: "moveMountIntoContainerNamespace root pid src desc target w = (r, w')"
    and fresh: "fresh_fds (wd_kernel w)" and src: "src \<in> open_fds (wd_trace w)"
  shows "binds (wd_trace w') =
    (if r = None then [the_bind root pid (fd_dir (wd_trace w) src) target] else []) @ binds (wd_trace w)"
proof -
  let ?open = "SysOpen (target_in_container root pid target) [O_PATH, O_DIRECTORY, O_CLOEXEC]"
  let ?w1 = "snd (prepare_target root pid target w)"
  define body where "body = (\<lambda>tgt w. or_fail (\<lambda>err. Errorf ''bind mount pv source %s to %s: %w''
      [AStr desc, AStr target, AWrap err])
    (call_err (SysMoveMount src [] tgt [] [MOVE_MOUNT_F_EMPTY_PATH, MOVE_MOUNT_T_EMPTY_PATH]) w) (\<lambda>w. (None, w)))"
  have q: "quiet w ?w1" by (rule prepare_target_quiet)
  let ?k = "\<lambda>w. with_fd (\<lambda>err. Errorf ''open target path %s: %w'' [AStr target, AWrap err])
      ?open w (\<lambda>tgt. in_namespace root pid (body tgt))"
  have "or_fail id (prepare_target root pid target w) ?k = (r, w')"
    using run unfolding moveMountIntoContainerNamespace_def Let_def body_def target_in_container_def .
  from or_fail_cases [OF this] have "(\<exists>e. r = Some e \<and> w' = ?w1) \<or> with_fd (\<lambda>err. Errorf ''open target path %s: %w'' [AStr target, AWrap err])
      ?open ?w1 (\<lambda>tgt. in_namespace root pid (body tgt)) = (r, w')"
    by blast
  then show ?thesis
  proof (elim disjE exE conjE)
    fix e assume "r = Some e" "w' = ?w1"
    then show ?thesis using q by (simp add: quiet_def)
  next
    assume "with_fd (\<lambda>err. Errorf ''open target path %s: %w'' [AStr target, AWrap err])
      ?open ?w1 (\<lambda>tgt. in_namespace root pid (body tgt)) = (r, w')"
    from with_fd_cases [OF this nofollow_returns(2)] show ?thesis
    proof (elim disjE exE conjE)
      fix e w2 assume "r = Some e" "holding {} ?w1 w2" "w' = w2"
      then show ?thesis using q by (simp add: quiet_def holding_def)
    next
      fix tgt w2 w3
      assume ct: "call_fd ?open ?w1 = (Inr tgt, w2)" and h: "holding {tgt} ?w1 w2"
        and ns: "in_namespace root pid (body tgt) w2 = (r, w3)" and w': "w' = close tgt w3"
      have k: "wd_kernel ?w1 = wd_kernel w" using q by (simp add: quiet_def fd_tidy_def)
      have path: "opened_path (wd_trace w2) tgt = Some (target_in_container root pid target)"
        using call_fd_cases(2) [OF ct] by (simp add: answer_def returns_fd_def path_argument_def)
      have g: "growing w w2" by (rule growing_trans [OF quiet_growing [OF q] holding_growing [OF h]])
      have opn: "tgt \<in> open_fds (wd_trace w2)" "src \<in> open_fds (wd_trace w2)"
        using h g fresh src k by (auto simp: holding_def growing_def)
      have dir: "fd_dir (wd_trace w2) src = fd_dir (wd_trace w) src"
        using g fresh src by (simp add: growing_def fd_meaning_def)
      from in_namespace_run [OF ns] show ?thesis
      proof (elim disjE exE conjE)
        assume "r \<noteq> None" "binds (wd_trace w3) = binds (wd_trace w2)"
        then show ?thesis using g w' by (simp add: growing_def)
      next
        fix w4 w5 assume g4: "growing w2 w4" and th: "th_ns (thread_of (wd_trace w4)) = Ns_of (ns_path root pid)"
          and b: "body tgt w4 = (r, w5)" and same: "binds (wd_trace w3) = binds (wd_trace w5)"
        have "fd_meaning (wd_trace w4) f = fd_meaning (wd_trace w2) f" if "f \<in> open_fds (wd_trace w2)" for f
          using g4 g fresh that by (simp add: growing_def)
        then have "bind_of (wd_trace w4) (SysMoveMount src [] tgt [] [MOVE_MOUNT_F_EMPTY_PATH, MOVE_MOUNT_T_EMPTY_PATH]) =
            Some (the_bind root pid (fd_dir (wd_trace w) src) target)"
          using opn path dir th by (simp add: bind_of_def the_bind_def fd_meaning_def)
        from bind_body [OF b [unfolded body_def] this] show ?thesis
          using same w' g4 g by (simp add: growing_def)
      qed
    qed
  qed
qed

lemma legacyBind_binds:
  assumes run: "legacyBindMountIntoContainerNamespace root pid (legacyMountSource_Path \<lparr>lg_FD = fd, lg_Description = d\<rparr>)
      desc target w = (r, w')"
    and fresh: "fresh_fds (wd_kernel w)" and src: "fd \<in> open_fds (wd_trace w)" and pos: "0 \<le> fd"
  shows "binds (wd_trace w') =
    (if r = None then [the_bind root pid (fd_dir (wd_trace w) fd) target] else []) @ binds (wd_trace w)"
proof -
  let ?p = "legacyMountSource_Path \<lparr>lg_FD = fd, lg_Description = d\<rparr>"
  let ?w1 = "snd (prepare_target root pid target w)"
  let ?mount = "SysMount ?p (target_in_container root pid target) [] [MS_BIND] []"
  define body where "body = (\<lambda>w. or_fail (\<lambda>err. Errorf ''bind mount pv source %s to %s with legacy mount API: %w''
      [AStr desc, AStr target, AWrap err]) (call_err ?mount w) (\<lambda>w. (None, w)))"
  have q: "quiet w ?w1" by (rule prepare_target_quiet)
  have "or_fail id (prepare_target root pid target w) (in_namespace root pid body) = (r, w')"
    using run unfolding legacyBindMountIntoContainerNamespace_def Let_def body_def target_in_container_def .
  from or_fail_cases [OF this]
  have "(\<exists>e. r = Some e \<and> w' = ?w1) \<or> in_namespace root pid body ?w1 = (r, w')" by blast
  then show ?thesis
  proof (elim disjE exE conjE)
    fix e assume "r = Some e" "w' = ?w1"
    then show ?thesis using q by (simp add: quiet_def)
  next
    assume "in_namespace root pid body ?w1 = (r, w')"
    from in_namespace_run [OF this] show ?thesis
    proof (elim disjE exE conjE)
      assume "r \<noteq> None" "binds (wd_trace w') = binds (wd_trace ?w1)"
      then show ?thesis using q by (simp add: quiet_def)
    next
      fix w4 w5 assume g4: "growing ?w1 w4" and th: "th_ns (thread_of (wd_trace w4)) = Ns_of (ns_path root pid)"
        and b: "body w4 = (r, w5)" and same: "binds (wd_trace w') = binds (wd_trace w5)"
      have g: "growing w w4" by (rule growing_trans [OF quiet_growing [OF q] g4])
      then have "fd_dir (wd_trace w4) fd = fd_dir (wd_trace w) fd"
        using fresh src by (simp add: growing_def fd_meaning_def)
      then have "bind_of (wd_trace w4) ?mount = Some (the_bind root pid (fd_dir (wd_trace w) fd) target)"
        using legacy_source [OF pos] th by (simp add: bind_of_def the_bind_def)
      from bind_body [OF b [unfolded body_def] this] show ?thesis using same g by (simp add: growing_def)
    qed
  qed
qed

end
