(* ===== verification/NodeSource.thy ===== *)
theory NodeSource
  imports NodeBinds
begin

text \<open>
  From the staged mount to the bind mount: the process that is found, the directory the
  source descriptor stands for, and the bind mounts of a whole run of \<open>Mount\<close>.
\<close>

subsection \<open>Runs only add to the trace\<close>

text \<open>A relation that every single call keeps, and that a goroutine pinned to its thread and
  released again keeps, holds between the worlds of every run.\<close>

definition pins_thread :: "syscall \<Rightarrow> bool" where
  "pins_thread c \<longleftrightarrow> c = LockOSThread \<or> c = UnlockOSThread"

lemma unpinned [simp, intro]:
  "returns_fd c \<Longrightarrow> \<not> pins_thread c" "calm c \<Longrightarrow> \<not> pins_thread c" "\<not> pins_thread (SysClose fd)"
  "\<not> pins_thread (SysSetns fd)" "\<not> pins_thread (SysMoveMount f p g q fs)" "\<not> pins_thread (SysMount p q r fs d)"
  by (cases c; simp add: pins_thread_def returns_fd_def calm_def)+

locale call_invariant =
  fixes R :: "world \<Rightarrow> world \<Rightarrow> bool"
  assumes kept_refl: "R w w"
    and kept_trans: "R w1 w2 \<Longrightarrow> R w2 w3 \<Longrightarrow> R w1 w3"
    and every_call: "\<not> pins_thread c \<Longrightarrow> R w (snd (kcall c w))"
    and every_record: "(\<And>fd. c \<noteq> SysSetns fd) \<Longrightarrow> \<not> pins_thread c \<Longrightarrow> R w (record_call c w)"
    and pinned: "R (record_call LockOSThread w) w' \<Longrightarrow> R w (record_call UnlockOSThread w')"
begin

lemma run_fd: "returns_fd c \<Longrightarrow> call_fd c w = (r, w') \<Longrightarrow> R w w'"
  using every_call [of c w] call_runs(4) [of c w] by simp

lemma run_ignored: "\<not> pins_thread c \<Longrightarrow> R w (ignored c w)"
  unfolding ignored_def by (rule every_call)

lemma opens_any: "returns_fd c \<Longrightarrow> opens R (call_fd c)"
  unfolding opens_def using run_fd [of c] kept_trans run_ignored [OF unpinned(3)]
  by (auto split: prod.split sum.split) blast

end

sublocale call_invariant \<subseteq> calm_relation R "\<lambda>c. (\<forall>fd. c \<noteq> SysSetns fd) \<and> \<not> pins_thread c"
  by unfold_locales
    (auto intro: kept_refl every_call every_record opens_any elim: kept_trans simp: calm_def pins_thread_def)

context call_invariant
begin

lemma keeps_any: "\<not> pins_thread c \<Longrightarrow> keeps R (call_err c)" "\<not> pins_thread c \<Longrightarrow> keeps R (call_fd c)"
  using every_call by (simp_all add: keeps_def call_runs)

lemma keeps_closing: "R w (close fd w)"
  by (rule run_ignored) simp

lemma recorded_calls: "R w (record_call (LockStaging n) w)" "R w (record_call (UnlockStaging n) w)" "R w (record_call (Warning t) w)"
  by (rule every_record, simp, simp add: pins_thread_def)+

lemma keeps_pinned:
  assumes "keeps R m"
  shows "keeps R (\<lambda>w. deferring (record_call UnlockOSThread) m (record_call LockOSThread w))"
proof (rule keepsI)
  fix w
  obtain r w1 where m: "m (record_call LockOSThread w) = (r, w1)" by fastforce
  then have "R (record_call LockOSThread w) w1" using assms by (simp add: keeps_def) (metis snd_conv)
  then show "R w (snd (deferring (record_call UnlockOSThread) m (record_call LockOSThread w)))"
    using pinned m by (simp add: deferring_def)
qed

lemma in_namespace_keeps: "keeps R body \<Longrightarrow> keeps R (in_namespace root pid body)"
  unfolding in_namespace_def [abs_def]
  by (rule keeps_pinned)
    (intro keeps_deferring keeps_rules keeps_any run_ignored nofollow_returns unpinned calm_calls, assumption)

lemma open_segment_keeps: "keeps R (open_segment sub st cm mode cur seg)"
  unfolding open_segment_def [abs_def] Let_def
  by (intro keeps_rules keeps_any unpinned nofollow_returns calm_calls)

lemma walk_loop_keeps: "R w (snd (walk_loop sub st cm mode dir cur segs w))"
proof (induction segs arbitrary: cur w)
  case (Cons seg segs)
  obtain q w1 where o: "open_segment sub st cm mode cur seg w = (q, w1)" by fastforce
  have 1: "R w w1" using open_segment_keeps o by (simp add: keeps_def) (metis snd_conv)
  have c: "R w (close fd w1)" for fd by (rule trans [OF 1 keeps_closing])
  then have c2: "R w (close fd (close fd' w1))" for fd fd' by (rule trans [OF _ keeps_closing])
  show ?case
    using o 1 c c2 trans [OF 1 Cons.IH] trans [OF c Cons.IH]
    by (cases q) (auto simp: closeDirectoryWalkFDs_def Let_def)
qed (auto simp: refl keeps_closing)

lemma openDirectoryNoFollow_keeps: "keeps R (openDirectoryNoFollow st sub cm mode)"
proof -
  have w: "keeps R (walk_loop sub st cm mode dir cur segs)" for dir cur segs
    by (simp add: keeps_def walk_loop_keeps)
  show ?thesis
    unfolding openDirectoryNoFollow_def [abs_def] by (intro keeps_rules keeps_any w unpinned nofollow_returns)
qed

lemma openTreeMountSource_keeps: "keeps R (openTreeMountSource st sub cm mode)"
  unfolding openTreeMountSource_def [abs_def]
  by (intro keeps_rules keeps_any openDirectoryNoFollow_keeps keeps_deferring keeps_closing unpinned nofollow_returns)

lemma moveMount_keeps: "keeps R (moveMountIntoContainerNamespace root pid src desc target)"
  unfolding moveMountIntoContainerNamespace_def [abs_def] Let_def
  by (intro keeps_rules prepare_target_keeps in_namespace_keeps keeps_any nofollow_returns unpinned)

lemma legacyBind_keeps: "keeps R (legacyBindMountIntoContainerNamespace root pid src desc target)"
  unfolding legacyBindMountIntoContainerNamespace_def [abs_def] Let_def
  by (intro keeps_rules prepare_target_keeps in_namespace_keeps keeps_any unpinned)

lemma modernAPI_keeps: "keeps R (bindMountWithModernAPI cfg pid st sub target)"
  unfolding bindMountWithModernAPI_def [abs_def]
  by (intro keeps_rules openTreeMountSource_keeps keeps_deferring moveMount_keeps keeps_closing)

lemma legacyAPI_keeps: "keeps R (bindMountWithLegacyAPI cfg pid st sub target)"
  unfolding bindMountWithLegacyAPI_def [abs_def] openLegacyMountSource_def [abs_def] Let_def legacyMountSource_Close_def
  by (intro keeps_rules openDirectoryNoFollow_keeps keeps_deferring legacyBind_keeps keeps_closing)

lemma staged_mount_keeps: "keeps R (staged_mount cfg plan st)"
  unfolding staged_mount_def [abs_def]
  by (intro keeps_rules keeps_any isMountPoint_keeps mountNFS_keeps findContainerPID_keeps modernAPI_keeps legacyAPI_keeps
      unpinned calm_calls)

lemma linux_Mount_keeps: "keeps R (linux_Mount cfg plan)"
proof -
  let ?pv = "nv_Name (pl_PV plan)"
  let ?st = "path_Join [nc_StagingRoot cfg, ?pv]"
  let ?clean = "if nc_UnstageAfterMount cfg then warnCleanupStagingPath ?st else (\<lambda>w. w)"
  have clean: "R w (?clean w)" for w by (simp add: refl warnCleanupStagingPath_keeps)
  have "keeps R (\<lambda>w. deferring (record_call (UnlockStaging (stagingLock ?pv)))
      (deferring ?clean (staged_mount cfg plan ?st)) (record_call (LockStaging (stagingLock ?pv)) w))"
    by (rule keeps_after) (intro keeps_deferring staged_mount_keeps clean recorded_calls)+
  then show ?thesis
    unfolding linux_Mount_def [abs_def] Let_def by (intro keeps_rules keeps_any unpinned calm_calls)
qed

end

definition extends :: "world \<Rightarrow> world \<Rightarrow> bool" where
  "extends w w' \<longleftrightarrow> (\<exists>new. wd_trace w' = new @ wd_trace w)"

lemma extends_trans: "extends w1 w2 \<Longrightarrow> extends w2 w3 \<Longrightarrow> extends w1 w3"
  by (auto simp: extends_def)

lemma extends_Cons: "wd_trace w' = e # wd_trace w \<Longrightarrow> extends w w'"
  unfolding extends_def by (rule exI [of _ "[e]"]) simp

lemma extends_kcall: "extends w (snd (kcall c w))" and extends_record: "extends w (record_call c w)"
  by (rule extends_Cons, simp)+

interpretation xtr: call_invariant extends
proof
  fix w w' assume "extends (record_call LockOSThread w) w'"
  then show "extends w (record_call UnlockOSThread w')"
    using extends_record extends_trans by metis
qed (auto intro: extends_kcall extends_record elim: extends_trans simp: extends_def)

subsection \<open>The process\<close>

text \<open>
  A process was seen between two worlds: its cgroup file was read, with an answer that names
  the pod and the container, and its directory has the number.
\<close>

definition process_seen :: "string \<Rightarrow> string \<Rightarrow> string \<Rightarrow> int \<Rightarrow> world \<Rightarrow> world \<Rightarrow> bool" where
  "process_seen root uid cid pid w w' \<longleftrightarrow> (\<exists>later e earlier name.
     wd_trace w' = later @ e # earlier @ wd_trace w \<and>
     ev_call e = OsReadFile (path_Join [root, name, ''cgroup'']) \<and> ev_errno e = None \<and>
     cgroup_matches uid (normalizeContainerID cid) (kn_text (wd_kernel w) (earlier @ wd_trace w) (ev_call e)) \<and>
     isNumeric name \<and> Atoi_digits name = Some pid)"

lemma process_seen_mono:
  assumes "process_seen root uid cid pid w1 w2" and "extends w0 w1" and "extends w2 w3" and "wd_kernel w1 = wd_kernel w0"
  shows "process_seen root uid cid pid w0 w3"
proof -
  obtain a b where a: "wd_trace w1 = a @ wd_trace w0" and b: "wd_trace w3 = b @ wd_trace w2"
    using assms(2,3) by (auto simp: extends_def)
  obtain l e r name where "wd_trace w2 = l @ e # r @ wd_trace w1" and rest:
     "ev_call e = OsReadFile (path_Join [root, name, ''cgroup''])" "ev_errno e = None"
     "cgroup_matches uid (normalizeContainerID cid) (kn_text (wd_kernel w1) (r @ wd_trace w1) (ev_call e))"
     "isNumeric name" "Atoi_digits name = Some pid"
    using assms(1) unfolding process_seen_def by blast
  then have "wd_trace w3 = (b @ l) @ e # (r @ a) @ wd_trace w0" using a b by simp
  then show ?thesis unfolding process_seen_def using rest a assms(4)
    by (intro exI [of _ "b @ l"] exI [of _ e] exI [of _ "r @ a"] exI [of _ name]) simp
qed

lemma find_pid_sound:
  assumes "find_pid root uid (normalizeContainerID cid) entries w = (Some pid, w')"
  shows "process_seen root uid cid pid w w'"
  using assms
proof (induction entries arbitrary: w)
  case (Cons entry entries)
  obtain name is_dir where e: "entry = (name, is_dir)" by fastforce
  let ?c = "OsReadFile (path_Join [root, name, ''cgroup''])"
  show ?case
  proof (cases "is_dir \<and> isNumeric name")
    case False
    then show ?thesis using Cons e by auto
  next
    case True
    obtain data err w1 where c: "call_text ?c w = ((data, err), w1)" by (metis surj_pair)
    have w1: "w1 = snd (kcall ?c w)" and data: "data = kn_text (wd_kernel w) (wd_trace w) ?c"
      and err: "err = None \<longleftrightarrow> ev_errno (answer w ?c) = None"
      using c by (auto simp: call_text_def call_err_def kcall_def)
    show ?thesis
    proof (cases "err = None \<and> cgroup_matches uid (normalizeContainerID cid) data \<and> Atoi_digits name \<noteq> None")
      case False
      then have "find_pid root uid (normalizeContainerID cid) entries w1 = (Some pid, w')"
        using Cons.prems True e c by (auto split: if_splits option.splits)
      from Cons.IH [OF this] show ?thesis
        by (rule process_seen_mono [OF _ _ xtr.refl]) (simp_all add: w1 extends_kcall del: kcall_world(2))
    next
      case found: True
      then have "w' = w1" "Atoi_digits name = Some pid"
        using Cons.prems True e c by auto
      then show ?thesis unfolding process_seen_def
        using found data err True w1
        by (intro exI [of _ "[]"] exI [of _ "answer w ?c"] exI [of _ name]) simp
    qed
  qed
qed simp

lemma findContainerPID_sound:
  assumes "findContainerPID root uid cid w = (Inr pid, w')"
  shows "process_seen root uid cid pid w w'" and "normalizeContainerID cid \<noteq> []"
proof -
  obtain q w1 where c: "call_entries (OsReadDir root) w = (q, w1)" by fastforce
  have w1: "w1 = snd (kcall (OsReadDir root) w)" using call_runs(3) [of "OsReadDir root" w] c by simp
  show n: "normalizeContainerID cid \<noteq> []" using assms by (auto simp: findContainerPID_def)
  obtain entries where "find_pid root uid (normalizeContainerID cid) entries w1 = (Some pid, w')"
    using assms c n by (auto simp: findContainerPID_def Let_def split: sum.splits prod.splits option.splits)
  from find_pid_sound [OF this] show "process_seen root uid cid pid w w'"
    by (rule process_seen_mono [OF _ _ xtr.refl]) (simp_all add: w1 extends_kcall del: kcall_world(2))
qed

subsection \<open>The source descriptor\<close>

lemma call_fd_fresh: "call_fd c w = (Inr fd, w') \<Longrightarrow> returns_fd c \<Longrightarrow> fresh_fds (wd_kernel w) \<Longrightarrow> 0 \<le> fd"
  using call_fd_cases(2) [of c w fd w'] by (simp add: fresh_fds_def)

lemma open_segment_fresh:
  assumes "open_segment sub st cm mode cur seg w = (Inr fd, w')" and "fresh_fds (wd_kernel w)"
  shows "0 \<le> fd \<and> wd_kernel w' = wd_kernel w"
proof -
  have "holding {} w w" by (rule holding_refl)
  from open_segment_holding [OF this assms(1)] have k: "wd_kernel w' = wd_kernel w" by (simp add: holding_def)
  from open_segment_cases [OF assms(1)] show ?thesis
  proof (elim disjE exE conjE)
    fix e1 w1 m r2
    assume c1: "call_fd (SysOpenat cur seg nofollow) w = (Inl e1, w1)"
      and c2: "call_fd (SysOpenat cur seg nofollow) (snd (kcall (SysMkdirat cur seg (createdSubPathUnixMode mode)) w1)) = (r2, w')"
      and r: "case r2 of Inl e \<Rightarrow> Inr fd = Inl (sourceSubPathOpenError sub st e False) | Inr f \<Rightarrow> (Inr fd :: go_error + int) = Inr f"
    have "wd_kernel w1 = wd_kernel w" using call_fd_cases(1) [OF c1] by simp
    then show ?thesis using r k call_fd_fresh [OF _ nofollow_returns(1)] c2 assms(2) by (cases r2) auto
  qed (use k call_fd_fresh [OF _ nofollow_returns(1)] assms(2) in auto)
qed

lemma walk_loop_fresh:
  "walk_loop sub st cm mode dir cur segs w = (Inr fd, w') \<Longrightarrow> fresh_fds (wd_kernel w) \<Longrightarrow> 0 \<le> dir \<Longrightarrow> 0 \<le> cur \<Longrightarrow> 0 \<le> fd"
proof (induction segs arbitrary: cur w)
  case (Cons seg segs)
  obtain q w1 where o: "open_segment sub st cm mode cur seg w = (q, w1)" by fastforce
  obtain f where q: "q = Inr f" using Cons.prems(1) o by (cases q) auto
  have "0 \<le> f \<and> wd_kernel w1 = wd_kernel w" using open_segment_fresh o q Cons.prems(2) by blast
  then show ?case using Cons.IH [of f "if cur \<noteq> dir then close cur w1 else w1"] Cons.prems o q
    by (simp add: Let_def split: if_splits)
qed (auto split: if_splits)

lemma openDirectoryNoFollow_fresh:
  assumes "openDirectoryNoFollow st sub cm mode w = (Inr fd, w')" and "fresh_fds (wd_kernel w)"
  shows "0 \<le> fd"
proof -
  obtain q w1 where o: "call_fd (SysOpen st nofollow) w = (q, w1)" by fastforce
  obtain segs dir where s: "sourceSubPathSegments sub = Inr segs" "q = Inr dir"
    using assms(1) o by (cases "sourceSubPathSegments sub"; cases q) (auto simp: openDirectoryNoFollow_def)
  have dir: "0 \<le> dir" and k: "wd_kernel w1 = wd_kernel w"
    using call_fd_fresh [of "SysOpen st nofollow" w dir w1] call_fd_cases(2) [of "SysOpen st nofollow" w dir w1]
      o s assms(2) by auto
  show ?thesis
    using assms o s dir walk_loop_fresh [of sub st cm mode dir dir segs w1 fd w'] k
    by (auto simp: openDirectoryNoFollow_def split: if_splits)
qed

lemma openTreeMountSource_dir:
  assumes "openTreeMountSource st sub cm mode w = (Inr (fd, desc), w')" and "fresh_fds (wd_kernel w)"
  shows "fd_dir (wd_trace w') fd = Some (st, source_segs sub)"
proof (cases "sub = []")
  case True
  have "call_fd (SysOpenTree AT_FDCWD st [OPEN_TREE_CLONE, OPEN_TREE_CLOEXEC]) w = (Inr fd, w')"
    using assms(1) True by (auto simp: openTreeMountSource_def split: sum.splits prod.splits)
  from call_fd_cases(2) [OF this] show ?thesis
    using True by (simp add: answer_def returns_fd_def fd_dir_of_def source_segs_def)
next
  case False
  obtain q w1 where o: "openDirectoryNoFollow st sub cm mode w = (q, w1)" by fastforce
  obtain src where q: "q = Inr src" using assms(1) False o by (cases q) (auto simp: openTreeMountSource_def)
  let ?c = "SysOpenTree src [] [OPEN_TREE_CLONE, OPEN_TREE_CLOEXEC, AT_EMPTY_PATH]"
  obtain w2 where c: "call_fd ?c w1 = (Inr fd, w2)" and w': "w' = close src w2"
    using assms(1) False o q by (auto simp: openTreeMountSource_def deferring_def split: sum.splits prod.splits)
  have d: "fd_dir (wd_trace w1) src = Some (st, source_segs sub)"
    using openDirectoryNoFollow_confined(2) [OF o q] by simp
  show ?thesis
    using call_fd_cases(2) [OF c] d by (simp add: w' answer_def returns_fd_def fd_dir_of_def)
qed

subsection \<open>The bind mounts of a run\<close>

text \<open>A run that reports success has made the bind mount and a run that fails none.\<close>

definition binds_if_nil :: "bind \<Rightarrow> go_error option \<Rightarrow> world \<Rightarrow> world \<Rightarrow> bool" where
  "binds_if_nil b r w w' \<longleftrightarrow> binds (wd_trace w') = (if r = None then [b] else []) @ binds (wd_trace w)"

lemma tidy_quiet: "tidy w w' \<Longrightarrow> binds (wd_trace w') = binds (wd_trace w) \<Longrightarrow> quiet w w'"
  by (simp add: tidy_def quiet_def)

lemma openTree_quiet:
  assumes "openTreeMountSource st sub cm mode w = (Inl e, w')"
  shows "binds (wd_trace w') = binds (wd_trace w)"
proof -
  have b: "binds (wd_trace v') = binds (wd_trace v)" if "call_fd c v = (r, v')" "returns_fd c" for c v r v'
    using call_fd_binds [OF that(2), of v] that(1) by simp
  obtain q w1 where o: "openDirectoryNoFollow st sub cm mode w = (q, w1)" by fastforce
  have "binds (wd_trace w1) = binds (wd_trace w)"
    using openDirectoryNoFollow_holding [OF o] by (cases q) (simp_all add: holding_def)
  then show ?thesis
    using assms o b [OF _ nofollow_returns(3)]
    by (auto simp: openTreeMountSource_def deferring_def split: if_splits sum.splits prod.splits)
qed

lemma modernAPI_binds:
  assumes run: "bindMountWithModernAPI cfg pid st sub target w = (r, w')" and fresh: "fresh_fds (wd_kernel w)"
  shows "binds_if_nil (the_bind (nc_HostProcRoot cfg) pid (Some (st, source_segs sub)) target) r w w'"
proof -
  obtain q w1 where c: "openTreeMountSource st sub (nc_CreateMissingSubPaths cfg) (nc_CreatedSubPathMode cfg) w = (q, w1)"
    by fastforce
  show ?thesis
  proof (cases q)
    case (Inl e)
    then show ?thesis using run c openTree_quiet by (auto simp: bindMountWithModernAPI_def binds_if_nil_def)
  next
    case (Inr p)
    obtain fd desc where p: "p = (fd, desc)" by fastforce
    have h: "holding {fd} w w1" using openTreeMountSource_holding [OF c] Inr p by simp
    obtain w2 where m: "moveMountIntoContainerNamespace (nc_HostProcRoot cfg) pid fd desc target w1 = (r, w2)"
      and w': "w' = close fd w2"
      using run c Inr p by (auto simp: bindMountWithModernAPI_def deferring_def split: prod.splits)
    have "fd_dir (wd_trace w1) fd = Some (st, source_segs sub)"
      using openTreeMountSource_dir [OF _ fresh] c Inr p by blast
    moreover have "fd \<in> open_fds (wd_trace w1)" "fresh_fds (wd_kernel w1)" using h fresh by (auto simp: holding_def)
    ultimately show ?thesis
      using moveMount_binds [OF m] h by (simp add: w' binds_if_nil_def holding_def)
  qed
qed

lemma legacyAPI_binds:
  assumes run: "bindMountWithLegacyAPI cfg pid st sub target w = (r, w')" and fresh: "fresh_fds (wd_kernel w)"
  shows "binds_if_nil (the_bind (nc_HostProcRoot cfg) pid (Some (st, source_segs sub)) target) r w w'"
proof -
  obtain q w1 where c: "openDirectoryNoFollow st sub (nc_CreateMissingSubPaths cfg) (nc_CreatedSubPathMode cfg) w = (q, w1)"
    by fastforce
  note h = openDirectoryNoFollow_holding [OF c]
  show ?thesis
  proof (cases q)
    case (Inl e)
    then show ?thesis using run c h
      by (auto simp: bindMountWithLegacyAPI_def openLegacyMountSource_def Let_def binds_if_nil_def holding_def)
  next
    case (Inr fd)
    define d where "d = (if sub \<noteq> [] then path_Join [st, sub] else st)"
    obtain w2 where m: "legacyBindMountIntoContainerNamespace (nc_HostProcRoot cfg) pid
        (legacyMountSource_Path \<lparr>lg_FD = fd, lg_Description = d\<rparr>) d target w1 = (r, w2)" and w': "w' = close fd w2"
      using run c Inr
      by (auto simp: bindMountWithLegacyAPI_def openLegacyMountSource_def Let_def deferring_def legacyMountSource_Close_def
          d_def split: prod.splits)
    have "fd_dir (wd_trace w1) fd = Some (st, source_segs sub)"
      using openDirectoryNoFollow_confined(2) [OF c Inr] by simp
    moreover have "fd \<in> open_fds (wd_trace w1)" "fresh_fds (wd_kernel w1)" using h Inr fresh by (auto simp: holding_def)
    moreover have "0 \<le> fd" using openDirectoryNoFollow_fresh [OF _ fresh] c Inr by blast
    ultimately show ?thesis
      using legacyBind_binds [OF m] h Inr by (simp add: w' binds_if_nil_def holding_def)
  qed
qed

text \<open>The process and the bind mount of a run of \<open>Mount\<close>.\<close>

definition mounts_for :: "NodeConfig \<Rightarrow> MountPlan \<Rightarrow> string \<Rightarrow> go_error option \<Rightarrow> world \<Rightarrow> world \<Rightarrow> bool" where
  "mounts_for cfg plan st r w w' \<longleftrightarrow>
     (case r of
        Some e \<Rightarrow> binds (wd_trace w') = binds (wd_trace w)
      | None \<Rightarrow> \<exists>pid. process_seen (nc_HostProcRoot cfg) (pl_PodUID plan) (pl_ContainerID plan) pid w w' \<and>
          binds (wd_trace w') = the_bind (nc_HostProcRoot cfg) pid (Some (st, source_segs (pl_SourceSubPath plan)))
            (pl_TargetPath plan) # binds (wd_trace w))"

lemma mounts_for_quiet:
  assumes "mounts_for cfg plan st r w1 w2" and "quiet w0 w1" and "extends w0 w1" and "quiet w2 w3" and "extends w2 w3"
  shows "mounts_for cfg plan st r w0 w3"
proof (cases r)
  case None
  have "wd_kernel w1 = wd_kernel w0" using assms(2) by (simp add: quiet_def fd_tidy_def)
  from process_seen_mono [OF _ assms(3,5) this]
  have seen: "process_seen root uid cid pid w1 w2 \<Longrightarrow> process_seen root uid cid pid w0 w3" for root uid cid pid .
  obtain pid where "process_seen (nc_HostProcRoot cfg) (pl_PodUID plan) (pl_ContainerID plan) pid w1 w2"
    and "binds (wd_trace w2) = the_bind (nc_HostProcRoot cfg) pid (Some (st, source_segs (pl_SourceSubPath plan)))
      (pl_TargetPath plan) # binds (wd_trace w1)"
    using assms(1) None unfolding mounts_for_def by auto
  from this(2) seen [OF this(1)] show ?thesis
    using assms(2,4) None by (auto simp: quiet_def mounts_for_def)
qed (use assms in \<open>simp add: mounts_for_def quiet_def\<close>)

lemma quiet_failed: "quiet w w' \<Longrightarrow> mounts_for cfg plan st (Some e) w w'"
  by (simp add: mounts_for_def quiet_def)

text \<open>Runs that bind nothing and only add to the trace, as a relation of their own.\<close>

definition silent :: "world \<Rightarrow> world \<Rightarrow> bool" where
  "silent w w' \<longleftrightarrow> quiet w w' \<and> extends w w'"

lemma silent_keeps:
  "keeps silent (isMountPoint p t)" "keeps silent (mountNFS pv st)" "keeps silent (findContainerPID root uid cid)"
  "silent w (warnCleanupStagingPath p w)" "calm c \<Longrightarrow> keeps silent (call_err c)" "calm c \<Longrightarrow> silent w (record_call c w)"
  using qtr.isMountPoint_keeps xtr.isMountPoint_keeps qtr.mountNFS_keeps xtr.mountNFS_keeps
    qtr.findContainerPID_keeps xtr.findContainerPID_keeps qtr.warnCleanupStagingPath_keeps xtr.warnCleanupStagingPath_keeps
    qtr.calm_keeps xtr.calm_keeps qtr.recorded [OF qtr.calm_plain] extends_record
  by (simp_all add: keeps_def silent_def)

lemma silent_trans: "silent w1 w2 \<Longrightarrow> silent w2 w3 \<Longrightarrow> silent w1 w3"
  unfolding silent_def using extends_trans qtr.trans by blast

lemma mounts_for_silent:
  "mounts_for cfg plan st r w1 w2 \<Longrightarrow> silent w0 w1 \<Longrightarrow> silent w2 w3 \<Longrightarrow> mounts_for cfg plan st r w0 w3"
  unfolding silent_def using mounts_for_quiet by blast

lemma silent_failed: "silent w w' \<Longrightarrow> mounts_for cfg plan st (Some e) w w'"
  by (simp add: silent_def quiet_failed)

lemma silent_refl: "silent w w"
  by (simp add: silent_def qtr.refl xtr.refl)

lemma silent_fresh: "silent w w' \<Longrightarrow> fresh_fds (wd_kernel w') = fresh_fds (wd_kernel w)"
  by (simp add: silent_def quiet_def fd_tidy_def)

lemma keepsD: "keeps R m \<Longrightarrow> m w = (r, w') \<Longrightarrow> R w w'"
  by (simp add: keeps_def) (metis snd_conv)

lemma bind_mounts_for:
  assumes fresh: "fresh_fds (wd_kernel w)"
    and find: "findContainerPID (nc_HostProcRoot cfg) (pl_PodUID plan) (pl_ContainerID plan) w = (Inr pid, w1)"
    and run: "(case bindMountWithModernAPI cfg pid st (pl_SourceSubPath plan) (pl_TargetPath plan) w1 of
        (None, w) \<Rightarrow> (None, w)
      | (Some err, w) \<Rightarrow> if \<not> errors_Is (Errno ''ENOSYS'') err then (Some err, w)
          else bindMountWithLegacyAPI cfg pid st (pl_SourceSubPath plan) (pl_TargetPath plan) w) = (r, w')"
  shows "mounts_for cfg plan st r w w'"
proof -
  let ?b = "the_bind (nc_HostProcRoot cfg) pid (Some (st, source_segs (pl_SourceSubPath plan))) (pl_TargetPath plan)"
  have s1: "silent w w1" using keepsD [OF silent_keeps(3) find] .
  note seen = findContainerPID_sound(1) [OF find]
  have fresh1: "fresh_fds (wd_kernel w1)" using fresh silent_fresh [OF s1] by simp
  obtain q w2 where m: "bindMountWithModernAPI cfg pid st (pl_SourceSubPath plan) (pl_TargetPath plan) w1 = (q, w2)" by fastforce
  have x2: "extends w1 w2" by (rule keepsD [OF xtr.modernAPI_keeps m])
  have b2: "binds_if_nil ?b q w1 w2" by (rule modernAPI_binds [OF m fresh1])
  have result: "mounts_for cfg plan st r w w'" if "binds_if_nil ?b r w1 w'" "extends w1 w'"
  proof (cases r)
    case None
    have "process_seen (nc_HostProcRoot cfg) (pl_PodUID plan) (pl_ContainerID plan) pid w w'"
      by (rule process_seen_mono [OF seen xtr.refl that(2) HOL.refl])
    moreover have "binds (wd_trace w1) = binds (wd_trace w)" using s1 by (simp add: silent_def quiet_def)
    ultimately show ?thesis using that(1) None by (auto simp: mounts_for_def binds_if_nil_def)
  qed (use that s1 in \<open>simp add: mounts_for_def binds_if_nil_def silent_def quiet_def\<close>)
  show ?thesis
  proof (cases "q = None \<or> \<not> errors_Is (Errno ''ENOSYS'') (the q)")
    case True
    then have "r = q" "w' = w2" using run m by (auto split: option.splits)
    then show ?thesis using result b2 x2 by simp
  next
    case False
    then have l: "bindMountWithLegacyAPI cfg pid st (pl_SourceSubPath plan) (pl_TargetPath plan) w2 = (r, w')"
      using run m by (auto split: option.splits)
    have same: "binds (wd_trace w2) = binds (wd_trace w1)" using b2 False by (simp add: binds_if_nil_def)
    have "wd_kernel w2 = wd_kernel w1" using keepsD [OF modernAPI_tidy m] by (simp add: tidy_def fd_tidy_def)
    then have "binds_if_nil ?b r w2 w'" using legacyAPI_binds [OF l] fresh1 by simp
    moreover have "extends w1 w'" by (rule extends_trans [OF x2 keepsD [OF xtr.legacyAPI_keeps l]])
    ultimately show ?thesis using result same by (simp add: binds_if_nil_def)
  qed
qed

lemma staged_mount_for:
  assumes run: "staged_mount cfg plan st w = (r, w')" and fresh: "fresh_fds (wd_kernel w)"
  shows "mounts_for cfg plan st r w w'"
proof -
  obtain e1 w1 where c1: "call_err (OsMkdirAll st 0x1E8) w = (e1, w1)" by fastforce
  obtain q w2 where c2: "isMountPoint self_mountinfo st w1 = (q, w2)" by fastforce
  define m where "m = (case q of Inr mounted \<Rightarrow> if \<not> mounted then mountNFS (pl_PV plan) st w2 else (None, w2)
    | Inl _ \<Rightarrow> (None, w2))"
  obtain e3 w3 where c3: "m = (e3, w3)" by fastforce
  obtain p w4 where c4: "findContainerPID (nc_HostProcRoot cfg) (pl_PodUID plan) (pl_ContainerID plan) w3 = (p, w4)" by fastforce
  have s1: "silent w w1" by (rule keepsD [OF silent_keeps(5) c1]) simp
  have s2: "silent w w2" by (rule silent_trans [OF s1 keepsD [OF silent_keeps(1) c2]])
  have "silent w2 w3"
    using c3 silent_refl keepsD [OF silent_keeps(2)] by (auto simp: m_def split: sum.splits if_splits)
  then have s3: "silent w w3" by (rule silent_trans [OF s2])
  have s4: "silent w w4" by (rule silent_trans [OF s3 keepsD [OF silent_keeps(3) c4]])
  show ?thesis
  proof (cases "e1 = None \<and> \<not> failed q \<and> e3 = None \<and> \<not> failed p")
    case False
    then have "r \<noteq> None \<and> silent w w'"
      using run c1 c2 c3 c4 s1 s2 s3 s4 unfolding staged_mount_def m_def or_fail_def
      by (cases e1; cases q; cases e3; cases p) auto
    then show ?thesis using silent_failed by (cases r) auto
  next
    case True
    then obtain mounted pid where q: "q = Inr mounted" and p: "p = Inr pid" by (cases q; cases p) auto
    have "mounts_for cfg plan st r w3 w'"
      by (rule bind_mounts_for)
        (use True q p run c1 c2 c3 c4 fresh silent_fresh [OF s3] in \<open>simp_all add: staged_mount_def m_def or_fail_def\<close>)
    then show ?thesis using s3 silent_refl by (rule mounts_for_silent)
  qed
qed

lemma linux_Mount_for:
  assumes run: "linux_Mount cfg plan w = (r, w')" and fresh: "fresh_fds (wd_kernel w)"
  shows "mounts_for cfg plan (path_Join [nc_StagingRoot cfg, nv_Name (pl_PV plan)]) r w w'"
proof -
  let ?st = "path_Join [nc_StagingRoot cfg, nv_Name (pl_PV plan)]" and ?n = "stagingLock (nv_Name (pl_PV plan))"
  let ?lock = "\<lambda>w. record_call (LockStaging ?n) w"
  let ?clean = "if nc_UnstageAfterMount cfg then warnCleanupStagingPath ?st else (\<lambda>w. w)"
  obtain e1 w1 where c1: "call_err CtxErr w = (e1, w1)" by fastforce
  obtain r2 w2 where c2: "staged_mount cfg plan ?st (?lock w1) = (r2, w2)" by fastforce
  have s1: "silent w w1" by (rule keepsD [OF silent_keeps(5) c1]) simp
  have s2: "silent w (?lock w1)" by (rule silent_trans [OF s1 silent_keeps(6)]) simp
  have fresh1: "fresh_fds (wd_kernel (?lock w1))" using silent_fresh [OF s2] fresh by simp
  note m = staged_mount_for [OF c2 fresh1]
  have clean: "silent v (?clean v)" for v using silent_keeps(4) silent_refl by simp
  have after: "silent w2 (record_call (UnlockStaging ?n) (?clean w2))"
    by (rule silent_trans [OF clean silent_keeps(6)]) simp
  show ?thesis
  proof (cases "nc_EnableMount cfg \<and> e1 = None \<and> nv_Server (pl_PV plan) \<noteq> [] \<and> nv_Share (pl_PV plan) \<noteq> [] \<and> pl_ContainerID plan \<noteq> []")
    case False
    then have "r \<noteq> None \<and> silent w w'"
      using run c1 s1 silent_refl by (auto simp: linux_Mount_def or_fail_def split: if_splits option.splits)
    then show ?thesis using silent_failed by (cases r) auto
  next
    case True
    then have "r = r2 \<and> w' = record_call (UnlockStaging ?n) (?clean w2)"
      using run c1 c2 by (auto simp: linux_Mount_def or_fail_def Let_def deferring_def)
    then show ?thesis using mounts_for_silent [OF m s2 after] by simp
  qed
qed

subsection \<open>When the way back fails\<close>

text \<open>
  The deferred \<open>setns\<close> back to the own namespace ignores its error. On a system where it
  fails, a thread that has bound a mount elsewhere never comes back.
\<close>

definition setns_back_fails :: "kernel \<Rightarrow> bool" where
  "setns_back_fails K \<longleftrightarrow> (\<forall>tr fd. ns_of_fd tr fd = Own_ns \<longrightarrow> kn_errno K tr (SysSetns fd) \<noteq> None)"

definition lost_after_bind :: "event list \<Rightarrow> bool" where
  "lost_after_bind tr \<longleftrightarrow> ((\<exists>b \<in> set (binds tr). bd_ns b \<noteq> Own_ns) \<longrightarrow> th_ns (thread_of tr) \<noteq> Own_ns)"

definition keeps_lost :: "world \<Rightarrow> world \<Rightarrow> bool" where
  "keeps_lost w w' \<longleftrightarrow> wd_kernel w' = wd_kernel w \<and>
     (setns_back_fails (wd_kernel w) \<and> lost_after_bind (wd_trace w) \<longrightarrow> lost_after_bind (wd_trace w'))"

lemma thread_step_ns: "(\<forall>fd. c \<noteq> SysSetns fd) \<Longrightarrow> th_ns (thread_step tr c t) = th_ns t"
  by (cases c) (simp_all add: thread_step_def)

lemma lost_step:
  assumes "lost_after_bind tr" and "\<And>fd. ev_call e = SysSetns fd \<Longrightarrow> ev_errno e = None \<Longrightarrow> ns_of_fd tr fd \<noteq> Own_ns"
  shows "lost_after_bind (e # tr)"
proof (cases "\<exists>fd. ev_call e = SysSetns fd")
  case True
  then obtain fd where "ev_call e = SysSetns fd" by blast
  then show ?thesis using assms by (auto simp: lost_after_bind_def bind_of_def thread_step_def Let_def)
next
  case False
  then have "th_ns (thread_of (e # tr)) = th_ns (thread_of tr)" by (simp add: thread_step_ns)
  moreover have "b \<in> set (binds tr) \<or> bd_ns b = th_ns (thread_of tr)" if "b \<in> set (binds (e # tr))" for b
    using that by (cases "ev_call e") (auto simp: bind_of_def split: if_splits)
  ultimately show ?thesis using assms(1) unfolding lost_after_bind_def by metis
qed

lemma keeps_lost_record: "(\<And>fd. c \<noteq> SysSetns fd) \<Longrightarrow> keeps_lost w (record_call c w)"
  unfolding keeps_lost_def by (auto simp del: thread_of.simps binds.simps intro!: lost_step)

interpretation ltr: call_invariant keeps_lost
proof
  fix c w
  have "ns_of_fd (wd_trace w) fd \<noteq> Own_ns"
    if "setns_back_fails (wd_kernel w)" "c = SysSetns fd" "ev_errno (answer w c) = None" for fd
    using that unfolding setns_back_fails_def by (fastforce simp: answer_def)
  then show "keeps_lost w (snd (kcall c w))"
    unfolding keeps_lost_def by (auto simp del: thread_of.simps binds.simps intro!: lost_step)
next
  fix c w assume "\<And>fd. c \<noteq> SysSetns fd"
  then show "keeps_lost w (record_call c w)" by (rule keeps_lost_record)
next
  fix w w' assume "keeps_lost (record_call LockOSThread w) w'"
  then show "keeps_lost w (record_call UnlockOSThread w')"
    using keeps_lost_record [of LockOSThread w] keeps_lost_record [of UnlockOSThread w']
    unfolding keeps_lost_def by auto
qed (auto simp: keeps_lost_def)

text \<open>How often a goroutine has pinned itself to the thread (\<open>runtime.LockOSThread\<close>) without
  having released it: at 0 the scheduler may run other goroutines on the thread.\<close>

primrec thread_pins :: "event list \<Rightarrow> nat" where
  "thread_pins [] = 0"
| "thread_pins (e # tr) =
     (if ev_call e = LockOSThread then Suc (thread_pins tr)
      else if ev_call e = UnlockOSThread then thread_pins tr - 1
      else thread_pins tr)"

definition same_pins :: "world \<Rightarrow> world \<Rightarrow> bool" where
  "same_pins w w' \<longleftrightarrow> thread_pins (wd_trace w') = thread_pins (wd_trace w)"

interpretation ptr: call_invariant same_pins
  by unfold_locales (simp_all add: same_pins_def pins_thread_def)

lemma linux_Mount_pins: "linux_Mount cfg plan w = (r, w') \<Longrightarrow> thread_pins (wd_trace w') = thread_pins (wd_trace w)"
  using keepsD [OF ptr.linux_Mount_keeps] by (simp add: same_pins_def)

lemma linux_Mount_lost:
  assumes run: "linux_Mount cfg plan w = (None, w')" and fresh: "fresh_fds (wd_kernel w)"
    and K: "setns_back_fails (wd_kernel w)" and start: "lost_after_bind (wd_trace w)"
  shows "th_ns (thread_of (wd_trace w')) \<noteq> Own_ns"
proof -
  have "lost_after_bind (wd_trace w')"
    using keepsD [OF ltr.linux_Mount_keeps run] K start by (simp add: keeps_lost_def)
  moreover obtain pid src target where "binds (wd_trace w') = the_bind (nc_HostProcRoot cfg) pid src target # binds (wd_trace w)"
    using linux_Mount_for [OF run fresh] by (auto simp: mounts_for_def)
  ultimately show ?thesis by (simp add: lost_after_bind_def the_bind_def)
qed

end
