(* ===== verification/MountInfo.thy ===== *)
theory MountInfo
  imports NodeText
begin

text \<open>
  The format of \<open>/proc/PID/mountinfo\<close>, as proc(5) documents it, and the proof that the
  node mounter reads it back: one line per mount, fields separated by blanks, the fifth
  field the mount point with blanks, tabs, newlines and backslashes in octal. The only mount
  points it misreads are those with other white space; \<open>strings.Fields\<close> cuts them.
\<close>

subsection \<open>The kernel's escapes\<close>

definition mangle :: "char \<Rightarrow> string" where
  "mangle c =
     (case List.find (\<lambda>(old, new). new = c) mountinfo_escapes of Some (old, new) \<Rightarrow> old | None \<Rightarrow> [c])"

definition encodeMountInfoPath :: "string \<Rightarrow> string" where
  "encodeMountInfoPath s = concat (map mangle s)"

definition escaped_chars :: "char set" where
  "escaped_chars = {CHR '' '', CHR 0x09, CHR 0x0A, CHR 0x5C}"

lemma mangle_cases:
  "(c \<notin> escaped_chars \<and> mangle c = [c]) \<or>
   (c \<in> escaped_chars \<and> (mangle c, c) \<in> set mountinfo_escapes \<and> length (mangle c) = 4)"
  by (auto simp: mangle_def mountinfo_escapes_def escaped_chars_def)

lemma decode_escape:
  assumes "(old, c) \<in> set mountinfo_escapes"
  shows "decodeMountInfoPath (old @ s) = c # decodeMountInfoPath s"
  using assms by (auto simp: mountinfo_escapes_def decodeMountInfoPath.simps [of "_ # _"] HasPrefix_def)

lemma decode_plain:
  assumes "c \<noteq> CHR 0x5C"
  shows "decodeMountInfoPath (c # s) = c # decodeMountInfoPath s"
  using assms by (auto simp: mountinfo_escapes_def decodeMountInfoPath.simps [of "_ # _"] HasPrefix_def)

lemma decode_mangle: "decodeMountInfoPath (mangle c @ s) = c # decodeMountInfoPath s"
  using mangle_cases [of c]
  by (auto intro: decode_escape) (metis decode_plain escaped_chars_def insertI1 insert_commute)

lemma decode_encode: "decodeMountInfoPath (encodeMountInfoPath s) = s"
  by (induction s) (simp_all add: encodeMountInfoPath_def decode_mangle decodeMountInfoPath.simps [of "[]"])

subsection \<open>Fields of a line\<close>

definition no_space :: "string \<Rightarrow> bool" where
  "no_space f \<longleftrightarrow> (\<forall>e \<in> set space_encodings. \<not> sublist e f)"

lemma all_encodings:
  "list_all (\<lambda>e. e \<noteq> [] \<and> list_all (\<lambda>c. c \<notin> {CHR 0x5C, CHR ''0'', CHR ''1'', CHR ''2'', CHR ''3'', CHR ''4''}) e \<and>
     (CHR '' '' \<in> set e \<longrightarrow> e = '' '')) space_encodings"
  by code_simp

lemma blank_in_encodings: "e \<in> set space_encodings \<Longrightarrow> CHR '' '' \<in> set e \<Longrightarrow> e = '' ''"
  using all_encodings unfolding list_all_iff by blast

lemma blank_encoding: "'' '' \<in> set space_encodings"
  by (simp add: space_encodings_def)

lemma no_space_suffix: "no_space (a @ b) \<Longrightarrow> no_space b"
  unfolding no_space_def using sublist_order.order.trans [OF _ sublist_append_leftI] by blast

lemma no_space_chars:
  assumes "no_space f" and "[c] \<in> set space_encodings"
  shows "c \<notin> set f"
proof
  assume "c \<in> set f"
  then obtain a b where "f = a @ [c] @ b" by (metis append_Cons append_Nil split_list)
  then have "sublist [c] f" by (simp only: sublist_appendI)
  then show False using assms by (simp add: no_space_def)
qed

lemma trim_len_in_field:
  assumes "no_space (c # f)" and "t = [] \<or> hd t = CHR '' ''"
  shows "trim_len space_encodings (c # f @ t) = 0"
proof -
  have "\<not> prefix e (c # f @ t)" if e: "e \<in> set space_encodings" for e
  proof
    assume "prefix e (c # f @ t)"
    then have "prefix e ((c # f) @ t)" by simp
    moreover have no: "\<not> prefix e (c # f)"
      using assms(1) e prefix_imp_sublist unfolding no_space_def by blast
    ultimately obtain us where us: "e = (c # f) @ us" "prefix us t"
      unfolding prefix_append by blast
    have "us \<noteq> []" using no us(1) by auto
    then obtain u us' where "us = u # us'" "hd t = u" using us(2) by (cases us; cases t) simp_all
    then have "CHR '' '' \<in> set e" using us assms(2) by (cases t) simp_all
    then have "e = '' ''" by (rule blank_in_encodings [OF e])
    then show False using us(1) \<open>us \<noteq> []\<close> by (cases f) simp_all
  qed
  then show ?thesis by (simp add: trim_len_0_iff)
qed

lemma fields_loop_field:
  "no_space f \<Longrightarrow> t = [] \<or> hd t = CHR '' '' \<Longrightarrow> fields_loop cur (f @ t) = fields_loop (cur @ f) t"
proof (induction f arbitrary: cur)
  case (Cons c f)
  have "no_space f" using no_space_suffix [of "[c]" f] Cons.prems(1) by simp
  then show ?case
    using Cons trim_len_in_field [OF Cons.prems] by (simp add: fields_loop.simps [of cur])
qed simp

lemma fields_loop_blank: "fields_loop cur (CHR '' '' # t) = flush_field cur @ fields_loop [] t"
proof -
  have "trim_len space_encodings (CHR '' '' # t) = 1"
    by (simp add: trim_len_def space_encodings_def HasPrefix_def)
  then show ?thesis by (simp add: fields_loop.simps [of cur])
qed

lemma Fields_join:
  assumes "\<forall>f \<in> set fs. f \<noteq> [] \<and> no_space f"
  shows "Fields (join_on (CHR '' '') fs) = fs"
  unfolding Fields_def using assms
proof (induction fs)
  case Nil
  then show ?case by (simp add: fields_loop.simps flush_field_def)
next
  case (Cons f fs)
  let ?t = "if fs = [] then [] else CHR '' '' # join_on (CHR '' '') fs"
  have "fields_loop [] (join_on (CHR '' '') (f # fs)) = fields_loop [] (f @ ?t)"
    by (simp add: join_on_Cons)
  also have "\<dots> = fields_loop f ?t" using Cons.prems by (subst fields_loop_field) simp_all
  also have "\<dots> = f # fs"
    using Cons by (simp add: fields_loop_blank flush_field_def fields_loop.simps [of _ "[]"])
  finally show ?case .
qed

subsection \<open>Mount points the reader keeps whole\<close>

text \<open>White space other than blank, tab and newline is not escaped by the kernel.\<close>

definition readable_point :: "string \<Rightarrow> bool" where
  "readable_point p \<longleftrightarrow> p \<noteq> [] \<and>
     (\<forall>e \<in> set space_encodings. e \<notin> {'' '', [CHR 0x09], [CHR 0x0A]} \<longrightarrow> \<not> sublist e p)"

definition escape_text :: "char set" where
  "escape_text = {CHR 0x5C, CHR ''0'', CHR ''1'', CHR ''2'', CHR ''3'', CHR ''4''}"

lemma set_mangle: "c \<in> escaped_chars \<Longrightarrow> set (mangle c) \<subseteq> escape_text \<and> mangle c \<noteq> []"
  by (auto simp: mangle_def mountinfo_escapes_def escaped_chars_def escape_text_def)

lemma set_encode_no_escaped: "set (encodeMountInfoPath s) \<inter> {CHR '' '', CHR 0x09, CHR 0x0A} = {}"
proof -
  have "set (mangle c) \<inter> {CHR '' '', CHR 0x09, CHR 0x0A} = {}" for c
    using mangle_cases [of c] set_mangle [of c]
    by (auto simp: escape_text_def escaped_chars_def)
  then show ?thesis by (auto simp: encodeMountInfoPath_def)
qed

lemma encode_Cons: "encodeMountInfoPath (c # s) = mangle c @ encodeMountInfoPath s"
  by (simp add: encodeMountInfoPath_def)

lemma encode_Nil [simp]: "encodeMountInfoPath [] = []"
  by (simp add: encodeMountInfoPath_def)

lemma encode_eq_Nil [simp]: "encodeMountInfoPath s = [] \<longleftrightarrow> s = []"
proof (cases s)
  case (Cons c t)
  then show ?thesis using mangle_cases [of c] set_mangle [of c] by (auto simp: encode_Cons)
qed simp

lemma prefix_encode:
  "prefix e (encodeMountInfoPath s) \<Longrightarrow> set e \<inter> escape_text = {} \<Longrightarrow> prefix e s"
proof (induction s arbitrary: e)
  case (Cons c s)
  show ?case
  proof (cases e)
    case (Cons d e')
    note e = this
    show ?thesis
    proof (cases "c \<in> escaped_chars")
      case True
      then have "d \<in> escape_text"
        using Cons.prems(1) set_mangle [OF True] e by (cases "mangle c") (auto simp: encode_Cons)
      then show ?thesis using Cons.prems(2) e by simp
    next
      case False
      then have "mangle c = [c]" using mangle_cases by blast
      then show ?thesis using Cons.IH [of e'] Cons.prems e by (simp add: encode_Cons)
    qed
  qed simp
qed simp

lemma sublist_encode:
  "sublist e (encodeMountInfoPath s) \<Longrightarrow> set e \<inter> escape_text = {} \<Longrightarrow> e \<noteq> [] \<Longrightarrow> sublist e s"
proof (induction s)
  case (Cons c s)
  have sub: "sublist e (encodeMountInfoPath s) \<Longrightarrow> sublist e (c # s)"
    using Cons by (meson sublist_Cons_right)
  have pre: "prefix e (encodeMountInfoPath (c # s)) \<Longrightarrow> sublist e (c # s)"
    using prefix_encode Cons.prems(2) by (meson prefix_imp_sublist)
  obtain a b where ab: "mangle c @ encodeMountInfoPath s = a @ e @ b"
    using Cons.prems(1) by (auto simp: sublist_def encode_Cons)
  show ?case
  proof (cases a)
    case Nil
    then show ?thesis using ab pre by (simp add: encode_Cons prefix_def)
  next
    case (Cons d a')
    show ?thesis
    proof (cases "length (mangle c) \<le> length a")
      case True
      then have "encodeMountInfoPath s = drop (length (mangle c)) a @ e @ b"
        using ab by (metis append_eq_append_conv_if append_eq_conv_conj drop_append)
      then show ?thesis using sub by (simp add: sublist_def) blast
    next
      case False
      then have "c \<in> escaped_chars" using mangle_cases [of c] Cons by auto
      moreover have "hd e \<in> set (mangle c)"
      proof -
        have "mangle c ! length a = (a @ e @ b) ! length a" using ab False by (metis nth_append not_le)
        also have "\<dots> = hd e" using Cons.prems(3) by (simp add: nth_append hd_conv_nth)
        finally show ?thesis using False by (metis not_le nth_mem)
      qed
      ultimately show ?thesis using set_mangle Cons.prems(2,3) by (metis IntI empty_iff hd_in_set subsetD)
    qed
  qed
qed simp

lemma encoding_no_escape_text: "e \<in> set space_encodings \<Longrightarrow> set e \<inter> escape_text = {} \<and> e \<noteq> []"
  using all_encodings unfolding list_all_iff escape_text_def by blast

lemma no_space_encode: "readable_point p \<Longrightarrow> no_space (encodeMountInfoPath p)"
  unfolding no_space_def
proof
  fix e assume r: "readable_point p" and e: "e \<in> set space_encodings"
  show "\<not> sublist e (encodeMountInfoPath p)"
  proof (cases "e \<in> {'' '', [CHR 0x09], [CHR 0x0A]}")
    case True
    then obtain c where c: "e = [c]" "c \<in> {CHR '' '', CHR 0x09, CHR 0x0A}" by auto
    then have "c \<notin> set (encodeMountInfoPath p)" using set_encode_no_escaped [of p] by blast
    then show ?thesis using c(1) by (metis list.set_intros(1) set_mono_sublist subsetD)
  next
    case False
    then have "\<not> sublist e p" using r e unfolding readable_point_def by simp
    then show ?thesis using sublist_encode [of e p] encoding_no_escape_text [OF e] by argo
  qed
qed

subsection \<open>A mount table and its text\<close>

text \<open>
  One line: mount id, parent id, device and root (\<open>mt_pre\<close>), the mount point, then options,
  optional fields, separator, type, source and super options (\<open>mt_post\<close>).
\<close>

record mount_entry =
  mt_pre :: "string list"
  mt_point :: string
  mt_post :: "string list"

definition entry_fields :: "mount_entry \<Rightarrow> string list" where
  "entry_fields e = mt_pre e @ encodeMountInfoPath (mt_point e) # mt_post e"

definition entry_line :: "mount_entry \<Rightarrow> string" where
  "entry_line e = join_on (CHR '' '') (entry_fields e)"

definition mountinfo_text :: "mount_entry list \<Rightarrow> string" where
  "mountinfo_text es = concat (map (\<lambda>e. entry_line e @ [LF]) es)"

definition entry_ok :: "mount_entry \<Rightarrow> bool" where
  "entry_ok e \<longleftrightarrow> length (mt_pre e) = 4 \<and> readable_point (mt_point e) \<and>
     (\<forall>f \<in> set (mt_pre e @ mt_post e). f \<noteq> [] \<and> no_space f) \<and>
     length (entry_line e) < maxScanTokenSize"

lemma entry_fields_ok: "entry_ok e \<Longrightarrow> \<forall>f \<in> set (entry_fields e). f \<noteq> [] \<and> no_space f"
  by (auto simp: entry_ok_def entry_fields_def no_space_encode) (simp add: readable_point_def)

lemma line_mount_point_entry:
  assumes "entry_ok e"
  shows "line_mount_point (entry_line e) = Some (mt_point e)"
  using assms Fields_join [OF entry_fields_ok [OF assms]]
  by (auto simp: line_mount_point_def entry_line_def entry_fields_def entry_ok_def decode_encode nth_append)

lemma entry_line_chars:
  assumes "entry_ok e"
  shows "LF \<notin> set (entry_line e)" and "dropCR (entry_line e) = entry_line e"
proof -
  have enc: "[LF] \<in> set space_encodings" "[CR] \<in> set space_encodings"
    by (simp_all add: space_encodings_def LF_def CR_def)
  have no: "c \<notin> set (entry_line e)" if "[c] \<in> set space_encodings" "c \<noteq> CHR '' ''" for c
    using set_join_on [of "CHR '' ''" "entry_fields e"] entry_fields_ok [OF assms] no_space_chars that
    unfolding entry_line_def by blast
  show "LF \<notin> set (entry_line e)" using no [OF enc(1)] by (simp add: LF_def)
  have "CR \<notin> set (entry_line e)" using no [OF enc(2)] by (simp add: CR_def)
  then show "dropCR (entry_line e) = entry_line e" using last_in_set by (fastforce simp: dropCR_def)
qed

lemma split_mountinfo_text:
  "\<forall>e \<in> set es. entry_ok e \<Longrightarrow> split_on LF (mountinfo_text es) = map entry_line es @ [[]]"
  by (induction es) (simp_all add: mountinfo_text_def split_on_append_sep entry_line_chars(1))

lemma mountinfo_points:
  assumes "\<forall>e \<in> set es. entry_ok e"
  shows "List.map_filter line_mount_point (scan_lines (mountinfo_text es)) = map mt_point es"
    and "\<not> scan_too_long (mountinfo_text es)"
proof -
  have raw: "raw_lines (mountinfo_text es) = map entry_line es"
    by (simp add: raw_lines_def split_mountinfo_text [OF assms])
  show "\<not> scan_too_long (mountinfo_text es)"
    using assms by (auto simp: scan_too_long_def raw entry_ok_def)
  have short: "takeWhile (\<lambda>l. length l < maxScanTokenSize) (map entry_line es) = map entry_line es"
    by (subst takeWhile_eq_all_conv) (use assms in \<open>auto simp: entry_ok_def\<close>)
  have "scan_lines (mountinfo_text es) = map entry_line es"
    unfolding scan_lines_def raw short using assms by (simp add: entry_line_chars(2))
  then show "List.map_filter line_mount_point (scan_lines (mountinfo_text es)) = map mt_point es"
    using assms by (simp add: List.map_filter_def line_mount_point_entry)
qed

text \<open>Printable ASCII text is kept whole; only blanks need the escape.\<close>

definition printable :: "char \<Rightarrow> bool" where
  "printable c \<longleftrightarrow> CHR 0x21 \<le> c \<and> c \<le> CHR 0x7E"

lemma printable_encodings:
  "\<forall>e \<in> set space_encodings. list_ex (\<lambda>c. \<not> printable c) e"
  "\<forall>e \<in> set space_encodings. e \<noteq> '' '' \<longrightarrow> list_ex (\<lambda>c. \<not> printable c \<and> c \<noteq> CHR '' '') e"
  by code_simp+

lemma no_space_printable: "list_all printable f \<Longrightarrow> no_space f"
  using printable_encodings(1) set_mono_sublist
  unfolding no_space_def list_ex_iff list_all_iff by blast

lemma readable_printable: "list_all (\<lambda>c. printable c \<or> c = CHR '' '') p \<Longrightarrow> p \<noteq> [] \<Longrightarrow> readable_point p"
  using printable_encodings(2) set_mono_sublist
  unfolding readable_point_def list_ex_iff list_all_iff by blast

end
