(* ===== verification/NodeCleanup.thy ===== *)
theory NodeCleanup
  imports NodeSource MountInfo
begin

text \<open>
  What the system calls of the node mounter amount to when mountinfo lists the mount table:
  the test for a mount point is exact, and the cleanup of the staging root unmounts exactly
  the mounts below it, deeper ones first, and then removes directories of the root only.
\<close>

subsection \<open>The calls of a run\<close>

definition calls :: "world \<Rightarrow> syscall list" where
  "calls w = rev (map ev_call (wd_trace w))"

lemma calls_kcall [simp]: "calls (snd (kcall c w)) = calls w @ [c]"
  by (simp add: calls_def)

lemma calls_call_err: "call_err c w = (r, w') \<Longrightarrow> calls w' = calls w @ [c]"
  using call_err_world [of c w r w'] by simp

lemma calls_close [simp]: "calls (close fd w) = calls w @ [SysClose fd]"
  by (simp add: ignored_def)

subsection \<open>A system whose mountinfo is a mount table\<close>

definition mountinfo_reads :: "kernel \<Rightarrow> string \<Rightarrow> mount_entry list \<Rightarrow> bool" where
  "mountinfo_reads K path es \<longleftrightarrow> (\<forall>e \<in> set es. entry_ok e) \<and> (\<forall>tr. kn_errno K tr (OsOpen path) = None) \<and>
     (\<forall>tr fd. opened_path tr fd = Some path \<longrightarrow>
        kn_errno K tr (OsRead fd) = None \<and> kn_text K tr (OsRead fd) = mountinfo_text es)"

lemma scan_mountinfo:
  assumes K: "mountinfo_reads (wd_kernel w) path es"
  obtains fd w1 w2 lines where "call_fd (OsOpen path) w = (Inr fd, w1)" "scan_file fd w1 = ((lines, None), w2)"
    "List.map_filter line_mount_point lines = map mt_point es" "wd_kernel w2 = wd_kernel w"
    "calls w2 = calls w @ [OsOpen path, OsRead fd]"
proof -
  let ?w1 = "snd (kcall (OsOpen path) w)"
  let ?fd = "kn_fd (wd_kernel w) (wd_trace w) (OsOpen path)"
  have ok: "ev_errno (answer w (OsOpen path)) = None" using K by (simp add: mountinfo_reads_def answer_def)
  then have o: "call_fd (OsOpen path) w = (Inr ?fd, ?w1)" by (simp add: call_fd_def kcall_def)
  have "opened_path (wd_trace ?w1) ?fd = Some path"
    using ok by (simp add: answer_def returns_fd_def path_argument_def)
  then have r: "kn_errno (wd_kernel w) (wd_trace ?w1) (OsRead ?fd) = None"
    "kn_text (wd_kernel w) (wd_trace ?w1) (OsRead ?fd) = mountinfo_text es"
    using K unfolding mountinfo_reads_def by simp_all
  have es: "\<forall>e \<in> set es. entry_ok e" using K by (simp add: mountinfo_reads_def)
  have s: "scan_file ?fd ?w1 = ((scan_lines (mountinfo_text es), None), snd (kcall (OsRead ?fd) ?w1))"
    using r mountinfo_points(2) [OF es] by (simp add: scan_file_def call_text_def call_err_def kcall_def answer_def Let_def)
  show ?thesis by (rule that [OF o s mountinfo_points(1) [OF es]]) simp_all
qed

lemma isMountPoint_exact:
  assumes "mountinfo_reads (wd_kernel w) path es"
  shows "fst (isMountPoint path target w) = Inr (path_Clean target \<in> mt_point ` set es)"
proof -
  obtain fd w1 w2 lines where o: "call_fd (OsOpen path) w = (Inr fd, w1)" "scan_file fd w1 = ((lines, None), w2)"
    "List.map_filter line_mount_point lines = map mt_point es"
    using scan_mountinfo [OF assms] by metis
  have "path_Clean target \<in> set (List.map_filter line_mount_point lines) \<longleftrightarrow> path_Clean target \<in> mt_point ` set es"
    unfolding o(3) by simp
  then show ?thesis using o(1,2) by (simp add: isMountPoint_def deferring_def Let_def)
qed

subsection \<open>Cleanup of the staging root\<close>

text \<open>What the cleanup unmounts, in its order: the mount points below the root, longest first.\<close>

definition staged_points :: "string \<Rightarrow> mount_entry list \<Rightarrow> string list" where
  "staged_points root es =
     sort_key (\<lambda>m. - int (length m)) (filter (\<lambda>m. HasPrefix m (path_Clean root @ ''/'')) (map mt_point es))"

definition nested :: "string \<Rightarrow> string \<Rightarrow> bool" where
  "nested inner outer \<longleftrightarrow> HasPrefix inner (outer @ ''/'')"

lemma sort_key_order: "i < j \<Longrightarrow> j < length xs \<Longrightarrow> f (sort_key f xs ! i) \<le> f (sort_key f xs ! j)"
proof -
  assume "i < j" "j < length xs"
  moreover have "sorted (map f (sort_key f xs))" by simp
  ultimately show ?thesis using sorted_nth_mono [of "map f (sort_key f xs)" i j] by simp
qed

lemma staged_points_order:
  assumes "i < j" and "j < length (staged_points root es)"
  shows "\<not> nested (staged_points root es ! j) (staged_points root es ! i)"
proof
  let ?ms = "staged_points root es"
  assume "nested (?ms ! j) (?ms ! i)"
  then have "length (?ms ! i) < length (?ms ! j)" by (auto simp: nested_def HasPrefix_def dest!: arg_cong [of _ _ length])
  moreover have "- int (length (?ms ! i)) \<le> - int (length (?ms ! j))"
    using sort_key_order [OF assms(1), of _ "\<lambda>m. - int (length m)"] assms(2)
    by (simp only: staged_points_def length_sort)
  ultimately show False by simp
qed

lemma unmount_all_run:
  assumes "unmount_all ms errs w = (errs', w')"
  shows "calls w' = calls w @ map SysUnmount ms \<and> wd_kernel w' = wd_kernel w"
  using assms
proof (induction ms arbitrary: errs w)
  case (Cons m ms)
  obtain r w1 where c: "call_err (SysUnmount m) w = (r, w1)" by fastforce
  have "calls w1 = calls w @ [SysUnmount m]" "wd_kernel w1 = wd_kernel w"
    using calls_call_err [OF c] call_err_world [OF c] by simp_all
  then show ?case using Cons c by (cases r) (auto dest: Cons.IH)
qed simp

lemma remove_all_run:
  assumes "remove_all root entries errs w = (errs', w')"
  shows "calls w' = calls w @ map (\<lambda>(name, is_dir). OsRemove (path_Join [root, name])) (filter snd entries)"
  using assms
proof (induction root entries errs w arbitrary: errs' w' rule: remove_all.induct)
  case (2 root name is_dir entries errs w)
  obtain r w1 where c: "call_err (OsRemove (path_Join [root, name])) w = (r, w1)" by fastforce
  have "calls w1 = calls w @ [OsRemove (path_Join [root, name])]" by (rule calls_call_err [OF c])
  then show ?case using 2 c by (cases r) (auto simp: Let_def split: if_splits)
qed simp

text \<open>The directories of the root, as the system lists them when it is asked at \<open>w\<close>, in the
  order of their names; none when it does not list the root.\<close>

definition listed_directories :: "string \<Rightarrow> world \<Rightarrow> string list" where
  "listed_directories root w =
     (if kn_errno (wd_kernel w) (wd_trace w) (OsReadDir root) = None
      then map fst (filter snd (sort_key fst (kn_entries (wd_kernel w) (wd_trace w) (OsReadDir root)))) else [])"

lemma call_entries_listed:
  assumes "call_entries (OsReadDir root) w = (q, w')"
  shows "case q of Inl e \<Rightarrow> listed_directories root w = []
    | Inr entries \<Rightarrow> listed_directories root w = map fst (filter snd entries)"
  using assms
  by (auto simp: call_entries_def call_err_def listed_directories_def kcall_def answer_def split: prod.splits option.splits)

lemma CleanupStagingRoot_run:
  assumes K: "mountinfo_reads (wd_kernel w) self_mountinfo es"
    and run: "CleanupStagingRoot root w = (r, w')"
  obtains fd w1 where "calls w1 = calls w @ [OsOpen self_mountinfo, OsRead fd, SysClose fd] @
      map SysUnmount (staged_points root es)"
    and "calls w' = calls w1 @ [OsReadDir root] @
      map (\<lambda>name. OsRemove (path_Join [root, name])) (listed_directories root w1)"
    and "wd_kernel w1 = wd_kernel w" and "extends w1 w'"
proof -
  obtain fd wa wb lines where o: "call_fd (OsOpen self_mountinfo) w = (Inr fd, wa)"
    "scan_file fd wa = ((lines, None), wb)" "List.map_filter line_mount_point lines = map mt_point es"
    "calls wb = calls w @ [OsOpen self_mountinfo, OsRead fd]" "wd_kernel wb = wd_kernel w"
    using scan_mountinfo [OF K] by metis
  have points: "mountPointsUnderRoot self_mountinfo root w = (Inr (staged_points root es), close fd wb)"
    using o by (simp add: mountPointsUnderRoot_def deferring_def mount_points_below_def staged_points_def Let_def)
  obtain errs w1 where u: "unmount_all (staged_points root es) [] (close fd wb) = (errs, w1)" by fastforce
  have w1: "calls w1 = calls w @ [OsOpen self_mountinfo, OsRead fd, SysClose fd] @
      map SysUnmount (staged_points root es)" "wd_kernel w1 = wd_kernel w"
    using unmount_all_run [OF u] o(4,5) by (simp_all add: ignored_def)
  obtain q w2 where d: "call_entries (OsReadDir root) w1 = (q, w2)" by fastforce
  have w2: "calls w2 = calls w1 @ [OsReadDir root]" and x2: "extends w1 w2"
    using call_runs(3) [of "OsReadDir root" w1] extends_kcall [of w1 "OsReadDir root"] d by simp_all
  note listed = call_entries_listed [OF d]
  show ?thesis
  proof (cases q)
    case (Inl e)
    then have "w' = w2" using run points u d by (auto simp: CleanupStagingRoot_def Let_def split: if_splits)
    then show ?thesis using that [OF w1(1) _ w1(2)] w2 x2 listed Inl by simp
  next
    case (Inr entries)
    obtain errs2 w3 where rm: "remove_all root entries errs w2 = (errs2, w3)" by fastforce
    have w': "w' = w3" using run points u d Inr rm by (auto simp: CleanupStagingRoot_def Let_def)
    have "extends w2 w3" using xtr.remove_all_keeps [of w2 root entries errs] rm by simp
    then have "extends w1 w'" using extends_trans [OF x2] w' by simp
    then show ?thesis using that [OF w1(1) _ w1(2)] w2 w' remove_all_run [OF rm] listed Inr
      by (simp add: case_prod_unfold)
  qed
qed

end
