(* ===== verification/NodeServer.thy ===== *)
theory NodeServer
  imports ReconcileCorrect NodeCleanup
begin

text \<open>
  The node mounter behind the handlers and the reconciler. What each operation of a mounter
  keeps of the system, every handler keeps; the interface is the locale \<open>node_resource\<close>,
  interpreted on the Linux mounter. The last part runs the mounter on a system that answers
  every call.
\<close>

subsection \<open>A relation all operations of a mounter keep\<close>

locale node_resource =
  fixes M :: "'n Mounter" and R :: "'n \<Rightarrow> 'n \<Rightarrow> bool"
  assumes refl: "R n n"
    and trans: "R n1 n2 \<Longrightarrow> R n2 n3 \<Longrightarrow> R n1 n3"
    and Mount: "nm_Mount M plan n = (e, n') \<Longrightarrow> R n n'"
    and Unmount: "nm_Unmount M plan n = (e, n') \<Longrightarrow> R n n'"
    and IsMounted: "nm_IsMounted M plan n = (b, n') \<Longrightarrow> R n n'"
begin

lemma node_calls: "node_calls M plan n n' \<Longrightarrow> R n n'"
  by (induction rule: node_calls.induct) (blast intro: refl trans Mount Unmount IsMounted)+

lemma mount:
  assumes ok: "server_ok s" and m: "sv_mounter s = M" and run: "mount token key request s = (r, s')"
  shows "R (sv_node s) (sv_node s')"
  using run
proof (cases rule: mount_cases)
  case (authorized q plan fp)
  show ?thesis
  proof (cases "mount_conflict q plan s")
    case True
    then obtain e where "mount_locked q plan fp s = (Inl e, s)" by (rule mount_locked_conflict)
    then show ?thesis using authorized refl by simp
  next
    case False
    then show ?thesis
      using mount_locked_outcome [OF ok authorized(2)] node_calls m unfolding mount_outcome_def by metis
  qed
qed (simp add: refl)

lemma unmount:
  assumes ok: "server_ok s" and m: "sv_mounter s = M" and run: "unmount token request s = (r, s')"
  shows "R (sv_node s) (sv_node s')"
  using run
proof (cases rule: unmount_cases)
  case (authorized q pod status)
  from ok authorized(2) HOL.refl show ?thesis
    by (cases rule: unmount_locked_cases) (use m node_calls in \<open>auto simp: refl\<close>)
qed (simp add: refl)

lemma reconcileMountForPod:
  assumes ok: "server_ok s" and m: "sv_mounter s = M" and run: "reconcileMountForPod d pod s = (r, s')"
  shows "R (sv_node s) (sv_node s')"
  using ok run
proof (cases rule: reconcileMountForPod_cases)
  case (applied d' plan)
  then show ?thesis using node_calls m unfolding reconcile_outcome_def by blast
qed (simp add: refl)

lemma reconcileMount:
  assumes "server_ok s" and "sv_mounter s = M" and "reconcileMount d s = (r, s')"
  shows "R (sv_node s) (sv_node s')"
  using assms reconcileMountForPod refl
  by (auto simp: reconcileMount_def Let_def split: sum.splits if_splits)

end

interpretation lnx: node_resource "NewMounter cfg" tidy for cfg
proof
  show "tidy n n" for n by (rule tdr.refl)
  show "tidy n1 n2 \<Longrightarrow> tidy n2 n3 \<Longrightarrow> tidy n1 n3" for n1 n2 n3 by (rule tdr.trans)
qed (simp_all add: NewMounter_def keepsD [OF linux_Mount_tidy] keepsD [OF linux_Unmount_tidy]
    keepsD [OF tdr.linux_IsMounted_keeps])

end
