(* ===== verification/NodeLive.thy ===== *)
theory NodeLive
  imports NodeCleanup
begin

text \<open>
  That the mounter mounts: on a system where the calls succeed, the container has a process
  and nothing is mounted on the target, \<open>Mount\<close> returns nil. Together with the properties of
  what a successful run has done, this says that the code reaches its goal.
\<close>

subsection \<open>A system where the calls succeed\<close>

text \<open>No call fails; whether entering the own namespace again fails does not matter to the
  code, which ignores it, and is left open.\<close>

definition calls_succeed :: "kernel \<Rightarrow> bool" where
  "calls_succeed K \<longleftrightarrow>
     (\<forall>tr c. kn_errno K tr c = None \<or> (\<exists>fd. c = SysSetns fd \<and> ns_of_fd tr fd = Own_ns))"

lemma succeed_calls:
  assumes "calls_succeed (wd_kernel w)" and "\<forall>fd. c \<noteq> SysSetns fd"
  shows "call_err c w = (None, snd (kcall c w))"
    and "call_fd c w = (Inr (kn_fd (wd_kernel w) (wd_trace w) c), snd (kcall c w))"
    and "call_text c w = ((kn_text (wd_kernel w) (wd_trace w) c, None), snd (kcall c w))"
    and "call_entries c w = (Inr (sort_key fst (kn_entries (wd_kernel w) (wd_trace w) c)), snd (kcall c w))"
proof -
  have "kn_errno (wd_kernel w) (wd_trace w) c = None" using assms unfolding calls_succeed_def by blast
  then show "call_err c w = (None, snd (kcall c w))"
    and "call_fd c w = (Inr (kn_fd (wd_kernel w) (wd_trace w) c), snd (kcall c w))"
    and "call_text c w = ((kn_text (wd_kernel w) (wd_trace w) c, None), snd (kcall c w))"
    and "call_entries c w = (Inr (sort_key fst (kn_entries (wd_kernel w) (wd_trace w) c)), snd (kcall c w))"
    by (simp_all add: call_err_def call_fd_def call_text_def call_entries_def kcall_def answer_def Let_def)
qed

text \<open>A run that returns nil, on the same system.\<close>

definition works :: "kernel \<Rightarrow> (world \<Rightarrow> go_error option \<times> world) \<Rightarrow> bool" where
  "works K m \<longleftrightarrow> (\<forall>w. wd_kernel w = K \<longrightarrow> (\<exists>w'. m w = (None, w') \<and> wd_kernel w' = K))"

lemma worksD: "works K m \<Longrightarrow> wd_kernel w = K \<Longrightarrow> \<exists>w'. m w = (None, w')"
  unfolding works_def by blast

lemma works_return: "works K (\<lambda>w. (None, w))"
  by (simp add: works_def)

lemma works_call: "calls_succeed K \<Longrightarrow> \<forall>fd. c \<noteq> SysSetns fd \<Longrightarrow> works K (call_err c)"
  by (simp add: works_def succeed_calls)

lemma works_or_fail: "works K m \<Longrightarrow> works K g \<Longrightarrow> works K (\<lambda>w. or_fail f (m w) g)"
  unfolding works_def or_fail_def by fastforce

lemma works_deferring:
  "(\<And>w. wd_kernel (d w) = wd_kernel w) \<Longrightarrow> works K m \<Longrightarrow> works K (deferring d m)"
  unfolding works_def deferring_def by fastforce

lemma works_after: "(\<And>w. wd_kernel (d w) = wd_kernel w) \<Longrightarrow> works K m \<Longrightarrow> works K (\<lambda>w. m (d w))"
  by (simp add: works_def)

lemma works_if: "(b \<Longrightarrow> works K m) \<Longrightarrow> (\<not> b \<Longrightarrow> works K g) \<Longrightarrow> works K (\<lambda>w. if b then m w else g w)"
  by (cases b) simp_all

lemma works_with_fd_path:
  assumes K: "calls_succeed K" and c: "returns_fd c"
    and g: "\<And>fd w. wd_kernel w = K \<Longrightarrow> opened_path (wd_trace w) fd = path_argument c \<Longrightarrow>
      \<exists>w'. g fd w = (None, w') \<and> wd_kernel w' = K"
  shows "works K (\<lambda>w. with_fd f c w g)"
  unfolding works_def
proof (intro allI impI)
  fix w :: world assume w: "wd_kernel w = K"
  let ?fd = "kn_fd (wd_kernel w) (wd_trace w) c" and ?w1 = "snd (kcall c w)"
  have no: "\<forall>fd. c \<noteq> SysSetns fd" using c by (auto simp: returns_fd_def)
  then have o: "call_fd c w = (Inr ?fd, ?w1)" using succeed_calls(2) K w by blast
  then have "opened_path (wd_trace ?w1) ?fd = path_argument c"
    using call_fd_cases(2) [OF o] c by (simp add: answer_def)
  then obtain w' where "g ?fd ?w1 = (None, w')" "wd_kernel w' = K"
    using g [of ?w1 ?fd] w by auto
  then show "\<exists>w'. with_fd f c w g = (None, w') \<and> wd_kernel w' = K"
    using o by (simp add: with_fd_def deferring_def)
qed

lemma works_with_fd:
  "calls_succeed K \<Longrightarrow> returns_fd c \<Longrightarrow> (\<And>fd. works K (g fd)) \<Longrightarrow> works K (\<lambda>w. with_fd f c w g)"
  by (rule works_with_fd_path) (auto simp: works_def)

lemma ignored_kernel [simp]: "wd_kernel (ignored c w) = wd_kernel w"
  by (simp add: ignored_def)

lemma works_in_namespace:
  assumes K: "calls_succeed K" and body: "works K body"
  shows "works K (in_namespace root pid body)"
proof -
  let ?p = "pid_path root pid [''ns'', ''mnt'']"
  have enter: "\<exists>w'. or_fail f (call_err (SysSetns fd) w) (deferring (ignored (SysSetns own)) body) = (None, w') \<and> wd_kernel w' = K"
    if w: "wd_kernel w = K" "opened_path (wd_trace w) fd = path_argument (OsOpen ?p)" for f fd own w
  proof -
    have "ns_of_fd (wd_trace w) fd = Ns_of ?p"
      using w(2) pid_ns_not_own by (simp add: ns_of_fd_def path_argument_def)
    then have "kn_errno K (wd_trace w) (SysSetns fd) = None" using K unfolding calls_succeed_def by fastforce
    then have "call_err (SysSetns fd) w = (None, snd (kcall (SysSetns fd) w))"
      using w(1) by (simp add: call_err_def kcall_def answer_def)
    moreover obtain w' where "body (snd (kcall (SysSetns fd) w)) = (None, w')" "wd_kernel w' = K"
      using body w(1) unfolding works_def by (metis kcall_world(1))
    ultimately show ?thesis by (simp add: or_fail_def deferring_def)
  qed
  have inner: "works K (\<lambda>w. with_fd f (OsOpen ?p) w (\<lambda>fd w.
      or_fail g (call_err (SysSetns fd) w) (deferring (ignored (SysSetns own)) body)))" for f g own
    by (rule works_with_fd_path [OF K nofollow_returns(4) enter])
  show ?thesis
    unfolding in_namespace_def [abs_def]
    by (rule works_after [of "record_call LockOSThread"], simp)
      (rule works_deferring, simp, rule works_or_fail, rule works_call [OF K], simp,
        rule works_with_fd [OF K nofollow_returns(4)], rule inner)
qed

subsection \<open>Mount points\<close>

text \<open>mountinfo can be read to its end, and the target is not listed for any process.\<close>

definition target_free :: "kernel \<Rightarrow> string \<Rightarrow> string \<Rightarrow> bool" where
  "target_free K root target \<longleftrightarrow> (\<forall>tr fd. \<not> scan_too_long (kn_text K tr (OsRead fd)) \<and>
     (\<forall>pid. opened_path tr fd = Some (pid_path root pid [''mountinfo'']) \<longrightarrow>
        path_Clean target \<notin> set (List.map_filter line_mount_point (scan_lines (kn_text K tr (OsRead fd))))))"

lemma isMountPoint_reads:
  assumes K: "calls_succeed (wd_kernel w)" and long: "\<And>tr fd. \<not> scan_too_long (kn_text (wd_kernel w) tr (OsRead fd))"
  obtains fd tr where "opened_path tr fd = Some p"
    "fst (isMountPoint p t w) = Inr (path_Clean t \<in> set (List.map_filter line_mount_point
       (scan_lines (kn_text (wd_kernel w) tr (OsRead fd)))))"
    "wd_kernel (snd (isMountPoint p t w)) = wd_kernel w"
proof -
  let ?w1 = "snd (kcall (OsOpen p) w)"
  let ?fd = "kn_fd (wd_kernel w) (wd_trace w) (OsOpen p)"
  have "kn_errno (wd_kernel w) (wd_trace w) (OsOpen p) = None" using K unfolding calls_succeed_def by blast
  then have "ev_errno (answer w (OsOpen p)) = None" by (simp add: answer_def)
  then have o: "opened_path (wd_trace ?w1) ?fd = Some p"
    by (simp add: answer_def returns_fd_def path_argument_def)
  have K1: "calls_succeed (wd_kernel ?w1)" using K by simp
  have s: "scan_file ?fd ?w1 =
      ((scan_lines (kn_text (wd_kernel w) (wd_trace ?w1) (OsRead ?fd)), None), snd (kcall (OsRead ?fd) ?w1))"
    using succeed_calls(3) [OF K1, of "OsRead ?fd"] long by (simp add: scan_file_def Let_def del: kcall_world(2))
  have k: "wd_kernel (snd (isMountPoint p t w)) = wd_kernel w"
    using fdr.isMountPoint_keeps [of p t] by (simp add: keeps_def fd_tidy_def)
  show ?thesis
    by (rule that [OF o _ k])
      (simp add: isMountPoint_def succeed_calls(2) [OF K] s deferring_def Let_def del: kcall_world(2))
qed

lemma works_not_mounted:
  assumes "calls_succeed K" and "target_free K root target"
  shows "works K (not_mounted (pid_path root pid [''mountinfo'']) target)"
  unfolding works_def
proof (intro allI impI)
  fix w :: world assume K: "wd_kernel w = K"
  let ?p = "pid_path root pid [''mountinfo'']"
  have long: "\<not> scan_too_long (kn_text (wd_kernel w) tr (OsRead fd))" for tr fd
    using assms(2) K by (simp add: target_free_def)
  have nf: "calls_succeed (wd_kernel w)" using assms(1) K by simp
  obtain fd tr where o: "opened_path tr fd = Some ?p"
    "fst (isMountPoint ?p target w) = Inr (path_Clean target \<in> set (List.map_filter line_mount_point
       (scan_lines (kn_text (wd_kernel w) tr (OsRead fd)))))"
    "wd_kernel (snd (isMountPoint ?p target w)) = wd_kernel w"
    using isMountPoint_reads [OF nf long] by metis
  moreover have "path_Clean target \<notin> set (List.map_filter line_mount_point (scan_lines (kn_text K tr (OsRead fd))))"
    using assms(2) o(1) unfolding target_free_def by blast
  ultimately have "fst (isMountPoint ?p target w) = Inr False" using K by simp
  then show "\<exists>w'. not_mounted ?p target w = (None, w') \<and> wd_kernel w' = K"
    using o(3) K by (cases "isMountPoint ?p target w") (simp add: not_mounted_def)
qed

lemma works_prepare_target:
  assumes "calls_succeed K" and "target_free K root target"
  shows "works K (prepare_target root pid target)"
  unfolding prepare_target_def [abs_def] Let_def
  by (intro works_or_fail works_call works_not_mounted assms) simp

lemma works_moveMount:
  assumes "calls_succeed K" and "target_free K root target"
  shows "works K (moveMountIntoContainerNamespace root pid src desc target)"
  unfolding moveMountIntoContainerNamespace_def [abs_def] Let_def
  by (intro works_or_fail works_prepare_target works_with_fd works_in_namespace works_call works_return assms
      nofollow_returns) simp

subsection \<open>The walk and the bind mount\<close>

lemma walk_loop_works:
  "calls_succeed (wd_kernel w) \<Longrightarrow> \<exists>fd w'. walk_loop sub st cm mode dir cur segs w = (Inr fd, w') \<and> wd_kernel w' = wd_kernel w"
proof (induction segs arbitrary: cur w)
  case (Cons seg segs)
  let ?c = "SysOpenat cur seg nofollow"
  let ?fd = "kn_fd (wd_kernel w) (wd_trace w) ?c" and ?w1 = "snd (kcall ?c w)"
  have "open_segment sub st cm mode cur seg w = (Inr ?fd, ?w1)"
    using succeed_calls(2) [OF Cons.prems] by (simp add: open_segment_def)
  then show ?case
    using Cons.IH [of "if cur \<noteq> dir then close cur ?w1 else ?w1" ?fd] Cons.prems
    by (cases "cur = dir") (simp_all add: Let_def)
qed simp

lemma openDirectoryNoFollow_works:
  assumes "calls_succeed (wd_kernel w)" and "sourceSubPathSegments sub = Inr segs"
  shows "\<exists>fd w'. openDirectoryNoFollow st sub cm mode w = (Inr fd, w') \<and> wd_kernel w' = wd_kernel w"
  using walk_loop_works [of "snd (kcall (SysOpen st nofollow) w)"] assms succeed_calls(2) [OF assms(1)]
  by (simp add: openDirectoryNoFollow_def)

lemma openTreeMountSource_works:
  assumes K: "calls_succeed (wd_kernel w)" and sub: "sourceSubPathSegments sub = Inr segs"
  shows "\<exists>fd desc w'. openTreeMountSource st sub cm mode w = (Inr (fd, desc), w') \<and> wd_kernel w' = wd_kernel w"
proof (cases "sub = []")
  case True
  then show ?thesis using succeed_calls(2) [OF K] by (simp add: openTreeMountSource_def)
next
  case False
  obtain fd w1 where o: "openDirectoryNoFollow st sub cm mode w = (Inr fd, w1)" "wd_kernel w1 = wd_kernel w"
    using openDirectoryNoFollow_works [OF assms] by blast
  then show ?thesis using False succeed_calls(2) [of w1] K by (simp add: openTreeMountSource_def deferring_def)
qed

lemma works_modernAPI:
  assumes "calls_succeed K" and "target_free K (nc_HostProcRoot cfg) target" and "sourceSubPathSegments sub = Inr segs"
  shows "works K (bindMountWithModernAPI cfg pid st sub target)"
  unfolding works_def
proof (intro allI impI)
  fix w :: world assume K: "wd_kernel w = K"
  obtain fd desc w1 where o: "openTreeMountSource st sub (nc_CreateMissingSubPaths cfg) (nc_CreatedSubPathMode cfg) w =
      (Inr (fd, desc), w1)" and k: "wd_kernel w1 = K"
    using openTreeMountSource_works [OF _ assms(3)] assms(1) K by blast
  obtain w2 where "moveMountIntoContainerNamespace (nc_HostProcRoot cfg) pid fd desc target w1 = (None, w2)" "wd_kernel w2 = K"
    using works_moveMount [OF assms(1,2)] k unfolding works_def by blast
  then show "\<exists>w'. bindMountWithModernAPI cfg pid st sub target w = (None, w') \<and> wd_kernel w' = K"
    using o by (simp add: bindMountWithModernAPI_def deferring_def)
qed

subsection \<open>The process\<close>

text \<open>Some process of the container is listed, whatever was called before.\<close>

definition has_process :: "kernel \<Rightarrow> string \<Rightarrow> string \<Rightarrow> string \<Rightarrow> bool" where
  "has_process K root uid cid \<longleftrightarrow> normalizeContainerID cid \<noteq> [] \<and>
     (\<exists>name. isNumeric name \<and> Atoi_digits name \<noteq> None \<and>
        (\<forall>tr. (name, True) \<in> set (kn_entries K tr (OsReadDir root)) \<and>
           cgroup_matches uid (normalizeContainerID cid) (kn_text K tr (OsReadFile (path_Join [root, name, ''cgroup''])))))"

lemma find_pid_works:
  assumes "calls_succeed (wd_kernel w)" and "isNumeric name" and "Atoi_digits name \<noteq> None"
    and "\<And>tr. cgroup_matches uid cid (kn_text (wd_kernel w) tr (OsReadFile (path_Join [root, name, ''cgroup''])))"
    and "(name, True) \<in> set entries"
  shows "\<exists>pid w'. find_pid root uid cid entries w = (Some pid, w') \<and> wd_kernel w' = wd_kernel w"
  using assms
proof (induction entries arbitrary: w)
  case (Cons entry entries)
  obtain n is_dir where e: "entry = (n, is_dir)" by fastforce
  let ?c = "OsReadFile (path_Join [root, n, ''cgroup''])"
  have call: "call_text ?c w = ((kn_text (wd_kernel w) (wd_trace w) ?c, None), snd (kcall ?c w))"
    by (rule succeed_calls(3) [OF Cons.prems(1)]) simp
  show ?case
  proof (cases "n = name \<and> is_dir")
    case True
    then show ?thesis using e call Cons.prems by auto
  next
    case False
    then have "(name, True) \<in> set entries" using Cons.prems(5) e by auto
    then show ?thesis
      using e call Cons.prems(1-4) Cons.IH [of w] Cons.IH [of "snd (kcall ?c w)"] by (auto split: option.split)
  qed
qed simp

lemma findContainerPID_works:
  assumes K: "calls_succeed (wd_kernel w)" and "has_process (wd_kernel w) root uid cid"
  shows "\<exists>pid w'. findContainerPID root uid cid w = (Inr pid, w') \<and> wd_kernel w' = wd_kernel w"
proof -
  let ?c = "OsReadDir root"
  obtain name where n: "isNumeric name" "Atoi_digits name \<noteq> None" "normalizeContainerID cid \<noteq> []"
    and tr: "\<And>tr. (name, True) \<in> set (kn_entries (wd_kernel w) tr ?c)"
      "\<And>tr. cgroup_matches uid (normalizeContainerID cid) (kn_text (wd_kernel w) tr (OsReadFile (path_Join [root, name, ''cgroup''])))"
    using assms(2) unfolding has_process_def by blast
  have "\<exists>pid w'. find_pid root uid (normalizeContainerID cid) (sort_key fst (kn_entries (wd_kernel w) (wd_trace w) ?c))
      (snd (kcall ?c w)) = (Some pid, w') \<and> wd_kernel w' = wd_kernel w"
    using find_pid_works [of "snd (kcall ?c w)" name] K n tr by simp
  then show ?thesis using succeed_calls(4) [OF K, of ?c] n(3) by (auto simp: findContainerPID_def)
qed

subsection \<open>Mount\<close>

lemma works_mountNFS: "calls_succeed K \<Longrightarrow> works K (mountNFS pv st)"
  by (simp add: works_def mountNFS_def Let_def succeed_calls)

lemma works_staged_mount:
  assumes K: "calls_succeed K" and free: "target_free K (nc_HostProcRoot cfg) (pl_TargetPath plan)"
    and p: "has_process K (nc_HostProcRoot cfg) (pl_PodUID plan) (pl_ContainerID plan)"
    and sub: "sourceSubPathSegments (pl_SourceSubPath plan) = Inr segs"
  shows "works K (staged_mount cfg plan st)"
proof -
  let ?bind = "\<lambda>pid. bindMountWithModernAPI cfg pid st (pl_SourceSubPath plan) (pl_TargetPath plan)"
  have bind: "works K (\<lambda>w. case findContainerPID (nc_HostProcRoot cfg) (pl_PodUID plan) (pl_ContainerID plan) w of
      (Inl err, w) \<Rightarrow> (Some err, w)
    | (Inr pid, w) \<Rightarrow> (case ?bind pid w of (None, w) \<Rightarrow> (None, w)
      | (Some err, w) \<Rightarrow> if \<not> errors_Is (Errno ''ENOSYS'') err then (Some err, w)
          else bindMountWithLegacyAPI cfg pid st (pl_SourceSubPath plan) (pl_TargetPath plan) w))"
    unfolding works_def
  proof (intro allI impI)
    fix w :: world assume w: "wd_kernel w = K"
    obtain pid w1 where f: "findContainerPID (nc_HostProcRoot cfg) (pl_PodUID plan) (pl_ContainerID plan) w = (Inr pid, w1)"
      and w1: "wd_kernel w1 = K" using findContainerPID_works K p w by blast
    obtain w2 where "?bind pid w1 = (None, w2)" "wd_kernel w2 = K"
      using works_modernAPI [OF K free sub] w1 unfolding works_def by blast
    then show "\<exists>w'. (case findContainerPID (nc_HostProcRoot cfg) (pl_PodUID plan) (pl_ContainerID plan) w of
      (Inl err, w) \<Rightarrow> (Some err, w)
    | (Inr pid, w) \<Rightarrow> (case ?bind pid w of (None, w) \<Rightarrow> (None, w)
      | (Some err, w) \<Rightarrow> if \<not> errors_Is (Errno ''ENOSYS'') err then (Some err, w)
          else bindMountWithLegacyAPI cfg pid st (pl_SourceSubPath plan) (pl_TargetPath plan) w)) = (None, w') \<and> wd_kernel w' = K"
      using f by simp
  qed
  have rest: "works K (\<lambda>w. case isMountPoint self_mountinfo st w of
      (Inl err, w) \<Rightarrow> (Some err, w)
    | (Inr mounted, w) \<Rightarrow> or_fail id (if \<not> mounted then mountNFS (pl_PV plan) st w else (None, w)) g)"
    if g: "works K g" for g
    unfolding works_def
  proof (intro allI impI)
    fix w :: world assume w: "wd_kernel w = K"
    have long: "\<not> scan_too_long (kn_text (wd_kernel w) tr (OsRead fd))" for tr fd
      using free w by (simp add: target_free_def)
    obtain mounted w1 where m: "isMountPoint self_mountinfo st w = (Inr mounted, w1)" and w1: "wd_kernel w1 = K"
      using isMountPoint_reads [OF K [folded w] long] w by (metis prod.collapse)
    have "works K (\<lambda>w. or_fail id (if \<not> mounted then mountNFS (pl_PV plan) st w else (None, w)) g)"
      by (intro works_or_fail works_if works_mountNFS works_return K g)
    then show "\<exists>w'. (case isMountPoint self_mountinfo st w of
      (Inl err, w) \<Rightarrow> (Some err, w)
    | (Inr mounted, w) \<Rightarrow> or_fail id (if \<not> mounted then mountNFS (pl_PV plan) st w else (None, w)) g) = (None, w') \<and> wd_kernel w' = K"
      using m w1 by (simp add: works_def)
  qed
  show ?thesis
    unfolding staged_mount_def [abs_def] by (rule works_or_fail [OF works_call [OF K] rest [OF bind]]) simp
qed

lemma linux_Mount_works:
  assumes "nc_EnableMount cfg" and "nv_Server (pl_PV plan) \<noteq> []" and "nv_Share (pl_PV plan) \<noteq> []"
    and "pl_ContainerID plan \<noteq> []" and K: "calls_succeed K"
    and "target_free K (nc_HostProcRoot cfg) (pl_TargetPath plan)"
    and "has_process K (nc_HostProcRoot cfg) (pl_PodUID plan) (pl_ContainerID plan)"
    and "sourceSubPathSegments (pl_SourceSubPath plan) = Inr segs"
  shows "works K (linux_Mount cfg plan)"
proof -
  let ?st = "path_Join [nc_StagingRoot cfg, nv_Name (pl_PV plan)]" and ?n = "stagingLock (nv_Name (pl_PV plan))"
  let ?clean = "if nc_UnstageAfterMount cfg then warnCleanupStagingPath ?st else (\<lambda>w. w)"
  have clean: "wd_kernel (?clean w) = wd_kernel w" for w
    using fdr.warnCleanupStagingPath_keeps [of w ?st] by (simp add: fd_tidy_def)
  have "works K (\<lambda>w. deferring (record_call (UnlockStaging ?n)) (deferring ?clean (staged_mount cfg plan ?st))
      (record_call (LockStaging ?n) w))"
    by (rule works_after, simp)
      (intro works_deferring record_call_world(1) clean works_staged_mount [OF K assms(6-8)])
  from works_or_fail [OF works_call [OF K, of CtxErr] this, of id] show ?thesis
    using assms(1-4) by (simp add: linux_Mount_def [abs_def] Let_def)
qed

end
