(* ===== verification/NodeProps.thy ===== *)
theory NodeProps
  imports Example NodeServer NodeLive
begin

text \<open>
  The properties of the node mounter, with a concrete system for the witnesses: every call
  succeeds, descriptors are numbered upwards, process 42 belongs to the container of the
  example plan, and mountinfo lists the mounts of \<open>ex_table\<close>.
\<close>

subsection \<open>A concrete system\<close>

definition ex_entry :: "string \<Rightarrow> mount_entry" where
  "ex_entry point = \<lparr>mt_pre = [''36'', ''35'', ''98:0'', ''/''], mt_point = point,
     mt_post = [''rw'', ''-'', ''nfs'', ''srv:/export'', ''rw'']\<rparr>"

definition ex_table :: "mount_entry list" where
  "ex_table = map ex_entry [''/staging/pv-1'', ''/staging/pv 2/deep'', ''/staging/pv 2'', ''/stagingx'']"

definition next_fd :: "event list \<Rightarrow> int" where
  "next_fd tr = foldr (\<lambda>e m. max (ev_fd e) m) tr 2 + 1"

definition ex_kernel :: "(event list \<Rightarrow> syscall \<Rightarrow> string option) \<Rightarrow> kernel" where
  "ex_kernel errno = \<lparr>kn_errno = errno, kn_fd = (\<lambda>tr c. next_fd tr),
     kn_text = (\<lambda>tr c. case c of OsReadFile p \<Rightarrow> ''0::/kubepods/uid-1/1''
       | OsRead fd \<Rightarrow> mountinfo_text ex_table | _ \<Rightarrow> []),
     kn_entries = (\<lambda>tr c. [(''42'', True), (''version'', False)])\<rparr>"

definition ex_world :: world where
  "ex_world = \<lparr>wd_kernel = ex_kernel (\<lambda>tr c. None), wd_trace = []\<rparr>"

definition ex_node :: NodeConfig where
  "ex_node = \<lparr>nc_DriverName = ''nfs.csi'', nc_StagingRoot = ''/staging'', nc_HostProcRoot = ''/proc'',
     nc_EnableMount = True, nc_UnstageAfterMount = False, nc_CreateMissingSubPaths = True,
     nc_CreatedSubPathMode = 0x1ED, nc_Timeout = 30\<rparr>"

lemma fresh_ex_kernel: "fresh_fds (ex_kernel errno)"
proof -
  have "fd \<in> open_fds tr \<Longrightarrow> fd < next_fd tr" for fd tr
    by (induction tr) (auto simp: next_fd_def fds_step_def split: option.splits if_splits)
  moreover have "0 \<le> next_fd tr" for tr
  proof -
    have "2 \<le> foldr (\<lambda>e m. max (ev_fd e) m) tr (2 :: int)" by (induction tr) auto
    then show ?thesis by (simp add: next_fd_def)
  qed
  ultimately show ?thesis unfolding fresh_fds_def ex_kernel_def by force
qed

lemma ex_table_ok: "\<forall>e \<in> set ex_table. entry_ok e"
proof
  fix e assume e: "e \<in> set ex_table"
  have "\<forall>e \<in> set ex_table. length (mt_pre e) = 4 \<and> mt_point e \<noteq> [] \<and>
      list_all (\<lambda>c. printable c \<or> c = CHR '' '') (mt_point e) \<and>
      (\<forall>f \<in> set (mt_pre e @ mt_post e). f \<noteq> [] \<and> list_all printable f) \<and> length (entry_line e) < 99"
    by code_simp
  then have "length (mt_pre e) = 4 \<and> mt_point e \<noteq> [] \<and>
      list_all (\<lambda>c. printable c \<or> c = CHR '' '') (mt_point e) \<and>
      (\<forall>f \<in> set (mt_pre e @ mt_post e). f \<noteq> [] \<and> list_all printable f) \<and> length (entry_line e) < 99"
    using e by (rule bspec)
  then show "entry_ok e"
    using no_space_printable readable_printable unfolding entry_ok_def maxScanTokenSize_def by auto
qed

lemma ex_kernel_mountinfo: "mountinfo_reads (ex_kernel (\<lambda>tr c. None)) path ex_table"
  using ex_table_ok by (simp add: mountinfo_reads_def ex_kernel_def)

lemma ex_target_free: "target_free (ex_kernel errno) ''/proc'' ''/work''"
proof -
  have "''/work'' \<notin> set (map mt_point ex_table)" by (simp add: ex_table_def ex_entry_def)
  moreover have "path_Clean ''/work'' = ''/work''" by code_simp
  ultimately show ?thesis
    unfolding target_free_def ex_kernel_def using mountinfo_points [OF ex_table_ok] by simp
qed

lemma ex_process: "has_process (ex_kernel errno) ''/proc'' ''uid-1'' ''containerd://1''"
proof -
  have "isNumeric ''42'' \<and> Atoi_digits ''42'' \<noteq> None \<and> normalizeContainerID ''containerd://1'' = ''1'' \<and>
      cgroup_matches ''uid-1'' ''1'' ''0::/kubepods/uid-1/1''"
    by code_simp
  then show ?thesis unfolding has_process_def by (intro conjI exI [of _ "''42''"]) (simp_all add: ex_kernel_def)
qed

text \<open>A system that does not let the mounter back into its namespace.\<close>

definition no_way_back :: "event list \<Rightarrow> syscall \<Rightarrow> string option" where
  "no_way_back tr c = (case c of SysSetns fd \<Rightarrow> if ns_of_fd tr fd = Own_ns then Some ''EPERM'' else None | _ \<Rightarrow> None)"

lemma ex_kernels_succeed: "calls_succeed (ex_kernel (\<lambda>tr c. None))" "calls_succeed (ex_kernel no_way_back)"
  by (auto simp: calls_succeed_def ex_kernel_def no_way_back_def split: syscall.split)

lemma ex_mounts:
  assumes "calls_succeed (ex_kernel errno)"
  shows "works (ex_kernel errno) (linux_Mount ex_node ex_plan)"
proof (rule linux_Mount_works)
  show "sourceSubPathSegments (pl_SourceSubPath ex_plan) = Inr [''run'', ''7'']" by code_simp
qed (simp_all add: ex_node_def ex_plan_def ex_target_free ex_process assms)

text \<open>A server of the example whose mounter is the Linux one, on the concrete system.\<close>

definition ex_linux_server :: "world Server" where
  "ex_linux_server = \<lparr>sv_cfg = ex_cfg, sv_kube = ex_kube, sv_mounter = NewMounter ex_node, sv_node = ex_world,
     sv_state = ex_store [], sv_reconcileErrors = Map.empty, sv_retrying = {}, sv_exportRoot = no_authorizer\<rparr>"

lemma ex_linux_server_simps [simp]:
  "sv_mounter ex_linux_server = NewMounter ex_node" "sv_node ex_linux_server = ex_world" "server_ok ex_linux_server"
  by (simp_all add: ex_linux_server_def)

lemma ex_world_simps [simp]:
  "wd_kernel ex_world = ex_kernel (\<lambda>tr c. None)" "wd_trace ex_world = []"
  by (simp_all add: ex_world_def)

subsection \<open>Mounting\<close>

text \<open>C7. A run of Mount that returns nil has made exactly one bind mount: from the directory
  of the source sub path below the staged mount to the target below the container's root,
  in the mount namespace of a process whose cgroup file named the pod and the container
  during the run. A run that returns an error has made none.\<close>

theorem node_mount_binds_once:
  assumes "fresh_fds (wd_kernel w)" and "linux_Mount cfg plan w = (r, w')"
  shows "case r of
      Some e \<Rightarrow> binds (wd_trace w') = binds (wd_trace w)
    | None \<Rightarrow> \<exists>pid. process_seen (nc_HostProcRoot cfg) (pl_PodUID plan) (pl_ContainerID plan) pid w w' \<and>
        binds (wd_trace w') =
          \<lparr>bd_ns = Ns_of (pid_path (nc_HostProcRoot cfg) pid [''ns'', ''mnt'']),
           bd_source = Some (path_Join [nc_StagingRoot cfg, nv_Name (pl_PV plan)], source_segs (pl_SourceSubPath plan)),
           bd_target = Some (pid_path (nc_HostProcRoot cfg) pid [''root'', TrimPrefix (pl_TargetPath plan) ''/''])\<rparr>
          # binds (wd_trace w)"
  using linux_Mount_for [OF assms(2,1)]
  unfolding mounts_for_def the_bind_def ns_path_def target_in_container_def .

lemma node_mount_binds_once_witness:
  "\<exists>pid w'. linux_Mount ex_node ex_plan ex_world = (None, w') \<and>
     map bd_source (binds (wd_trace w')) = [Some (''/staging/pv-1'', [''run'', ''7''])] \<and>
     map bd_ns (binds (wd_trace w')) = [Ns_of (pid_path ''/proc'' pid [''ns'', ''mnt''])]"
proof -
  obtain w' where run: "linux_Mount ex_node ex_plan ex_world = (None, w')"
    using worksD [OF ex_mounts [OF ex_kernels_succeed(1)] ex_world_simps(1)] by blast
  have paths: "path_Join [nc_StagingRoot ex_node, nv_Name (pl_PV ex_plan)] = ''/staging/pv-1''"
    "source_segs (pl_SourceSubPath ex_plan) = [''run'', ''7'']" "nc_HostProcRoot ex_node = ''/proc''"
    by code_simp+
  have "fresh_fds (wd_kernel ex_world)" by (simp add: fresh_ex_kernel)
  from node_mount_binds_once [OF this run] show ?thesis using run paths by auto
qed

text \<open>C8. The walk to the source directory never leaves the staged mount: whatever the system
  answers, the only calls are opening the staged mount, and opening or making the next
  segment in a directory that stands for the segments walked so far, never following a
  link; a descriptor that is returned stands for all segments of the source sub path.\<close>

theorem source_walk_confined:
  assumes "openDirectoryNoFollow stagePath sub create mode w = (r, w')"
  shows "confined stagePath (source_segs sub) w w' \<and>
    (\<forall>fd. r = Inr fd \<longrightarrow> fd_dir (wd_trace w') fd = Some (stagePath, source_segs sub) \<and> all_proper (source_segs sub))"
  using openDirectoryNoFollow_confined [OF assms] by blast

lemma source_walk_confined_witness:
  "\<exists>fd w'. openDirectoryNoFollow ''/staging/pv-1'' ''run/7'' True 0x1ED ex_world = (Inr fd, w') \<and>
     confined ''/staging/pv-1'' [''run'', ''7''] ex_world w' \<and>
     fd_dir (wd_trace w') fd = Some (''/staging/pv-1'', [''run'', ''7''])"
proof -
  have segs: "sourceSubPathSegments ''run/7'' = Inr [''run'', ''7'']" "source_segs ''run/7'' = [''run'', ''7'']"
    by code_simp+
  have "calls_succeed (wd_kernel ex_world)" by (simp add: ex_kernels_succeed)
  then obtain fd w' where run: "openDirectoryNoFollow ''/staging/pv-1'' ''run/7'' True 0x1ED ex_world = (Inr fd, w')"
    using openDirectoryNoFollow_works [OF _ segs(1)] by blast
  from source_walk_confined [OF run] show ?thesis using run segs(2) by auto
qed

text \<open>C31. Mount reaches its goal: on a system where the calls succeed, with a process of the
  container and nothing mounted on the target, it returns nil.\<close>

theorem node_mount_works:
  assumes "nc_EnableMount cfg" and "nv_Server (pl_PV plan) \<noteq> [] \<and> nv_Share (pl_PV plan) \<noteq> [] \<and> pl_ContainerID plan \<noteq> []"
    and "calls_succeed (wd_kernel w)"
    and "target_free (wd_kernel w) (nc_HostProcRoot cfg) (pl_TargetPath plan)"
    and "has_process (wd_kernel w) (nc_HostProcRoot cfg) (pl_PodUID plan) (pl_ContainerID plan)"
    and "sourceSubPathSegments (pl_SourceSubPath plan) = Inr segs"
  shows "fst (linux_Mount cfg plan w) = None"
  using linux_Mount_works [OF assms(1) _ _ _ assms(3-6)] assms(2) unfolding works_def by fastforce

lemma node_mount_works_witness: "fst (linux_Mount ex_node ex_plan ex_world) = None"
proof (rule node_mount_works)
  show "sourceSubPathSegments (pl_SourceSubPath ex_plan) = Inr [''run'', ''7'']" by code_simp
qed (simp_all add: ex_node_def ex_plan_def ex_target_free ex_process ex_kernels_succeed)

subsection \<open>Nothing is left behind\<close>

text \<open>C16. Whatever the system answers, the handlers and the reconciler leave every file
  descriptor as they found it, and the thread in its own mount namespace and root, provided
  entering the own namespace does not fail.\<close>

theorem node_left_tidy:
  assumes "server_ok s" and "sv_mounter s = NewMounter cfg"
    and "mount token key request s = (r1, s') \<or> unmount token request' s = (r2, s') \<or> reconcileMount d s = (r3, s')"
    and "fresh_fds (wd_kernel (sv_node s))" and "setns_works (wd_kernel (sv_node s))"
    and "at_home (wd_trace (sv_node s))"
  shows "open_fds (wd_trace (sv_node s')) = open_fds (wd_trace (sv_node s)) \<and> at_home (wd_trace (sv_node s'))"
proof -
  have "tidy (sv_node s) (sv_node s')"
    using assms(3) lnx.mount [OF assms(1,2)] lnx.unmount [OF assms(1,2)] lnx.reconcileMount [OF assms(1,2)] by blast
  then show ?thesis using assms(4-6) by (simp add: tidy_def fd_tidy_def)
qed

lemma node_left_tidy_witness:
  "open_fds (wd_trace (sv_node (snd (mount ''tok'' [] ex_request ex_linux_server)))) = {} \<and>
   at_home (wd_trace (sv_node (snd (mount ''tok'' [] ex_request ex_linux_server))))"
proof -
  have "at_home (wd_trace (sv_node ex_linux_server))" by (simp add: at_home_def start_thread_def)
  moreover have "setns_works (wd_kernel (sv_node ex_linux_server))" by (simp add: setns_works_def ex_kernel_def)
  moreover have "fresh_fds (wd_kernel (sv_node ex_linux_server))" by (simp add: fresh_ex_kernel)
  ultimately show ?thesis
    using node_left_tidy [of ex_linux_server ex_node "''tok''" "[]" ex_request
        "fst (mount ''tok'' [] ex_request ex_linux_server)"
        "snd (mount ''tok'' [] ex_request ex_linux_server)"] by simp
qed

text \<open>C32. The error of entering the own namespace again is dropped: on a system where that
  call fails, a run of Mount that starts on a thread no goroutine is pinned to and succeeds ends
  with the thread in the mount namespace of the container and pinned to no goroutine, so that
  the scheduler may run others on it.\<close>

theorem lost_thread_is_released:
  assumes "fresh_fds (wd_kernel w)" and "setns_back_fails (wd_kernel w)" and "lost_after_bind (wd_trace w)"
    and "thread_pins (wd_trace w) = 0" and "linux_Mount cfg plan w = (None, w')"
  shows "th_ns (thread_of (wd_trace w')) \<noteq> Own_ns \<and> thread_pins (wd_trace w') = 0"
  using linux_Mount_lost [OF assms(5,1-3)] linux_Mount_pins [OF assms(5)] assms(4) by simp

lemma lost_thread_is_released_witness:
  "\<exists>w'. linux_Mount ex_node ex_plan (ex_world\<lparr>wd_kernel := ex_kernel no_way_back\<rparr>) = (None, w') \<and>
     th_ns (thread_of (wd_trace w')) \<noteq> Own_ns \<and> thread_pins (wd_trace w') = 0"
proof -
  let ?w = "ex_world\<lparr>wd_kernel := ex_kernel no_way_back\<rparr>"
  obtain w' where run: "linux_Mount ex_node ex_plan ?w = (None, w')"
    using worksD [OF ex_mounts [OF ex_kernels_succeed(2)], of ?w] by auto
  moreover have "setns_back_fails (wd_kernel ?w)"
    by (simp add: setns_back_fails_def ex_kernel_def no_way_back_def)
  moreover have "lost_after_bind (wd_trace ?w)" by (simp add: lost_after_bind_def)
  moreover have "thread_pins (wd_trace ?w) = 0" by simp
  moreover have "fresh_fds (wd_kernel ?w)" by (simp add: fresh_ex_kernel)
  ultimately show ?thesis using lost_thread_is_released by blast
qed

subsection \<open>Mount points\<close>

text \<open>C33. The test for a mount point is exact when mountinfo can be opened and read and is the
  text of a mount table: one line per mount, with four fields before the mount point, no
  field empty or with white space, and the mount point's blanks, tabs, newlines and
  backslashes escaped in octal as the kernel does. Two limits of the reader are conditions
  too: no mount point contains another white space character (such as a carriage return, a
  vertical tab or U+00A0, which the kernel does not escape but strings.Fields splits at),
  and every line is shorter than the 64 KiB that a Scanner takes. Then the answer is
  whether the cleaned path is a mount point of the table.\<close>

theorem mount_point_test_exact:
  assumes "mountinfo_reads (wd_kernel w) mountInfoPath table"
  shows "fst (isMountPoint mountInfoPath target w) = Inr (path_Clean target \<in> mt_point ` set table)"
  by (rule isMountPoint_exact [OF assms])

lemma mount_point_test_exact_witness:
  "fst (isMountPoint ''/proc/self/mountinfo'' ''/staging/pv 2//deep/'' ex_world) = Inr True"
proof -
  have "path_Clean ''/staging/pv 2//deep/'' = ''/staging/pv 2/deep''" by code_simp
  moreover have "''/staging/pv 2/deep'' \<in> mt_point ` set ex_table" by (simp add: ex_table_def ex_entry_def)
  moreover have "mountinfo_reads (wd_kernel ex_world) ''/proc/self/mountinfo'' ex_table" by (simp add: ex_kernel_mountinfo)
  ultimately show ?thesis using mount_point_test_exact [of ex_world "''/proc/self/mountinfo''" ex_table] by simp
qed

text \<open>C34. The cleanup of the staging root at start-up, when mountinfo reads as a mount table
  (under the conditions of the mount point test), unmounts the mount points below the root and
  no others, each once and never one before a mount inside it. It then lists the root and
  removes the directories the system lists there, each once and by its own name below the
  root, no file and nothing else; when the listing fails it removes nothing. These are all the calls it
  makes.\<close>

theorem staging_cleanup_exact:
  assumes "mountinfo_reads (wd_kernel w) self_mountinfo table" and "CleanupStagingRoot root w = (r, w')"
  shows "\<exists>fd points listing.
      calls listing = calls w @ [OsOpen self_mountinfo, OsRead fd, SysClose fd] @ map SysUnmount points \<and>
      calls w' = calls listing @ [OsReadDir root] @
        map (\<lambda>name. OsRemove (path_Join [root, name])) (listed_directories root listing) \<and>
      wd_kernel listing = wd_kernel w \<and> extends listing w' \<and>
      mset points = mset (filter (\<lambda>m. HasPrefix m (path_Clean root @ ''/'')) (map mt_point table)) \<and>
      (\<forall>i j. i < j \<and> j < length points \<longrightarrow> \<not> nested (points ! j) (points ! i))"
proof -
  obtain fd w1 where run: "calls w1 = calls w @ [OsOpen self_mountinfo, OsRead fd, SysClose fd] @
      map SysUnmount (staged_points root table)"
    "calls w' = calls w1 @ [OsReadDir root] @
      map (\<lambda>name. OsRemove (path_Join [root, name])) (listed_directories root w1)"
    "wd_kernel w1 = wd_kernel w" "extends w1 w'"
    by (rule CleanupStagingRoot_run [OF assms])
  have "mset (staged_points root table) = mset (filter (\<lambda>m. HasPrefix m (path_Clean root @ ''/'')) (map mt_point table))"
    by (simp add: staged_points_def)
  with run show ?thesis using staged_points_order by blast
qed

lemma staging_cleanup_exact_witness:
  "\<exists>fd points. calls (snd (CleanupStagingRoot ''/staging'' ex_world)) =
      [OsOpen self_mountinfo, OsRead fd, SysClose fd] @ map SysUnmount points @
        [OsReadDir ''/staging'', OsRemove ''/staging/42''] \<and>
      mset points = {# ''/staging/pv-1'', ''/staging/pv 2/deep'', ''/staging/pv 2'' #}"
proof -
  obtain r w' where run: "CleanupStagingRoot ''/staging'' ex_world = (r, w')" by fastforce
  have "mountinfo_reads (wd_kernel ex_world) self_mountinfo ex_table" by (simp add: ex_kernel_mountinfo)
  from staging_cleanup_exact [OF this run] obtain fd points listing where
    c: "calls listing = calls ex_world @ [OsOpen self_mountinfo, OsRead fd, SysClose fd] @ map SysUnmount points"
    "calls w' = calls listing @ [OsReadDir ''/staging''] @
      map (\<lambda>name. OsRemove (path_Join [''/staging'', name])) (listed_directories ''/staging'' listing)"
    and k: "wd_kernel listing = wd_kernel ex_world"
    and p: "mset points = mset (filter (\<lambda>m. HasPrefix m (path_Clean ''/staging'' @ ''/'')) (map mt_point ex_table))"
    by blast
  have "filter (\<lambda>m. HasPrefix m (path_Clean ''/staging'' @ ''/'')) (map mt_point ex_table) =
      [''/staging/pv-1'', ''/staging/pv 2/deep'', ''/staging/pv 2'']" by code_simp
  then have m: "mset points = {# ''/staging/pv-1'', ''/staging/pv 2/deep'', ''/staging/pv 2'' #}" using p by simp
  have "map fst (filter snd (sort_key fst [(''42'', True), (''version'', False)])) = [''42'']" by code_simp
  then have l: "listed_directories ''/staging'' listing = [''42'']"
    by (simp add: listed_directories_def k ex_kernel_def)
  have j: "path_Join [''/staging'', ''42''] = ''/staging/42''" by code_simp
  have "calls ex_world = []" by (simp add: calls_def)
  then show ?thesis using c m run l j by (intro exI [of _ fd] exI [of _ points]) simp
qed

end
