(* ===== verification/Config.thy ===== *)
theory Config
  imports FileModes Types
begin

text \<open>
  The configuration, internal/config/config.go, and the flags of the wrapper command,
  cmd/wrapper/main.go. An environment is a function; a variable that is not set reads as
  the empty string (\<open>os.Getenv\<close>). What the code uses of strconv, time and flag is defined
  here after the sources of those packages.
\<close>

subsection \<open>Defaults\<close>

definition DefaultDriverName :: string where "DefaultDriverName = ''csi.nfs.zhida''"
definition DefaultTokenAudience :: string where
  "DefaultTokenAudience = ''kruise-agents-nfs-csi.zhida/sandbox-mounter''"
definition DefaultSocketPath :: string where
  "DefaultSocketPath = ''/var/lib/kruise-agents-nfs-csi/wrapper.sock''"
definition DefaultTokenFile :: string where
  "DefaultTokenFile = ''/var/run/secrets/kruise-agents-nfs-csi/token''"
definition DefaultNamespaceFile :: string where
  "DefaultNamespaceFile = ''/var/run/secrets/kubernetes.io/serviceaccount/namespace''"
definition DefaultPodInfoDir :: string where
  "DefaultPodInfoDir = ''/var/run/secrets/kruise-agents-nfs-csi''"
definition DefaultPodNameFile :: string where "DefaultPodNameFile = DefaultPodInfoDir @ ''/pod_name''"
definition DefaultPodUIDFile :: string where "DefaultPodUIDFile = DefaultPodInfoDir @ ''/pod_uid''"
definition DefaultPodNSFile :: string where "DefaultPodNSFile = DefaultPodInfoDir @ ''/namespace''"
definition DefaultKubeTokenFile :: string where
  "DefaultKubeTokenFile = ''/var/run/secrets/kubernetes.io/serviceaccount/token''"
definition DefaultKubeCAFile :: string where
  "DefaultKubeCAFile = ''/var/run/secrets/kubernetes.io/serviceaccount/ca.crt''"
definition DefaultStagingRoot :: string where
  "DefaultStagingRoot = ''/var/lib/kruise-agents-nfs-csi/staging''"
definition DefaultMountStateDir :: string where
  "DefaultMountStateDir = ''/var/lib/kruise-agents-nfs-csi/mounts''"
definition DefaultHostProcRoot :: string where "DefaultHostProcRoot = ''/proc''"
definition DefaultExportRootKeyFile :: string where "DefaultExportRootKeyFile = []"

subsection \<open>strconv.ParseBool and time.ParseDuration\<close>

definition ParseBool :: "string \<Rightarrow> bool option" where
  "ParseBool s =
     (if s \<in> {''1'', ''t'', ''T'', ''TRUE'', ''true'', ''True''} then Some True
      else if s \<in> {''0'', ''f'', ''F'', ''FALSE'', ''false'', ''False''} then Some False
      else None)"

definition is_decimal :: "char \<Rightarrow> bool" where
  "is_decimal c \<longleftrightarrow> 0 \<le> digit_value c \<and> digit_value c < 10"

text \<open>Leading digits, an error when the value exceeds \<open>2 ^ 63\<close>.\<close>

fun leadingInt :: "int \<Rightarrow> string \<Rightarrow> (int \<times> string) option" where
  "leadingInt x [] = Some (x, [])"
| "leadingInt x (c # cs) =
     (if \<not> is_decimal c then Some (x, c # cs)
      else if x > 2 ^ 63 div 10 then None
      else let x = x * 10 + digit_value c in if x > 2 ^ 63 then None else leadingInt x cs)"

text \<open>Digits of a fraction with their scale; further ones are dropped once the value is full.\<close>

fun leadingFraction :: "int \<Rightarrow> int \<Rightarrow> bool \<Rightarrow> string \<Rightarrow> int \<times> int \<times> string" where
  "leadingFraction x scale overflow [] = (x, scale, [])"
| "leadingFraction x scale overflow (c # cs) =
     (if \<not> is_decimal c then (x, scale, c # cs)
      else if overflow then leadingFraction x scale True cs
      else if x > (2 ^ 63 - 1) div 10 then leadingFraction x scale True cs
      else let y = x * 10 + digit_value c in
        if y > 2 ^ 63 then leadingFraction x scale True cs
        else leadingFraction y (scale * 10) False cs)"

definition duration_units :: "(string \<times> int) list" where
  "duration_units = [(''ns'', 1), (''us'', 1000), ([CHR 0xC2, CHR 0xB5, CHR ''s''], 1000),
     ([CHR 0xCE, CHR 0xBC, CHR ''s''], 1000), (''ms'', 1000000), (''s'', 1000000000),
     (''m'', 60000000000), (''h'', 3600000000000)]"

definition in_number :: "char \<Rightarrow> bool" where
  "in_number c \<longleftrightarrow> c = CHR ''.'' \<or> is_decimal c"

text \<open>One number with its unit. The fraction is scaled exactly here, in floating point in Go.\<close>

definition duration_item :: "string \<Rightarrow> (int \<times> string) option" where
  "duration_item s =
     (if s = [] \<or> \<not> in_number (hd s) then None
      else
        (case leadingInt 0 s of
           None \<Rightarrow> None
         | Some (v, s1) \<Rightarrow>
             let (f, scale, s2) =
                   (if s1 \<noteq> [] \<and> hd s1 = CHR ''.'' then leadingFraction 0 1 False (tl s1) else (0, 1, s1));
                 pre = (length s \<noteq> length s1);
                 post = (s1 \<noteq> [] \<and> hd s1 = CHR ''.'' \<and> length (tl s1) \<noteq> length s2);
                 u = takeWhile (\<lambda>c. \<not> in_number c) s2
             in if \<not> pre \<and> \<not> post then None
                else if u = [] then None
                else
                  (case map_of duration_units u of
                     None \<Rightarrow> None
                   | Some unit \<Rightarrow>
                       if v > 2 ^ 63 div unit then None
                       else let v = v * unit + f * unit div scale in
                         if v > 2 ^ 63 then None
                         else Some (v, dropWhile (\<lambda>c. \<not> in_number c) s2))))"

text \<open>Each item takes at least one character, so the length is fuel enough.\<close>

fun duration_loop :: "nat \<Rightarrow> int \<Rightarrow> string \<Rightarrow> int option" where
  "duration_loop 0 d s = (if s = [] then Some d else None)"
| "duration_loop (Suc n) d s =
     (if s = [] then Some d
      else
        (case duration_item s of
           None \<Rightarrow> None
         | Some (v, s) \<Rightarrow> if d + v > 2 ^ 63 then None else duration_loop n (d + v) s))"

definition ParseDuration :: "string \<Rightarrow> int option" where
  "ParseDuration s =
     (let neg = (s \<noteq> [] \<and> hd s = CHR ''-'');
          s = (if s \<noteq> [] \<and> (hd s = CHR ''-'' \<or> hd s = CHR ''+'') then tl s else s)
      in if s = ''0'' then Some 0
         else if s = [] then None
         else
           (case duration_loop (length s) 0 s of
              None \<Rightarrow> None
            | Some d \<Rightarrow> if neg then Some (- d) else if d > 2 ^ 63 - 1 then None else Some d))"

definition Second :: int where "Second = 1000000000"

subsection \<open>The environment\<close>

type_synonym env = "string \<Rightarrow> string"

definition Env :: "env \<Rightarrow> string \<Rightarrow> string \<Rightarrow> string" where
  "Env e key fallback = (let value = e key in if value \<noteq> [] then value else fallback)"

definition BoolEnv :: "env \<Rightarrow> string \<Rightarrow> bool \<Rightarrow> bool" where
  "BoolEnv e key fallback =
     (let value = e key in
      if value = [] then fallback
      else (case ParseBool value of None \<Rightarrow> fallback | Some parsed \<Rightarrow> parsed))"

definition DurationEnv :: "env \<Rightarrow> string \<Rightarrow> int \<Rightarrow> int" where
  "DurationEnv e key fallback =
     (let value = e key in
      if value = [] then fallback
      else (case ParseDuration value of None \<Rightarrow> fallback | Some parsed \<Rightarrow> parsed))"

definition FileModeEnv :: "env \<Rightarrow> string \<Rightarrow> 32 word \<Rightarrow> 32 word" where
  "FileModeEnv e key fallback =
     (let value = e key in
      if value = [] then fallback
      else (case ParseUint_octal value 32 of Inl err \<Rightarrow> fallback | Inr parsed \<Rightarrow> of_int parsed))"

definition StrictFileModeEnv :: "env \<Rightarrow> string \<Rightarrow> 32 word \<Rightarrow> go_error + 32 word" where
  "StrictFileModeEnv e key fallback =
     (let value = e key in
      if value = [] then Inr fallback
      else (case ParseFileMode value of
          Inl err \<Rightarrow> Inl (Errorf ''%s: %w'' [AStr key, AWrap err])
        | Inr mode \<Rightarrow> Inr mode))"

subsection \<open>The two configurations\<close>

definition LoadWrapperConfig :: "env \<Rightarrow> go_error + WrapperConfig" where
  "LoadWrapperConfig e =
     (case StrictFileModeEnv e ''WRAPPER_CREATED_SUBPATH_MODE'' DefaultCreatedSubPathMode of
        Inl err \<Rightarrow> Inl err
      | Inr createdSubPathMode \<Rightarrow> Inr \<lparr>
          wc_DriverName = Env e ''DRIVER_NAME'' DefaultDriverName,
          wc_SocketPath = Env e ''WRAPPER_SOCKET_PATH'' DefaultSocketPath,
          wc_SocketMode = FileModeEnv e ''WRAPPER_SOCKET_MODE'' 0x1B0,
          wc_TokenAudience = Env e ''TOKEN_AUDIENCE'' DefaultTokenAudience,
          wc_KubeTokenFile = Env e ''KUBE_TOKEN_FILE'' DefaultKubeTokenFile,
          wc_KubeCAFile = Env e ''KUBE_CA_FILE'' DefaultKubeCAFile,
          wc_StagingRoot = Env e ''WRAPPER_STAGING_ROOT'' DefaultStagingRoot,
          wc_MountStateDir = Env e ''WRAPPER_MOUNT_STATE_DIR'' DefaultMountStateDir,
          wc_NodeName = Env e ''WRAPPER_NODE_NAME'' (Env e ''NODE_ID'' (Env e ''KUBE_NODE_NAME'' [])),
          wc_HostProcRoot = Env e ''WRAPPER_HOST_PROC_ROOT'' DefaultHostProcRoot,
          wc_RequestTimeout = DurationEnv e ''WRAPPER_REQUEST_TIMEOUT'' (30 * Second),
          wc_EnableMount = BoolEnv e ''WRAPPER_ENABLE_MOUNT'' True,
          wc_UnstageAfterMount = BoolEnv e ''WRAPPER_UNSTAGE_AFTER_MOUNT'' True,
          wc_CreateMissingSubPaths = BoolEnv e ''WRAPPER_CREATE_MISSING_SUBPATHS'' False,
          wc_CreatedSubPathMode = createdSubPathMode,
          wc_ExportRootKeyFile = Env e ''WRAPPER_EXPORT_ROOT_KEY_FILE'' DefaultExportRootKeyFile\<rparr>)"

record MounterConfig =
  mc_DriverName :: string
  mc_SocketPath :: string
  mc_TokenFile :: string
  mc_TokenAudience :: string
  mc_NamespaceFile :: string
  mc_PodNameFile :: string
  mc_PodUIDFile :: string
  mc_HTTPTimeout :: int
  mc_ExportRootKeyFile :: string

definition LoadMounterConfig :: "env \<Rightarrow> MounterConfig" where
  "LoadMounterConfig e = \<lparr>
     mc_DriverName = Env e ''DRIVER_NAME'' DefaultDriverName,
     mc_SocketPath = Env e ''WRAPPER_SOCKET_PATH'' DefaultSocketPath,
     mc_TokenFile = Env e ''PROJECTED_TOKEN_FILE'' DefaultTokenFile,
     mc_TokenAudience = Env e ''TOKEN_AUDIENCE'' DefaultTokenAudience,
     mc_NamespaceFile = Env e ''NAMESPACE_FILE'' DefaultNamespaceFile,
     mc_PodNameFile = Env e ''POD_NAME_FILE'' DefaultPodNameFile,
     mc_PodUIDFile = Env e ''POD_UID_FILE'' DefaultPodUIDFile,
     mc_HTTPTimeout = DurationEnv e ''MOUNTER_HTTP_TIMEOUT'' (15 * Second),
     mc_ExportRootKeyFile = Env e ''EXPORT_ROOT_KEY_FILE'' DefaultExportRootKeyFile\<rparr>"

subsection \<open>The flags of the wrapper command\<close>

text \<open>
  A flag sets a field of the configuration from its argument; a boolean flag may come
  without one.
\<close>

datatype 'c flag_value =
    StringVar "string \<Rightarrow> 'c \<Rightarrow> 'c"
  | BoolVar "bool \<Rightarrow> 'c \<Rightarrow> 'c"
  | Var "string \<Rightarrow> 'c \<Rightarrow> go_error + 'c"

definition created_mode_flag :: "string \<Rightarrow> WrapperConfig \<Rightarrow> go_error + WrapperConfig" where
  "created_mode_flag raw cfg =
     (case fileModeValue_Set raw (wc_CreatedSubPathMode cfg) of
        (Some err, mode) \<Rightarrow> Inl err
      | (None, mode) \<Rightarrow> Inr (cfg\<lparr>wc_CreatedSubPathMode := mode\<rparr>))"

definition bindWrapperFlags :: "(string \<times> WrapperConfig flag_value) list" where
  "bindWrapperFlags =
     [(''driver-name'', StringVar (\<lambda>v. wc_DriverName_update (\<lambda>_. v))),
      (''socket-path'', StringVar (\<lambda>v. wc_SocketPath_update (\<lambda>_. v))),
      (''token-audience'', StringVar (\<lambda>v. wc_TokenAudience_update (\<lambda>_. v))),
      (''kube-token-file'', StringVar (\<lambda>v. wc_KubeTokenFile_update (\<lambda>_. v))),
      (''kube-ca-file'', StringVar (\<lambda>v. wc_KubeCAFile_update (\<lambda>_. v))),
      (''staging-root'', StringVar (\<lambda>v. wc_StagingRoot_update (\<lambda>_. v))),
      (''mount-state-dir'', StringVar (\<lambda>v. wc_MountStateDir_update (\<lambda>_. v))),
      (''node-name'', StringVar (\<lambda>v. wc_NodeName_update (\<lambda>_. v))),
      (''host-proc-root'', StringVar (\<lambda>v. wc_HostProcRoot_update (\<lambda>_. v))),
      (''export-root-key-file'', StringVar (\<lambda>v. wc_ExportRootKeyFile_update (\<lambda>_. v))),
      (''enable-mount'', BoolVar (\<lambda>v. wc_EnableMount_update (\<lambda>_. v))),
      (''unstage-after-mount'', BoolVar (\<lambda>v. wc_UnstageAfterMount_update (\<lambda>_. v))),
      (''create-missing-subpaths'', BoolVar (\<lambda>v. wc_CreateMissingSubPaths_update (\<lambda>_. v))),
      (''created-subpath-mode'', Var created_mode_flag)]"

text \<open>\<open>flag.Parse\<close>: one or two dashes, the argument after an equals sign or as the next word;
  it stops at the first word that is no flag.\<close>

definition flag_error :: "string \<Rightarrow> string \<Rightarrow> go_error" where
  "flag_error msg name = Errorf msg [AStr name]"

definition flag_name :: "string \<Rightarrow> string" where
  "flag_name s = (if s ! 1 = CHR ''-'' then drop 2 s else drop 1 s)"

text \<open>The name up to an equals sign that is not its first character, and the argument.\<close>

definition split_flag :: "string \<Rightarrow> string \<times> string option" where
  "split_flag name =
     (let rest = dropWhile (\<lambda>c. c \<noteq> CHR ''='') (tl name) in
      if rest = [] then (name, None) else (hd name # takeWhile (\<lambda>c. c \<noteq> CHR ''='') (tl name), Some (tl rest)))"

definition set_flag :: "'c flag_value \<Rightarrow> string \<Rightarrow> string \<Rightarrow> 'c \<Rightarrow> go_error + 'c" where
  "set_flag fv name value cfg =
     (case fv of
        StringVar f \<Rightarrow> Inr (f value cfg)
      | BoolVar f \<Rightarrow>
          (case ParseBool value of
             None \<Rightarrow> Inl (Errorf ''invalid boolean value %q for -%s: parse error'' [AStr value, AStr name])
           | Some b \<Rightarrow> Inr (f b cfg))
      | Var f \<Rightarrow>
          (case f value cfg of
             Inl err \<Rightarrow> Inl (Errorf ''invalid value %q for flag -%s: %v'' [AStr value, AStr name, AVal err])
           | Inr cfg \<Rightarrow> Inr cfg))"

definition is_bool_flag :: "'c flag_value \<Rightarrow> bool" where
  "is_bool_flag fv = (case fv of BoolVar f \<Rightarrow> True | _ \<Rightarrow> False)"

text \<open>One flag; with no argument of its own it takes the next word.\<close>

fun flag_parse :: "(string \<times> 'c flag_value) list \<Rightarrow> string list \<Rightarrow> 'c \<Rightarrow> go_error + 'c" where
  "flag_parse flags [] cfg = Inr cfg"
| "flag_parse flags (s # args) cfg =
     (if length s < 2 \<or> hd s \<noteq> CHR ''-'' then Inr cfg
      else if s = ''--'' then Inr cfg
      else
        let name = flag_name s in
        if name = [] \<or> hd name = CHR ''-'' \<or> hd name = CHR ''='' then Inl (flag_error ''bad flag syntax: %s'' s)
        else
          let (name, value) = split_flag name in
          case map_of flags name of
            None \<Rightarrow>
              if name = ''help'' \<or> name = ''h'' then Inl (flag_error ''flag: help requested'' s)
              else Inl (flag_error ''flag provided but not defined: -%s'' name)
          | Some fv \<Rightarrow>
              (case value of
                 Some v \<Rightarrow> (case set_flag fv name v cfg of Inl err \<Rightarrow> Inl err | Inr cfg \<Rightarrow> flag_parse flags args cfg)
               | None \<Rightarrow>
                   if is_bool_flag fv then
                     (case set_flag fv name ''true'' cfg of Inl err \<Rightarrow> Inl err | Inr cfg \<Rightarrow> flag_parse flags args cfg)
                   else
                     (case args of
                        [] \<Rightarrow> Inl (flag_error ''flag needs an argument: -%s'' name)
                      | v # rest \<Rightarrow>
                          (case set_flag fv name v cfg of Inl err \<Rightarrow> Inl err | Inr cfg \<Rightarrow> flag_parse flags rest cfg))))"

text \<open>The first steps of \<open>main\<close>.\<close>

definition wrapper_config :: "env \<Rightarrow> string list \<Rightarrow> go_error + WrapperConfig" where
  "wrapper_config e args =
     (case LoadWrapperConfig e of
        Inl err \<Rightarrow> Inl (Errorf ''load wrapper config: %v'' [AVal err])
      | Inr cfg \<Rightarrow> flag_parse bindWrapperFlags args cfg)"

end
