(* ===== verification/KubeClient.thy ===== *)
theory KubeClient
  imports Server Config NodeText
begin

text \<open>
  The client of the API server, internal/kube/client.go. The transport is a parameter: what
  \<open>http.NewRequest\<close> says to a method and URL, and what \<open>http.Client.Do\<close> answers to a request.
  So are the contents of files. The client turns them into the interface of the handlers,
  \<open>kube_client\<close> of theory Server.
\<close>

subsection \<open>Requests and responses of net/http\<close>

record http_request =
  ht_Method :: string
  ht_URL :: string
  ht_Header :: "(string \<times> string) list"
  ht_Body :: "json option"

text \<open>The body as text, for error details, and the JSON value at its start, if there is one.\<close>

record http_response =
  hp_StatusCode :: int
  hp_Status :: string
  hp_Text :: string
  hp_Json :: "json option"

record transport =
  tp_NewRequest :: "string \<Rightarrow> string \<Rightarrow> go_error option"
  tp_Do :: "http_request \<Rightarrow> go_error + http_response"

subsection \<open>Decoding the API objects (internal/kube/types.go)\<close>

text \<open>A list starts anew; a map keeps its entries; \<open>null\<close> makes both nil; a pointer is
  allocated for a value. An element starts from its zero value.\<close>

fun decode_elements :: "(json \<Rightarrow> 'a option) \<Rightarrow> json list \<Rightarrow> 'a list option" where
  "decode_elements dec [] = Some []"
| "decode_elements dec (j # js) =
     (case dec j of None \<Rightarrow> None
      | Some x \<Rightarrow> (case decode_elements dec js of None \<Rightarrow> None | Some xs \<Rightarrow> Some (x # xs)))"

definition decode_list :: "(json \<Rightarrow> 'a option) \<Rightarrow> json \<Rightarrow> 'a list option" where
  "decode_list dec j = (case j of JArr js \<Rightarrow> decode_elements dec js | JNull \<Rightarrow> Some [] | _ \<Rightarrow> None)"

fun decode_entries :: "(json \<Rightarrow> 'a option) \<Rightarrow> (string \<times> json) list \<Rightarrow> (string \<rightharpoonup> 'a) \<Rightarrow> (string \<rightharpoonup> 'a) option" where
  "decode_entries dec [] m = Some m"
| "decode_entries dec ((k, j) # kvs) m =
     (case dec j of None \<Rightarrow> None | Some x \<Rightarrow> decode_entries dec kvs (m(k \<mapsto> x)))"

definition decode_map :: "(json \<Rightarrow> 'a option) \<Rightarrow> json \<Rightarrow> (string \<rightharpoonup> 'a) \<Rightarrow> (string \<rightharpoonup> 'a) option" where
  "decode_map dec j m = (case j of JObj kvs \<Rightarrow> decode_entries dec kvs m | JNull \<Rightarrow> Some Map.empty | _ \<Rightarrow> None)"

definition decode_ptr :: "(json \<Rightarrow> 'a \<Rightarrow> 'a option) \<Rightarrow> 'a \<Rightarrow> json \<Rightarrow> 'a option \<Rightarrow> 'a option option" where
  "decode_ptr dec zero j cur =
     (if j = JNull then Some None
      else map_option Some (dec j (case cur of None \<Rightarrow> zero | Some x \<Rightarrow> x)))"

abbreviation decode_string :: "json \<Rightarrow> string option" where
  "decode_string j \<equiv> decode_str j []"

text \<open>One field: the decoder of its value and the update of the struct.\<close>

definition into :: "('a \<Rightarrow> 's) \<Rightarrow> 'a option \<Rightarrow> 's option" where
  "into upd v = map_option upd v"

definition set_OwnerReference :: "string \<Rightarrow> json \<Rightarrow> OwnerReference \<Rightarrow> OwnerReference option" where
  "set_OwnerReference k v r =
     (if k = ''apiversion'' then into (\<lambda>x. r\<lparr>or_APIVersion := x\<rparr>) (decode_str v (or_APIVersion r))
      else if k = ''kind'' then into (\<lambda>x. r\<lparr>or_Kind := x\<rparr>) (decode_str v (or_Kind r))
      else if k = ''name'' then into (\<lambda>x. r\<lparr>or_Name := x\<rparr>) (decode_str v (or_Name r))
      else if k = ''uid'' then into (\<lambda>x. r\<lparr>or_UID := x\<rparr>) (decode_str v (or_UID r))
      else Some r)"

definition zero_OwnerReference :: OwnerReference where
  "zero_OwnerReference = \<lparr>or_APIVersion = [], or_Kind = [], or_Name = [], or_UID = []\<rparr>"

definition set_ObjectMeta :: "string \<Rightarrow> json \<Rightarrow> ObjectMeta \<Rightarrow> ObjectMeta option" where
  "set_ObjectMeta k v m =
     (if k = ''name'' then into (\<lambda>x. m\<lparr>om_Name := x\<rparr>) (decode_str v (om_Name m))
      else if k = ''namespace'' then into (\<lambda>x. m\<lparr>om_Namespace := x\<rparr>) (decode_str v (om_Namespace m))
      else if k = ''uid'' then into (\<lambda>x. m\<lparr>om_UID := x\<rparr>) (decode_str v (om_UID m))
      else if k = ''labels'' then into (\<lambda>x. m\<lparr>om_Labels := x\<rparr>) (decode_map decode_string v (om_Labels m))
      else if k = ''annotations'' then into (\<lambda>x. m\<lparr>om_Annotations := x\<rparr>) (decode_map decode_string v (om_Annotations m))
      else if k = ''ownerreferences'' then
        into (\<lambda>x. m\<lparr>om_OwnerReferences := x\<rparr>)
          (decode_list (\<lambda>j. decode_struct set_OwnerReference j zero_OwnerReference) v)
      else Some m)"

definition zero_ObjectMeta :: ObjectMeta where
  "zero_ObjectMeta = \<lparr>om_Name = [], om_Namespace = [], om_UID = [], om_Labels = Map.empty,
     om_Annotations = Map.empty, om_OwnerReferences = []\<rparr>"

definition set_ObjectReference :: "string \<Rightarrow> json \<Rightarrow> ObjectReference \<Rightarrow> ObjectReference option" where
  "set_ObjectReference k v r =
     (if k = ''kind'' then into (\<lambda>x. r\<lparr>oj_Kind := x\<rparr>) (decode_str v (oj_Kind r))
      else if k = ''namespace'' then into (\<lambda>x. r\<lparr>oj_Namespace := x\<rparr>) (decode_str v (oj_Namespace r))
      else if k = ''name'' then into (\<lambda>x. r\<lparr>oj_Name := x\<rparr>) (decode_str v (oj_Name r))
      else if k = ''uid'' then into (\<lambda>x. r\<lparr>oj_UID := x\<rparr>) (decode_str v (oj_UID r))
      else Some r)"

definition zero_ObjectReference :: ObjectReference where
  "zero_ObjectReference = \<lparr>oj_Kind = [], oj_Namespace = [], oj_Name = [], oj_UID = []\<rparr>"

definition set_TokenReviewUser :: "string \<Rightarrow> json \<Rightarrow> TokenReviewUser \<Rightarrow> TokenReviewUser option" where
  "set_TokenReviewUser k v u =
     (if k = ''username'' then into (\<lambda>x. u\<lparr>tu_Username := x\<rparr>) (decode_str v (tu_Username u))
      else if k = ''uid'' then into (\<lambda>x. u\<lparr>tu_UID := x\<rparr>) (decode_str v (tu_UID u))
      else if k = ''groups'' then into (\<lambda>x. u\<lparr>tu_Groups := x\<rparr>) (decode_list decode_string v)
      else if k = ''extra'' then into (\<lambda>x. u\<lparr>tu_Extra := x\<rparr>) (decode_map (decode_list decode_string) v (tu_Extra u))
      else Some u)"

definition set_TokenReviewStatus :: "string \<Rightarrow> json \<Rightarrow> TokenReviewStatus \<Rightarrow> TokenReviewStatus option" where
  "set_TokenReviewStatus k v s =
     (if k = ''authenticated'' then into (\<lambda>x. s\<lparr>ts_Authenticated := x\<rparr>) (decode_bool v (ts_Authenticated s))
      else if k = ''audiences'' then into (\<lambda>x. s\<lparr>ts_Audiences := x\<rparr>) (decode_list decode_string v)
      else if k = ''user'' then into (\<lambda>x. s\<lparr>ts_User := x\<rparr>) (decode_struct set_TokenReviewUser v (ts_User s))
      else if k = ''error'' then into (\<lambda>x. s\<lparr>ts_Error := x\<rparr>) (decode_str v (ts_Error s))
      else Some s)"

definition zero_TokenReviewStatus :: TokenReviewStatus where
  "zero_TokenReviewStatus = \<lparr>ts_Authenticated = False, ts_Audiences = [],
     ts_User = \<lparr>tu_Username = [], tu_UID = [], tu_Groups = [], tu_Extra = Map.empty\<rparr>, ts_Error = []\<rparr>"

record TokenReviewResponse =
  tr_Status :: TokenReviewStatus

definition set_TokenReviewResponse :: "string \<Rightarrow> json \<Rightarrow> TokenReviewResponse \<Rightarrow> TokenReviewResponse option" where
  "set_TokenReviewResponse k v r =
     (if k = ''status'' then into (\<lambda>x. r\<lparr>tr_Status := x\<rparr>) (decode_struct set_TokenReviewStatus v (tr_Status r))
      else Some r)"

definition set_EnvVar :: "string \<Rightarrow> json \<Rightarrow> EnvVar \<Rightarrow> EnvVar option" where
  "set_EnvVar k v e =
     (if k = ''name'' then into (\<lambda>x. e\<lparr>ev_Name := x\<rparr>) (decode_str v (ev_Name e))
      else if k = ''value'' then into (\<lambda>x. e\<lparr>ev_Value := x\<rparr>) (decode_str v (ev_Value e))
      else Some e)"

definition set_Container :: "string \<Rightarrow> json \<Rightarrow> Container \<Rightarrow> Container option" where
  "set_Container k v c =
     (if k = ''name'' then into (\<lambda>x. c\<lparr>cn_Name := x\<rparr>) (decode_str v (cn_Name c))
      else if k = ''env'' then
        into (\<lambda>x. c\<lparr>cn_Env := x\<rparr>) (decode_list (\<lambda>j. decode_struct set_EnvVar j \<lparr>ev_Name = [], ev_Value = []\<rparr>) v)
      else Some c)"

definition set_PersistentVolumeClaim :: "string \<Rightarrow> json \<Rightarrow> PersistentVolumeClaim \<Rightarrow> PersistentVolumeClaim option" where
  "set_PersistentVolumeClaim k v c =
     (if k = ''claimname'' then into (\<lambda>x. c\<lparr>pc_ClaimName := x\<rparr>) (decode_str v (pc_ClaimName c))
      else if k = ''readonly'' then into (\<lambda>x. c\<lparr>pc_ReadOnly := x\<rparr>) (decode_bool v (pc_ReadOnly c))
      else Some c)"

definition set_Volume :: "string \<Rightarrow> json \<Rightarrow> Volume \<Rightarrow> Volume option" where
  "set_Volume k v c =
     (if k = ''name'' then into (\<lambda>x. c\<lparr>vl_Name := x\<rparr>) (decode_str v (vl_Name c))
      else if k = ''persistentvolumeclaim'' then
        into (\<lambda>x. c\<lparr>vl_PersistentVolumeClaim := x\<rparr>)
          (decode_ptr (decode_struct set_PersistentVolumeClaim) \<lparr>pc_ClaimName = [], pc_ReadOnly = False\<rparr> v
             (vl_PersistentVolumeClaim c))
      else Some c)"

definition set_PodSpec :: "string \<Rightarrow> json \<Rightarrow> PodSpec \<Rightarrow> PodSpec option" where
  "set_PodSpec k v s =
     (if k = ''serviceaccountname'' then into (\<lambda>x. s\<lparr>sp_ServiceAccountName := x\<rparr>) (decode_str v (sp_ServiceAccountName s))
      else if k = ''nodename'' then into (\<lambda>x. s\<lparr>sp_NodeName := x\<rparr>) (decode_str v (sp_NodeName s))
      else if k = ''volumes'' then
        into (\<lambda>x. s\<lparr>sp_Volumes := x\<rparr>)
          (decode_list (\<lambda>j. decode_struct set_Volume j \<lparr>vl_Name = [], vl_PersistentVolumeClaim = None\<rparr>) v)
      else if k = ''containers'' then
        into (\<lambda>x. s\<lparr>sp_Containers := x\<rparr>)
          (decode_list (\<lambda>j. decode_struct set_Container j \<lparr>cn_Name = [], cn_Env = []\<rparr>) v)
      else Some s)"

definition set_ContainerStatus :: "string \<Rightarrow> json \<Rightarrow> ContainerStatus \<Rightarrow> ContainerStatus option" where
  "set_ContainerStatus k v s =
     (if k = ''name'' then into (\<lambda>x. s\<lparr>cs_Name := x\<rparr>) (decode_str v (cs_Name s))
      else if k = ''containerid'' then into (\<lambda>x. s\<lparr>cs_ContainerID := x\<rparr>) (decode_str v (cs_ContainerID s))
      else if k = ''ready'' then into (\<lambda>x. s\<lparr>cs_Ready := x\<rparr>) (decode_bool v (cs_Ready s))
      else Some s)"

definition set_PodStatus :: "string \<Rightarrow> json \<Rightarrow> PodStatus \<Rightarrow> PodStatus option" where
  "set_PodStatus k v s =
     (if k = ''phase'' then into (\<lambda>x. s\<lparr>ps_Phase := x\<rparr>) (decode_str v (ps_Phase s))
      else if k = ''containerstatuses'' then
        into (\<lambda>x. s\<lparr>ps_ContainerStatuses := x\<rparr>)
          (decode_list (\<lambda>j. decode_struct set_ContainerStatus j \<lparr>cs_Name = [], cs_ContainerID = [], cs_Ready = False\<rparr>) v)
      else Some s)"

definition set_Pod :: "string \<Rightarrow> json \<Rightarrow> Pod \<Rightarrow> Pod option" where
  "set_Pod k v p =
     (if k = ''metadata'' then into (\<lambda>x. p\<lparr>pod_Metadata := x\<rparr>) (decode_struct set_ObjectMeta v (pod_Metadata p))
      else if k = ''spec'' then into (\<lambda>x. p\<lparr>pod_Spec := x\<rparr>) (decode_struct set_PodSpec v (pod_Spec p))
      else if k = ''status'' then into (\<lambda>x. p\<lparr>pod_Status := x\<rparr>) (decode_struct set_PodStatus v (pod_Status p))
      else Some p)"

definition zero_Pod :: Pod where
  "zero_Pod = \<lparr>pod_Metadata = zero_ObjectMeta,
     pod_Spec = \<lparr>sp_ServiceAccountName = [], sp_NodeName = [], sp_Volumes = [], sp_Containers = []\<rparr>,
     pod_Status = \<lparr>ps_Phase = [], ps_ContainerStatuses = []\<rparr>\<rparr>"

definition set_CSIPersistentVolumeSource ::
  "string \<Rightarrow> json \<Rightarrow> CSIPersistentVolumeSource \<Rightarrow> CSIPersistentVolumeSource option" where
  "set_CSIPersistentVolumeSource k v s =
     (if k = ''driver'' then into (\<lambda>x. s\<lparr>csi_Driver := x\<rparr>) (decode_str v (csi_Driver s))
      else if k = ''volumehandle'' then into (\<lambda>x. s\<lparr>csi_VolumeHandle := x\<rparr>) (decode_str v (csi_VolumeHandle s))
      else if k = ''volumeattributes'' then
        into (\<lambda>x. s\<lparr>csi_VolumeAttributes := x\<rparr>) (decode_map decode_string v (csi_VolumeAttributes s))
      else Some s)"

definition set_PersistentVolumeSpec :: "string \<Rightarrow> json \<Rightarrow> PersistentVolumeSpec \<Rightarrow> PersistentVolumeSpec option" where
  "set_PersistentVolumeSpec k v s =
     (if k = ''claimref'' then
        into (\<lambda>x. s\<lparr>vs_ClaimRef := x\<rparr>)
          (decode_ptr (decode_struct set_ObjectReference) zero_ObjectReference v (vs_ClaimRef s))
      else if k = ''csi'' then
        into (\<lambda>x. s\<lparr>vs_CSI := x\<rparr>)
          (decode_ptr (decode_struct set_CSIPersistentVolumeSource)
             \<lparr>csi_Driver = [], csi_VolumeHandle = [], csi_VolumeAttributes = Map.empty\<rparr> v (vs_CSI s))
      else if k = ''mountoptions'' then into (\<lambda>x. s\<lparr>vs_MountOptions := x\<rparr>) (decode_list decode_string v)
      else Some s)"

definition set_PersistentVolume :: "string \<Rightarrow> json \<Rightarrow> PersistentVolume \<Rightarrow> PersistentVolume option" where
  "set_PersistentVolume k v p =
     (if k = ''metadata'' then into (\<lambda>x. p\<lparr>pv_Metadata := x\<rparr>) (decode_struct set_ObjectMeta v (pv_Metadata p))
      else if k = ''spec'' then into (\<lambda>x. p\<lparr>pv_Spec := x\<rparr>) (decode_struct set_PersistentVolumeSpec v (pv_Spec p))
      else Some p)"

definition zero_PersistentVolume :: PersistentVolume where
  "zero_PersistentVolume = \<lparr>pv_Metadata = zero_ObjectMeta,
     pv_Spec = \<lparr>vs_ClaimRef = None, vs_CSI = None, vs_MountOptions = []\<rparr>\<rparr>"

subsection \<open>The client\<close>

record Client =
  cl_baseURL :: string
  cl_tokenFile :: string
  cl_http :: transport

definition readBearerTokenFile :: "(string \<Rightarrow> go_error + string) \<Rightarrow> string \<Rightarrow> go_error + string" where
  "readBearerTokenFile readFile tokenFile =
     (case readFile tokenFile of
        Inl err \<Rightarrow> Inl (Errorf ''read kubernetes token file: %w'' [AWrap err])
      | Inr tokenBytes \<Rightarrow>
          let token = TrimSpace tokenBytes in
          if token = [] then Inl (Errorf ''kubernetes token file is empty'' []) else Inr token)"

text \<open>The \<open>url.URL\<close> that is built gives its host back unchanged.\<close>

definition netJoinHostPort :: "string \<Rightarrow> string \<Rightarrow> string" where
  "netJoinHostPort host port =
     (if Contains host '':'' \<and> \<not> HasPrefix host ''['' then ''['' @ host @ '']:'' @ port
      else host @ '':'' @ port)"

text \<open>
  The certificate pool changes the transport only, and the core client of client-go, whose
  construction may fail, is used by the informer only; \<open>newCore\<close> is its error.
\<close>

definition NewInClusterClient ::
  "env \<Rightarrow> (string \<Rightarrow> go_error + string) \<Rightarrow> go_error option \<Rightarrow> transport \<Rightarrow> string \<Rightarrow> go_error + Client" where
  "NewInClusterClient e readFile newCore http tokenFile =
     (let host = e ''KUBERNETES_SERVICE_HOST''; port = e ''KUBERNETES_SERVICE_PORT'' in
      if host = [] \<or> port = [] then
        Inl (Errorf ''KUBERNETES_SERVICE_HOST and KUBERNETES_SERVICE_PORT must be set'' [])
      else
        (case readBearerTokenFile readFile tokenFile of
           Inl err \<Rightarrow> Inl err
         | Inr _ \<Rightarrow>
             (case newCore of
                Some err \<Rightarrow> Inl (Errorf ''create kubernetes core client: %w'' [AWrap err])
              | None \<Rightarrow> Inr \<lparr>cl_baseURL = ''https://'' @ netJoinHostPort host port,
                  cl_tokenFile = tokenFile, cl_http = http\<rparr>)))"

text \<open>
  \<open>do\<close>: the token file is read for every request. A response outside the 200s is an
  \<open>APIError\<close> with at most 4096 bytes of its body.
\<close>

definition kube_do ::
  "(string \<Rightarrow> go_error + string) \<Rightarrow> Client \<Rightarrow> string \<Rightarrow> string \<Rightarrow> json option \<Rightarrow> go_error + http_response" where
  "kube_do readFile c meth resourcePath body =
     (let endpoint = cl_baseURL c @ resourcePath in
      case tp_NewRequest (cl_http c) meth endpoint of
        Some err \<Rightarrow> Inl (Errorf ''create kubernetes request: %w'' [AWrap err])
      | None \<Rightarrow>
          (case readBearerTokenFile readFile (cl_tokenFile c) of
             Inl err \<Rightarrow> Inl err
           | Inr token \<Rightarrow>
               let req = \<lparr>ht_Method = meth, ht_URL = endpoint,
                     ht_Header = [(''Accept'', ''application/json'')] @
                       (if body \<noteq> None then [(''Content-Type'', ''application/json'')] else []) @
                       [(''Authorization'', ''Bearer '' @ token)],
                     ht_Body = body\<rparr>
               in (case tp_Do (cl_http c) req of
                     Inl err \<Rightarrow> Inl (Errorf ''call kubernetes api %s %s: %w'' [AStr meth, AStr resourcePath, AWrap err])
                   | Inr resp \<Rightarrow>
                       if hp_StatusCode resp < 200 \<or> hp_StatusCode resp \<ge> 300 then
                         Inl (ApiError \<lparr>ae_Method = meth, ae_Path = resourcePath,
                           ae_StatusCode = hp_StatusCode resp, ae_Status = hp_Status resp,
                           ae_Detail = TrimSpace (take 4096 (hp_Text resp))\<rparr>)
                       else Inr resp)))"

text \<open>Decoding into \<open>out\<close>; what is not JSON or does not fit is an error.\<close>

definition kube_decode :: "(string \<Rightarrow> json \<Rightarrow> 'a \<Rightarrow> 'a option) \<Rightarrow> 'a \<Rightarrow> string \<Rightarrow> string \<Rightarrow>
    go_error + http_response \<Rightarrow> go_error + 'a" where
  "kube_decode setter zero meth resourcePath r =
     (case r of
        Inl err \<Rightarrow> Inl err
      | Inr resp \<Rightarrow>
          (case Option.bind (hp_Json resp) (\<lambda>j. decode_struct setter j zero) of
             None \<Rightarrow> Inl (Errorf ''decode kubernetes response %s %s: %w''
               [AStr meth, AStr resourcePath, AWrap (Sentinel (Errno ''json''))])
           | Some x \<Rightarrow> Inr x))"

definition encode_TokenReviewRequest :: "string \<Rightarrow> string list \<Rightarrow> json" where
  "encode_TokenReviewRequest token audiences = JObj
     [(''apiVersion'', JStr ''authentication.k8s.io/v1''), (''kind'', JStr ''TokenReview''),
      (''spec'', JObj ([(''token'', JStr token)] @
         (if audiences = [] then [] else [(''audiences'', JArr (map JStr audiences))])))]"

definition token_reviews :: string where
  "token_reviews = ''/apis/authentication.k8s.io/v1/tokenreviews''"

definition ReviewToken ::
  "(string \<Rightarrow> go_error + string) \<Rightarrow> Client \<Rightarrow> string \<Rightarrow> string list \<Rightarrow> go_error + TokenReviewStatus option" where
  "ReviewToken readFile c token audiences =
     (case kube_decode set_TokenReviewResponse \<lparr>tr_Status = zero_TokenReviewStatus\<rparr> ''POST'' token_reviews
             (kube_do readFile c ''POST'' token_reviews (Some (encode_TokenReviewRequest token audiences))) of
        Inl err \<Rightarrow> Inl err
      | Inr response \<Rightarrow> Inr (Some (tr_Status response)))"

definition pod_path :: "string \<Rightarrow> string \<Rightarrow> string" where
  "pod_path namespace name = path_Join [''/api/v1/namespaces'', namespace, ''pods'', name]"

definition GetPod :: "(string \<Rightarrow> go_error + string) \<Rightarrow> Client \<Rightarrow> string \<Rightarrow> string \<Rightarrow> go_error + Pod" where
  "GetPod readFile c namespace name =
     (let resourcePath = pod_path namespace name in
      kube_decode set_Pod zero_Pod ''GET'' resourcePath (kube_do readFile c ''GET'' resourcePath None))"

definition GetPersistentVolume :: "(string \<Rightarrow> go_error + string) \<Rightarrow> Client \<Rightarrow> string \<Rightarrow> go_error + PersistentVolume" where
  "GetPersistentVolume readFile c name =
     (let resourcePath = path_Join [''/api/v1/persistentvolumes'', name] in
      kube_decode set_PersistentVolume zero_PersistentVolume ''GET'' resourcePath
        (kube_do readFile c ''GET'' resourcePath None))"

text \<open>The client as the handlers see it.\<close>

definition kube_client_of :: "(string \<Rightarrow> go_error + string) \<Rightarrow> Client \<Rightarrow> kube_client" where
  "kube_client_of readFile c = \<lparr>kc_ReviewToken = ReviewToken readFile c, kc_GetPod = GetPod readFile c,
     kc_GetPersistentVolume = GetPersistentVolume readFile c\<rparr>"

end
