(* ===== verification/WrapperMain.thy ===== *)
theory WrapperMain
  imports KubeClient NodeServer
begin

text \<open>
  The start of the wrapper command, cmd/wrapper/main.go: configuration and flags, the API
  client, the cleanup of the staging root, the server with its state directory, and the Unix
  socket; and how \<open>main\<close> ends. In between it serves requests and runs the reconciler: theories
  Concurrent and Running.
\<close>

subsection \<open>The socket\<close>

text \<open>\<open>filepath.Dir\<close>.\<close>

definition path_Dir :: "string \<Rightarrow> string" where
  "path_Dir p = path_Clean (rev (dropWhile (\<lambda>c. c \<noteq> CHR ''/'') (rev p)))"

text \<open>\<open>os.Lstat\<close> answers with the mode as it is printed, which has an \<open>S\<close> for a socket among the
  type letters before the permissions.\<close>

definition is_socket :: "string \<Rightarrow> bool" where
  "is_socket stat \<longleftrightarrow> CHR ''S'' \<in> set stat"

text \<open>What \<open>Lstat\<close> says of the path once its directory has been made.\<close>

definition socket_at :: "string \<Rightarrow> world \<Rightarrow> bool" where
  "socket_at path w \<longleftrightarrow>
     is_socket (kn_text (wd_kernel w) (answer w (OsMkdirAll (path_Dir path) 0x1E8) # wd_trace w) (OsLstat path))"

definition listenUnix :: "string \<Rightarrow> 32 word \<Rightarrow> world \<Rightarrow> (go_error + int) \<times> world" where
  "listenUnix socketPath mode w =
     (case call_err (OsMkdirAll (path_Dir socketPath) 0x1E8) w of
        (Some err, w) \<Rightarrow> (Inl (Errorf ''create socket directory: %w'' [AWrap err]), w)
      | (None, w) \<Rightarrow>
          (let ((stat, err), w) = call_text (OsLstat socketPath) w in
           if err = None \<and> \<not> is_socket stat then
             (Inl (Errorf ''%s exists and is not a socket'' [AStr socketPath]), w)
           else
             (case (if err = None then call_err (OsRemove socketPath) w else (None, w)) of
                (Some err, w) \<Rightarrow> (Inl (Errorf ''remove stale socket: %w'' [AWrap err]), w)
              | (None, w) \<Rightarrow>
                  (case call_fd (NetListen socketPath) w of
                     (Inl err, w) \<Rightarrow> (Inl err, w)
                   | (Inr listener, w) \<Rightarrow>
                       (case call_err (OsChmod socketPath mode) w of
                          (Some err, w) \<Rightarrow> (Inl (Errorf ''chmod socket: %w'' [AWrap err]), close listener w)
                        | (None, w) \<Rightarrow> (Inr listener, w))))))"

subsection \<open>main\<close>

definition node_config :: "WrapperConfig \<Rightarrow> NodeConfig" where
  "node_config cfg = \<lparr>nc_DriverName = wc_DriverName cfg, nc_StagingRoot = wc_StagingRoot cfg,
     nc_HostProcRoot = wc_HostProcRoot cfg, nc_EnableMount = wc_EnableMount cfg,
     nc_UnstageAfterMount = wc_UnstageAfterMount cfg, nc_CreateMissingSubPaths = wc_CreateMissingSubPaths cfg,
     nc_CreatedSubPathMode = wc_CreatedSubPathMode cfg, nc_Timeout = wc_RequestTimeout cfg\<rparr>"

definition clean_start :: "WrapperConfig \<Rightarrow> world \<Rightarrow> world" where
  "clean_start cfg w =
     (if wc_UnstageAfterMount cfg then
        (case CleanupStagingRoot (wc_StagingRoot cfg) w of
           (Some err, w) \<Rightarrow> record_call (Warning (''warning: cleanup staging root '' @ wc_StagingRoot cfg)) w
         | (None, w) \<Rightarrow> w)
      else w)"

definition start_wrapper ::
  "env \<Rightarrow> string list \<Rightarrow> (string \<Rightarrow> go_error + string) \<Rightarrow> go_error option \<Rightarrow> transport \<Rightarrow> world \<Rightarrow> disk \<Rightarrow>
   (go_error + world Server \<times> int) \<times> world \<times> disk" where
  "start_wrapper e args readFile newCore http w d =
     (case wrapper_config e args of
        Inl err \<Rightarrow> (Inl err, w, d)
      | Inr cfg \<Rightarrow>
          (case NewInClusterClient e readFile newCore http (wc_KubeTokenFile cfg) of
             Inl err \<Rightarrow> (Inl (Errorf ''create kubernetes client: %v'' [AVal err]), w, d)
           | Inr kubeClient \<Rightarrow>
               (let nodeMounter = NewMounter (node_config cfg); w = clean_start cfg w in
                case NewServer readFile cfg (kube_client_of readFile kubeClient) nodeMounter w d of
                  (Inl err, d) \<Rightarrow> (Inl (Errorf ''create wrapper server: %v'' [AVal err]), w, d)
                | (Inr wrapperServer, d) \<Rightarrow>
                    (case listenUnix (wc_SocketPath cfg) (wc_SocketMode cfg) w of
                       (Inl err, w) \<Rightarrow> (Inl (Errorf ''listen on unix socket: %v'' [AVal err]), w, d)
                     | (Inr listener, w) \<Rightarrow> (Inr (wrapperServer\<lparr>sv_node := w\<rparr>, listener), w, d)))))"

text \<open>
  Serving ends with a signal, after which \<open>Shutdown\<close> may fail, or when \<open>Serve\<close> returns. The result
  is the error \<open>main\<close> exits with.
\<close>

datatype serve_end = Signalled "go_error option" | ServeReturned go_error

definition ErrServerClosed :: sentinel where
  "ErrServerClosed = Errno ''http: Server closed''"

definition wrapper_exit :: "serve_end \<Rightarrow> go_error option" where
  "wrapper_exit ending =
     (case ending of
        Signalled shutdown \<Rightarrow> None
      | ServeReturned err \<Rightarrow>
          if \<not> errors_Is ErrServerClosed err then Some (Errorf ''server failed: %v'' [AVal err]) else None)"

subsection \<open>The node mounter of other systems\<close>

text \<open>internal/node/mounter_unsupported.go.\<close>

definition unsupported_Mount :: "MountPlan \<Rightarrow> 'n \<Rightarrow> go_error option \<times> 'n" where
  "unsupported_Mount plan n = (Some (Errorf ''node mount is only supported on linux'' []), n)"

definition unsupported_Unmount :: "MountPlan \<Rightarrow> 'n \<Rightarrow> go_error option \<times> 'n" where
  "unsupported_Unmount plan n = (Some (Errorf ''node unmount is only supported on linux'' []), n)"

definition unsupported_IsMounted :: "MountPlan \<Rightarrow> 'n \<Rightarrow> (go_error + bool) \<times> 'n" where
  "unsupported_IsMounted plan n = (Inl (Errorf ''node mount inspection is only supported on linux'' []), n)"

definition unsupported_NewMounter :: "NodeConfig \<Rightarrow> 'n Mounter" where
  "unsupported_NewMounter cfg = \<lparr>nm_Mount = unsupported_Mount, nm_Unmount = unsupported_Unmount,
     nm_IsMounted = unsupported_IsMounted\<rparr>"

definition unsupported_CleanupStagingRoot :: "string \<Rightarrow> 'n \<Rightarrow> go_error option \<times> 'n" where
  "unsupported_CleanupStagingRoot root n = (None, n)"

subsection \<open>The mode for new directories\<close>

definition mode_value :: "32 word \<Rightarrow> int \<Rightarrow> bool" where
  "mode_value mode n \<longleftrightarrow> 1 \<le> n \<and> n \<le> 0xFFF \<and> mode = file_mode_of n"

lemma mode_value_default: "mode_value DefaultCreatedSubPathMode 0x1F8"
  by (simp add: mode_value_def DefaultCreatedSubPathMode_def file_mode_of_def mode_bit_def)

lemma mode_value_parsed: "ParseFileMode v = Inr m \<Longrightarrow> mode_value m (digits_value 8 v)"
  by (simp add: ParseFileMode_iff mode_value_def)

lemma mode_value_mkdirat:
  assumes "mode_value mode n"
  shows "createdSubPathUnixMode mode = of_int n"
proof -
  have n: "1 \<le> n" "n \<le> 0xFFF" "mode = file_mode_of n" using assms by (simp_all add: mode_value_def)
  have b: "unix_bits (file_mode_of n) = of_int n" using n by (intro unix_bits_file_mode_of) simp_all
  have "file_mode_of n \<noteq> 0"
  proof
    assume "file_mode_of n = 0"
    then have "(of_int n :: 32 word) = unix_bits 0" using b by simp
    also have "\<dots> = 0" by (simp add: unix_bits_def mode_bit_def)
    finally have "uint (of_int n :: 32 word) = 0" by simp
    moreover have "uint (of_int n :: 32 word) = n" using n by (simp add: unsigned_of_int take_bit_int_eq_self)
    ultimately show False using n by simp
  qed
  then show ?thesis using b n(3) by (simp add: createdSubPathUnixMode_def)
qed

lemma LoadWrapperConfig_mode:
  assumes "LoadWrapperConfig e = Inr cfg"
  shows "mode_value (wc_CreatedSubPathMode cfg)
    (if e ''WRAPPER_CREATED_SUBPATH_MODE'' = [] then 0x1F8 else digits_value 8 (e ''WRAPPER_CREATED_SUBPATH_MODE''))"
proof -
  obtain m where m: "StrictFileModeEnv e ''WRAPPER_CREATED_SUBPATH_MODE'' DefaultCreatedSubPathMode = Inr m"
    and c: "wc_CreatedSubPathMode cfg = m"
    using assms by (auto simp: LoadWrapperConfig_def split: sum.splits)
  show ?thesis
    using m mode_value_default mode_value_parsed
    by (auto simp: c StrictFileModeEnv_def Let_def split: if_splits sum.splits)
qed

text \<open>One round of the flag parser.\<close>

lemma flag_parse_step:
  assumes "flag_parse flags (s # args) cfg = Inr cfg'"
  shows "cfg' = cfg \<or> (\<exists>name fv v c rest. map_of flags name = Some fv \<and> set_flag fv name v cfg = Inr c \<and>
    flag_parse flags rest c = Inr cfg' \<and> length rest \<le> length args)"
  using assms
  by (auto simp: Let_def split: if_splits prod.splits option.splits sum.splits list.splits) (metis le_Suc_eq length_Cons order_refl)+

lemma flag_parse_invariant:
  assumes P: "\<And>name fv v c c'. map_of flags name = Some fv \<Longrightarrow> set_flag fv name v c = Inr c' \<Longrightarrow> P c \<Longrightarrow> P c'"
    and "flag_parse flags args cfg = Inr cfg'" and "P cfg"
  shows "P cfg'"
  using assms(2,3)
proof (induction args arbitrary: cfg rule: length_induct)
  case (1 args)
  show ?case
  proof (cases args)
    case (Cons s rest)
    from flag_parse_step [OF "1.prems"(1) [unfolded Cons]] show ?thesis
    proof (elim disjE exE conjE)
      fix name fv v c rest'
      assume "map_of flags name = Some fv" "set_flag fv name v cfg = Inr c" and run: "flag_parse flags rest' c = Inr cfg'"
        and "length rest' \<le> length rest"
      moreover from calculation(1,2) have "P c" using P "1.prems"(2) by blast
      ultimately show ?thesis using "1.IH" [rule_format, of rest' c] Cons by simp
    qed (use "1.prems"(2) in simp)
  qed (use "1.prems" in simp)
qed

lemma wrapper_flags_mode:
  assumes "map_of bindWrapperFlags name = Some fv" and "set_flag fv name v c = Inr c'"
    and "\<exists>n. mode_value (wc_CreatedSubPathMode c) n"
  shows "\<exists>n. mode_value (wc_CreatedSubPathMode c') n"
proof (cases "name = ''created-subpath-mode''")
  case True
  then have "fv = Var created_mode_flag" using assms(1) by (simp add: bindWrapperFlags_def)
  then show ?thesis
    using assms(2)
    by (auto simp: set_flag_def created_mode_flag_def fileModeValue_Set_def split: prod.splits option.splits sum.splits)
      (blast intro: mode_value_parsed)
next
  case False
  have "wc_CreatedSubPathMode c' = wc_CreatedSubPathMode c"
    using assms(1,2) False
    by (auto simp: bindWrapperFlags_def set_flag_def split: if_splits option.splits)
  then show ?thesis using assms(3) by simp
qed

lemma wrapper_config_mode:
  assumes "wrapper_config e args = Inr cfg"
  shows "\<exists>n. mode_value (wc_CreatedSubPathMode cfg) n"
proof -
  obtain cfg0 where l: "LoadWrapperConfig e = Inr cfg0" and f: "flag_parse bindWrapperFlags args cfg0 = Inr cfg"
    using assms by (auto simp: wrapper_config_def split: sum.splits)
  show ?thesis
    by (rule flag_parse_invariant [OF wrapper_flags_mode f]) (use LoadWrapperConfig_mode [OF l] in blast)+
qed

subsection \<open>The socket is safe to replace\<close>

lemma listenUnix_calls:
  assumes "listenUnix path mode w = (r, w')"
  obtains cs where "calls w' = calls w @ cs" and "\<And>p. OsRemove p \<in> set cs \<Longrightarrow> p = path \<and> socket_at path w"
    and "\<And>fd. r = Inr fd \<Longrightarrow> \<exists>pre. cs = pre @ [NetListen path, OsChmod path mode]"
proof -
  define stat where "stat = kn_text (wd_kernel w) (answer w (OsMkdirAll (path_Dir path) 0x1E8) # wd_trace w) (OsLstat path)"
  have at: "socket_at path w = is_socket stat" by (simp add: socket_at_def stat_def)
  obtain e1 w1 where c1: "call_err (OsMkdirAll (path_Dir path) 0x1E8) w = (e1, w1)" by fastforce
  have w1: "w1 = snd (kcall (OsMkdirAll (path_Dir path) 0x1E8) w)" by (rule call_err_world [OF c1])
  obtain st e2 w2 where c2: "call_text (OsLstat path) w1 = ((st, e2), w2)" by (metis surj_pair)
  have st: "st = stat" and w2: "w2 = snd (kcall (OsLstat path) w1)"
    using c2 by (auto simp: call_text_def call_err_def stat_def w1 split: prod.splits)
  define rm where "rm = (if e2 = None then call_err (OsRemove path) w2 else (None, w2))"
  obtain e3 w3 where c3: "rm = (e3, w3)" by fastforce
  have w3: "calls w3 = calls w2 @ (if e2 = None then [OsRemove path] else [])"
    using c3 call_err_world [of "OsRemove path" w2 e3 w3] by (auto simp: rm_def split: if_splits)
  obtain e4 w4 where c4: "call_fd (NetListen path) w3 = (e4, w4)" by fastforce
  have w4: "calls w4 = calls w3 @ [NetListen path]" using call_runs(4) [of "NetListen path" w3] c4 by simp
  obtain e5 w5 where c5: "call_err (OsChmod path mode) w4 = (e5, w5)" by fastforce
  have w5: "calls w5 = calls w4 @ [OsChmod path mode]" by (rule calls_call_err [OF c5])
  consider "e1 \<noteq> None" | "e1 = None" "e2 = None" "\<not> is_socket stat" | "e1 = None" "e2 = None \<longrightarrow> is_socket stat" by blast
  then show ?thesis
  proof cases
    case 1
    then have "w' = w1 \<and> (\<exists>e. r = Inl e)" using assms(1) c1 by (auto simp: listenUnix_def)
    then show ?thesis using that [of "[OsMkdirAll (path_Dir path) 0x1E8]"] w1 by auto
  next
    case 2
    then have "w' = w2 \<and> (\<exists>e. r = Inl e)" using assms(1) c1 c2 st by (auto simp: listenUnix_def)
    then show ?thesis using that [of "[OsMkdirAll (path_Dir path) 0x1E8, OsLstat path]"] w1 w2 by auto
  next
    case 3
    let ?cs = "[OsMkdirAll (path_Dir path) 0x1E8, OsLstat path] @ (if e2 = None then [OsRemove path] else [])"
    have k: "calls w3 = calls w @ ?cs" using w1 w2 w3 by simp
    have "(e3 \<noteq> None \<and> w' = w3 \<and> (\<exists>e. r = Inl e)) \<or> (\<exists>e. w' = w4 \<and> r = Inl e) \<or> (\<exists>fd e. w' = close fd w5 \<and> r = Inl e) \<or>
        (\<exists>fd. w' = w5 \<and> r = Inr fd)"
      using assms(1) 3 c1 c2 c3 c4 c5 st
      by (cases e2; cases e3; cases e4; cases e5) (auto simp: listenUnix_def rm_def)
    then show ?thesis
    proof (elim disjE exE conjE)
      fix e assume "w' = w3" "r = Inl e"
      then show ?thesis using that [of ?cs] k 3(2) at by (auto split: if_splits)
    next
      fix e assume "w' = w4" "r = Inl e"
      then show ?thesis using that [of "?cs @ [NetListen path]"] k w4 3(2) at by (auto split: if_splits)
    next
      fix fd e assume "w' = close fd w5" "r = Inl e"
      then show ?thesis using that [of "?cs @ [NetListen path, OsChmod path mode, SysClose fd]"] k w4 w5 3(2) at
        by (auto split: if_splits)
    next
      fix fd assume "w' = w5" "r = Inr fd"
      then show ?thesis using that [of "?cs @ [NetListen path, OsChmod path mode]"] k w4 w5 3(2) at by (auto split: if_splits)
    qed
  qed
qed

subsection \<open>A wrapper that has started\<close>

lemma listenUnix_holding:
  assumes "listenUnix path mode w = (r, w')"
  shows "case r of Inl e \<Rightarrow> fd_tidy w w' | Inr fd \<Rightarrow> opened fd w w'"
proof -
  have ret: "returns_fd (NetListen path)" by (simp add: returns_fd_def)
  obtain e1 w1 where c1: "call_err (OsMkdirAll (path_Dir path) 0x1E8) w = (e1, w1)" by fastforce
  obtain st e2 w2 where c2: "call_text (OsLstat path) w1 = ((st, e2), w2)" by (metis surj_pair)
  define rm where "rm = (if e2 = None then call_err (OsRemove path) w2 else (None, w2))"
  obtain e3 w3 where c3: "rm = (e3, w3)" by fastforce
  obtain e4 w4 where c4: "call_fd (NetListen path) w3 = (e4, w4)" by fastforce
  obtain e5 w5 where c5: "call_err (OsChmod path mode) w4 = (e5, w5)" by fastforce
  have step: "fd_tidy v v'" if "v' = snd (kcall c v)" "calm c" for v v' c
    using fdr.step [OF calm_fd_plain [OF that(2)]] that(1) by simp
  have t1: "fd_tidy w w1" using step [OF call_err_world [OF c1]] by simp
  have "w2 = snd (kcall (OsLstat path) w1)" using c2 call_runs(2) [of "OsLstat path" w1] by simp
  then have t2: "fd_tidy w w2" using step fd_tidy_trans [OF t1] by (metis calm_calls(14))
  have t3: "fd_tidy w w3"
    using c3 step [OF call_err_world [of "OsRemove path" w2 e3 w3]] fd_tidy_trans [OF t2] t2
    by (auto simp: rm_def split: if_splits)
  have t5: "fd_tidy w4 w5" using step [OF call_err_world [OF c5]] by simp
  have opened: "opened fd w v" if "opened fd w3 w4" "fd_tidy w4 v" for fd v
    using t3 that by (simp add: opened_def fd_tidy_def)
  have shut: "fd_tidy w (close fd w5)" if "opened fd w3 w4" for fd
    by (rule opened_close [OF opened [OF that fd_tidy_refl] t5])
  have "(\<exists>e. r = Inl e \<and> (w' = w1 \<or> w' = w2 \<or> w' = w3)) \<or> (\<exists>e e'. w' = w4 \<and> r = Inl e \<and> e4 = Inl e') \<or>
      (\<exists>fd e. e4 = Inr fd \<and> w' = close fd w5 \<and> r = Inl e) \<or> (\<exists>fd. e4 = Inr fd \<and> w' = w5 \<and> r = Inr fd)"
    using assms c1 c2 c3 c4 c5
    by (cases e1; cases e2; cases e3; cases e4; cases e5) (auto simp: listenUnix_def rm_def split: if_splits)
  then show ?thesis
  proof (elim disjE exE conjE)
    fix e e' assume "w' = w4" "r = Inl e" "e4 = Inl e'"
    then show ?thesis using fd_tidy_trans [OF t3 call_fd_failed [OF ret, of w3 e' w4]] c4 by simp
  next
    fix fd e assume "e4 = Inr fd" "w' = close fd w5" "r = Inl e"
    then show ?thesis using shut call_fd_opened(1) [OF ret, of w3 fd w4] c4 by simp
  next
    fix fd assume "e4 = Inr fd" "w' = w5" "r = Inr fd"
    then show ?thesis using opened [OF call_fd_opened(1) [OF ret, of w3 fd w4] t5] c4 by simp
  qed (use t1 t2 t3 in simp_all)
qed

lemma clean_start_tidy: "fd_tidy w (clean_start cfg w)"
proof -
  obtain r w1 where c: "CleanupStagingRoot (wc_StagingRoot cfg) w = (r, w1)" by fastforce
  have t: "fd_tidy w w1" by (rule keepsD [OF fdr.CleanupStagingRoot_keeps c])
  have "fd_tidy w1 (record_call (Warning x) w1)" for x
    by (rule fdr.recorded) (simp add: calm_fd_plain)
  then show ?thesis using c t fd_tidy_trans [OF t] by (cases r) (simp_all add: clean_start_def fd_tidy_refl)
qed

end
