(* ===== verification/Informer.thy ===== *)
theory Informer
  imports Reconciler
begin

text \<open>
  The Pod informer, internal/kube/informer.go: what it keeps of a Pod in its cache, how it
  turns a cached Pod into the own type, and which cache events it hands to the reconciler.
  Listing and watching are client-go's. Of its types there are the fields the code reads or
  writes; \<open>kp_Rest\<close> and its like stand for all other fields, \<open>None\<close> when they are unset.
\<close>

subsection \<open>The types of k8s.io/api/core/v1, as far as they are used\<close>

record 'o core_EnvVar =
  ke_Name :: string
  ke_Value :: string
  ke_Rest :: "'o option"

record 'o core_Container =
  ko_Name :: string
  ko_Env :: "'o core_EnvVar list"
  ko_Rest :: "'o option"

record core_Claim =
  kl_ClaimName :: string
  kl_ReadOnly :: bool

record core_Volume =
  kv_Name :: string
  kv_PersistentVolumeClaim :: "core_Claim option"

record 'o core_ContainerStatus =
  ks_Name :: string
  ks_ContainerID :: string
  ks_Ready :: bool
  ks_Rest :: "'o option"

record 'o core_Pod =
  kp_TypeMeta :: "string \<times> string"
  kp_Name :: string
  kp_Namespace :: string
  kp_UID :: string
  kp_ResourceVersion :: string
  kp_Labels :: "string \<rightharpoonup> string"
  kp_Annotations :: "string \<rightharpoonup> string"
  kp_OwnerReferences :: "OwnerReference list"
  kp_NodeName :: string
  kp_ServiceAccountName :: string
  kp_Volumes :: "core_Volume list"
  kp_Containers :: "'o core_Container list"
  kp_Phase :: string
  kp_ContainerStatuses :: "'o core_ContainerStatus list"
  kp_Rest :: "'o option"

text \<open>What the informer passes around: a Pod, a tombstone of a deletion it has missed (by value
  or by pointer), which may hold a Pod, or another object.\<close>

datatype 'o informer_object =
    PodObject "'o core_Pod"
  | DeletedFinalStateUnknown "'o informer_object"
  | DeletedFinalStateUnknownPtr "'o informer_object"
  | OtherObject

subsection \<open>Trimming for the cache\<close>

definition trim_container :: "'o core_Container \<Rightarrow> 'o core_Container" where
  "trim_container container = \<lparr>ko_Name = ko_Name container,
     ko_Env = map (\<lambda>env. \<lparr>ke_Name = ke_Name env, ke_Value = ke_Value env, ke_Rest = None\<rparr>)
       (filter (\<lambda>env. ke_Name env = ''SANDBOX_MAIN_CONTAINER'') (ko_Env container)),
     ko_Rest = None\<rparr>"

definition trim_pod :: "'o core_Pod \<Rightarrow> 'o core_Pod" where
  "trim_pod pod = \<lparr>kp_TypeMeta = kp_TypeMeta pod, kp_Name = kp_Name pod, kp_Namespace = kp_Namespace pod,
     kp_UID = kp_UID pod, kp_ResourceVersion = kp_ResourceVersion pod, kp_Labels = Map.empty,
     kp_Annotations = Map.empty, kp_OwnerReferences = [], kp_NodeName = kp_NodeName pod,
     kp_ServiceAccountName = kp_ServiceAccountName pod, kp_Volumes = [],
     kp_Containers = map trim_container (kp_Containers pod), kp_Phase = kp_Phase pod,
     kp_ContainerStatuses = map (\<lambda>status. \<lparr>ks_Name = ks_Name status, ks_ContainerID = ks_ContainerID status,
       ks_Ready = False, ks_Rest = None\<rparr>) (kp_ContainerStatuses pod),
     kp_Rest = None\<rparr>"

definition trimPodForInformerCache :: "'o informer_object \<Rightarrow> 'o informer_object" where
  "trimPodForInformerCache object = (case object of PodObject pod \<Rightarrow> PodObject (trim_pod pod) | _ \<Rightarrow> object)"

definition pod_of_object :: "'o informer_object \<Rightarrow> 'o core_Pod option" where
  "pod_of_object object = (case object of PodObject pod \<Rightarrow> Some pod | _ \<Rightarrow> None)"

definition podFromInformerObject :: "'o informer_object \<Rightarrow> 'o core_Pod option" where
  "podFromInformerObject object =
     (case object of
        PodObject value \<Rightarrow> Some value
      | DeletedFinalStateUnknown obj \<Rightarrow> pod_of_object obj
      | DeletedFinalStateUnknownPtr obj \<Rightarrow> pod_of_object obj
      | OtherObject \<Rightarrow> None)"

subsection \<open>Changes that matter\<close>

text \<open>The map from names to container ids; a later status of a name replaces an earlier one.\<close>

definition leftIDs :: "'o core_ContainerStatus list \<Rightarrow> string \<rightharpoonup> string" where
  "leftIDs statuses = fold (\<lambda>status m. m(ks_Name status \<mapsto> ks_ContainerID status)) statuses Map.empty"

definition sameContainerState :: "'o core_Pod \<Rightarrow> 'o core_Pod \<Rightarrow> bool" where
  "sameContainerState left right =
     (if kp_Phase left \<noteq> kp_Phase right \<or>
         length (kp_ContainerStatuses left) \<noteq> length (kp_ContainerStatuses right) then False
      else list_all (\<lambda>status. leftIDs (kp_ContainerStatuses left) (ks_Name status) = Some (ks_ContainerID status))
             (kp_ContainerStatuses right))"

subsection \<open>The own type\<close>

definition copyStringMap :: "(string \<rightharpoonup> string) \<Rightarrow> (string \<rightharpoonup> string)" where
  "copyStringMap values = values"

definition podSnapshot :: "'o core_Pod \<Rightarrow> Pod" where
  "podSnapshot pod = \<lparr>
     pod_Metadata = \<lparr>om_Name = kp_Name pod, om_Namespace = kp_Namespace pod, om_UID = kp_UID pod,
       om_Labels = copyStringMap (kp_Labels pod), om_Annotations = copyStringMap (kp_Annotations pod),
       om_OwnerReferences = map (\<lambda>owner. \<lparr>or_APIVersion = or_APIVersion owner, or_Kind = or_Kind owner,
         or_Name = or_Name owner, or_UID = or_UID owner\<rparr>) (kp_OwnerReferences pod)\<rparr>,
     pod_Spec = \<lparr>sp_ServiceAccountName = kp_ServiceAccountName pod, sp_NodeName = kp_NodeName pod,
       sp_Volumes = map (\<lambda>volume. \<lparr>vl_Name = kv_Name volume,
         vl_PersistentVolumeClaim = map_option (\<lambda>claim. \<lparr>pc_ClaimName = kl_ClaimName claim,
           pc_ReadOnly = kl_ReadOnly claim\<rparr>) (kv_PersistentVolumeClaim volume)\<rparr>) (kp_Volumes pod),
       sp_Containers = map (\<lambda>container. \<lparr>cn_Name = ko_Name container,
         cn_Env = map (\<lambda>env. \<lparr>ev_Name = ke_Name env, ev_Value = ke_Value env\<rparr>) (ko_Env container)\<rparr>)
         (kp_Containers pod)\<rparr>,
     pod_Status = \<lparr>ps_Phase = kp_Phase pod,
       ps_ContainerStatuses = map (\<lambda>status. \<lparr>cs_Name = ks_Name status, cs_ContainerID = ks_ContainerID status,
         cs_Ready = ks_Ready status\<rparr>) (kp_ContainerStatuses pod)\<rparr>\<rparr>"

subsection \<open>Events and the first snapshot\<close>

definition on_add :: "'o informer_object \<Rightarrow> PodWatchEvent option" where
  "on_add object = (case podFromInformerObject object of
     Some pod \<Rightarrow> Some \<lparr>we_Type = ''ADDED'', we_Pod = podSnapshot pod\<rparr> | None \<Rightarrow> None)"

definition on_update :: "'o informer_object \<Rightarrow> 'o informer_object \<Rightarrow> PodWatchEvent option" where
  "on_update oldObject newObject =
     (case (podFromInformerObject oldObject, podFromInformerObject newObject) of
        (Some oldPod, Some newPod) \<Rightarrow>
          if sameContainerState oldPod newPod then None
          else Some \<lparr>we_Type = ''MODIFIED'', we_Pod = podSnapshot newPod\<rparr>
      | _ \<Rightarrow> None)"

definition on_delete :: "'o informer_object \<Rightarrow> PodWatchEvent option" where
  "on_delete object = (case podFromInformerObject object of
     Some pod \<Rightarrow> Some \<lparr>we_Type = ''DELETED'', we_Pod = podSnapshot pod\<rparr> | None \<Rightarrow> None)"

text \<open>The store once it has synced, handed to \<open>synced\<close>.\<close>

definition synced_pods :: "'o informer_object list \<Rightarrow> Pod list" where
  "synced_pods objects = map podSnapshot (List.map_filter podFromInformerObject objects)"

subsection \<open>RunPodInformer\<close>

text \<open>What client-go reports, and what the informer does in return: it hands an event to
  \<open>handle\<close>, or the Pods of the first listing to \<open>synced\<close>.\<close>

datatype 'o informer_event =
    Added "'o informer_object"
  | Updated "'o informer_object" "'o informer_object"
  | Deleted "'o informer_object"

datatype informer_action = Handle PodWatchEvent | Synced "Pod list"

definition informer_handle :: "('o informer_object \<Rightarrow> 'o informer_object) \<Rightarrow> 'o informer_event \<Rightarrow> PodWatchEvent option" where
  "informer_handle transform ev =
     (case ev of
        Added ob \<Rightarrow> on_add (transform ob)
      | Updated old new \<Rightarrow> on_update (transform old) (transform new)
      | Deleted ob \<Rightarrow> on_delete (transform ob))"

text \<open>
  A run: the errors of the setup, the events before and after the cache has synced, and how
  the wait for the cache ended: with the objects of the store, or without them, then with the
  error of the context if it was cancelled. The cache holds transformed objects.
\<close>

definition run_informer ::
  "('o informer_object \<Rightarrow> 'o informer_object) \<Rightarrow> bool \<Rightarrow> go_error option \<Rightarrow> go_error option \<Rightarrow>
   'o informer_event list \<Rightarrow> go_error option + 'o informer_object list \<Rightarrow> 'o informer_event list \<Rightarrow>
   go_error option \<times> informer_action list" where
  "run_informer transform hasREST setTransform addHandler before sync after =
     (if \<not> hasREST then (Some (Errorf ''kubernetes pod REST client is not configured'' []), [])
      else
        (case setTransform of
           Some err \<Rightarrow> (Some (Errorf ''configure pod informer cache transform: %w'' [AWrap err]), [])
         | None \<Rightarrow>
             (case addHandler of
                Some err \<Rightarrow> (Some (Errorf ''register pod informer handler: %w'' [AWrap err]), [])
              | None \<Rightarrow>
                  (let handled = (\<lambda>evs. map Handle (List.map_filter (informer_handle transform) evs)) in
                   case sync of
                     Inl (Some err) \<Rightarrow> (Some err, handled before)
                   | Inl None \<Rightarrow> (Some (Errorf ''pod informer cache did not sync'' []), handled before)
                   | Inr objects \<Rightarrow>
                       (None, handled before @ [Synced (synced_pods (map transform objects))] @ handled after)))))"

definition RunPodInformer ::
  "bool \<Rightarrow> go_error option \<Rightarrow> go_error option \<Rightarrow> 'o informer_event list \<Rightarrow>
   go_error option + 'o informer_object list \<Rightarrow> 'o informer_event list \<Rightarrow> go_error option \<times> informer_action list" where
  "RunPodInformer = run_informer trimPodForInformerCache"

text \<open>The reconciler's side of the two callbacks.\<close>

definition reconcile_action :: "bool \<Rightarrow> informer_action \<Rightarrow> 'n Server \<times> retries \<Rightarrow> 'n Server \<times> retries" where
  "reconcile_action ctx a sq =
     (case a of Handle ev \<Rightarrow> reconcilePodEvent ctx ev sq | Synced pods \<Rightarrow> reconcilePodSnapshot ctx pods sq)"

text \<open>\<open>processPodWatchEvents\<close>: what the select picks, an event of the channel or (\<open>None\<close>) the
  end of the context.\<close>

fun processPodWatchEvents :: "bool \<Rightarrow> PodWatchEvent option list \<Rightarrow> 'n Server \<times> retries \<Rightarrow> 'n Server \<times> retries" where
  "processPodWatchEvents ctx [] sq = sq"
| "processPodWatchEvents ctx (None # picks) sq = sq"
| "processPodWatchEvents ctx (Some event # picks) sq =
     processPodWatchEvents ctx picks (reconcilePodEvent ctx event sq)"

lemma processPodWatchEvents_fold:
  "processPodWatchEvents ctx (map Some evs) sq = fold (reconcile_action ctx) (map Handle evs) sq"
  by (induction evs arbitrary: sq) (simp_all add: reconcile_action_def)

subsection \<open>What the reconciler sees of a Pod\<close>

text \<open>The parts of a Pod that trimming keeps, on the own type.\<close>

definition pod_core :: "Pod \<Rightarrow> Pod" where
  "pod_core pod = pod\<lparr>
     pod_Metadata := (pod_Metadata pod)\<lparr>om_Labels := Map.empty, om_Annotations := Map.empty, om_OwnerReferences := []\<rparr>,
     pod_Spec := (pod_Spec pod)\<lparr>sp_Volumes := [], sp_Containers := map (\<lambda>c. c\<lparr>cn_Env :=
       filter (\<lambda>env. ev_Name env = ''SANDBOX_MAIN_CONTAINER'') (cn_Env c)\<rparr>) (sp_Containers (pod_Spec pod))\<rparr>,
     pod_Status := (pod_Status pod)\<lparr>ps_ContainerStatuses :=
       map (\<lambda>s. s\<lparr>cs_Ready := False\<rparr>) (ps_ContainerStatuses (pod_Status pod))\<rparr>\<rparr>"

lemma podSnapshot_trim: "podSnapshot (trim_pod pod) = pod_core (podSnapshot pod)"
  by (simp add: podSnapshot_def trim_pod_def pod_core_def trim_container_def copyStringMap_def comp_def
      filter_map)

lemma pod_core_simps [simp]:
  "om_Name (pod_Metadata (pod_core p)) = om_Name (pod_Metadata p)"
  "om_Namespace (pod_Metadata (pod_core p)) = om_Namespace (pod_Metadata p)"
  "om_UID (pod_Metadata (pod_core p)) = om_UID (pod_Metadata p)"
  "sp_ServiceAccountName (pod_Spec (pod_core p)) = sp_ServiceAccountName (pod_Spec p)"
  "sp_NodeName (pod_Spec (pod_core p)) = sp_NodeName (pod_Spec p)"
  "ps_Phase (pod_Status (pod_core p)) = ps_Phase (pod_Status p)"
  by (simp_all add: pod_core_def)

definition unready :: "ContainerStatus \<Rightarrow> ContainerStatus" where
  "unready s = s\<lparr>cs_Ready := False\<rparr>"

lemma unready_simps [simp]: "cs_Name (unready s) = cs_Name s" "cs_ContainerID (unready s) = cs_ContainerID s"
  by (simp_all add: unready_def)

lemma by_name_loop_core:
  "containerStatusByName_loop (map unready ss) name = map_sum id unready (containerStatusByName_loop ss name)"
  by (induction ss) simp_all

lemma statuses_core: "ps_ContainerStatuses (pod_Status (pod_core p)) = map unready (ps_ContainerStatuses (pod_Status p))"
  by (simp add: pod_core_def unready_def [abs_def])

lemma by_name_core: "containerStatusByName (pod_core p) name = map_sum id unready (containerStatusByName p name)"
  by (simp add: containerStatusByName_def statuses_core by_name_loop_core)

lemma main_container_loop_core:
  "main_container_loop (map (\<lambda>c. c\<lparr>cn_Env := filter (\<lambda>env. ev_Name env = ''SANDBOX_MAIN_CONTAINER'') (cn_Env c)\<rparr>) cs) =
   main_container_loop cs"
proof (induction cs)
  case (Cons c cs)
  have "list_ex is_main_env (filter (\<lambda>env. ev_Name env = ''SANDBOX_MAIN_CONTAINER'') (cn_Env c)) = list_ex is_main_env (cn_Env c)"
    by (auto simp: list_ex_iff is_main_env_def)
  then show ?case using Cons by simp
qed simp

lemma sandboxMainContainerName_core [simp]: "sandboxMainContainerName (pod_core p) = sandboxMainContainerName p"
  by (simp add: sandboxMainContainerName_def pod_core_def main_container_loop_core)

lemma selectContainerStatus_core:
  "selectContainerStatus (pod_core p) name = map_sum id unready (selectContainerStatus p name)"
proof -
  consider "ps_ContainerStatuses (pod_Status p) = []" | st where "ps_ContainerStatuses (pod_Status p) = [st]"
    | a b ss where "ps_ContainerStatuses (pod_Status p) = a # b # ss"
    by (cases "ps_ContainerStatuses (pod_Status p)"; cases "tl (ps_ContainerStatuses (pod_Status p))") auto
  then show ?thesis
    by cases (simp_all add: selectContainerStatus_def by_name_core statuses_core)
qed

subsection \<open>Pods that are alike to the reconciler\<close>

definition alike :: "Pod \<Rightarrow> Pod \<Rightarrow> bool" where
  "alike p q \<longleftrightarrow> om_Name (pod_Metadata p) = om_Name (pod_Metadata q) \<and>
     om_Namespace (pod_Metadata p) = om_Namespace (pod_Metadata q) \<and> om_UID (pod_Metadata p) = om_UID (pod_Metadata q) \<and>
     sp_ServiceAccountName (pod_Spec p) = sp_ServiceAccountName (pod_Spec q) \<and>
     sp_NodeName (pod_Spec p) = sp_NodeName (pod_Spec q) \<and> ps_Phase (pod_Status p) = ps_Phase (pod_Status q) \<and>
     (\<forall>name. map_sum id unready (selectContainerStatus p name) = map_sum id unready (selectContainerStatus q name))"

lemma alike_core: "alike (pod_core p) p"
proof -
  have "map_sum id unready (map_sum id unready x) = map_sum id unready x" for x :: "go_error + ContainerStatus"
    by (cases x) (simp_all add: unready_def)
  then show ?thesis by (simp add: alike_def selectContainerStatus_core)
qed

lemma alike_checks:
  assumes "alike p q"
  shows "validatePodIdentity p r = validatePodIdentity q r" "validatePodNode p node = validatePodNode q node"
    "authorizePVForPod driver p pv = authorizePVForPod driver q pv" "buildMountPlan r p pv cid = buildMountPlan r q pv cid"
    "pod_string_of p = pod_string_of q"
  using assms
  by (simp_all add: alike_def validatePodIdentity_def validatePodNode_def authorizePVForPod_def buildMountPlan_def
      pod_string_of_def Let_def cong: option.case_cong sum.case_cong if_cong)

lemma alike_select:
  assumes "alike p q"
  obtains e where "selectContainerStatus p name = Inl e" "selectContainerStatus q name = Inl e"
    | s t where "selectContainerStatus p name = Inr s" "selectContainerStatus q name = Inr t"
      "cs_Name s = cs_Name t" "cs_ContainerID s = cs_ContainerID t"
proof -
  have e: "map_sum id unready (selectContainerStatus p name) = map_sum id unready (selectContainerStatus q name)"
    using assms by (simp add: alike_def)
  show ?thesis
  proof (cases "selectContainerStatus p name")
    case (Inl e)
    then show ?thesis using that(1) [of e] \<open>map_sum _ _ _ = _\<close> by (cases "selectContainerStatus q name") auto
  next
    case (Inr s)
    then obtain t where t: "selectContainerStatus q name = Inr t" "unready s = unready t"
      using e by (cases "selectContainerStatus q name") auto
    then show ?thesis using that(2) [OF Inr t(1)] unready_simps by metis
  qed
qed

lemma mountPlanForPod_alike:
  assumes "alike p q"
  shows "mountPlanForPod cfg kube r p = mountPlanForPod cfg kube r q"
  using assms
  by (cases rule: alike_select [of p q "rq_ContainerName r"])
    (simp_all add: mountPlanForPod_def alike_checks [OF assms] Let_def cong: option.case_cong sum.case_cong)

lemma reconcile_plan_alike:
  assumes "alike p q"
  shows "reconcile_plan cfg kube root d p = reconcile_plan cfg kube root d q"
proof (cases "normalizeMountRequest cfg (dm_Request d) True")
  case (Inr r)
  from assms show ?thesis
    by (cases rule: alike_select [of p q "rq_ContainerName r"])
      (simp_all add: reconcile_plan_def Inr mountPlanForPod_alike [OF assms] alike_checks [OF assms] Let_def
        cong: option.case_cong sum.case_cong if_cong)
qed (simp add: reconcile_plan_def)

lemma reconcileMountForPod_alike: "alike p q \<Longrightarrow> reconcileMountForPod d p s = reconcileMountForPod d q s"
  by (simp add: reconcileMountForPod_def reconcile_plan_alike cong: option.case_cong if_cong)

lemma reconcilePodEvent_alike:
  fixes sq :: "'n Server \<times> retries"
  assumes "alike p q" and "t \<noteq> ''DELETED''" and "u \<noteq> ''DELETED''"
  shows "reconcilePodEvent ctx \<lparr>we_Type = t, we_Pod = p\<rparr> sq = reconcilePodEvent ctx \<lparr>we_Type = u, we_Pod = q\<rparr> sq"
proof -
  have "(event_step ctx \<lparr>we_Type = t, we_Pod = p\<rparr> :: desiredMount \<Rightarrow> 'n Server \<times> retries \<Rightarrow> _) =
      event_step ctx \<lparr>we_Type = u, we_Pod = q\<rparr>"
    using assms by (intro ext) (simp add: event_step_def reconcileMountForPod_alike [OF assms(1)] split: prod.split)
  then show ?thesis using assms(1) by (simp add: reconcilePodEvent_def event_pod_key_def alike_def)
qed

lemma podsByUID_core: "podsByUID (map pod_core pods) k = map_option pod_core (podsByUID pods k)"
proof -
  have "map_of (map (\<lambda>p. (pod_string_of p, pod_core p)) ps) k = map_option pod_core (map_of (map (\<lambda>p. (pod_string_of p, p)) ps) k)" for ps
    by (induction ps) simp_all
  from this [of "rev pods"] show ?thesis by (simp add: podsByUID_def rev_map comp_def pod_string_of_def)
qed

lemma reconcilePodSnapshot_core:
  fixes sq :: "'n Server \<times> retries"
  shows "reconcilePodSnapshot ctx (map pod_core pods) sq = reconcilePodSnapshot ctx pods sq"
proof -
  have "(snapshot_step ctx (podsByUID (map pod_core pods)) :: desiredMount \<Rightarrow> 'n Server \<times> retries \<Rightarrow> _) =
      snapshot_step ctx (podsByUID pods)"
    by (intro ext) (simp add: snapshot_step_def podsByUID_core reconcileMountForPod_alike [OF alike_core]
        split: prod.split option.split)
  then show ?thesis by (simp add: reconcilePodSnapshot_def)
qed

lemma reconcilePodEvent_core:
  fixes sq :: "'n Server \<times> retries"
  shows "reconcilePodEvent ctx \<lparr>we_Type = t, we_Pod = pod_core p\<rparr> sq = reconcilePodEvent ctx \<lparr>we_Type = t, we_Pod = p\<rparr> sq"
proof (cases "t = ''DELETED''")
  case True
  have "(event_step ctx \<lparr>we_Type = t, we_Pod = pod_core p\<rparr> :: desiredMount \<Rightarrow> 'n Server \<times> retries \<Rightarrow> _) =
      event_step ctx \<lparr>we_Type = t, we_Pod = p\<rparr>"
    using True by (intro ext) (simp add: event_step_def)
  then show ?thesis by (simp add: reconcilePodEvent_def event_pod_key_def)
qed (rule reconcilePodEvent_alike [OF alike_core])

lemma pod_core_idem [simp]: "pod_core (pod_core p) = pod_core p"
  by (simp add: pod_core_def comp_def)

text \<open>An object and its trimmed form give Pods that agree in what is kept.\<close>

lemma snapshot_trimmed:
  "map_option (\<lambda>p. pod_core (podSnapshot p)) (podFromInformerObject (trimPodForInformerCache ob)) =
     map_option (\<lambda>p. pod_core (podSnapshot p)) (podFromInformerObject ob)"
  by (cases ob) (simp_all add: trimPodForInformerCache_def podFromInformerObject_def podSnapshot_trim)

lemma synced_pods_trimmed:
  "map pod_core (synced_pods (map trimPodForInformerCache objects)) = map pod_core (synced_pods objects)"
proof (induction objects)
  case (Cons ob objects)
  then show ?case using snapshot_trimmed [of ob]
    by (cases "podFromInformerObject (trimPodForInformerCache ob)"; cases "podFromInformerObject ob")
      (simp_all add: synced_pods_def List.map_filter_simps)
qed (simp add: synced_pods_def List.map_filter_simps)

lemma sameContainerState_trim [simp]:
  "sameContainerState (trim_pod l) r = sameContainerState l r" "sameContainerState l (trim_pod r) = sameContainerState l r"
  by (simp_all add: sameContainerState_def trim_pod_def leftIDs_def fold_map comp_def list_all_iff)

text \<open>Every step of a run does the same with trimmed objects as with whole ones.\<close>

lemma reconcilePodSnapshot_trimmed:
  fixes sq :: "'n Server \<times> retries"
  shows "reconcilePodSnapshot ctx (synced_pods (map trimPodForInformerCache objects)) sq =
    reconcilePodSnapshot ctx (synced_pods objects) sq"
  by (metis reconcilePodSnapshot_core synced_pods_trimmed)

lemma informer_handle_trimmed:
  fixes sq :: "'n Server \<times> retries" and ev :: "'o informer_event"
  shows "map_option (\<lambda>e. reconcilePodEvent ctx e sq) (informer_handle trimPodForInformerCache ev) =
    map_option (\<lambda>e. reconcilePodEvent ctx e sq) (informer_handle (\<lambda>ob. ob) ev)"
proof -
  have event: "reconcilePodEvent ctx \<lparr>we_Type = t, we_Pod = podSnapshot (trim_pod p)\<rparr> sq =
      reconcilePodEvent ctx \<lparr>we_Type = t, we_Pod = podSnapshot p\<rparr> sq" for t and p :: "'o core_Pod"
    by (simp add: podSnapshot_trim reconcilePodEvent_core)
  note defs = informer_handle_def on_add_def on_update_def on_delete_def trimPodForInformerCache_def podFromInformerObject_def
  show ?thesis
  proof (cases ev)
    case (Updated old new)
    then show ?thesis by (cases old; cases new) (simp_all add: defs event split: option.split)
  next
    case (Added ob)
    then show ?thesis by (cases ob) (simp_all add: defs event split: option.split)
  next
    case (Deleted ob)
    then show ?thesis by (cases ob) (simp_all add: defs event split: option.split)
  qed
qed

lemma informer_handle_same_type:
  fixes ev :: "'o informer_event"
  shows "map_option we_Type (informer_handle trimPodForInformerCache ev) =
    map_option we_Type (informer_handle (\<lambda>ob. ob) ev)"
proof -
  note defs = informer_handle_def on_add_def on_update_def on_delete_def trimPodForInformerCache_def podFromInformerObject_def
  show ?thesis
  proof (cases ev)
    case (Updated old new)
    then show ?thesis by (cases old; cases new) (simp_all add: defs split: option.split)
  next
    case (Added ob)
    then show ?thesis by (cases ob) (simp_all add: defs split: option.split)
  next
    case (Deleted ob)
    then show ?thesis by (cases ob) (simp_all add: defs split: option.split)
  qed
qed

lemma fold_handled_trimmed:
  fixes sq :: "'n Server \<times> retries"
  shows "fold (reconcile_action ctx) (map Handle (List.map_filter (informer_handle trimPodForInformerCache) evs)) sq =
    fold (reconcile_action ctx) (map Handle (List.map_filter (informer_handle (\<lambda>ob. ob)) evs)) sq"
proof (induction evs arbitrary: sq)
  case (Cons ev evs)
  show ?case
    using Cons informer_handle_trimmed [of ctx sq ev]
    by (cases "informer_handle trimPodForInformerCache ev"; cases "informer_handle (\<lambda>ob. ob) ev")
      (simp_all add: List.map_filter_simps reconcile_action_def)
qed (simp add: List.map_filter_simps)

lemma run_informer_trimmed:
  fixes sq :: "'n Server \<times> retries"
  shows "fold (reconcile_action ctx) (snd (RunPodInformer rest tr ah before sync after)) sq =
    fold (reconcile_action ctx) (snd (run_informer (\<lambda>ob. ob) rest tr ah before sync after)) sq"
  by (simp add: RunPodInformer_def run_informer_def fold_handled_trimmed reconcile_action_def reconcilePodSnapshot_trimmed
      Let_def split: option.split sum.split)

subsection \<open>Updates that are dropped\<close>

lemma leftIDs_map_of: "leftIDs ss = map_of (rev (map (\<lambda>s. (ks_Name s, ks_ContainerID s)) ss))"
proof -
  have "fold (\<lambda>s m. m(ks_Name s \<mapsto> ks_ContainerID s)) ss m = m ++ map_of (rev (map (\<lambda>s. (ks_Name s, ks_ContainerID s)) ss))" for m
    by (induction ss arbitrary: m) (auto simp: map_add_def fun_eq_iff split: option.split)
  then show ?thesis by (simp add: leftIDs_def)
qed

definition status_pairs :: "'o core_Pod \<Rightarrow> (string \<times> string) list" where
  "status_pairs pod = map (\<lambda>s. (ks_Name s, ks_ContainerID s)) (kp_ContainerStatuses pod)"

lemma sameContainerState_pairs:
  assumes "sameContainerState left right" and "distinct (map fst (status_pairs left))"
    and "distinct (map fst (status_pairs right))"
  shows "set (status_pairs left) = set (status_pairs right)" and "kp_Phase left = kp_Phase right"
    and "length (status_pairs left) = length (status_pairs right)"
proof -
  show phase: "kp_Phase left = kp_Phase right" and len: "length (status_pairs left) = length (status_pairs right)"
    using assms(1) by (simp_all add: sameContainerState_def status_pairs_def split: if_splits)
  have "leftIDs (kp_ContainerStatuses left) n = Some i \<longleftrightarrow> (n, i) \<in> set (status_pairs left)" for n i
  proof -
    have "distinct (map fst (rev (status_pairs left)))" using assms(2) by (simp flip: rev_map)
    from map_of_eq_Some_iff [OF this, of n i] show ?thesis
      unfolding leftIDs_map_of status_pairs_def [symmetric] by simp
  qed
  then have sub: "set (status_pairs right) \<subseteq> set (status_pairs left)"
    using assms(1) by (auto simp: sameContainerState_def status_pairs_def list_all_iff split: if_splits)
  have "distinct (status_pairs left)" "distinct (status_pairs right)" using assms(2,3) by (simp_all add: distinct_map)
  then have "card (set (status_pairs left)) = card (set (status_pairs right))" using len by (simp add: distinct_card)
  then show "set (status_pairs left) = set (status_pairs right)" using sub by (metis card_subset_eq List.finite_set)
qed

lemma by_name_loop_pairs:
  assumes "distinct (map cs_Name ss)"
  shows "map_sum id unready (containerStatusByName_loop ss name) =
    (case map_of (map (\<lambda>s. (cs_Name s, cs_ContainerID s)) ss) name of
       None \<Rightarrow> Inl (Errorf ''container %s was not found in pod status'' [AStr name])
     | Some i \<Rightarrow> if i = [] then Inl (Errorf ''container %s has empty container id'' [AStr name])
         else Inr \<lparr>cs_Name = name, cs_ContainerID = i, cs_Ready = False\<rparr>)"
  using assms by (induction ss) (auto simp: unready_def)

lemma snapshot_statuses:
  "map (\<lambda>s. (cs_Name s, cs_ContainerID s)) (ps_ContainerStatuses (pod_Status (podSnapshot pod))) = status_pairs pod"
  "map cs_Name (ps_ContainerStatuses (pod_Status (podSnapshot pod))) = map fst (status_pairs pod)"
  by (simp_all add: podSnapshot_def status_pairs_def)

lemma alike_same_state:
  assumes same: "sameContainerState left right"
    and distinct: "distinct (map fst (status_pairs left))" "distinct (map fst (status_pairs right))"
    and core: "trim_pod left\<lparr>kp_Phase := [], kp_ContainerStatuses := [], kp_ResourceVersion := []\<rparr> =
      trim_pod right\<lparr>kp_Phase := [], kp_ContainerStatuses := [], kp_ResourceVersion := []\<rparr>"
  shows "alike (podSnapshot left) (podSnapshot right)"
proof -
  note pairs = sameContainerState_pairs [OF same distinct]
  let ?l = "podSnapshot left" and ?r = "podSnapshot right"
  have fields: "kp_Name left = kp_Name right" "kp_Namespace left = kp_Namespace right" "kp_UID left = kp_UID right"
    "kp_ServiceAccountName left = kp_ServiceAccountName right" "kp_NodeName left = kp_NodeName right"
    "map trim_container (kp_Containers left) = map trim_container (kp_Containers right)"
    using core by (simp_all add: trim_pod_def)
  have "sandboxMainContainerName (podSnapshot (trim_pod left)) = sandboxMainContainerName (podSnapshot (trim_pod right))"
    using fields(6) by (simp add: sandboxMainContainerName_def podSnapshot_def trim_pod_def del: map_map)
  then have main: "sandboxMainContainerName ?l = sandboxMainContainerName ?r" by (simp add: podSnapshot_trim)
  have "map_of (status_pairs left) = map_of (status_pairs right)"
    using map_of_eq_Some_iff [OF distinct(1)] map_of_eq_Some_iff [OF distinct(2)] pairs(1)
    by (metis (no_types) map_of_inject_set distinct)
  then have by_name: "map_sum id unready (containerStatusByName ?l n) = map_sum id unready (containerStatusByName ?r n)" for n
    using by_name_loop_pairs [of "ps_ContainerStatuses (pod_Status ?l)" n]
      by_name_loop_pairs [of "ps_ContainerStatuses (pod_Status ?r)" n] distinct
    by (simp add: containerStatusByName_def snapshot_statuses)
  have one: "map_sum id unready (selectContainerStatus ?l []) = map_sum id unready (selectContainerStatus ?r [])"
    if "sandboxMainContainerName ?r = []"
  proof (cases "\<exists>s. ps_ContainerStatuses (pod_Status ?l) = [s]")
    case True
    then obtain s where s: "ps_ContainerStatuses (pod_Status ?l) = [s]" by blast
    then have l: "status_pairs left = [(cs_Name s, cs_ContainerID s)]" using snapshot_statuses(1) [of left] by simp
    then have "status_pairs right = [(cs_Name s, cs_ContainerID s)]"
      using pairs(1,3) by (cases "status_pairs right") auto
    then obtain t where "ps_ContainerStatuses (pod_Status ?r) = [t]" "cs_Name t = cs_Name s" "cs_ContainerID t = cs_ContainerID s"
      using snapshot_statuses(1) [of right] by auto
    then show ?thesis using s main that by (simp add: selectContainerStatus_def unready_def)
  next
    case False
    have "length (ps_ContainerStatuses (pod_Status ?l)) = length (ps_ContainerStatuses (pod_Status ?r))"
      using pairs(3) by (simp add: podSnapshot_def status_pairs_def)
    then show ?thesis using False main that
      by (auto simp: selectContainerStatus_def length_Suc_conv split: list.split)
  qed
  have "map_sum id unready (selectContainerStatus ?l n) = map_sum id unready (selectContainerStatus ?r n)" for n
    using by_name main one by (cases "n = []"; cases "sandboxMainContainerName ?r = []") (simp_all add: selectContainerStatus_def)
  then show ?thesis using fields pairs(2) by (simp add: alike_def) (simp add: podSnapshot_def)
qed

end
