(* ===== verification/StartProps.thy ===== *)
theory StartProps
  imports Example WrapperMain Informer
begin

text \<open>
  The properties of the start of the wrapper, of the API client and of the Pod informer.
\<close>

subsection \<open>The start of the wrapper\<close>

text \<open>C36. The mode for new directories of a wrapper configuration is well formed, whatever the
  environment and the flags say: it is an octal value from 1 to 7777, with the setuid, setgid
  and sticky bits where Go keeps them, and mkdirat is given exactly that value.\<close>

theorem created_mode_well_formed:
  assumes "wrapper_config e args = Inr cfg"
  shows "\<exists>n. 1 \<le> n \<and> n \<le> 0xFFF \<and> wc_CreatedSubPathMode cfg = file_mode_of n \<and>
    createdSubPathUnixMode (wc_CreatedSubPathMode cfg) = of_int n"
  using wrapper_config_mode [OF assms] mode_value_mkdirat by (auto simp: mode_value_def)

definition ex_env :: env where
  "ex_env = (\<lambda>_. [])(''WRAPPER_CREATED_SUBPATH_MODE'' := ''2770'', ''KUBERNETES_SERVICE_HOST'' := ''fd00::1'',
     ''KUBERNETES_SERVICE_PORT'' := ''443'')"

lemma created_mode_well_formed_witness:
  "\<exists>cfg n. wrapper_config ex_env [''-enable-mount=false'', ''--created-subpath-mode'', ''1755''] = Inr cfg \<and>
     \<not> wc_EnableMount cfg \<and> 1 \<le> n \<and> n \<le> 0xFFF \<and> wc_CreatedSubPathMode cfg = file_mode_of n \<and>
     createdSubPathUnixMode (wc_CreatedSubPathMode cfg) = of_int n"
proof -
  let ?args = "[''-enable-mount=false'', ''--created-subpath-mode'', ''1755'']"
  have "case wrapper_config ex_env ?args of Inl _ \<Rightarrow> False | Inr cfg \<Rightarrow> \<not> wc_EnableMount cfg"
    by code_simp
  then obtain cfg where cfg: "wrapper_config ex_env ?args = Inr cfg" "\<not> wc_EnableMount cfg"
    by (cases "wrapper_config ex_env ?args") auto
  then show ?thesis using created_mode_well_formed [OF cfg(1)] by blast
qed

text \<open>C15. A wrapper that has started serves the configuration it was given, with the node
  mounter of that configuration; of the descriptors it opened only the listener is still
  open; it has removed the path of its socket only if a socket was there, and the last thing
  it did was to listen there and to set the mode of the socket.\<close>

theorem started_wrapper:
  assumes run: "start_wrapper e args readFile newCore http w d = (Inr (s, listener), w', d')"
    and disk: "distinct (map fst (dk_files d))"
  shows "\<exists>cfg cs pre. wrapper_config e args = Inr cfg \<and> sv_cfg s = cfg \<and> sv_mounter s = NewMounter (node_config cfg) \<and>
    sv_node s = w' \<and> server_ok s \<and> opened listener w w' \<and> calls w' = calls (clean_start cfg w) @ cs \<and>
    (\<forall>p. OsRemove p \<in> set cs \<longrightarrow> p = wc_SocketPath cfg \<and> socket_at p (clean_start cfg w)) \<and>
    cs = pre @ [NetListen (wc_SocketPath cfg), OsChmod (wc_SocketPath cfg) (wc_SocketMode cfg)]"
proof -
  obtain cfg where cfg: "wrapper_config e args = Inr cfg" using run by (auto simp: start_wrapper_def split: sum.splits)
  let ?w1 = "clean_start cfg w"
  obtain client srv where new: "NewServer readFile cfg client (NewMounter (node_config cfg)) ?w1 d = (Inr srv, d')"
    and l: "listenUnix (wc_SocketPath cfg) (wc_SocketMode cfg) ?w1 = (Inr listener, w')" and s: "s = srv\<lparr>sv_node := w'\<rparr>"
    using run cfg by (auto simp: start_wrapper_def Let_def split: sum.splits prod.splits)
  obtain st d1 where load: "newFileMountStateStore (wc_MountStateDir cfg) d = (Inr st, d1)"
    and srv: "newServerWithState readFile cfg client (NewMounter (node_config cfg)) ?w1 st = Inr srv"
    using new by (rule NewServer_Inr)
  note f = newServerWithState_Inr [OF srv]
  have ok: "server_ok s" using load_spec(1) [OF load disk] f(5) s by simp
  have "opened listener ?w1 w'" using listenUnix_holding [OF l] by simp
  then have op: "opened listener w w'" using clean_start_tidy [of w cfg] by (simp add: opened_def fd_tidy_def)
  obtain cs where cs: "calls w' = calls ?w1 @ cs" "\<And>p. OsRemove p \<in> set cs \<Longrightarrow> p = wc_SocketPath cfg \<and> socket_at (wc_SocketPath cfg) ?w1"
      "\<exists>pre. cs = pre @ [NetListen (wc_SocketPath cfg), OsChmod (wc_SocketPath cfg) (wc_SocketMode cfg)]"
    by (rule listenUnix_calls [OF l]) (metis sum.inject(2))
  then show ?thesis using cfg f(1,3) ok op s by auto
qed

definition ex_boot :: world where
  "ex_boot = \<lparr>wd_kernel = \<lparr>kn_errno = (\<lambda>tr c. None), kn_fd = (\<lambda>tr c. 3), kn_text = (\<lambda>tr c. ''Srwxr-x---''),
     kn_entries = (\<lambda>tr c. [])\<rparr>, wd_trace = []\<rparr>"

definition ex_args :: "string list" where
  "ex_args = [''-socket-path'', ''/run/w.sock'', ''--unstage-after-mount=false'']"

definition no_http :: transport where
  "no_http = \<lparr>tp_NewRequest = (\<lambda>m u. None), tp_Do = (\<lambda>q. Inl (Sentinel (Errno ''ECONNREFUSED'')))\<rparr>"

lemma started_wrapper_witness:
  "case start_wrapper ex_env ex_args (\<lambda>p. Inr ''tok'') None no_http ex_boot (ex_disk []) of
     (Inr (s, listener), w', d') \<Rightarrow> server_ok s \<and> sv_mounter s = NewMounter (node_config (sv_cfg s)) \<and> opened listener ex_boot w'
   | _ \<Rightarrow> False"
proof -
  let ?r = "start_wrapper ex_env ex_args (\<lambda>p. Inr ''tok'') None no_http ex_boot (ex_disk [])"
  have "case fst ?r of Inl _ \<Rightarrow> False | Inr _ \<Rightarrow> True" by code_simp
  then obtain s l w' d' where r: "?r = (Inr (s, l), w', d')"
    by (cases ?r) (auto split: sum.splits)
  have "distinct (map fst (dk_files (ex_disk [])))" by (simp add: ex_disk_def)
  from started_wrapper [OF r this] show ?thesis unfolding r by auto
qed

subsection \<open>The API client\<close>

text \<open>The request with which the client asks for a Pod.\<close>

definition get_pod_request :: "Client \<Rightarrow> string \<Rightarrow> string \<Rightarrow> string \<Rightarrow> KubeClient.http_request" where
  "get_pod_request c token namespace name = \<lparr>ht_Method = ''GET'', ht_URL = cl_baseURL c @ pod_path namespace name,
     ht_Header = [(''Accept'', ''application/json''), (''Authorization'', ''Bearer '' @ token)], ht_Body = None\<rparr>"

text \<open>C38. When the wrapper takes a Pod for deleted, the API server has said so: an error of
  GetPod counts as not found exactly when the request, with the token read at that moment, was
  answered with status 404; a failed connection, an unreadable token or another status never
  does.\<close>

theorem not_found_is_404:
  assumes plain: "\<And>path e. readFile path = Inl e \<Longrightarrow> api_errors e = []"
      "\<And>m u e. tp_NewRequest (cl_http c) m u = Some e \<Longrightarrow> api_errors e = []"
      "\<And>q e. tp_Do (cl_http c) q = Inl e \<Longrightarrow> api_errors e = []"
    and failed: "GetPod readFile c namespace name = Inl err"
  shows "IsNotFound err \<longleftrightarrow>
    (\<exists>token resp. tp_NewRequest (cl_http c) ''GET'' (cl_baseURL c @ pod_path namespace name) = None \<and>
       readBearerTokenFile readFile (cl_tokenFile c) = Inr token \<and>
       tp_Do (cl_http c) (get_pod_request c token namespace name) = Inr resp \<and> hp_StatusCode resp = 404)"
proof -
  let ?url = "cl_baseURL c @ pod_path namespace name"
  have token: "api_errors e = []" if "readBearerTokenFile readFile (cl_tokenFile c) = Inl e" for e
    using that plain(1) [of "cl_tokenFile c"] by (auto simp: readBearerTokenFile_def Let_def split: sum.splits if_splits)
  consider e where "tp_NewRequest (cl_http c) ''GET'' ?url = Some e"
    | e where "tp_NewRequest (cl_http c) ''GET'' ?url = None" "readBearerTokenFile readFile (cl_tokenFile c) = Inl e"
    | t e where "tp_NewRequest (cl_http c) ''GET'' ?url = None" "readBearerTokenFile readFile (cl_tokenFile c) = Inr t"
        "tp_Do (cl_http c) (get_pod_request c t namespace name) = Inl e"
    | t resp where "tp_NewRequest (cl_http c) ''GET'' ?url = None" "readBearerTokenFile readFile (cl_tokenFile c) = Inr t"
        "tp_Do (cl_http c) (get_pod_request c t namespace name) = Inr resp"
    by (metis not_None_eq sum.exhaust_sel)
  then show ?thesis
  proof cases
    case 1
    then show ?thesis using failed plain(2) by (auto simp: GetPod_def kube_do_def kube_decode_def Let_def IsNotFound_def)
  next
    case 2
    then show ?thesis using failed token by (auto simp: GetPod_def kube_do_def kube_decode_def Let_def IsNotFound_def)
  next
    case 3
    then show ?thesis using failed plain(3)
      by (auto simp: GetPod_def kube_do_def kube_decode_def Let_def IsNotFound_def get_pod_request_def)
  next
    case 4
    then show ?thesis using failed
      by (auto simp: GetPod_def kube_do_def kube_decode_def Let_def IsNotFound_def get_pod_request_def
          split: if_splits option.splits)
  qed
qed

definition ex_http :: transport where
  "ex_http = \<lparr>tp_NewRequest = (\<lambda>m u. None), tp_Do = (\<lambda>q. Inr \<lparr>hp_StatusCode = 404, hp_Status = ''404 Not Found'',
     hp_Text = ''gone'', hp_Json = None\<rparr>)\<rparr>"

definition ex_client :: "transport \<Rightarrow> Client" where
  "ex_client http = \<lparr>cl_baseURL = ''https://api:443'', cl_tokenFile = ''/token'', cl_http = http\<rparr>"

lemma not_found_is_404_witness:
  "\<exists>err. GetPod (\<lambda>p. Inr ''tok'') (ex_client ex_http) ''team-a'' ''pod-1'' = Inl err \<and> IsNotFound err"
proof -
  have "case GetPod (\<lambda>p. Inr ''tok'') (ex_client ex_http) ''team-a'' ''pod-1'' of Inl _ \<Rightarrow> True | Inr _ \<Rightarrow> False"
    by code_simp
  then obtain err where err: "GetPod (\<lambda>p. Inr ''tok'') (ex_client ex_http) ''team-a'' ''pod-1'' = Inl err"
    by (cases "GetPod (\<lambda>p. Inr ''tok'') (ex_client ex_http) ''team-a'' ''pod-1''") auto
  have token: "readBearerTokenFile (\<lambda>p. Inr ''tok'') (cl_tokenFile (ex_client ex_http)) = Inr ''tok''" by code_simp
  have "IsNotFound err"
    by (subst not_found_is_404 [OF _ _ _ err]) (use token in \<open>simp_all add: ex_client_def ex_http_def\<close>)
  then show ?thesis using err by blast
qed

subsection \<open>The informer\<close>

text \<open>C17. Trimming Pods for the cache of the informer is invisible: a run of the informer, with any
  events before and after its first listing, takes the server, the retries and the node where a
  run that caches whole Pods would take them; and of any event, the trimmed run drops what the other
  drops and hands on the rest under the same type (ADDED, MODIFIED, DELETED).\<close>

theorem trimming_invisible:
  fixes sq :: "'n Server \<times> retries" and ev :: "'o informer_event"
  shows "fold (reconcile_action ctx) (snd (RunPodInformer hasREST setTransform addHandler before sync after)) sq =
      fold (reconcile_action ctx) (snd (run_informer (\<lambda>ob. ob) hasREST setTransform addHandler before sync after)) sq \<and>
    (informer_handle trimPodForInformerCache ev = None \<longleftrightarrow> informer_handle (\<lambda>ob. ob) ev = None) \<and>
    map_option we_Type (informer_handle trimPodForInformerCache ev) =
      map_option we_Type (informer_handle (\<lambda>ob. ob) ev)"
proof -
  have "informer_handle trimPodForInformerCache ev = None \<longleftrightarrow> informer_handle (\<lambda>ob. ob) ev = None"
    using informer_handle_same_type [of ev] by (metis option.map_disc_iff)
  then show ?thesis using run_informer_trimmed informer_handle_same_type by blast
qed

text \<open>C37. An update the informer drops as unimportant would have changed nothing: take two
  versions of a Pod that agree in name, namespace, UID, node, service account and in the containers with
  their SANDBOX_MAIN_CONTAINER variables, and may differ in the whole status, phase
  included, the resource version and all that is not kept; if the informer drops the step
  from one to the other, handling the new version does what handling the old one does.
  Container names do not repeat within a status.\<close>

theorem dropped_update_harmless:
  fixes sq :: "'n Server \<times> retries" and left right :: "'o core_Pod"
  assumes dropped: "on_update (PodObject left) (PodObject right) = None"
    and names: "distinct (map ks_Name (kp_ContainerStatuses left))" "distinct (map ks_Name (kp_ContainerStatuses right))"
    and spec: "(trim_pod left)\<lparr>kp_Phase := [], kp_ContainerStatuses := [], kp_ResourceVersion := []\<rparr> =
      (trim_pod right)\<lparr>kp_Phase := [], kp_ContainerStatuses := [], kp_ResourceVersion := []\<rparr>"
  shows "reconcilePodEvent ctx \<lparr>we_Type = ''MODIFIED'', we_Pod = podSnapshot right\<rparr> sq =
    reconcilePodEvent ctx \<lparr>we_Type = ''MODIFIED'', we_Pod = podSnapshot left\<rparr> sq"
proof -
  have same: "sameContainerState left right"
    using dropped by (simp add: on_update_def podFromInformerObject_def split: if_splits)
  have "distinct (map fst (status_pairs left))" "distinct (map fst (status_pairs right))"
    using names by (simp_all add: status_pairs_def comp_def)
  then have "alike (podSnapshot left) (podSnapshot right)" by (rule alike_same_state [OF same _ _ spec])
  then show ?thesis by (rule reconcilePodEvent_alike [symmetric]) simp_all
qed

definition ex_core_pod :: "string \<Rightarrow> nat core_ContainerStatus list \<Rightarrow> nat core_Pod" where
  "ex_core_pod version statuses = \<lparr>kp_TypeMeta = (''Pod'', ''v1''), kp_Name = ''pod-1'', kp_Namespace = ''team-a'',
     kp_UID = ''uid-1'', kp_ResourceVersion = version, kp_Labels = Map.empty, kp_Annotations = Map.empty,
     kp_OwnerReferences = [], kp_NodeName = ''node-a'', kp_ServiceAccountName = ''agent'', kp_Volumes = [],
     kp_Containers = [\<lparr>ko_Name = ''main'', ko_Env = [], ko_Rest = Some 1\<rparr>], kp_Phase = ''Running'',
     kp_ContainerStatuses = statuses, kp_Rest = Some 7\<rparr>"

definition ex_core_status :: "string \<Rightarrow> bool \<Rightarrow> nat core_ContainerStatus" where
  "ex_core_status name ready = \<lparr>ks_Name = name, ks_ContainerID = ''containerd://'' @ name, ks_Ready = ready, ks_Rest = None\<rparr>"

lemma dropped_update_harmless_witness:
  "let left = ex_core_pod ''1'' [ex_core_status ''init'' True, ex_core_status ''main'' False];
       right = ex_core_pod ''2'' [ex_core_status ''main'' True, ex_core_status ''init'' True];
       start = (ex_server True (ex_holding []) [], []) in
   on_update (PodObject left) (PodObject right) = None \<and>
   reconcilePodEvent False \<lparr>we_Type = ''MODIFIED'', we_Pod = podSnapshot right\<rparr> start =
     reconcilePodEvent False \<lparr>we_Type = ''MODIFIED'', we_Pod = podSnapshot left\<rparr> start"
proof -
  let ?l = "ex_core_pod ''1'' [ex_core_status ''init'' True, ex_core_status ''main'' False]"
  let ?r = "ex_core_pod ''2'' [ex_core_status ''main'' True, ex_core_status ''init'' True]"
  have "on_update (PodObject ?l) (PodObject ?r) = None"
    by (simp add: on_update_def podFromInformerObject_def sameContainerState_def leftIDs_def ex_core_pod_def ex_core_status_def)
  moreover have "reconcilePodEvent False \<lparr>we_Type = ''MODIFIED'', we_Pod = podSnapshot ?r\<rparr> (ex_server True (ex_holding []) [], []) =
      reconcilePodEvent False \<lparr>we_Type = ''MODIFIED'', we_Pod = podSnapshot ?l\<rparr> (ex_server True (ex_holding []) [], [])"
    by (rule dropped_update_harmless [OF calculation]) (simp_all add: ex_core_pod_def ex_core_status_def trim_pod_def)
  ultimately show ?thesis by simp
qed

text \<open>Handling an event changes only intents of the Pod's UID.\<close>

definition other_pods_kept :: "string \<Rightarrow> 'n Server \<Rightarrow> 'n Server \<Rightarrow> bool" where
  "other_pods_kept uid s s' \<longleftrightarrow> server_ok s' \<and> (\<forall>k. mk_PodUID k \<noteq> uid \<longrightarrow> state_Get s' k = state_Get s k)"

lemma other_pods_keptI:
  assumes "server_ok s'" and "\<And>k. k \<noteq> key \<Longrightarrow> state_Get s' k = state_Get s k" and "mk_PodUID key = uid"
  shows "other_pods_kept uid s s'"
proof -
  have "state_Get s' k = state_Get s k" if "mk_PodUID k \<noteq> uid" for k
    using assms(2) [of k] assms(3) that by auto
  then show ?thesis using assms(1) by (simp add: other_pods_kept_def)
qed

lemma other_pods_kept_trans: "other_pods_kept uid s t \<Longrightarrow> other_pods_kept uid t u \<Longrightarrow> other_pods_kept uid s u"
  by (simp add: other_pods_kept_def)

lemma normalizeMountRequest_uid: "normalizeMountRequest cfg r b = Inr r' \<Longrightarrow> rq_PodUID r' = rq_PodUID r"
  by (auto simp: normalizeMountRequest_def Let_def split: option.splits sum.splits if_splits)

lemma dm_key_uid: "mk_PodUID (dm_key d) = rq_PodUID (dm_Request d)"
  by (simp add: dm_key_def)

lemma reconcileMountForPod_other_pods:
  assumes ok: "server_ok s" and run: "reconcileMountForPod d pod s = (r, s')"
  shows "other_pods_kept (rq_PodUID (dm_Request d)) s s'"
  using ok run
proof (cases rule: reconcileMountForPod_cases)
  case (applied d' plan)
  then have "rq_PodUID (dm_Request d') = rq_PodUID (dm_Request d)"
    by (auto simp: reconcile_ready_def dest: normalizeMountRequest_uid)
  moreover have "handler_frame (dm_key d') s s'" using applied(3) by (simp add: reconcile_outcome_def)
  ultimately show ?thesis by (intro other_pods_keptI [of _ "dm_key d'"]) (simp_all add: handler_frame_def dm_key_uid)
qed (use ok in \<open>simp add: other_pods_kept_def\<close>)

lemma event_step_other_pods:
  assumes ok: "server_ok (fst sq)"
  shows "other_pods_kept (rq_PodUID (dm_Request d)) (fst sq) (fst (event_step ctx ev d sq))"
proof -
  obtain s q where sq: "sq = (s, q)" by fastforce
  obtain r t where t: "reconcileMountForPod d (we_Pod ev) s = (r, t)" by fastforce
  have handled: "other_pods_kept (rq_PodUID (dm_Request d)) u (handleReconcileResult d e u)" if "server_ok u" for u e
    using handleReconcileResult_frame [OF that, of d e]
    by (intro other_pods_keptI [of _ "dm_key d"]) (simp_all add: rec_frame_def dm_key_uid)
  have scheduled: "other_pods_kept uid u (fst (scheduleReconcileRetry ctx d e (v, q)))" if "other_pods_kept uid u v" for uid u v e
    using that by (simp add: scheduleReconcileRetry_def Let_def other_pods_kept_def split: option.split)
  have "server_ok s" "server_ok t" using ok sq reconcileMountForPod_ok(1) [OF _ t] by simp_all
  moreover note reconcileMountForPod_other_pods [OF calculation(1) t] handled
  ultimately show ?thesis
    unfolding sq event_step_def using t by (auto intro: scheduled other_pods_kept_trans)
qed

lemma reconcilePodEvent_other_pods:
  assumes ok: "server_ok s"
  shows "other_pods_kept (om_UID (pod_Metadata (we_Pod ev))) s (fst (reconcilePodEvent ctx ev (s, q)))"
proof -
  let ?uid = "om_UID (pod_Metadata (we_Pod ev))"
  have "other_pods_kept ?uid s (fst (fold (event_step ctx ev) ds sq))"
    if "other_pods_kept ?uid s (fst sq)" "\<And>d. d \<in> set ds \<Longrightarrow> rq_PodUID (dm_Request d) = ?uid" for ds sq
    using that
  proof (induction ds arbitrary: sq)
    case (Cons d ds)
    have "other_pods_kept (rq_PodUID (dm_Request d)) (fst sq) (fst (event_step ctx ev d sq))"
      by (rule event_step_other_pods) (use Cons.prems(1) in \<open>simp add: other_pods_kept_def\<close>)
    then have "other_pods_kept ?uid (fst sq) (fst (event_step ctx ev d sq))" using Cons.prems(2) [of d] by simp
    then have "other_pods_kept ?uid s (fst (event_step ctx ev d sq))" by (rule other_pods_kept_trans [OF Cons.prems(1)])
    then show ?case using Cons.IH Cons.prems(2) by simp
  qed simp
  moreover have "rq_PodUID (dm_Request d) = ?uid" if "d \<in> set (ListForPod (sv_state s) (event_pod_key ev))" for d
    using that sv_ListForPod(2) [OF ok] by (simp add: event_pod_key_def desiredPodKeyFor_def)
  moreover have "other_pods_kept ?uid s s" using ok by (simp add: other_pods_kept_def)
  ultimately show ?thesis by (simp add: reconcilePodEvent_def)
qed

text \<open>C39. When a Pod is replaced by one of the same name while the watch is interrupted, the
  informer sees one update from the old Pod to the new one, and its handler does not compare
  their UIDs: the intents of the old Pod all stay, although that Pod is gone.\<close>

theorem replaced_pod_keeps_intents:
  assumes "server_ok s" and "kp_UID old \<noteq> kp_UID new"
    and "state_Get s k = Some d" and "mk_PodUID k = kp_UID old"
  shows "state_Get (fst (fold (reconcile_action ctx) (snd (RunPodInformer True None None [Updated (PodObject old) (PodObject new)]
      (Inl e) [])) (s, q))) k = Some d"
proof -
  let ?ev = "on_update (PodObject (trim_pod old)) (PodObject (trim_pod new))"
  have acts: "snd (RunPodInformer True None None [Updated (PodObject old) (PodObject new)] (Inl e) []) =
      (case ?ev of None \<Rightarrow> [] | Some ev \<Rightarrow> [Handle ev])"
    by (auto simp: RunPodInformer_def run_informer_def informer_handle_def trimPodForInformerCache_def
        List.map_filter_simps split: option.split)
  show ?thesis
  proof (cases ?ev)
    case (Some ev)
    then have "om_UID (pod_Metadata (we_Pod ev)) = kp_UID new"
      by (auto simp: on_update_def podFromInformerObject_def podSnapshot_def trim_pod_def split: if_splits)
    then show ?thesis
      using reconcilePodEvent_other_pods [OF assms(1), of ev ctx q] assms(2-4)
      by (simp add: acts Some reconcile_action_def other_pods_kept_def)
  qed (simp add: acts assms(3))
qed

lemma replaced_pod_keeps_intents_witness:
  "state_Get (fst (fold (reconcile_action False) (snd (RunPodInformer True None None
      [Updated (PodObject (ex_core_pod ''1'' [ex_core_status ''main'' True]))
         (PodObject ((ex_core_pod ''2'' [])\<lparr>kp_UID := ''uid-2''\<rparr>))] (Inl None) []))
      (ex_server True (ex_holding ''containerd://main'') [''/work''], []))) ex_key = Some (ex_intent ''containerd://main'')"
  by (rule replaced_pod_keeps_intents) (simp_all add: ex_core_pod_def ex_key_def)

end
