(* ===== verification/ClientSdk.thy ===== *)
theory ClientSdk
  imports KubeClient
begin

text \<open>
  The client library, mounter/client.go: it validates a request, reads the token and the
  optional export-root key, sends the request over the Unix socket and reads the envelope of
  the answer. The HTTP transport is a parameter that acts on a state of any type (theory Wire
  instantiates it with the handlers of the wrapper), files are a function from paths to their
  contents, and \<open>parse\<close> is \<open>encoding/json\<close> from text to trees: \<open>None\<close> when the text is not
  exactly one JSON value. Strings are valid UTF-8; \<open>json.Marshal\<close> replaces other bytes.
\<close>

subsection \<open>Data\<close>

definition defaultHTTPTimeout :: int where "defaultHTTPTimeout = 15 * Second"

definition maxResponseSize :: nat where "maxResponseSize = 1048576"

text \<open>The structs are named with the prefix \<open>Sdk\<close>, since internal/api has structs of their names.\<close>

record SdkConfig =
  cf_DriverName :: string
  cf_SocketPath :: string
  cf_TokenFile :: string
  cf_ExportRootKeyFile :: string
  cf_HTTPTimeout :: int
  cf_DisableHTTPTimeout :: bool

record SdkMountRequest =
  sm_Namespace :: string
  sm_PodName :: string
  sm_PodUID :: string
  sm_PVName :: string
  sm_SourceSubPath :: string
  sm_TargetPath :: string
  sm_ContainerName :: string

record SdkMountResult =
  so_Mounted :: bool
  so_DriverName :: string
  so_PVName :: string
  so_SourceSubPath :: string
  so_TargetPath :: string
  so_ContainerName :: string

record SdkUnmountRequest =
  su_Namespace :: string
  su_PodName :: string
  su_PodUID :: string
  su_PVName :: string
  su_TargetPath :: string
  su_ContainerName :: string

record SdkUnmountResult =
  sn_Unmounted :: bool
  sn_DriverName :: string
  sn_PVName :: string
  sn_TargetPath :: string
  sn_ContainerName :: string

record HealthResult =
  he_Status :: string
  he_DriverName :: string

record ResponseError =
  re_Operation :: string
  re_StatusCode :: int
  re_Message :: string
  re_status :: string

definition ResponseError_Error :: "ResponseError \<Rightarrow> string" where
  "ResponseError_Error e =
     (if re_Message e \<noteq> [] then ''wrapper rejected '' @ re_Operation e @ '' request: '' @ re_Message e
      else ''wrapper rejected '' @ re_Operation e @ '' request with status '' @
        (if re_status e = [] then Itoa (re_StatusCode e) else re_status e))"

text \<open>An error of a call: one that \<open>errors.As\<close> finds to be a \<open>ResponseError\<close>, or another one.\<close>

datatype sdk_error = Rejected ResponseError | Failed go_error

subsection \<open>The transport\<close>

text \<open>A response whose body reads as text, or fails to.\<close>

record wrapper_response =
  wp_StatusCode :: int
  wp_Status :: string
  wp_Body :: "go_error + string"

record 's socket_transport =
  st_NewRequest :: "string \<Rightarrow> string \<Rightarrow> go_error option"
  st_Do :: "http_request \<Rightarrow> 's \<Rightarrow> (go_error + wrapper_response) \<times> 's"

record 's SdkClient =
  sc_driverName :: string
  sc_socketPath :: string
  sc_tokenFile :: string
  sc_exportRootKeyFile :: string
  sc_httpClient :: "'s socket_transport"

definition client_timeout :: "SdkConfig \<Rightarrow> int" where
  "client_timeout cfg =
     (if cf_DisableHTTPTimeout cfg then 0
      else if cf_HTTPTimeout cfg = 0 then defaultHTTPTimeout
      else cf_HTTPTimeout cfg)"

text \<open>\<open>dial\<close> is the HTTP client for a socket path with a timeout, 0 meaning none.\<close>

definition NewClient :: "(string \<Rightarrow> int \<Rightarrow> 's socket_transport) \<Rightarrow> SdkConfig \<Rightarrow> go_error + 's SdkClient" where
  "NewClient dial cfg =
     (if cf_DriverName cfg = [] then Inl (Errorf ''driver name is required'' [])
      else if cf_SocketPath cfg = [] then Inl (Errorf ''socket path is required'' [])
      else if cf_TokenFile cfg = [] then Inl (Errorf ''token file is required'' [])
      else if cf_HTTPTimeout cfg < 0 then Inl (Errorf ''http timeout must not be negative'' [])
      else
        Inr \<lparr>sc_driverName = cf_DriverName cfg, sc_socketPath = cf_SocketPath cfg,
             sc_tokenFile = cf_TokenFile cfg, sc_exportRootKeyFile = cf_ExportRootKeyFile cfg,
             sc_httpClient = dial (cf_SocketPath cfg) (client_timeout cfg)\<rparr>)"

subsection \<open>Checks before a call\<close>

definition validateRequest :: "string \<Rightarrow> string \<Rightarrow> string \<Rightarrow> string \<Rightarrow> string \<Rightarrow> go_error option" where
  "validateRequest namespace podName podUID pvName targetPath =
     (if namespace = [] then Some (Errorf ''namespace is required'' [])
      else if podName = [] then Some (Errorf ''pod name is required'' [])
      else if podUID = [] then Some (Errorf ''pod uid is required'' [])
      else if pvName = [] then Some (Errorf ''pv is required'' [])
      else if targetPath = [] then Some (Errorf ''target is required'' [])
      else None)"

definition readToken :: "(string \<Rightarrow> go_error + string) \<Rightarrow> 's SdkClient \<Rightarrow> go_error + string" where
  "readToken readFile c =
     (case readFile (sc_tokenFile c) of
        Inl err \<Rightarrow> Inl (Errorf ''read projected token file: %w'' [AWrap err])
      | Inr tokenBytes \<Rightarrow>
          let token = TrimSpace tokenBytes in
          if token = [] then Inl (Errorf ''projected token file is empty'' []) else Inr token)"

definition readExportRootKey :: "(string \<Rightarrow> go_error + string) \<Rightarrow> 's SdkClient \<Rightarrow> go_error + string" where
  "readExportRootKey readFile c =
     (if sc_exportRootKeyFile c = [] then Inr []
      else
        (case readFile (sc_exportRootKeyFile c) of
           Inl err \<Rightarrow> Inl (Errorf ''read export root key file: %w'' [AWrap err])
         | Inr keyBytes \<Rightarrow>
             let key = TrimSpace keyBytes in
             if key = [] then Inl (Errorf ''export root key file is empty'' []) else Inr key))"

subsection \<open>The envelope of an answer\<close>

text \<open>
  \<open>json.Unmarshal\<close> goes on after a field of the wrong type and reports the error at the end;
  \<open>en_ok\<close> is that no error was met. \<open>RawMessage\<close> takes any value, \<open>null\<close> too.
\<close>

record envelope =
  en_Data :: "json option"
  en_Error :: string
  en_ok :: bool

definition envelope_field :: "string \<times> json \<Rightarrow> envelope \<Rightarrow> envelope" where
  "envelope_field kv en =
     (let k = json_fold (fst kv); v = snd kv in
      if k = ''data'' then en\<lparr>en_Data := Some v\<rparr>
      else if k = ''error'' then
        (case decode_str v (en_Error en) of
           None \<Rightarrow> en\<lparr>en_ok := False\<rparr>
         | Some x \<Rightarrow> en\<lparr>en_Error := x\<rparr>)
      else en)"

definition decode_envelope :: "json option \<Rightarrow> envelope" where
  "decode_envelope j =
     (let zero = \<lparr>en_Data = None, en_Error = [], en_ok = True\<rparr> in
      case j of
        Some (JObj kvs) \<Rightarrow> fold envelope_field kvs zero
      | Some JNull \<Rightarrow> zero
      | _ \<Rightarrow> zero\<lparr>en_ok := False\<rparr>)"

definition set_MountResult :: "string \<Rightarrow> json \<Rightarrow> SdkMountResult \<Rightarrow> SdkMountResult option" where
  "set_MountResult k v r =
     (if k = ''mounted'' then into (\<lambda>x. r\<lparr>so_Mounted := x\<rparr>) (decode_bool v (so_Mounted r))
      else if k = ''driver_name'' then into (\<lambda>x. r\<lparr>so_DriverName := x\<rparr>) (decode_str v (so_DriverName r))
      else if k = ''pv_name'' then into (\<lambda>x. r\<lparr>so_PVName := x\<rparr>) (decode_str v (so_PVName r))
      else if k = ''source_sub_path'' then into (\<lambda>x. r\<lparr>so_SourceSubPath := x\<rparr>) (decode_str v (so_SourceSubPath r))
      else if k = ''target_path'' then into (\<lambda>x. r\<lparr>so_TargetPath := x\<rparr>) (decode_str v (so_TargetPath r))
      else if k = ''container_name'' then into (\<lambda>x. r\<lparr>so_ContainerName := x\<rparr>) (decode_str v (so_ContainerName r))
      else Some r)"

definition zero_MountResult :: SdkMountResult where
  "zero_MountResult = \<lparr>so_Mounted = False, so_DriverName = [], so_PVName = [], so_SourceSubPath = [],
     so_TargetPath = [], so_ContainerName = []\<rparr>"

definition set_UnmountResult :: "string \<Rightarrow> json \<Rightarrow> SdkUnmountResult \<Rightarrow> SdkUnmountResult option" where
  "set_UnmountResult k v r =
     (if k = ''unmounted'' then into (\<lambda>x. r\<lparr>sn_Unmounted := x\<rparr>) (decode_bool v (sn_Unmounted r))
      else if k = ''driver_name'' then into (\<lambda>x. r\<lparr>sn_DriverName := x\<rparr>) (decode_str v (sn_DriverName r))
      else if k = ''pv_name'' then into (\<lambda>x. r\<lparr>sn_PVName := x\<rparr>) (decode_str v (sn_PVName r))
      else if k = ''target_path'' then into (\<lambda>x. r\<lparr>sn_TargetPath := x\<rparr>) (decode_str v (sn_TargetPath r))
      else if k = ''container_name'' then into (\<lambda>x. r\<lparr>sn_ContainerName := x\<rparr>) (decode_str v (sn_ContainerName r))
      else Some r)"

definition zero_UnmountResult :: SdkUnmountResult where
  "zero_UnmountResult = \<lparr>sn_Unmounted = False, sn_DriverName = [], sn_PVName = [], sn_TargetPath = [],
     sn_ContainerName = []\<rparr>"

definition set_HealthResult :: "string \<Rightarrow> json \<Rightarrow> HealthResult \<Rightarrow> HealthResult option" where
  "set_HealthResult k v r =
     (if k = ''status'' then into (\<lambda>x. r\<lparr>he_Status := x\<rparr>) (decode_str v (he_Status r))
      else if k = ''driver_name'' then into (\<lambda>x. r\<lparr>he_DriverName := x\<rparr>) (decode_str v (he_DriverName r))
      else Some r)"

definition zero_HealthResult :: HealthResult where
  "zero_HealthResult = \<lparr>he_Status = [], he_DriverName = []\<rparr>"

subsection \<open>The call\<close>

definition call_headers :: "string \<Rightarrow> string \<Rightarrow> json option \<Rightarrow> (string \<times> string) list" where
  "call_headers token exportRootKey payload =
     [(''Accept'', ''application/json'')] @
     (if payload \<noteq> None then [(''Content-Type'', ''application/json'')] else []) @
     (if token \<noteq> [] then [(''Authorization'', ''Bearer '' @ token)] else []) @
     (if exportRootKey \<noteq> [] then [(ExportRootKeyHeader, exportRootKey)] else [])"

text \<open>What becomes of a response.\<close>

definition call_result ::
  "(string \<Rightarrow> json option) \<Rightarrow> string \<Rightarrow> wrapper_response \<Rightarrow> (string \<Rightarrow> json \<Rightarrow> 'a \<Rightarrow> 'a option) \<Rightarrow> 'a \<Rightarrow>
   sdk_error + 'a" where
  "call_result parse operation response setter zero =
     (case wp_Body response of
        Inl err \<Rightarrow> Inl (Failed (Errorf ''read wrapper response: %w'' [AWrap err]))
      | Inr body \<Rightarrow>
          (let envelope = decode_envelope (parse (take maxResponseSize body)) in
           if wp_StatusCode response < 200 \<or> wp_StatusCode response \<ge> 300 then
             Inl (Rejected \<lparr>re_Operation = operation, re_StatusCode = wp_StatusCode response,
               re_Message = en_Error envelope, re_status = wp_Status response\<rparr>)
           else if \<not> en_ok envelope then
             Inl (Failed (Errorf ''decode wrapper response: %w'' [AWrap (Sentinel (Errno ''json''))]))
           else
             (case en_Data envelope of
                None \<Rightarrow> Inl (Failed (Errorf ''wrapper response did not include data'' []))
              | Some data \<Rightarrow>
                  (case decode_struct setter data zero of
                     None \<Rightarrow> Inl (Failed (Errorf ''decode wrapper %s result: %w''
                       [AStr operation, AWrap (Sentinel (Errno ''json''))]))
                   | Some result \<Rightarrow> Inr result))))"

definition sdk_call ::
  "(string \<Rightarrow> json option) \<Rightarrow> 's SdkClient \<Rightarrow> string \<Rightarrow> string \<Rightarrow> string \<Rightarrow> string \<Rightarrow> string \<Rightarrow> json option \<Rightarrow>
   (string \<Rightarrow> json \<Rightarrow> 'a \<Rightarrow> 'a option) \<Rightarrow> 'a \<Rightarrow> 's \<Rightarrow> (sdk_error + 'a) \<times> 's" where
  "sdk_call parse c operation meth endpoint token exportRootKey payload setter zero s =
     (let url = ''http://unix'' @ endpoint in
      case st_NewRequest (sc_httpClient c) meth url of
        Some err \<Rightarrow> (Inl (Failed (Errorf ''create wrapper request: %w'' [AWrap err])), s)
      | None \<Rightarrow>
          (let request = \<lparr>ht_Method = meth, ht_URL = url,
                 ht_Header = call_headers token exportRootKey payload, ht_Body = payload\<rparr>
           in case st_Do (sc_httpClient c) request s of
                (Inl err, s) \<Rightarrow>
                  (Inl (Failed (Errorf ''call wrapper socket %s: %w'' [AStr (sc_socketPath c), AWrap err])), s)
              | (Inr response, s) \<Rightarrow> (call_result parse operation response setter zero, s)))"

subsection \<open>The operations\<close>

text \<open>\<open>Response\<close> of internal/api, both fields \<open>omitempty\<close>.\<close>

definition encode_Response :: "json option \<Rightarrow> string \<Rightarrow> json" where
  "encode_Response data err =
     JObj ((case data of None \<Rightarrow> [] | Some d \<Rightarrow> [(''data'', d)]) @ opt_str ''error'' err)"


definition encode_UnmountRequest :: "UnmountRequest \<Rightarrow> json" where
  "encode_UnmountRequest r = JObj
     ([(''api_version'', JStr (ur_APIVersion r)), (''driver_name'', JStr (ur_DriverName r)),
       (''namespace'', JStr (ur_Namespace r)), (''pod_name'', JStr (ur_PodName r)),
       (''pod_uid'', JStr (ur_PodUID r)), (''pv_name'', JStr (ur_PVName r)),
       (''target_path'', JStr (ur_TargetPath r))]
      @ opt_str ''container_name'' (ur_ContainerName r))"

definition mount_payload :: "'s SdkClient \<Rightarrow> SdkMountRequest \<Rightarrow> MountRequest" where
  "mount_payload c request =
     \<lparr>rq_APIVersion = api_Version, rq_DriverName = sc_driverName c, rq_Namespace = sm_Namespace request,
      rq_PodName = sm_PodName request, rq_PodUID = sm_PodUID request, rq_PVName = sm_PVName request,
      rq_SourceSubPath = sm_SourceSubPath request, rq_TargetPath = sm_TargetPath request,
      rq_ContainerName = sm_ContainerName request\<rparr>"

definition SdkMount ::
  "(string \<Rightarrow> json option) \<Rightarrow> (string \<Rightarrow> go_error + string) \<Rightarrow> 's SdkClient \<Rightarrow> SdkMountRequest \<Rightarrow> 's \<Rightarrow>
   (sdk_error + SdkMountResult) \<times> 's" where
  "SdkMount parse readFile c request s =
     (case validateRequest (sm_Namespace request) (sm_PodName request) (sm_PodUID request)
             (sm_PVName request) (sm_TargetPath request) of
        Some err \<Rightarrow> (Inl (Failed err), s)
      | None \<Rightarrow>
          (case readToken readFile c of
             Inl err \<Rightarrow> (Inl (Failed err), s)
           | Inr token \<Rightarrow>
               (case readExportRootKey readFile c of
                  Inl err \<Rightarrow> (Inl (Failed err), s)
                | Inr exportRootKey \<Rightarrow>
                    sdk_call parse c ''mount'' ''POST'' ''/v1/mount'' token exportRootKey
                      (Some (encode_request (mount_payload c request))) set_MountResult zero_MountResult s)))"

definition unmount_payload :: "'s SdkClient \<Rightarrow> SdkUnmountRequest \<Rightarrow> UnmountRequest" where
  "unmount_payload c request =
     \<lparr>ur_APIVersion = api_Version, ur_DriverName = sc_driverName c, ur_Namespace = su_Namespace request,
      ur_PodName = su_PodName request, ur_PodUID = su_PodUID request, ur_PVName = su_PVName request,
      ur_TargetPath = su_TargetPath request, ur_ContainerName = su_ContainerName request\<rparr>"

definition SdkUnmount ::
  "(string \<Rightarrow> json option) \<Rightarrow> (string \<Rightarrow> go_error + string) \<Rightarrow> 's SdkClient \<Rightarrow> SdkUnmountRequest \<Rightarrow> 's \<Rightarrow>
   (sdk_error + SdkUnmountResult) \<times> 's" where
  "SdkUnmount parse readFile c request s =
     (case validateRequest (su_Namespace request) (su_PodName request) (su_PodUID request)
             (su_PVName request) (su_TargetPath request) of
        Some err \<Rightarrow> (Inl (Failed err), s)
      | None \<Rightarrow>
          (case readToken readFile c of
             Inl err \<Rightarrow> (Inl (Failed err), s)
           | Inr token \<Rightarrow>
               sdk_call parse c ''unmount'' ''POST'' ''/v1/unmount'' token []
                 (Some (encode_UnmountRequest (unmount_payload c request))) set_UnmountResult
                 zero_UnmountResult s))"

definition SdkHealth ::
  "(string \<Rightarrow> json option) \<Rightarrow> 's SdkClient \<Rightarrow> 's \<Rightarrow> (sdk_error + HealthResult) \<times> 's" where
  "SdkHealth parse c s =
     sdk_call parse c ''health'' ''GET'' ''/healthz'' [] [] None set_HealthResult zero_HealthResult s"

subsection \<open>Facts about the client\<close>

lemma validateRequest_None:
  "validateRequest ns pod uid pv target = None \<longleftrightarrow>
     ns \<noteq> [] \<and> pod \<noteq> [] \<and> uid \<noteq> [] \<and> pv \<noteq> [] \<and> target \<noteq> []"
  by (simp add: validateRequest_def)

text \<open>A token, or key, that was read is trimmed and not empty.\<close>

lemma readToken_trimmed: "readToken readFile c = Inr token \<Longrightarrow> TrimSpace token = token \<and> token \<noteq> []"
  by (auto simp: readToken_def Let_def split: sum.splits if_splits)

lemma readExportRootKey_trimmed: "readExportRootKey readFile c = Inr key \<Longrightarrow> TrimSpace key = key"
  by (auto simp: readExportRootKey_def Let_def TrimSpace_idem split: sum.splits if_splits)

lemma NewClient_Inr:
  "NewClient dial cfg = Inr c \<longleftrightarrow>
     cf_DriverName cfg \<noteq> [] \<and> cf_SocketPath cfg \<noteq> [] \<and> cf_TokenFile cfg \<noteq> [] \<and> 0 \<le> cf_HTTPTimeout cfg \<and>
     c = \<lparr>sc_driverName = cf_DriverName cfg, sc_socketPath = cf_SocketPath cfg,
          sc_tokenFile = cf_TokenFile cfg, sc_exportRootKeyFile = cf_ExportRootKeyFile cfg,
          sc_httpClient = dial (cf_SocketPath cfg) (client_timeout cfg)\<rparr>"
  by (auto simp: NewClient_def)

lemma client_timeout_zero: "0 \<le> cf_HTTPTimeout cfg \<Longrightarrow>
    0 \<le> client_timeout cfg \<and> (client_timeout cfg = 0 \<longleftrightarrow> cf_DisableHTTPTimeout cfg)"
  by (auto simp: client_timeout_def defaultHTTPTimeout_def Second_def)

end
