(* ===== verification/Wire.thy ===== *)
theory Wire
  imports ClientSdk StoreReload
begin

text \<open>
  The two ends of the socket put together: \<open>ServeHTTP\<close>, \<open>writeData\<close> and \<open>writeError\<close> of
  internal/wrapper/server.go, what net/http does to a request on the way, and the client
  library calling the handlers through it. \<open>etext\<close> is the text of an error (its \<open>Error\<close>
  method), \<open>print\<close> and \<open>parse\<close> are \<open>encoding/json\<close> between trees and text.
\<close>

subsection \<open>Answers of the wrapper\<close>

definition writeData :: "int \<Rightarrow> json \<Rightarrow> int \<times> json" where
  "writeData status data = (status, encode_Response (Some data) [])"

definition writeError :: "int \<Rightarrow> string \<Rightarrow> int \<times> json" where
  "writeError status message = (status, encode_Response None message)"

definition write_reply :: "(go_error \<Rightarrow> string) \<Rightarrow> ('a \<Rightarrow> json) \<Rightarrow> 'a http_reply \<Rightarrow> int \<times> json" where
  "write_reply etext enc reply =
     (case reply of
        Reply_Data status data \<Rightarrow> writeData status (enc data)
      | Reply_Error status err \<Rightarrow> writeError status (etext err))"

definition encode_MountResult :: "MountResult \<Rightarrow> json" where
  "encode_MountResult r = JObj
     ([(''mounted'', JBool (mr_Mounted r)), (''driver_name'', JStr (mr_DriverName r)),
       (''pv_name'', JStr (mr_PVName r))]
      @ opt_str ''source_sub_path'' (mr_SourceSubPath r)
      @ [(''target_path'', JStr (mr_TargetPath r))]
      @ opt_str ''container_name'' (mr_ContainerName r))"

definition encode_UnmountResult :: "UnmountResult \<Rightarrow> json" where
  "encode_UnmountResult r = JObj
     ([(''unmounted'', JBool (us_Unmounted r)), (''driver_name'', JStr (us_DriverName r)),
       (''pv_name'', JStr (us_PVName r)), (''target_path'', JStr (us_TargetPath r))]
      @ opt_str ''container_name'' (us_ContainerName r))"

text \<open>A \<open>map[string]string\<close> is printed by key.\<close>

definition encode_string_map :: "(string \<times> string) list \<Rightarrow> json" where
  "encode_string_map m = JObj (map (\<lambda>(k, v). (k, JStr v)) (sort_key fst m))"

text \<open>The three registered paths; \<open>None\<close> when the mux answers by itself.\<close>

definition ServeHTTP ::
  "(go_error \<Rightarrow> string) \<Rightarrow> string \<Rightarrow> Server.http_request \<Rightarrow> 'n Server \<Rightarrow> (int \<times> json) option \<times> 'n Server" where
  "ServeHTTP etext path r s =
     (if path = ''/healthz'' then
        (case handleHealthz r s of (reply, s) \<Rightarrow> (Some (write_reply etext encode_string_map reply), s))
      else if path = ''/v1/mount'' then
        (case handleMount r s of (reply, s) \<Rightarrow> (Some (write_reply etext encode_MountResult reply), s))
      else if path = ''/v1/unmount'' then
        (case handleUnmount r s of (reply, s) \<Rightarrow> (Some (write_reply etext encode_UnmountResult reply), s))
      else (None, s))"

subsection \<open>net/http in between\<close>

text \<open>
  \<open>Transport.roundTrip\<close> refuses a header value with a control character other than a tab;
  surrounding white space is dropped on the way. A body beyond the size limit of the
  handlers is not read.
\<close>

definition valid_header_value :: "string \<Rightarrow> bool" where
  "valid_header_value v \<longleftrightarrow> list_all (\<lambda>c. (c \<ge> CHR 0x20 \<and> c \<noteq> CHR 0x7F) \<or> c = CHR 0x09) v"

definition is_LWS :: "char \<Rightarrow> bool" where
  "is_LWS c \<longleftrightarrow> c \<in> {CHR 0x20, CHR 0x09, CHR 0x0A, CHR 0x0D}"

definition trim_header :: "string \<Rightarrow> string" where
  "trim_header v = rev (dropWhile is_LWS (rev (dropWhile is_LWS v)))"

definition header_value :: "(string \<times> string) list \<Rightarrow> string \<Rightarrow> string" where
  "header_value hs k = (case map_of hs k of None \<Rightarrow> [] | Some v \<Rightarrow> trim_header v)"

definition maxRequestSize :: nat where "maxRequestSize = 1048576"

definition received :: "(json \<Rightarrow> string) \<Rightarrow> http_request \<Rightarrow> Server.http_request" where
  "received print q =
     \<lparr>hr_Method = ht_Method q, hr_Authorization = header_value (ht_Header q) ''Authorization'',
      hr_ExportRootKey = header_value (ht_Header q) ExportRootKeyHeader,
      hr_Body = (case ht_Body q of None \<Rightarrow> None
                 | Some j \<Rightarrow> if length (print j) \<le> maxRequestSize then Some j else None)\<rparr>"

definition StatusText :: "int \<Rightarrow> string" where
  "StatusText code =
     (case map_of [(200, ''OK''), (400, ''Bad Request''), (401, ''Unauthorized''), (403, ''Forbidden''),
        (404, ''Not Found''), (405, ''Method Not Allowed''), (500, ''Internal Server Error''),
        (503, ''Service Unavailable'')] code of None \<Rightarrow> [] | Some t \<Rightarrow> t)"

definition status_line :: "int \<Rightarrow> string" where
  "status_line code = Itoa code @ '' '' @ StatusText code"

definition wrapper_transport :: "(json \<Rightarrow> string) \<Rightarrow> (go_error \<Rightarrow> string) \<Rightarrow> 'n Server socket_transport" where
  "wrapper_transport print etext =
     \<lparr>st_NewRequest = (\<lambda>meth url. None),
      st_Do = (\<lambda>q s.
        if \<not> list_all (\<lambda>h. valid_header_value (snd h)) (ht_Header q) then
          (Inl (Errorf ''net/http: invalid header field value'' []), s)
        else
          (case ServeHTTP etext (TrimPrefix (ht_URL q) ''http://unix'') (received print q) s of
             (None, s) \<Rightarrow>
               (Inr \<lparr>wp_StatusCode = 404, wp_Status = status_line 404, wp_Body = Inr ''404 page not found''\<rparr>, s)
           | (Some (status, j), s) \<Rightarrow>
               (Inr \<lparr>wp_StatusCode = status, wp_Status = status_line status, wp_Body = Inr (print j)\<rparr>, s)))\<rparr>"

text \<open>
  \<open>http.Client\<close> with the timeout of \<open>NewClient\<close> over the transport that dials the socket. A
  \<open>link\<close> is what the client cannot know of a request: whether the socket takes the connection,
  how long the response headers and then the body take, and what becomes of the wrapper when
  the client gives up on a request it has sent. A timeout that is not positive means none; it
  covers the whole exchange, so it ends the wait for the headers or the reading of the body.
\<close>

record 's link =
  ln_connect :: "string \<Rightarrow> go_error option"
  ln_headers :: "http_request \<Rightarrow> 's \<Rightarrow> int"
  ln_body :: "http_request \<Rightarrow> 's \<Rightarrow> int"
  ln_abandoned :: "http_request \<Rightarrow> 's \<Rightarrow> 's"
  ln_timeout :: go_error

definition elapses :: "int \<Rightarrow> int \<Rightarrow> bool" where
  "elapses timeout time \<longleftrightarrow> 0 < timeout \<and> timeout < time"

definition http_client :: "'s link \<Rightarrow> string \<Rightarrow> int \<Rightarrow> 's socket_transport \<Rightarrow> 's socket_transport" where
  "http_client link socket timeout tr = tr\<lparr>st_Do := (\<lambda>q s.
     if \<not> list_all (\<lambda>h. valid_header_value (snd h)) (ht_Header q) then st_Do tr q s
     else
       (case ln_connect link socket of
          Some err \<Rightarrow> (Inl err, s)
        | None \<Rightarrow>
            if elapses timeout (ln_headers link q s) then (Inl (ln_timeout link), ln_abandoned link q s)
            else
              (case st_Do tr q s of
                 (Inl err, s') \<Rightarrow> (Inl err, s')
               | (Inr response, s') \<Rightarrow>
                   (Inr (if elapses timeout (ln_headers link q s + ln_body link q s)
                         then response\<lparr>wp_Body := Inl (ln_timeout link)\<rparr> else response), s'))))\<rparr>"

text \<open>A tree that survives printing and parsing within the size limits of both ends.\<close>

definition carried :: "(json \<Rightarrow> string) \<Rightarrow> (string \<Rightarrow> json option) \<Rightarrow> json \<Rightarrow> bool" where
  "carried print parse j \<longleftrightarrow>
     length (print j) \<le> maxRequestSize \<and> length (print j) \<le> maxResponseSize \<and> parse (print j) = Some j"

subsection \<open>Header values arrive as they were sent\<close>

lemma dropWhile_LWS: "(v = [] \<or> \<not> is_LWS (hd v)) \<Longrightarrow> dropWhile is_LWS v = v"
  by (cases v) simp_all

lemma trim_header_id:
  "(v = [] \<or> \<not> is_LWS (hd v)) \<Longrightarrow> (v = [] \<or> \<not> is_LWS (last v)) \<Longrightarrow> trim_header v = v"
  by (simp add: trim_header_def dropWhile_LWS hd_rev)

lemma LWS_space: "is_LWS c \<Longrightarrow> [c] \<in> set space_encodings"
  by (auto simp: is_LWS_def space_encodings_def)

lemma trimmed_ends:
  assumes "TrimSpace v = v" and "v \<noteq> []"
  shows "\<not> is_LWS (hd v)" and "\<not> is_LWS (last v)"
proof -
  let ?t = "trim_by space_encodings v" and ?r = "map rev space_encodings"
  have v: "rev v = trim_by ?r (rev ?t)" using assms(1) by (metis TrimSpace_def rev_rev_ident)
  have "prefix v ?t" using trim_by_suffix [of ?r "rev ?t"] by (simp add: suffix_to_prefix flip: v)
  then have "trim_len space_encodings v = 0"
    using trim_len_prefix [OF Nil_notin_space_encodings trim_len_trim_by] by blast
  then have "\<not> prefix [hd v] v" if "is_LWS (hd v)" using LWS_space [OF that] by (simp add: trim_len_0_iff)
  then show "\<not> is_LWS (hd v)" using assms(2) by (cases v) auto
  have "trim_len ?r (rev v) = 0" using v trim_len_trim_by by simp
  moreover have "[] \<notin> set ?r" using Nil_notin_space_encodings by auto
  ultimately have "\<not> prefix e (rev v)" if "e \<in> set ?r" for e using that trim_len_0_iff [of ?r "rev v"] by blast
  then have "\<not> prefix [last v] (rev v)" if "is_LWS (last v)"
    using LWS_space [OF that] by (metis image_eqI list.set_map rev_singleton_conv)
  moreover have "prefix [last v] (rev v)" using assms(2) by (cases v rule: rev_cases) auto
  ultimately show "\<not> is_LWS (last v)" by blast
qed

lemma header_trimmed: "TrimSpace v = v \<Longrightarrow> trim_header v = v"
  by (cases "v = []") (simp_all add: trim_header_id trimmed_ends)

lemma header_bearer:
  assumes "TrimSpace token = token" and "token \<noteq> []"
  shows "trim_header (''Bearer '' @ token) = ''Bearer '' @ token"
  using trimmed_ends(2) [OF assms] assms(2) by (intro trim_header_id) (simp_all add: is_LWS_def)

lemma bearerToken_sent:
  "TrimSpace token = token \<Longrightarrow> token \<noteq> [] \<Longrightarrow> bearerToken (''Bearer '' @ token) = Inr token"
  by (simp add: bearerToken_def HasPrefix_append [of "''Bearer ''" token, simplified] TrimPrefix_append [of "''Bearer ''" token, simplified])

lemma valid_bearer: "valid_header_value (''Bearer '' @ token) \<longleftrightarrow> valid_header_value token"
  by (simp add: valid_header_value_def less_eq_char_def)

text \<open>The request as the handlers see it.\<close>

lemma received_call:
  assumes "TrimSpace token = token" and "token \<noteq> []" and "TrimSpace key = key"
    and "length (print j) \<le> maxRequestSize"
  shows "received print \<lparr>ht_Method = m, ht_URL = u, ht_Header = call_headers token key (Some j), ht_Body = Some j\<rparr> =
    \<lparr>hr_Method = m, hr_Authorization = ''Bearer '' @ token, hr_ExportRootKey = key, hr_Body = Some j\<rparr>"
  using assms header_bearer [OF assms(1,2)] header_trimmed [OF assms(3)]
  by (simp add: received_def header_value_def call_headers_def ExportRootKeyHeader_def)

lemma valid_call_headers:
  "valid_header_value token \<Longrightarrow> valid_header_value key \<Longrightarrow>
     list_all (\<lambda>h. valid_header_value (snd h)) (call_headers token key payload)"
  using valid_bearer [of token]
  by (auto simp: call_headers_def list_all_iff) (simp_all add: valid_header_value_def less_eq_char_def)

subsection \<open>Answers arrive as they were written\<close>

lemma json_fold_results [simp]:
  "json_fold ''mounted'' = ''mounted''" "json_fold ''unmounted'' = ''unmounted''"
  "json_fold ''data'' = ''data''" "json_fold ''error'' = ''error''"
  by (simp_all add: json_fold.simps ascii_lower_def)

lemma decode_encode_Response:
  "decode_envelope (Some (encode_Response data err)) = \<lparr>en_Data = data, en_Error = err, en_ok = True\<rparr>"
  by (cases data; cases "err = []")
    (simp_all add: decode_envelope_def encode_Response_def opt_str_def envelope_field_def)

definition sdk_mount_result :: "MountResult \<Rightarrow> SdkMountResult" where
  "sdk_mount_result r = \<lparr>so_Mounted = mr_Mounted r, so_DriverName = mr_DriverName r, so_PVName = mr_PVName r,
     so_SourceSubPath = mr_SourceSubPath r, so_TargetPath = mr_TargetPath r, so_ContainerName = mr_ContainerName r\<rparr>"

definition sdk_unmount_result :: "UnmountResult \<Rightarrow> SdkUnmountResult" where
  "sdk_unmount_result r = \<lparr>sn_Unmounted = us_Unmounted r, sn_DriverName = us_DriverName r,
     sn_PVName = us_PVName r, sn_TargetPath = us_TargetPath r, sn_ContainerName = us_ContainerName r\<rparr>"

text \<open>
  A codec: what the decoder makes of an encoded value is the value, in the type of the
  receiver. The requests go to the structs of the handlers, the results to those of the
  library.
\<close>

locale json_codec =
  fixes enc :: "'a \<Rightarrow> json" and setter :: "string \<Rightarrow> json \<Rightarrow> 'b \<Rightarrow> 'b option" and zero :: 'b and conv :: "'a \<Rightarrow> 'b"
  assumes decode_encode: "decode_struct setter (enc x) zero = Some (conv x)"

interpretation mount_request: json_codec encode_request "set_request True" zero_MountRequest id
  by unfold_locales (simp add: decode_encode_request)

interpretation unmount_request: json_codec encode_UnmountRequest set_unmount_request zero_UnmountRequest id
proof
  fix r :: UnmountRequest
  show "decode_struct set_unmount_request (encode_UnmountRequest r) zero_UnmountRequest = Some (id r)"
    by (cases r) (simp add: decode_struct_def encode_UnmountRequest_def decode_fields_append decode_opt_str
        set_unmount_request_def zero_UnmountRequest_def)
qed

interpretation mount_result: json_codec encode_MountResult set_MountResult zero_MountResult sdk_mount_result
proof
  fix r :: MountResult
  show "decode_struct set_MountResult (encode_MountResult r) zero_MountResult = Some (sdk_mount_result r)"
    by (cases r) (simp add: decode_struct_def encode_MountResult_def decode_fields_append decode_opt_str
        set_MountResult_def into_def zero_MountResult_def sdk_mount_result_def)
qed

interpretation unmount_result: json_codec encode_UnmountResult set_UnmountResult zero_UnmountResult sdk_unmount_result
proof
  fix r :: UnmountResult
  show "decode_struct set_UnmountResult (encode_UnmountResult r) zero_UnmountResult = Some (sdk_unmount_result r)"
    by (cases r) (simp add: decode_struct_def encode_UnmountResult_def decode_fields_append decode_opt_str
        set_UnmountResult_def into_def zero_UnmountResult_def sdk_unmount_result_def)
qed

text \<open>What a call through the socket gives for the reply of a handler.\<close>

definition sdk_reply :: "(go_error \<Rightarrow> string) \<Rightarrow> string \<Rightarrow> ('a \<Rightarrow> 'b) \<Rightarrow> go_error + 'a \<Rightarrow> sdk_error + 'b" where
  "sdk_reply etext operation conv r =
     (case r of
        Inr x \<Rightarrow> Inr (conv x)
      | Inl err \<Rightarrow> Inl (Rejected \<lparr>re_Operation = operation, re_StatusCode = requestErrorStatus err,
          re_Message = etext err, re_status = status_line (requestErrorStatus err)\<rparr>))"

definition handler_reply :: "go_error + 'a \<Rightarrow> 'a http_reply" where
  "handler_reply r = (case r of Inl err \<Rightarrow> Reply_Error (requestErrorStatus err) err | Inr x \<Rightarrow> Reply_Data 200 x)"

lemma requestErrorStatus_range: "300 \<le> requestErrorStatus err"
  by (simp add: requestErrorStatus_def)

context json_codec begin

lemma call_result_reply:
  assumes "write_reply etext enc (handler_reply r) = (status, j)" and "carried print parse j"
  shows "call_result parse operation
      \<lparr>wp_StatusCode = status, wp_Status = status_line status, wp_Body = Inr (print j)\<rparr> setter zero =
    sdk_reply etext operation conv r"
  using assms requestErrorStatus_range
  by (cases r) (auto simp: handler_reply_def write_reply_def writeError_def writeData_def carried_def call_result_def
      decode_encode_Response decode_encode sdk_reply_def Let_def not_less [symmetric] order.strict_trans2)

end

subsection \<open>The client and the wrapper as one\<close>

lemma handleMount_sent:
  assumes "TrimSpace token = token" and "token \<noteq> []"
  shows "handleMount \<lparr>hr_Method = ''POST'', hr_Authorization = ''Bearer '' @ token, hr_ExportRootKey = key,
      hr_Body = Some (encode_request q)\<rparr> s =
    (case mount token key q s of (r, s') \<Rightarrow> (handler_reply r, s'))"
  by (simp add: handleMount_def bearerToken_sent [OF assms, simplified] mount_request.decode_encode handler_reply_def
      split: prod.splits sum.splits)

lemma handleUnmount_sent:
  assumes "TrimSpace token = token" and "token \<noteq> []"
  shows "handleUnmount \<lparr>hr_Method = ''POST'', hr_Authorization = ''Bearer '' @ token, hr_ExportRootKey = key,
      hr_Body = Some (encode_UnmountRequest q)\<rparr> s =
    (case unmount token q s of (r, s') \<Rightarrow> (handler_reply r, s'))"
  by (simp add: handleUnmount_def bearerToken_sent [OF assms, simplified] unmount_request.decode_encode
      handler_reply_def split: prod.splits sum.splits)

text \<open>The answer to a request, as a tree.\<close>

definition mount_answer :: "(go_error \<Rightarrow> string) \<Rightarrow> go_error + MountResult \<Rightarrow> json" where
  "mount_answer etext r = snd (write_reply etext encode_MountResult (handler_reply r))"

definition unmount_answer :: "(go_error \<Rightarrow> string) \<Rightarrow> go_error + UnmountResult \<Rightarrow> json" where
  "unmount_answer etext r = snd (write_reply etext encode_UnmountResult (handler_reply r))"

lemma sdk_call_served:
  assumes c: "sc_httpClient c = wrapper_transport print etext"
    and t: "TrimSpace token = token" "token \<noteq> []" "TrimSpace key = key"
    and h: "valid_header_value token" "valid_header_value key"
    and p: "carried print parse j"
    and serve: "ServeHTTP etext endpoint \<lparr>hr_Method = meth, hr_Authorization = ''Bearer '' @ token,
        hr_ExportRootKey = key, hr_Body = Some j\<rparr> s = (Some (status, a), s')"
  shows "sdk_call parse c operation meth endpoint token key (Some j) setter zero s =
    (call_result parse operation \<lparr>wp_StatusCode = status, wp_Status = status_line status, wp_Body = Inr (print a)\<rparr>
       setter zero, s')"
proof -
  let ?q = "\<lparr>ht_Method = meth, ht_URL = ''http://unix'' @ endpoint,
    ht_Header = call_headers token key (Some j), ht_Body = Some j\<rparr>"
  have rec: "received print ?q =
      \<lparr>hr_Method = meth, hr_Authorization = ''Bearer '' @ token, hr_ExportRootKey = key, hr_Body = Some j\<rparr>"
    by (rule received_call) (use t p in \<open>simp_all add: carried_def\<close>)
  have e: "TrimPrefix (''http://unix'' @ endpoint) ''http://unix'' = endpoint" by (rule TrimPrefix_append)
  have "ServeHTTP etext (TrimPrefix (ht_URL ?q) ''http://unix'') (received print ?q) s = (Some (status, a), s')"
    unfolding rec using serve e by simp
  then have "st_Do (wrapper_transport print etext) ?q s =
      (Inr \<lparr>wp_StatusCode = status, wp_Status = status_line status, wp_Body = Inr (print a)\<rparr>, s')"
    using valid_call_headers [OF h] by (simp add: wrapper_transport_def)
  then show ?thesis
    using c by (simp add: sdk_call_def wrapper_transport_def [of print etext] Let_def)
qed

lemma SdkMount_wrapper:
  assumes c: "sc_httpClient c = wrapper_transport print etext"
    and v: "validateRequest (sm_Namespace q) (sm_PodName q) (sm_PodUID q) (sm_PVName q) (sm_TargetPath q) = None"
    and t: "readToken readFile c = Inr token" and k: "readExportRootKey readFile c = Inr key"
    and h: "valid_header_value token" "valid_header_value key"
    and m: "mount token key (mount_payload c q) s = (r, s')"
    and p: "carried print parse (encode_request (mount_payload c q))" "carried print parse (mount_answer etext r)"
  shows "SdkMount parse readFile c q s = (sdk_reply etext ''mount'' sdk_mount_result r, s')"
proof -
  obtain status j where w: "write_reply etext encode_MountResult (handler_reply r) = (status, j)" by fastforce
  have j: "carried print parse j" using p(2) w by (simp add: mount_answer_def)
  have tk: "TrimSpace token = token" "token \<noteq> []" "TrimSpace key = key"
    using readToken_trimmed [OF t] readExportRootKey_trimmed [OF k] by simp_all
  have serve: "ServeHTTP etext ''/v1/mount'' \<lparr>hr_Method = ''POST'', hr_Authorization = ''Bearer '' @ token,
      hr_ExportRootKey = key, hr_Body = Some (encode_request (mount_payload c q))\<rparr> s = (Some (status, j), s')"
    using handleMount_sent [OF tk(1,2), of key "mount_payload c q" s] m w by (simp add: ServeHTTP_def)
  show ?thesis
    using v t k mount_result.call_result_reply [OF w j, of "''mount''"]
    by (simp add: SdkMount_def sdk_call_served [OF c tk h p(1) serve])
qed

text \<open>The same over a link: the call may not get through, or be cut off by the timeout before
  or after the wrapper has answered.\<close>

definition over_link :: "'s link \<Rightarrow> string \<Rightarrow> int \<Rightarrow> http_request \<Rightarrow> 's \<Rightarrow> (sdk_error + 'a) \<times> 's \<Rightarrow>
    (sdk_error + 'a) \<times> 's" where
  "over_link link socket timeout q s answered =
     (case ln_connect link socket of
        Some err \<Rightarrow> (Inl (Failed (Errorf ''call wrapper socket %s: %w'' [AStr socket, AWrap err])), s)
      | None \<Rightarrow>
          if elapses timeout (ln_headers link q s) then
            (Inl (Failed (Errorf ''call wrapper socket %s: %w'' [AStr socket, AWrap (ln_timeout link)])),
             ln_abandoned link q s)
          else if elapses timeout (ln_headers link q s + ln_body link q s) then
            (Inl (Failed (Errorf ''read wrapper response: %w'' [AWrap (ln_timeout link)])), snd answered)
          else answered)"

lemma sdk_call_link:
  assumes c: "sc_httpClient c = http_client link (sc_socketPath c) timeout (wrapper_transport print etext)"
    and h: "valid_header_value token" "valid_header_value key"
  shows "sdk_call parse c operation meth endpoint token key (Some j) setter zero s =
    over_link link (sc_socketPath c) timeout
      \<lparr>ht_Method = meth, ht_URL = ''http://unix'' @ endpoint,
       ht_Header = call_headers token key (Some j), ht_Body = Some j\<rparr> s
      (sdk_call parse (c\<lparr>sc_httpClient := wrapper_transport print etext\<rparr>) operation meth endpoint token key
         (Some j) setter zero s)"
proof -
  define q where "q = \<lparr>ht_Method = meth, ht_URL = ''http://unix'' @ endpoint,
    ht_Header = call_headers token key (Some j), ht_Body = Some j\<rparr>"
  let ?tr = "wrapper_transport print etext"
  have valid: "list_all (\<lambda>h. valid_header_value (snd h)) (ht_Header q)"
    using valid_call_headers [OF h] by (simp add: q_def)
  then have "\<exists>response s'. st_Do ?tr q s = (Inr response, s')"
    by (simp add: wrapper_transport_def split: prod.split option.split)
  then obtain response s' where r: "st_Do ?tr q s = (Inr response, s')" by blast
  have n: "st_NewRequest ?tr meth url = None" "st_NewRequest (sc_httpClient c) meth url = None" for url
    by (simp_all add: c http_client_def wrapper_transport_def)
  have plain: "sdk_call parse (c\<lparr>sc_httpClient := ?tr\<rparr>) operation meth endpoint token key (Some j) setter zero s =
      (call_result parse operation response setter zero, s')"
    using r by (simp add: sdk_call_def n q_def)
  have linked: "sdk_call parse c operation meth endpoint token key (Some j) setter zero s =
      (case st_Do (sc_httpClient c) q s of
         (Inl err, s) \<Rightarrow> (Inl (Failed (Errorf ''call wrapper socket %s: %w'' [AStr (sc_socketPath c), AWrap err])), s)
       | (Inr response, s) \<Rightarrow> (call_result parse operation response setter zero, s))"
    by (simp add: sdk_call_def n q_def)
  have unread: "call_result parse operation (response\<lparr>wp_Body := Inl e\<rparr>) setter zero =
      Inl (Failed (Errorf ''read wrapper response: %w'' [AWrap e]))" for e
    by (simp add: call_result_def)
  show ?thesis
    unfolding q_def [symmetric] plain linked over_link_def c http_client_def
    using valid r unread
    by (cases "ln_connect link (sc_socketPath c)"; cases "elapses timeout (ln_headers link q s)";
        cases "elapses timeout (ln_headers link q s + ln_body link q s)") simp_all
qed

lemma SdkMount_link:
  assumes c: "sc_httpClient c = http_client link (sc_socketPath c) timeout (wrapper_transport print etext)"
    and v: "validateRequest (sm_Namespace q) (sm_PodName q) (sm_PodUID q) (sm_PVName q) (sm_TargetPath q) = None"
    and t: "readToken readFile c = Inr token" and k: "readExportRootKey readFile c = Inr key"
    and h: "valid_header_value token" "valid_header_value key"
    and m: "mount token key (mount_payload c q) s = (r, s')"
    and p: "carried print parse (encode_request (mount_payload c q))" "carried print parse (mount_answer etext r)"
  shows "SdkMount parse readFile c q s =
    over_link link (sc_socketPath c) timeout
      \<lparr>ht_Method = ''POST'', ht_URL = ''http://unix/v1/mount'',
       ht_Header = call_headers token key (Some (encode_request (mount_payload c q))),
       ht_Body = Some (encode_request (mount_payload c q))\<rparr> s
      (sdk_reply etext ''mount'' sdk_mount_result r, s')"
proof -
  let ?c = "c\<lparr>sc_httpClient := wrapper_transport print etext\<rparr>"
  have same: "mount_payload ?c q = mount_payload c q" "readToken readFile ?c = readToken readFile c"
    "readExportRootKey readFile ?c = readExportRootKey readFile c"
    by (simp_all add: mount_payload_def readToken_def readExportRootKey_def)
  have "SdkMount parse readFile ?c q s = (sdk_reply etext ''mount'' sdk_mount_result r, s')"
    by (rule SdkMount_wrapper) (use v t k h m p in \<open>simp_all add: same\<close>)
  then show ?thesis
    using v t k by (simp add: SdkMount_def same sdk_call_link [OF c h])
qed

lemma SdkUnmount_wrapper:
  assumes c: "sc_httpClient c = wrapper_transport print etext"
    and v: "validateRequest (su_Namespace q) (su_PodName q) (su_PodUID q) (su_PVName q) (su_TargetPath q) = None"
    and t: "readToken readFile c = Inr token" and h: "valid_header_value token"
    and m: "unmount token (unmount_payload c q) s = (r, s')"
    and p: "carried print parse (encode_UnmountRequest (unmount_payload c q))"
      "carried print parse (unmount_answer etext r)"
  shows "SdkUnmount parse readFile c q s = (sdk_reply etext ''unmount'' sdk_unmount_result r, s')"
proof -
  obtain status j where w: "write_reply etext encode_UnmountResult (handler_reply r) = (status, j)" by fastforce
  have j: "carried print parse j" using p(2) w by (simp add: unmount_answer_def)
  have tk: "TrimSpace token = token" "token \<noteq> []" "TrimSpace [] = ([] :: string)" "valid_header_value []"
    using readToken_trimmed [OF t] by (simp_all add: valid_header_value_def)
  have serve: "ServeHTTP etext ''/v1/unmount'' \<lparr>hr_Method = ''POST'', hr_Authorization = ''Bearer '' @ token,
      hr_ExportRootKey = [], hr_Body = Some (encode_UnmountRequest (unmount_payload c q))\<rparr> s = (Some (status, j), s')"
    using handleUnmount_sent [OF tk(1,2), of "[]" "unmount_payload c q" s] m w by (simp add: ServeHTTP_def)
  show ?thesis
    using v t unmount_result.call_result_reply [OF w j, of "''unmount''"]
    by (simp add: SdkUnmount_def sdk_call_served [OF c tk(1-3) h tk(4) p(1) serve])
qed

text \<open>Nothing is sent for a request the client can see to be incomplete, or without a token.\<close>

lemma SdkMount_not_sent:
  assumes "validateRequest (sm_Namespace q) (sm_PodName q) (sm_PodUID q) (sm_PVName q) (sm_TargetPath q) = Some e \<or>
    readToken readFile c = Inl e \<or> readExportRootKey readFile c = Inl e"
  shows "\<exists>err. SdkMount parse readFile c q s = (Inl (Failed err), s)"
  using assms by (auto simp: SdkMount_def split: option.splits sum.splits)

end
