(* ===== verification/Cli.thy ===== *)
theory Cli
  imports ClientSdk
begin

text \<open>
  The mounter command, cmd/mounter/main.go: the request from flags, environment and an
  optional CSI NodePublishVolumeRequest, completed from files, and the call of the client
  library. Parameters are cobra, which tells the command of a command line, the flags it
  sets in their order and the other arguments, and \<open>proto.Unmarshal\<close>.
\<close>

subsection \<open>Data\<close>

type_synonym operation = string

definition operationMount :: operation where "operationMount = ''mount''"
definition operationUnmount :: operation where "operationUnmount = ''unmount''"

record cliRequest =
  cr_Operation :: operation
  cr_Mount :: MountRequest

record commandState =
  cd_cfg :: MounterConfig
  cd_request :: MountRequest
  cd_operation :: operation
  cd_encodedConfig :: string

text \<open>The fields of the CSI message that are read.\<close>

record NodePublishVolumeRequest =
  np_VolumeId :: string
  np_PublishContext :: "string \<rightharpoonup> string"
  np_TargetPath :: string
  np_VolumeContext :: "string \<rightharpoonup> string"

subsection \<open>The PV of a NodePublishVolumeRequest\<close>

text \<open>\<open>strings.LastIndex\<close> for one byte.\<close>

definition LastIndexByte :: "string \<Rightarrow> char \<Rightarrow> int" where
  "LastIndexByte s c =
     (if c \<in> set s then int (length s) - 1 - int (length (takeWhile (\<lambda>x. x \<noteq> c) (rev s))) else - 1)"

definition isLowerAlphaNumeric :: "string \<Rightarrow> bool" where
  "isLowerAlphaNumeric value \<longleftrightarrow>
     list_all (\<lambda>r. \<not> ((r < CHR ''a'' \<or> r > CHR ''z'') \<and> (r < CHR ''0'' \<or> r > CHR ''9''))) value \<and> value \<noteq> []"

definition derivePVNameFromVolumeID :: "string \<Rightarrow> go_error + string" where
  "derivePVNameFromVolumeID volumeID =
     (if volumeID = [] then Inl (Errorf ''volume_id is required'' [])
      else
        (let idx = LastIndexByte volumeID (CHR ''-'') in
         if idx > 0 \<and> int (length volumeID) - idx - 1 = 6 \<and> isLowerAlphaNumeric (drop (nat (idx + 1)) volumeID)
         then Inr (take (nat idx) volumeID) else Inr volumeID))"

definition pvNameFromNodePublishRequest :: "NodePublishVolumeRequest option \<Rightarrow> go_error + string" where
  "pvNameFromNodePublishRequest request =
     (case request of
        None \<Rightarrow> Inl (Errorf ''csi node publish config is empty'' [])
      | Some request \<Rightarrow>
          (let vc = map_str (np_VolumeContext request); pc = map_str (np_PublishContext request);
               name = firstNonEmpty [vc ''csi.storage.k8s.io/pv/name'', vc ''pvName'', vc ''pv_name'',
                 vc ''persistentVolumeName'', pc ''csi.storage.k8s.io/pv/name'', pc ''pvName'']
           in if name \<noteq> [] then Inr name else derivePVNameFromVolumeID (np_VolumeId request)))"

definition sourceSubPathFromNodePublishRequest :: "NodePublishVolumeRequest option \<Rightarrow> string" where
  "sourceSubPathFromNodePublishRequest request =
     (case request of
        None \<Rightarrow> []
      | Some request \<Rightarrow>
          (let vc = map_str (np_VolumeContext request); pc = map_str (np_PublishContext request)
           in firstNonEmpty [vc ''sourceSubPath'', vc ''source_sub_path'', vc ''subPath'', vc ''sub_path'',
                pc ''sourceSubPath'', pc ''source_sub_path'', pc ''subPath'', pc ''sub_path'']))"

subsection \<open>Decoding the message\<close>

text \<open>\<open>base64.StdEncoding\<close>: line breaks are skipped, padding ends the text.\<close>

definition b64_value :: "char \<Rightarrow> nat option" where
  "b64_value c =
     (if CHR ''A'' \<le> c \<and> c \<le> CHR ''Z'' then Some (of_char c - 65)
      else if CHR ''a'' \<le> c \<and> c \<le> CHR ''z'' then Some (of_char c - 71)
      else if CHR ''0'' \<le> c \<and> c \<le> CHR ''9'' then Some (of_char c + 4)
      else if c = CHR ''+'' then Some 62
      else if c = CHR ''/'' then Some 63
      else None)"

fun b64_decode :: "string \<Rightarrow> string option" where
  "b64_decode [] = Some []"
| "b64_decode (c0 # c1 # c2 # c3 # rest) =
     (case (b64_value c0, b64_value c1) of
        (Some v0, Some v1) \<Rightarrow>
          (if c2 = CHR ''='' then
             (if c3 = CHR ''='' \<and> rest = [] then Some [char_of (v0 * 4 + v1 div 16)] else None)
           else
             (case b64_value c2 of
                None \<Rightarrow> None
              | Some v2 \<Rightarrow>
                  if c3 = CHR ''='' then
                    (if rest = [] then Some [char_of (v0 * 4 + v1 div 16), char_of (v1 mod 16 * 16 + v2 div 4)]
                     else None)
                  else
                    (case (b64_value c3, b64_decode rest) of
                       (Some v3, Some bs) \<Rightarrow>
                         Some (char_of (v0 * 4 + v1 div 16) # char_of (v1 mod 16 * 16 + v2 div 4) #
                               char_of (v2 mod 4 * 64 + v3) # bs)
                     | _ \<Rightarrow> None)))
      | _ \<Rightarrow> None)"
| "b64_decode s = None"

definition base64_DecodeString :: "string \<Rightarrow> go_error + string" where
  "base64_DecodeString s =
     (case b64_decode (filter (\<lambda>c. c \<noteq> CHR 0x0A \<and> c \<noteq> CHR 0x0D) s) of
        None \<Rightarrow> Inl (Sentinel (Errno ''illegal base64 data''))
      | Some bs \<Rightarrow> Inr bs)"

type_synonym unmarshal = "string \<Rightarrow> go_error + NodePublishVolumeRequest"

definition decodeNodePublishVolumeRequest :: "unmarshal \<Rightarrow> string \<Rightarrow> go_error + NodePublishVolumeRequest option" where
  "decodeNodePublishVolumeRequest unmarshal encoded =
     (case base64_DecodeString encoded of
        Inl err \<Rightarrow> Inl (Errorf ''decode csi node publish config: %w'' [AWrap err])
      | Inr raw \<Rightarrow>
          (case unmarshal raw of
             Inl err \<Rightarrow> Inl (Errorf ''unmarshal csi node publish config: %w'' [AWrap err])
           | Inr request \<Rightarrow> Inr (Some request)))"

definition applyNodePublishConfig :: "unmarshal \<Rightarrow> MountRequest \<Rightarrow> string \<Rightarrow> bool \<Rightarrow> go_error + MountRequest" where
  "applyNodePublishConfig unmarshal request encodedConfig includeSubPath =
     (case decodeNodePublishVolumeRequest unmarshal encodedConfig of
        Inl err \<Rightarrow> Inl err
      | Inr csiRequest \<Rightarrow>
          (case pvNameFromNodePublishRequest csiRequest of
             Inl err \<Rightarrow> Inl err
           | Inr pvName \<Rightarrow>
               (let request = request\<lparr>rq_PVName := pvName\<rparr>;
                    request = (if includeSubPath \<and> rq_SourceSubPath request = []
                               then request\<lparr>rq_SourceSubPath := sourceSubPathFromNodePublishRequest csiRequest\<rparr>
                               else request)
                in Inr (request\<lparr>rq_TargetPath :=
                     (case csiRequest of None \<Rightarrow> [] | Some r \<Rightarrow> np_TargetPath r)\<rparr>))))"

subsection \<open>Flags and commands\<close>

abbreviation cd_request_upd :: "(MountRequest \<Rightarrow> MountRequest) \<Rightarrow> commandState \<Rightarrow> commandState" where
  "cd_request_upd f st \<equiv> st\<lparr>cd_request := f (cd_request st)\<rparr>"

abbreviation cd_cfg_upd :: "(MounterConfig \<Rightarrow> MounterConfig) \<Rightarrow> commandState \<Rightarrow> commandState" where
  "cd_cfg_upd f st \<equiv> st\<lparr>cd_cfg := f (cd_cfg st)\<rparr>"

definition bindCommonFlags :: "(string \<times> commandState flag_value) list" where
  "bindCommonFlags =
     [(''socket-path'', StringVar (\<lambda>v. cd_cfg_upd (mc_SocketPath_update (\<lambda>_. v)))),
      (''token-file'', StringVar (\<lambda>v. cd_cfg_upd (mc_TokenFile_update (\<lambda>_. v)))),
      (''export-root-key-file'', StringVar (\<lambda>v. cd_cfg_upd (mc_ExportRootKeyFile_update (\<lambda>_. v)))),
      (''driver'', StringVar (\<lambda>v. cd_request_upd (rq_DriverName_update (\<lambda>_. v)))),
      (''driver-name'', StringVar (\<lambda>v. cd_request_upd (rq_DriverName_update (\<lambda>_. v)))),
      (''namespace'', StringVar (\<lambda>v. cd_request_upd (rq_Namespace_update (\<lambda>_. v)))),
      (''pod-name'', StringVar (\<lambda>v. cd_request_upd (rq_PodName_update (\<lambda>_. v)))),
      (''pod-uid'', StringVar (\<lambda>v. cd_request_upd (rq_PodUID_update (\<lambda>_. v))))]"

definition pv_flag :: "string \<times> commandState flag_value" where
  "pv_flag = (''pv'', StringVar (\<lambda>v. cd_request_upd (rq_PVName_update (\<lambda>_. v))))"
definition sub_path_flag :: "string \<times> commandState flag_value" where
  "sub_path_flag = (''sub-path'', StringVar (\<lambda>v. cd_request_upd (rq_SourceSubPath_update (\<lambda>_. v))))"
definition target_flag :: "string \<times> commandState flag_value" where
  "target_flag = (''target'', StringVar (\<lambda>v. cd_request_upd (rq_TargetPath_update (\<lambda>_. v))))"
definition container_flag :: "string \<times> commandState flag_value" where
  "container_flag = (''container'', StringVar (\<lambda>v. cd_request_upd (rq_ContainerName_update (\<lambda>_. v))))"
definition config_flag :: "string \<times> commandState flag_value" where
  "config_flag = (''config'', StringVar (\<lambda>v st. st\<lparr>cd_encodedConfig := v\<rparr>))"

datatype command = RootCommand | MountCommand | UnmountCommand

definition command_flags :: "command \<Rightarrow> (string \<times> commandState flag_value) list" where
  "command_flags c =
     (case c of
        RootCommand \<Rightarrow> bindCommonFlags @ [pv_flag, sub_path_flag, target_flag, container_flag]
      | MountCommand \<Rightarrow> bindCommonFlags @ [config_flag, pv_flag, sub_path_flag, target_flag, container_flag]
      | UnmountCommand \<Rightarrow> bindCommonFlags @ [config_flag, pv_flag, target_flag, container_flag])"

text \<open>The \<open>RunE\<close> function of each command.\<close>

definition run_command :: "unmarshal \<Rightarrow> command \<Rightarrow> string list \<Rightarrow> commandState \<Rightarrow> go_error + commandState" where
  "run_command unmarshal c args st =
     (case c of
        RootCommand \<Rightarrow>
          if args \<noteq> [] then Inl (Errorf ''unexpected arguments: %s'' [AStr (join_on (CHR '' '') args)])
          else Inr (st\<lparr>cd_operation := operationMount\<rparr>)
      | MountCommand \<Rightarrow>
          if args \<noteq> [] then Inl (Errorf ''unexpected mount arguments: %s'' [AStr (join_on (CHR '' '') args)])
          else
            (let st = st\<lparr>cd_operation := operationMount\<rparr> in
             if cd_encodedConfig st = [] then Inr st
             else
               (case applyNodePublishConfig unmarshal (cd_request st) (cd_encodedConfig st) True of
                  Inl err \<Rightarrow> Inl err
                | Inr request \<Rightarrow> Inr (st\<lparr>cd_request := request\<rparr>)))
      | UnmountCommand \<Rightarrow>
          if args \<noteq> [] then Inl (Errorf ''unexpected unmount arguments: %s'' [AStr (join_on (CHR '' '') args)])
          else
            (let st = st\<lparr>cd_operation := operationUnmount\<rparr> in
             case (if cd_encodedConfig st \<noteq> [] then
                     applyNodePublishConfig unmarshal (cd_request st) (cd_encodedConfig st) False
                   else Inr (cd_request st)) of
               Inl err \<Rightarrow> Inl err
             | Inr request \<Rightarrow> Inr (st\<lparr>cd_request := request\<lparr>rq_SourceSubPath := []\<rparr>\<rparr>)))"

text \<open>The values cobra has parsed are stored one after the other.\<close>

fun set_flags :: "(string \<times> commandState flag_value) list \<Rightarrow> (string \<times> string) list \<Rightarrow> commandState \<Rightarrow>
    go_error + commandState" where
  "set_flags flags [] st = Inr st"
| "set_flags flags ((name, value) # rest) st =
     (case map_of flags name of
        None \<Rightarrow> Inl (Errorf ''unknown flag: --%s'' [AStr name])
      | Some fv \<Rightarrow>
          (case set_flag fv name value st of
             Inl err \<Rightarrow> Inl err
           | Inr st \<Rightarrow> set_flags flags rest st))"

type_synonym cobra = "string list \<Rightarrow> go_error + command \<times> (string \<times> string) list \<times> string list"

definition defaultMountRequest :: "env \<Rightarrow> MounterConfig \<Rightarrow> MountRequest" where
  "defaultMountRequest e cfg = zero_MountRequest\<lparr>rq_APIVersion := api_Version,
     rq_DriverName := mc_DriverName cfg, rq_Namespace := Env e ''POD_NAMESPACE'' [],
     rq_PodName := Env e ''POD_NAME'' [], rq_PodUID := Env e ''POD_UID'' [],
     rq_ContainerName := Env e ''CONTAINER_NAME'' []\<rparr>"

definition parseRequest ::
  "cobra \<Rightarrow> unmarshal \<Rightarrow> env \<Rightarrow> string list \<Rightarrow> MounterConfig \<Rightarrow> go_error + MounterConfig \<times> cliRequest" where
  "parseRequest cobra unmarshal e args cfg =
     (let st = \<lparr>cd_cfg = cfg, cd_request = defaultMountRequest e cfg, cd_operation = operationMount,
                cd_encodedConfig = []\<rparr>
      in case cobra args of
           Inl err \<Rightarrow> Inl err
         | Inr (c, values, rest) \<Rightarrow>
             (case set_flags (command_flags c) values st of
                Inl err \<Rightarrow> Inl err
              | Inr st \<Rightarrow>
                  (case run_command unmarshal c rest st of
                     Inl err \<Rightarrow> Inl err
                   | Inr st \<Rightarrow> Inr (cd_cfg st, \<lparr>cr_Operation = cd_operation st, cr_Mount = cd_request st\<rparr>))))"

subsection \<open>The identity of the Pod\<close>

fun read_first :: "(string \<Rightarrow> go_error + string) \<Rightarrow> string set \<Rightarrow> string list \<Rightarrow> string" where
  "read_first readFile seen [] = []"
| "read_first readFile seen (path # paths) =
     (if path = [] then read_first readFile seen paths
      else if path \<in> seen then read_first readFile seen paths
      else
        (case readFile path of
           Inl err \<Rightarrow> read_first readFile (insert path seen) paths
         | Inr data \<Rightarrow>
             (let value = TrimSpace data in
              if value \<noteq> [] then value else read_first readFile (insert path seen) paths)))"

definition readFirstExistingFile :: "(string \<Rightarrow> go_error + string) \<Rightarrow> string list \<Rightarrow> string" where
  "readFirstExistingFile readFile paths = read_first readFile {} paths"

definition completePodIdentity ::
  "(string \<Rightarrow> go_error + string) \<Rightarrow> MountRequest \<Rightarrow> MounterConfig \<Rightarrow> MountRequest" where
  "completePodIdentity readFile request cfg =
     (let request = (if rq_Namespace request = []
            then request\<lparr>rq_Namespace := readFirstExistingFile readFile [mc_NamespaceFile cfg, DefaultPodNSFile]\<rparr>
            else request);
          request = (if rq_PodName request = []
            then request\<lparr>rq_PodName := readFirstExistingFile readFile [mc_PodNameFile cfg, ''/etc/hostname'']\<rparr>
            else request)
      in if rq_PodUID request = []
         then request\<lparr>rq_PodUID := readFirstExistingFile readFile [mc_PodUIDFile cfg]\<rparr>
         else request)"

definition validateCLIRequest :: "MountRequest \<Rightarrow> go_error option" where
  "validateCLIRequest request =
     (if rq_DriverName request = [] then Some (Errorf ''driver name is required'' [])
      else if rq_Namespace request = [] then Some (Errorf ''namespace is required'' [])
      else if rq_PodName request = [] then Some (Errorf ''pod name is required'' [])
      else if rq_PodUID request = [] then Some (Errorf ''pod uid is required'' [])
      else if rq_PVName request = [] then Some (Errorf ''pv is required'' [])
      else if rq_TargetPath request = [] then Some (Errorf ''target is required'' [])
      else None)"

subsection \<open>The call and main\<close>

datatype cli_result = Mounted SdkMountResult | Unmounted SdkUnmountResult

definition sdk_mount_request :: "MountRequest \<Rightarrow> SdkMountRequest" where
  "sdk_mount_request m = \<lparr>sm_Namespace = rq_Namespace m, sm_PodName = rq_PodName m, sm_PodUID = rq_PodUID m,
     sm_PVName = rq_PVName m, sm_SourceSubPath = rq_SourceSubPath m, sm_TargetPath = rq_TargetPath m,
     sm_ContainerName = rq_ContainerName m\<rparr>"

definition sdk_unmount_request :: "MountRequest \<Rightarrow> SdkUnmountRequest" where
  "sdk_unmount_request m = \<lparr>su_Namespace = rq_Namespace m, su_PodName = rq_PodName m, su_PodUID = rq_PodUID m,
     su_PVName = rq_PVName m, su_TargetPath = rq_TargetPath m, su_ContainerName = rq_ContainerName m\<rparr>"

definition callMounter ::
  "(string \<Rightarrow> json option) \<Rightarrow> (string \<Rightarrow> go_error + string) \<Rightarrow> 's SdkClient \<Rightarrow> cliRequest \<Rightarrow> 's \<Rightarrow>
   (sdk_error + cli_result) \<times> 's" where
  "callMounter parse readFile client request s =
     (if cr_Operation request = operationMount then
        (case SdkMount parse readFile client (sdk_mount_request (cr_Mount request)) s of
           (r, s) \<Rightarrow> (map_sum id Mounted r, s))
      else if cr_Operation request = operationUnmount then
        (case SdkUnmount parse readFile client (sdk_unmount_request (cr_Mount request)) s of
           (r, s) \<Rightarrow> (map_sum id Unmounted r, s))
      else (Inl (Failed (Errorf ''unsupported operation %q'' [AStr (cr_Operation request)])), s))"

text \<open>A timeout that is not positive switches the timeout off.\<close>

definition cli_client_config :: "MounterConfig \<Rightarrow> MountRequest \<Rightarrow> SdkConfig" where
  "cli_client_config cfg m =
     (let httpTimeout = (if mc_HTTPTimeout cfg < 0 then 0 else mc_HTTPTimeout cfg) in
      \<lparr>cf_DriverName = rq_DriverName m, cf_SocketPath = mc_SocketPath cfg, cf_TokenFile = mc_TokenFile cfg,
       cf_ExportRootKeyFile = mc_ExportRootKeyFile cfg, cf_HTTPTimeout = httpTimeout,
       cf_DisableHTTPTimeout = (mc_HTTPTimeout cfg \<le> 0)\<rparr>)"

text \<open>\<open>main\<close> up to the output.\<close>

definition mounter_main ::
  "cobra \<Rightarrow> unmarshal \<Rightarrow> (string \<Rightarrow> int \<Rightarrow> 's socket_transport) \<Rightarrow> (string \<Rightarrow> json option) \<Rightarrow>
   (string \<Rightarrow> go_error + string) \<Rightarrow> env \<Rightarrow> string list \<Rightarrow> 's \<Rightarrow> (sdk_error + cli_result) \<times> 's" where
  "mounter_main cobra unmarshal dial parse readFile e args s =
     (case parseRequest cobra unmarshal e args (LoadMounterConfig e) of
        Inl err \<Rightarrow> (Inl (Failed err), s)
      | Inr (cfg, request) \<Rightarrow>
          (let request = request\<lparr>cr_Mount := completePodIdentity readFile (cr_Mount request) cfg\<rparr> in
           case validateCLIRequest (cr_Mount request) of
             Some err \<Rightarrow> (Inl (Failed err), s)
           | None \<Rightarrow>
               (case NewClient dial (cli_client_config cfg (cr_Mount request)) of
                  Inl err \<Rightarrow> (Inl (Failed err), s)
                | Inr client \<Rightarrow> callMounter parse readFile client request s)))"

text \<open>
  The output: the result on standard output, or the text of the error on standard error and
  exit status 1, both in the envelope of the API. \<open>etext\<close> is the \<open>Error\<close> method. A failing
  write to standard output is left out.
\<close>

record process_exit =
  px_status :: int
  px_stdout :: "json option"
  px_stderr :: "json option"

definition encode_SdkMountResult :: "SdkMountResult \<Rightarrow> json" where
  "encode_SdkMountResult r = JObj
     ([(''mounted'', JBool (so_Mounted r)), (''driver_name'', JStr (so_DriverName r)),
       (''pv_name'', JStr (so_PVName r))]
      @ opt_str ''source_sub_path'' (so_SourceSubPath r)
      @ [(''target_path'', JStr (so_TargetPath r))]
      @ opt_str ''container_name'' (so_ContainerName r))"

definition encode_SdkUnmountResult :: "SdkUnmountResult \<Rightarrow> json" where
  "encode_SdkUnmountResult r = JObj
     ([(''unmounted'', JBool (sn_Unmounted r)), (''driver_name'', JStr (sn_DriverName r)),
       (''pv_name'', JStr (sn_PVName r)), (''target_path'', JStr (sn_TargetPath r))]
      @ opt_str ''container_name'' (sn_ContainerName r))"

definition encode_result :: "cli_result \<Rightarrow> json" where
  "encode_result r =
     (case r of Mounted x \<Rightarrow> encode_SdkMountResult x | Unmounted x \<Rightarrow> encode_SdkUnmountResult x)"

definition sdk_error_text :: "(go_error \<Rightarrow> string) \<Rightarrow> sdk_error \<Rightarrow> string" where
  "sdk_error_text etext err = (case err of Rejected e \<Rightarrow> ResponseError_Error e | Failed e \<Rightarrow> etext e)"

definition exitError :: "(go_error \<Rightarrow> string) \<Rightarrow> sdk_error \<Rightarrow> process_exit" where
  "exitError etext err =
     \<lparr>px_status = 1, px_stdout = None, px_stderr = Some (encode_Response None (sdk_error_text etext err))\<rparr>"

definition mounter_process ::
  "cobra \<Rightarrow> unmarshal \<Rightarrow> (string \<Rightarrow> int \<Rightarrow> 's socket_transport) \<Rightarrow> (string \<Rightarrow> json option) \<Rightarrow> (go_error \<Rightarrow> string) \<Rightarrow>
   (string \<Rightarrow> go_error + string) \<Rightarrow> env \<Rightarrow> string list \<Rightarrow> 's \<Rightarrow> process_exit \<times> 's" where
  "mounter_process cobra unmarshal dial parse etext readFile e args s =
     (case mounter_main cobra unmarshal dial parse readFile e args s of
        (Inl err, s) \<Rightarrow> (exitError etext err, s)
      | (Inr result, s) \<Rightarrow>
          (\<lparr>px_status = 0, px_stdout = Some (encode_Response (Some (encode_result result)) []), px_stderr = None\<rparr>, s))"

subsection \<open>The request that is sent\<close>

text \<open>No flag changes the API version.\<close>

lemma set_flags_version:
  "set_flags (command_flags c) vs st = Inr st' \<Longrightarrow>
     rq_APIVersion (cd_request st') = rq_APIVersion (cd_request st)"
proof (induction vs arbitrary: st)
  case (Cons nv rest)
  obtain name v where nv: "nv = (name, v)" by fastforce
  with Cons.prems obtain fv st1 where fv: "map_of (command_flags c) name = Some fv"
    and st1: "set_flag fv name v st = Inr st1" and rest: "set_flags (command_flags c) rest st1 = Inr st'"
    by (auto split: option.splits sum.splits)
  have "rq_APIVersion (cd_request st1) = rq_APIVersion (cd_request st)"
    using map_of_SomeD [OF fv] st1
    by (cases c) (auto simp: command_flags_def bindCommonFlags_def pv_flag_def sub_path_flag_def target_flag_def
        container_flag_def config_flag_def set_flag_def)
  then show ?case using Cons.IH [OF rest] by simp
qed simp

lemma applyNodePublishConfig_version:
  "applyNodePublishConfig unmarshal request raw sub = Inr request' \<Longrightarrow> rq_APIVersion request' = rq_APIVersion request"
  by (auto simp: applyNodePublishConfig_def Let_def split: sum.splits if_splits)

lemma run_command_version:
  "run_command unmarshal c args st = Inr st' \<Longrightarrow> rq_APIVersion (cd_request st') = rq_APIVersion (cd_request st)"
  using applyNodePublishConfig_version [of unmarshal "cd_request st" "cd_encodedConfig st"]
  by (auto simp: run_command_def Let_def split: command.splits if_splits sum.splits)

lemma parseRequest_version:
  "parseRequest cobra unmarshal e args cfg = Inr (cfg', r) \<Longrightarrow> rq_APIVersion (cr_Mount r) = api_Version"
  by (auto simp: parseRequest_def Let_def defaultMountRequest_def split: sum.splits
      dest!: set_flags_version run_command_version)

lemma completePodIdentity_version [simp]:
  "rq_APIVersion (completePodIdentity readFile m cfg) = rq_APIVersion m"
  by (simp add: completePodIdentity_def Let_def)

text \<open>The library sends the request as the command has built it.\<close>

lemma mount_payload_cli:
  "sc_driverName c = rq_DriverName m \<Longrightarrow> rq_APIVersion m = api_Version \<Longrightarrow>
     mount_payload c (sdk_mount_request m) = m"
  by (simp add: mount_payload_def sdk_mount_request_def)

lemma validateCLIRequest_None:
  "validateCLIRequest m = None \<longleftrightarrow>
     rq_DriverName m \<noteq> [] \<and> validateRequest (rq_Namespace m) (rq_PodName m) (rq_PodUID m) (rq_PVName m) (rq_TargetPath m) = None"
  by (simp add: validateCLIRequest_def validateRequest_None)

lemma cli_client:
  assumes "validateCLIRequest m = None" and "mc_SocketPath cfg \<noteq> []" and "mc_TokenFile cfg \<noteq> []"
  shows "\<exists>c. NewClient dial (cli_client_config cfg m) = Inr c \<and> sc_driverName c = rq_DriverName m \<and>
    sc_tokenFile c = mc_TokenFile cfg \<and> sc_exportRootKeyFile c = mc_ExportRootKeyFile cfg \<and>
    sc_socketPath c = mc_SocketPath cfg \<and>
    sc_httpClient c = dial (mc_SocketPath cfg) (max 0 (mc_HTTPTimeout cfg))"
  using assms
  by (simp add: NewClient_Inr cli_client_config_def client_timeout_def validateCLIRequest_None Let_def)

subsection \<open>The name of the PV\<close>

lemma takeWhile_dash:
  "CHR ''-'' \<notin> set suf \<Longrightarrow> takeWhile (\<lambda>x. x \<noteq> CHR ''-'') (rev (pv @ CHR ''-'' # suf)) = rev suf"
  by (subst rev_append, simp, subst takeWhile_append2) auto

lemma LastIndexByte_dash:
  "CHR ''-'' \<notin> set suf \<Longrightarrow> LastIndexByte (pv @ CHR ''-'' # suf) (CHR ''-'') = int (length pv)"
  using takeWhile_dash [of suf pv] by (simp add: LastIndexByte_def)

lemma isLowerAlphaNumeric_no_dash: "isLowerAlphaNumeric s \<Longrightarrow> CHR ''-'' \<notin> set s"
  by (auto simp: isLowerAlphaNumeric_def list_all_iff less_char_def)

definition generated_suffix :: "string \<Rightarrow> bool" where
  "generated_suffix suf \<longleftrightarrow> length suf = 6 \<and> isLowerAlphaNumeric suf"

lemma derivePV_suffix:
  assumes "pv \<noteq> []" and "generated_suffix suf"
  shows "derivePVNameFromVolumeID (pv @ CHR ''-'' # suf) = Inr pv"
proof -
  have i: "LastIndexByte (pv @ CHR ''-'' # suf) (CHR ''-'') = int (length pv)"
    using assms(2) by (intro LastIndexByte_dash isLowerAlphaNumeric_no_dash) (simp add: generated_suffix_def)
  have "nat (int (length pv) + 1) = Suc (length pv)" by simp
  then show ?thesis using assms i by (simp add: derivePVNameFromVolumeID_def generated_suffix_def Let_def)
qed

lemma derivePV_other:
  assumes "v \<noteq> []" and "\<And>pv suf. pv \<noteq> [] \<Longrightarrow> generated_suffix suf \<Longrightarrow> v \<noteq> pv @ CHR ''-'' # suf"
  shows "derivePVNameFromVolumeID v = Inr v"
proof (cases "LastIndexByte v (CHR ''-'') > 0")
  case True
  then obtain pre suf where v: "v = pre @ CHR ''-'' # suf" "CHR ''-'' \<notin> set suf"
    using split_list_last by (metis LastIndexByte_def less_minus_one_simps(1) not_less_iff_gr_or_eq)
  then have i: "LastIndexByte v (CHR ''-'') = int (length pre)" by (simp add: LastIndexByte_dash)
  then have "pre \<noteq> []" using True by auto
  then have "\<not> generated_suffix suf" using assms(2) v(1) by blast
  moreover have "drop (nat (int (length pre) + 1)) v = suf" using v(1) by (simp add: nat_add_distrib)
  ultimately show ?thesis using assms(1) i v(1) by (simp add: derivePVNameFromVolumeID_def generated_suffix_def Let_def)
next
  case False
  then show ?thesis using assms(1) by (simp add: derivePVNameFromVolumeID_def Let_def)
qed

end
