(* ===== verification/ClientProps.thy ===== *)
theory ClientProps
  imports HandlerProps Wire Cli
begin

text \<open>
  The properties of the client library and of the mounter command. For the witnesses a codec
  is given that carries one request and one answer.
\<close>

definition ex_print :: "json \<Rightarrow> json \<Rightarrow> string" where
  "ex_print request j = (if j = request then ''q'' else ''a'')"

definition ex_parse :: "json \<Rightarrow> json \<Rightarrow> string \<Rightarrow> json option" where
  "ex_parse request answer t = (if t = ''q'' then Some request else Some answer)"

lemma ex_carried: "carried (ex_print request) (ex_parse request answer) request"
  "carried (ex_print request) (ex_parse request answer) answer"
  by (simp_all add: carried_def ex_print_def ex_parse_def maxRequestSize_def maxResponseSize_def)

subsection \<open>The library\<close>

text \<open>C35. Through the socket, Unmount of the client library is unmount of the wrapper: for a
  complete request and a token that fits into a header, the wrapper runs unmount once, on that
  token and the request with the API version and the driver of the client, and the library
  returns its result, or its error as a ResponseError with the status and the message of the
  wrapper.\<close>

theorem client_unmount_is_unmount:
  assumes "sc_httpClient c = wrapper_transport print etext"
    and "validateRequest (su_Namespace q) (su_PodName q) (su_PodUID q) (su_PVName q) (su_TargetPath q) = None"
    and "readToken readFile c = Inr token" and "valid_header_value token"
    and "carried print parse (encode_UnmountRequest (unmount_payload c q))"
    and "carried print parse (unmount_answer etext (fst (unmount token (unmount_payload c q) s)))"
  shows "SdkUnmount parse readFile c q s =
    (case unmount token (unmount_payload c q) s of
       (Inr r, s') \<Rightarrow> (Inr (sdk_unmount_result r), s')
     | (Inl err, s') \<Rightarrow> (Inl (Rejected \<lparr>re_Operation = ''unmount'', re_StatusCode = requestErrorStatus err,
          re_Message = etext err, re_status = status_line (requestErrorStatus err)\<rparr>), s'))"
proof -
  obtain r s' where r: "unmount token (unmount_payload c q) s = (r, s')" by fastforce
  show ?thesis
    using SdkUnmount_wrapper [OF assms(1-4) r assms(5)] assms(6) r by (cases r) (simp_all add: sdk_reply_def)
qed

definition ex_sdk :: "string list Server socket_transport \<Rightarrow> string list Server SdkClient" where
  "ex_sdk http = \<lparr>sc_driverName = ''nfs.csi'', sc_socketPath = ''/run/w.sock'', sc_tokenFile = ''/token'',
     sc_exportRootKeyFile = [], sc_httpClient = http\<rparr>"

definition ex_sdk_unmount :: SdkUnmountRequest where
  "ex_sdk_unmount = \<lparr>su_Namespace = ''team-a'', su_PodName = ''pod-1'', su_PodUID = ''uid-1'', su_PVName = ''pv-1'',
     su_TargetPath = ''/work/.'', su_ContainerName = ''main''\<rparr>"

lemma ex_sdk_unmount_payload [simp]: "unmount_payload (ex_sdk http) ex_sdk_unmount = ex_unmount"
  by (simp add: unmount_payload_def ex_sdk_def ex_sdk_unmount_def ex_unmount_def)

lemma ex_sdk_simps [simp]: "sc_httpClient (ex_sdk http) = http" "sc_driverName (ex_sdk http) = ''nfs.csi''"
  by (simp_all add: ex_sdk_def)

lemma ex_TrimSpace_tok [simp]: "TrimSpace '' tok '' = ''tok''"
  by code_simp

lemma client_unmount_is_unmount_witness:
  "\<exists>print parse s'. SdkUnmount parse (\<lambda>p. Inr '' tok '') (ex_sdk (wrapper_transport print (\<lambda>e. []))) ex_sdk_unmount
       (ex_server True (ex_holding ''containerd://1'') [''/work'']) =
     (Inr (sdk_unmount_result (unmountResult ''nfs.csi'' ex_unmounted)), s')"
proof -
  let ?s = "ex_server True (ex_holding ''containerd://1'') [''/work'']"
  obtain s' where r: "unmount ''tok'' ex_unmount ?s = (Inr (unmountResult ''nfs.csi'' ex_unmounted), s')"
    using ex_unmount_works by blast
  let ?q = "encode_UnmountRequest ex_unmount"
  let ?a = "unmount_answer (\<lambda>e. []) (fst (unmount ''tok'' ex_unmount ?s))"
  let ?c = "ex_sdk (wrapper_transport (ex_print ?q) (\<lambda>e. []))"
  have t: "readToken (\<lambda>p. Inr '' tok '') ?c = Inr ''tok''" by (simp add: readToken_def)
  have v: "validateRequest (su_Namespace ex_sdk_unmount) (su_PodName ex_sdk_unmount) (su_PodUID ex_sdk_unmount)
      (su_PVName ex_sdk_unmount) (su_TargetPath ex_sdk_unmount) = None"
    by (simp add: validateRequest_None ex_sdk_unmount_def)
  have h: "valid_header_value ''tok''" by code_simp
  have q: "carried (ex_print ?q) (ex_parse ?q ?a) (encode_UnmountRequest (unmount_payload ?c ex_sdk_unmount))"
    unfolding ex_sdk_unmount_payload by (rule ex_carried)
  have a: "carried (ex_print ?q) (ex_parse ?q ?a)
      (unmount_answer (\<lambda>e. []) (fst (unmount ''tok'' (unmount_payload ?c ex_sdk_unmount) ?s)))"
    unfolding ex_sdk_unmount_payload by (rule ex_carried)
  have "SdkUnmount (ex_parse ?q ?a) (\<lambda>p. Inr '' tok '') ?c ex_sdk_unmount ?s =
      (Inr (sdk_unmount_result (unmountResult ''nfs.csi'' ex_unmounted)), s')"
    by (subst client_unmount_is_unmount [OF _ v t h q a]) (simp_all add: r)
  then show ?thesis by blast
qed

subsection \<open>The command\<close>

text \<open>The library prints a result as the wrapper does.\<close>

lemma encode_sdk_mount_result: "encode_SdkMountResult (sdk_mount_result r) = encode_MountResult r"
  by (simp add: encode_SdkMountResult_def sdk_mount_result_def encode_MountResult_def)

text \<open>C10. The mount command of the mounter is mount of the wrapper: once the command line, the
  environment, the files and the optional CSI message give a complete request, exactly that
  request is sent to the configured socket, with the trimmed token and key of the files. If
  the socket takes the connection and no timeout is configured, or it does not elapse, the
  wrapper runs mount once on that request; the command prints the answer of the wrapper as it came and
  exits with 0, or prints that the wrapper rejected the request, with its message, and exits
  with 1. If the socket refuses, or a positive timeout elapses before the response headers or
  before the end of the body, the command reports that error and exits with 1, with nothing
  done, with whatever the abandoned request has left, and with mount done.\<close>

theorem command_mount_is_mount:
  fixes s :: "'n Server"
  assumes parsed: "parseRequest cobra unmarshal e args (LoadMounterConfig e) = Inr (cfg, request)"
    and op: "cr_Operation request = operationMount"
    and m: "m = completePodIdentity readFile (cr_Mount request) cfg" "validateCLIRequest m = None"
    and paths: "mc_SocketPath cfg \<noteq> []" "mc_TokenFile cfg \<noteq> []"
    and token: "readFile (mc_TokenFile cfg) = Inr data" "TrimSpace data \<noteq> []" "valid_header_value (TrimSpace data)"
    and key: "if mc_ExportRootKeyFile cfg = [] then key = []
      else \<exists>d. readFile (mc_ExportRootKeyFile cfg) = Inr d \<and> key = TrimSpace d \<and> key \<noteq> []" "valid_header_value key"
    and codec: "carried print parse (encode_request m)"
      "carried print parse (mount_answer etext (fst (mount (TrimSpace data) key m s)))"
    and q: "q = \<lparr>ht_Method = ''POST'', ht_URL = ''http://unix/v1/mount'',
       ht_Header = call_headers (TrimSpace data) key (Some (encode_request m)), ht_Body = Some (encode_request m)\<rparr>"
  shows "mounter_process cobra unmarshal
      (\<lambda>socket timeout. http_client link socket timeout (wrapper_transport print etext)) parse etext readFile e args s =
    (case ln_connect link (mc_SocketPath cfg) of
       Some err \<Rightarrow> (\<lparr>px_status = 1, px_stdout = None, px_stderr = Some (encode_Response None
         (etext (Errorf ''call wrapper socket %s: %w'' [AStr (mc_SocketPath cfg), AWrap err])))\<rparr>, s)
     | None \<Rightarrow>
         if elapses (mc_HTTPTimeout cfg) (ln_headers link q s) then
           (\<lparr>px_status = 1, px_stdout = None, px_stderr = Some (encode_Response None
             (etext (Errorf ''call wrapper socket %s: %w'' [AStr (mc_SocketPath cfg), AWrap (ln_timeout link)])))\<rparr>,
            ln_abandoned link q s)
         else if elapses (mc_HTTPTimeout cfg) (ln_headers link q s + ln_body link q s) then
           (\<lparr>px_status = 1, px_stdout = None, px_stderr = Some (encode_Response None
             (etext (Errorf ''read wrapper response: %w'' [AWrap (ln_timeout link)])))\<rparr>,
            snd (mount (TrimSpace data) key m s))
         else
           (case mount (TrimSpace data) key m s of
              (Inr r, s') \<Rightarrow> (\<lparr>px_status = 0, px_stdout = Some (mount_answer etext (Inr r)), px_stderr = None\<rparr>, s')
            | (Inl err, s') \<Rightarrow> (\<lparr>px_status = 1, px_stdout = None, px_stderr = Some (encode_Response None
                (if etext err \<noteq> [] then ''wrapper rejected mount request: '' @ etext err
                 else ''wrapper rejected mount request with status '' @ status_line (requestErrorStatus err)))\<rparr>, s')))"
proof -
  obtain r s' where run: "mount (TrimSpace data) key m s = (r, s')" by fastforce
  let ?dial = "\<lambda>socket timeout. http_client link socket timeout (wrapper_transport print etext)"
  obtain c where c: "NewClient ?dial (cli_client_config cfg m) = Inr c" "sc_driverName c = rq_DriverName m"
      "sc_tokenFile c = mc_TokenFile cfg" "sc_exportRootKeyFile c = mc_ExportRootKeyFile cfg"
      "sc_socketPath c = mc_SocketPath cfg"
      "sc_httpClient c = http_client link (sc_socketPath c) (max 0 (mc_HTTPTimeout cfg)) (wrapper_transport print etext)"
    using cli_client [OF m(2) paths, of ?dial] by fastforce
  have "rq_APIVersion m = api_Version" using parseRequest_version [OF parsed] m(1) by simp
  then have payload: "mount_payload c (sdk_mount_request m) = m" by (rule mount_payload_cli [OF c(2)])
  have t: "readToken readFile c = Inr (TrimSpace data)" using token by (simp add: readToken_def c(3))
  have k: "readExportRootKey readFile c = Inr key"
    using key(1) by (auto simp: readExportRootKey_def c(4) split: if_splits)
  have v: "validateRequest (sm_Namespace (sdk_mount_request m)) (sm_PodName (sdk_mount_request m))
      (sm_PodUID (sdk_mount_request m)) (sm_PVName (sdk_mount_request m)) (sm_TargetPath (sdk_mount_request m)) = None"
    using m(2) by (simp add: validateCLIRequest_None sdk_mount_request_def)
  have "SdkMount parse readFile c (sdk_mount_request m) s =
      over_link link (mc_SocketPath cfg) (max 0 (mc_HTTPTimeout cfg)) q s
        (sdk_reply etext ''mount'' sdk_mount_result r, s')"
    unfolding q
    by (subst SdkMount_link [OF c(6) v t k token(3) key(2)]) (use run codec in \<open>simp_all add: payload c(5)\<close>)
  then have sent: "callMounter parse readFile c (request\<lparr>cr_Mount := m\<rparr>) s =
      (case over_link link (mc_SocketPath cfg) (max 0 (mc_HTTPTimeout cfg)) q s
          (sdk_reply etext ''mount'' sdk_mount_result r, s') of (r, s) \<Rightarrow> (map_sum id Mounted r, s))"
    by (simp add: callMounter_def op)
  have main: "mounter_main cobra unmarshal ?dial parse readFile e args s =
      callMounter parse readFile c (request\<lparr>cr_Mount := m\<rparr>) s"
    by (simp add: mounter_main_def parsed m(1) [symmetric] m(2) c(1))
  have clip: "elapses (max 0 t) x = elapses t x" for t x by (auto simp: elapses_def)
  have "status_line n \<noteq> []" for n by (simp add: status_line_def)
  then have answered: "(case (map_sum id Mounted (sdk_reply etext ''mount'' sdk_mount_result r), s') of
        (Inl err, s) \<Rightarrow> (exitError etext err, s)
      | (Inr result, s) \<Rightarrow>
          (\<lparr>px_status = 0, px_stdout = Some (encode_Response (Some (encode_result result)) []), px_stderr = None\<rparr>, s)) =
      (case (r, s') of
         (Inr r, s') \<Rightarrow> (\<lparr>px_status = 0, px_stdout = Some (mount_answer etext (Inr r)), px_stderr = None\<rparr>, s')
       | (Inl err, s') \<Rightarrow> (\<lparr>px_status = 1, px_stdout = None, px_stderr = Some (encode_Response None
           (if etext err \<noteq> [] then ''wrapper rejected mount request: '' @ etext err
            else ''wrapper rejected mount request with status '' @ status_line (requestErrorStatus err)))\<rparr>, s'))"
    by (cases r) (simp_all add: sdk_reply_def exitError_def sdk_error_text_def
      ResponseError_Error_def encode_result_def encode_sdk_mount_result mount_answer_def handler_reply_def
      write_reply_def writeData_def)
  show ?thesis
    unfolding mounter_process_def main sent over_link_def clip run
    by (cases "ln_connect link (mc_SocketPath cfg)"; cases "elapses (mc_HTTPTimeout cfg) (ln_headers link q s)";
        cases "elapses (mc_HTTPTimeout cfg) (ln_headers link q s + ln_body link q s)")
       (simp_all add: answered [unfolded prod.case] exitError_def sdk_error_text_def)
qed

definition ex_cobra :: cobra where
  "ex_cobra args = Inr (MountCommand, [(''driver'', ''nfs.csi''), (''pv'', ''pv-1''), (''sub-path'', ''./run//7/''),
     (''target'', ''/data/../work'')], [])"

definition ex_pod_env :: env where
  "ex_pod_env = (\<lambda>_. [])(''POD_NAMESPACE'' := ''team-a'', ''POD_NAME'' := ''pod-1'', ''MOUNTER_HTTP_TIMEOUT'' := ''2ns'')"

definition ex_files :: "string \<Rightarrow> go_error + string" where
  "ex_files path = (if path = DefaultPodUIDFile then Inr ''uid-1'' else Inr '' tok '')"

text \<open>A link that takes the connection at once, shows the headers after one nanosecond and the
  body after another.\<close>

definition ex_link :: "'s link" where
  "ex_link = \<lparr>ln_connect = (\<lambda>_. None), ln_headers = (\<lambda>_ _. 1), ln_body = (\<lambda>_ _. 1), ln_abandoned = (\<lambda>_ s. s),
     ln_timeout = Sentinel (Errno [])\<rparr>"

lemma ex_command:
  "\<exists>cfg request. parseRequest ex_cobra (\<lambda>raw. Inl (Sentinel (Errno []))) ex_pod_env [] (LoadMounterConfig ex_pod_env) =
       Inr (cfg, request) \<and> cr_Operation request = operationMount \<and>
     completePodIdentity ex_files (cr_Mount request) cfg = ex_request \<and>
     mc_SocketPath cfg \<noteq> [] \<and> mc_TokenFile cfg = DefaultTokenFile \<and> mc_ExportRootKeyFile cfg = [] \<and>
     mc_HTTPTimeout cfg = 2"
proof -
  have "case parseRequest ex_cobra (\<lambda>raw. Inl (Sentinel (Errno []))) ex_pod_env [] (LoadMounterConfig ex_pod_env) of
      Inl _ \<Rightarrow> False | Inr (cfg, request) \<Rightarrow> cr_Operation request = operationMount \<and>
        completePodIdentity ex_files (cr_Mount request) cfg = ex_request \<and>
        mc_SocketPath cfg \<noteq> [] \<and> mc_TokenFile cfg = DefaultTokenFile \<and> mc_ExportRootKeyFile cfg = [] \<and>
     mc_HTTPTimeout cfg = 2"
    by code_simp
  then show ?thesis by (auto split: sum.splits prod.splits)
qed

lemma ex_mount_runs:
  "\<exists>s'. mount ''tok'' [] ex_request (ex_server True (ex_holding []) []) = (Inr (mountResult ''nfs.csi'' ex_normal), s')"
proof -
  have "\<exists>s'. mount_locked ex_normal ex_plan [] (ex_server True (ex_holding []) []) =
      (Inr (mountResult (wc_DriverName (sv_cfg (ex_server True (ex_holding []) []))) ex_normal), s')"
    by (rule mount_locked_succeeds)
      (simp_all add: ex_holding_healthy mount_conflict_def ex_intent_def zero_desiredMount_def ex_not_root)
  then show ?thesis by (simp add: mount_def ex_authorized authorize_def no_authorizer_def) (simp add: ex_cfg_def)
qed

lemma command_mount_is_mount_witness:
  "\<exists>print parse s'. mounter_process ex_cobra (\<lambda>raw. Inl (Sentinel (Errno [])))
      (\<lambda>socket timeout. http_client ex_link socket timeout (wrapper_transport print (\<lambda>e. []))) parse (\<lambda>e. [])
      ex_files ex_pod_env [] (ex_server True (ex_holding []) []) =
     (\<lparr>px_status = 0, px_stdout = Some (mount_answer (\<lambda>e. []) (Inr (mountResult ''nfs.csi'' ex_normal))), px_stderr = None\<rparr>, s')"
proof -
  let ?s = "ex_server True (ex_holding []) []"
  obtain s' where r: "mount ''tok'' [] ex_request ?s = (Inr (mountResult ''nfs.csi'' ex_normal), s')"
    using ex_mount_runs by blast
  obtain cfg request where p: "parseRequest ex_cobra (\<lambda>raw. Inl (Sentinel (Errno []))) ex_pod_env [] (LoadMounterConfig ex_pod_env) =
      Inr (cfg, request)" "cr_Operation request = operationMount"
      "ex_request = completePodIdentity ex_files (cr_Mount request) cfg"
      "mc_SocketPath cfg \<noteq> []" "mc_TokenFile cfg = DefaultTokenFile" "mc_ExportRootKeyFile cfg = []" "mc_HTTPTimeout cfg = 2"
    using ex_command by metis
  have v: "validateCLIRequest ex_request = None" by code_simp
  have t: "mc_TokenFile cfg \<noteq> []" "ex_files (mc_TokenFile cfg) = Inr '' tok ''" "TrimSpace '' tok '' \<noteq> []"
      "valid_header_value (TrimSpace '' tok '')"
    unfolding p(5) by code_simp+
  have k: "if mc_ExportRootKeyFile cfg = [] then ([] :: string) = []
      else \<exists>d. ex_files (mc_ExportRootKeyFile cfg) = Inr d \<and> ([] :: string) = TrimSpace d \<and> ([] :: string) \<noteq> []"
      "valid_header_value []"
    by (simp_all add: p(6) valid_header_value_def)
  let ?q = "encode_request ex_request"
  let ?a = "mount_answer (\<lambda>e. []) (fst (mount (TrimSpace '' tok '') [] ex_request ?s))"
  have "mounter_process ex_cobra (\<lambda>raw. Inl (Sentinel (Errno []))) 
      (\<lambda>socket timeout. http_client ex_link socket timeout (wrapper_transport (ex_print ?q) (\<lambda>e. [])))
      (ex_parse ?q ?a) (\<lambda>e. []) ex_files ex_pod_env [] ?s =
      (\<lparr>px_status = 0, px_stdout = Some (mount_answer (\<lambda>e. []) (Inr (mountResult ''nfs.csi'' ex_normal))), px_stderr = None\<rparr>, s')"
    by (subst command_mount_is_mount [OF p(1-3) v p(4) t k ex_carried refl]) (simp add: r p(7) ex_link_def elapses_def)
  then show ?thesis by blast
qed

text \<open>C40. The PV name taken from a volume id is exact: the id without its last part when that
  is a dash and six lower-case letters or digits, after at least one character; any other id is
  itself the name, and only the empty id is refused.\<close>

theorem pv_name_of_volume_id:
  "derivePVNameFromVolumeID v =
     (if v = [] then Inl (Errorf ''volume_id is required'' [])
      else if (\<exists>pv suf. pv \<noteq> [] \<and> generated_suffix suf \<and> v = pv @ CHR ''-'' # suf)
        then Inr (take (length v - 7) v)
      else Inr v)"
proof (cases "\<exists>pv suf. pv \<noteq> [] \<and> generated_suffix suf \<and> v = pv @ CHR ''-'' # suf")
  case True
  then obtain pv suf where v: "pv \<noteq> []" "generated_suffix suf" "v = pv @ CHR ''-'' # suf" by blast
  then have "take (length v - 7) v = pv" by (simp add: generated_suffix_def)
  then show ?thesis using True derivePV_suffix [OF v(1,2)] v(3) by simp
next
  case False
  then show ?thesis using derivePV_other [of v] by (cases "v = []") (auto simp: derivePVNameFromVolumeID_def)
qed

end
