(* ===== verification/Concurrent.thy ===== *)
theory Concurrent
  imports System
begin

text \<open>
  The running wrapper: its goroutines as a step relation. A request is authorized first and
  waits for the lock of its target then; the goroutine of the Pod events and the callback for
  the first listing each work through a list of intents; four workers take retries off the
  channel. What is done under the lock of a target is one step, as is every look at the state
  or at the API server; between two steps of a goroutine those of the others may come, the
  API server may change its answers, the node may change, and the wrapper may be killed and
  started again. The invariant of all reachable states is proved by rule induction, and every
  whole operation of the sequential model is shown to be a run.
\<close>

subsection \<open>Requests\<close>

text \<open>\<open>mount\<close> and \<open>unmount\<close> up to the lock.\<close>

definition mount_begin ::
  "string \<Rightarrow> string \<Rightarrow> MountRequest \<Rightarrow> 'n Server \<Rightarrow> go_error + MountRequest \<times> MountPlan \<times> string" where
  "mount_begin token exportRootKey request s =
     (case authorizedMountPlan (sv_cfg s) (sv_kube s) token request True of
        Inl err \<Rightarrow> Inl err
      | Inr (request, plan) \<Rightarrow>
        (case authorize (sv_exportRoot s) plan exportRootKey of
           Inl err \<Rightarrow> Inl err
         | Inr fp \<Rightarrow> Inr (request, plan, fp)))"

definition unmount_begin ::
  "string \<Rightarrow> UnmountRequest \<Rightarrow> 'n Server \<Rightarrow> go_error + MountRequest \<times> Pod \<times> ContainerStatus" where
  "unmount_begin token request s =
     (case normalizeMountRequest (sv_cfg s) (unmount_request request) False of
        Inl err \<Rightarrow> Inl err
      | Inr mountRequest \<Rightarrow>
        (case authorizedPodForRequest (sv_cfg s) (sv_kube s) token mountRequest of
           Inl err \<Rightarrow> Inl err
         | Inr pod \<Rightarrow>
           (case selectContainerStatus pod (rq_ContainerName mountRequest) of
              Inl err \<Rightarrow> Inl (bad_request ''%w: %v'' [AVal err])
            | Inr containerStatus \<Rightarrow>
                Inr (mountRequest\<lparr>rq_ContainerName := cs_Name containerStatus\<rparr>, pod, containerStatus))))"

datatype waiting =
    Mounting MountRequest MountPlan string
  | Unmounting MountRequest Pod ContainerStatus

definition run_locked :: "waiting \<Rightarrow> 'n Server \<Rightarrow> 'n Server" where
  "run_locked w s =
     (case w of
        Mounting request plan fp \<Rightarrow> snd (mount_locked request plan fp s)
      | Unmounting request pod status \<Rightarrow> snd (unmount_locked request pod status s))"

lemma mount_split:
  "mount token key request s =
     (case mount_begin token key request s of
        Inl err \<Rightarrow> (Inl err, s) | Inr (q, plan, fp) \<Rightarrow> mount_locked q plan fp s)"
  by (simp add: mount_def mount_begin_def split: sum.split prod.split)

lemma unmount_split:
  "unmount token urequest s =
     (case unmount_begin token urequest s of
        Inl err \<Rightarrow> (Inl err, s) | Inr (q, pod, status) \<Rightarrow> unmount_locked q pod status s)"
  by (simp add: unmount_def unmount_begin_def split: sum.split)

subsection \<open>One intent in the reconciler\<close>

text \<open>What is known of the Pod of an intent: an error, or the Pod.\<close>

definition event_pod :: "PodWatchEvent \<Rightarrow> desiredMount \<Rightarrow> go_error + Pod" where
  "event_pod event desired =
     (if we_Type event = ''DELETED'' then Inl (stale_error ''%w: pod %s/%s was deleted'' desired)
      else Inr (we_Pod event))"

definition snapshot_pod :: "(string \<rightharpoonup> Pod) \<Rightarrow> 'n Server \<Rightarrow> desiredMount \<Rightarrow> go_error + Pod" where
  "snapshot_pod pods s desired =
     (let r = dm_Request desired in
      case pods (request_pod_string r) of
        Some pod \<Rightarrow> Inr pod
      | None \<Rightarrow>
        (case kc_GetPod (sv_kube s) (rq_Namespace r) (rq_PodName r) of
           Inr livePod \<Rightarrow>
             if sp_NodeName (pod_Spec livePod) \<noteq> [] \<and> sp_NodeName (pod_Spec livePod) \<noteq> wc_NodeName (sv_cfg s)
               then Inl (Errorf ''%w: pod %s/%s moved away from node %s''
                      [AWrap (Sentinel ErrDesiredMountStale), AStr (rq_Namespace r), AStr (rq_PodName r),
                       AStr (wc_NodeName (sv_cfg s))])
             else Inr livePod
         | Inl err \<Rightarrow>
             if IsNotFound err then Inl (stale_error ''%w: pod %s/%s no longer exists'' desired)
             else Inl (Errorf ''get pod %s/%s missing from node snapshot: %w''
                    [AStr (rq_Namespace r), AStr (rq_PodName r), AWrap err])))"

definition retry_pod :: "'n Server \<Rightarrow> desiredMount \<Rightarrow> go_error + Pod" where
  "retry_pod s desired =
     (let r = dm_Request desired in
      case kc_GetPod (sv_kube s) (rq_Namespace r) (rq_PodName r) of
        Inr pod \<Rightarrow> Inr pod
      | Inl err \<Rightarrow>
          if IsNotFound err then Inl (stale_error ''%w: pod %s/%s no longer exists'' desired)
          else Inl (Errorf ''get pod %s/%s: %w'' [AStr (rq_Namespace r), AStr (rq_PodName r), AWrap err]))"

definition reconcile_found :: "desiredMount \<Rightarrow> go_error + Pod \<Rightarrow> 'n Server \<Rightarrow> go_error option \<times> 'n Server" where
  "reconcile_found desired found s =
     (case found of Inl err \<Rightarrow> (Some err, s) | Inr pod \<Rightarrow> reconcileMountForPod desired pod s)"

text \<open>What follows in a retry worker.\<close>

definition conclude_retry ::
  "reconcileRetry \<Rightarrow> desiredMount \<Rightarrow> go_error option \<Rightarrow> 'n Server \<times> retries \<Rightarrow> 'n Server \<times> retries" where
  "conclude_retry retry desired err sq =
     (case sq of (s, q) \<Rightarrow>
        let s = handleReconcileResult desired err s in
        if settled err \<or> rr_attempt retry + 1 \<ge> length reconcileRetryDelays
          then (set_retrying (\<lambda>ks. ks - {rr_key retry}) s, q)
        else if length q < reconcileRetryQueueSize
          then (s, q @ [retry\<lparr>rr_attempt := rr_attempt retry + 1\<rparr>])
        else (set_retrying (\<lambda>ks. ks - {rr_key retry}) s, q))"

text \<open>And in the other two goroutines.\<close>

definition conclude_sweep ::
  "desiredMount \<Rightarrow> go_error option \<Rightarrow> 'n Server \<times> retries \<Rightarrow> 'n Server \<times> retries" where
  "conclude_sweep desired err sq =
     scheduleReconcileRetry False desired err (handleReconcileResult desired err (fst sq), snd sq)"

lemma settled_stale [simp]: "settled (Some (stale_error f d))"
  by (simp add: settled_def stale_error_def)

lemma event_step_split:
  "event_step False event d (s, q) =
     (case reconcile_found d (event_pod event d) s of (err, s) \<Rightarrow> conclude_sweep d err (s, q))"
  by (simp add: event_step_def event_pod_def reconcile_found_def conclude_sweep_def scheduleReconcileRetry_def Let_def)

lemma snapshot_step_split:
  "snapshot_step False pods d (s, q) =
     (case reconcile_found d (snapshot_pod pods s d) s of (err, s) \<Rightarrow> conclude_sweep d err (s, q))"
  by (simp add: snapshot_step_def snapshot_pod_def reconcile_found_def reconcile_missing_def conclude_sweep_def Let_def
      split: option.split sum.split)

lemma processReconcileRetry_split:
  "processReconcileRetry retry (s, q) =
     (case state_Get s (rr_key retry) of
        None \<Rightarrow> (set_retrying (\<lambda>ks. ks - {rr_key retry}) s, q)
      | Some d \<Rightarrow> (case reconcile_found d (retry_pod s d) s of (err, s) \<Rightarrow> conclude_retry retry d err (s, q)))"
  by (simp add: processReconcileRetry_def retry_pod_def reconcile_found_def reconcileMount_def conclude_retry_def Let_def
      split: option.split sum.split)

subsection \<open>The steps\<close>

text \<open>
  The work on one intent: the Pod is to be looked up, the lock is awaited with what is known of
  the Pod, or the result is to be handled.
\<close>

datatype job =
    Lookup desiredMount
  | Locked desiredMount "go_error + Pod"
  | Conclude desiredMount "go_error option"

inductive job_step :: "('n Server \<Rightarrow> desiredMount \<Rightarrow> go_error + Pod) \<Rightarrow> job \<times> 'n Server \<Rightarrow> job \<times> 'n Server \<Rightarrow> bool"
  for look where
  Look: "job_step look (Lookup d, s) (Locked d (look s d), s)"
| Lock: "reconcile_found d found s = (err, s') \<Longrightarrow> job_step look (Locked d found, s) (Conclude d err, s')"

inductive_cases job_step_cases: "job_step look (j, s) (j', s')"

text \<open>A pass over a list of intents, for an event or for the first listing.\<close>

datatype cause = Watched PodWatchEvent | Listed "string \<rightharpoonup> Pod"

definition cause_pod :: "cause \<Rightarrow> 'n Server \<Rightarrow> desiredMount \<Rightarrow> go_error + Pod" where
  "cause_pod c s desired =
     (case c of Watched event \<Rightarrow> event_pod event desired | Listed pods \<Rightarrow> snapshot_pod pods s desired)"

record sweep =
  sw_cause :: cause
  sw_job :: "job option"
  sw_rest :: "desiredMount list"

definition start_sweep :: "cause \<Rightarrow> desiredMount list \<Rightarrow> sweep" where
  "start_sweep c ds = \<lparr>sw_cause = c, sw_job = None, sw_rest = ds\<rparr>"

text \<open>The goroutine that reads the event channel, and the informer with its first listing.\<close>

datatype sweeper = Watcher | Lister

text \<open>\<open>sy_queue\<close> and \<open>sy_events\<close> are the two channels, \<open>sy_flight\<close> the retries that the workers
  hold: in their delay, or with the intent they found.\<close>

record 'n system =
  sy_server :: "'n Server"
  sy_queue :: retries
  sy_flight :: "(reconcileRetry \<times> job option) list"
  sy_events :: "PodWatchEvent list"
  sy_sweep :: "sweeper \<Rightarrow> sweep option"
  sy_waiting :: "waiting list"

definition fresh_system :: "'n Server \<Rightarrow> 'n system" where
  "fresh_system s = \<lparr>sy_server = s, sy_queue = [], sy_flight = [], sy_events = [], sy_sweep = (\<lambda>_. None), sy_waiting = []\<rparr>"

text \<open>\<open>RunReconciler\<close> does nothing without a node name.\<close>

definition reconciler_runs :: "WrapperConfig \<Rightarrow> bool" where
  "reconciler_runs cfg \<longleftrightarrow> wc_NodeName cfg \<noteq> []"

text \<open>A restart reads the directory as it is, with the export-root key file as it is now.\<close>

definition restarted :: "'n Server \<Rightarrow> 'n Server \<Rightarrow> bool" where
  "restarted s s' \<longleftrightarrow>
     (\<exists>d d' readFile.
        dk_files d = dk_files (st_disk (sv_state s)) \<and>
        NewServer readFile (sv_cfg s) (sv_kube s) (sv_mounter s) (sv_node s) d = (Inr s', d'))"

inductive system_step :: "'n system \<Rightarrow> 'n system \<Rightarrow> bool" where
  Mount: "mount_begin token key request (sy_server x) = Inr (q, plan, fp) \<Longrightarrow>
    system_step x (x\<lparr>sy_waiting := Mounting q plan fp # sy_waiting x\<rparr>)"
| Unmount: "unmount_begin token urequest (sy_server x) = Inr (q, pod, status) \<Longrightarrow>
    system_step x (x\<lparr>sy_waiting := Unmounting q pod status # sy_waiting x\<rparr>)"
| Target: "sy_waiting x = ws1 @ w # ws2 \<Longrightarrow>
    system_step x (x\<lparr>sy_server := run_locked w (sy_server x), sy_waiting := ws1 @ ws2\<rparr>)"
| Event: "reconciler_runs (sv_cfg (sy_server x)) \<Longrightarrow> length (sy_events x) < podWatchQueueSize \<Longrightarrow>
    system_step x (x\<lparr>sy_events := sy_events x @ [event]\<rparr>)"
| Watch: "sy_events x = event # events \<Longrightarrow> sy_sweep x Watcher = None \<Longrightarrow>
    ds = ListForPod (sv_state (sy_server x)) (event_pod_key event) \<Longrightarrow>
    system_step x (x\<lparr>sy_events := events, sy_sweep := (sy_sweep x)(Watcher \<mapsto> start_sweep (Watched event) ds)\<rparr>)"
| List: "reconciler_runs (sv_cfg (sy_server x)) \<Longrightarrow> sy_sweep x Lister = None \<Longrightarrow>
    ds = List_all (sv_state (sy_server x)) \<Longrightarrow>
    system_step x (x\<lparr>sy_sweep := (sy_sweep x)(Lister \<mapsto> start_sweep (Listed (podsByUID pods)) ds)\<rparr>)"
| Next: "sy_sweep x g = Some \<lparr>sw_cause = c, sw_job = None, sw_rest = d # ds\<rparr> \<Longrightarrow>
    system_step x (x\<lparr>sy_sweep := (sy_sweep x)(g \<mapsto> \<lparr>sw_cause = c, sw_job = Some (Lookup d), sw_rest = ds\<rparr>)\<rparr>)"
| Work: "sy_sweep x g = Some \<lparr>sw_cause = c, sw_job = Some j, sw_rest = ds\<rparr> \<Longrightarrow>
    job_step (cause_pod c) (j, sy_server x) (j', s') \<Longrightarrow>
    system_step x (x\<lparr>sy_server := s', sy_sweep := (sy_sweep x)(g \<mapsto> \<lparr>sw_cause = c, sw_job = Some j', sw_rest = ds\<rparr>)\<rparr>)"
| Handled: "sy_sweep x g = Some \<lparr>sw_cause = c, sw_job = Some (Conclude d err), sw_rest = ds\<rparr> \<Longrightarrow>
    conclude_sweep d err (sy_server x, sy_queue x) = (s', q') \<Longrightarrow>
    system_step x (x\<lparr>sy_server := s', sy_queue := q',
      sy_sweep := (sy_sweep x)(g \<mapsto> \<lparr>sw_cause = c, sw_job = None, sw_rest = ds\<rparr>)\<rparr>)"
| Finish: "sy_sweep x g = Some \<lparr>sw_cause = c, sw_job = None, sw_rest = []\<rparr> \<Longrightarrow>
    system_step x (x\<lparr>sy_sweep := (sy_sweep x)(g := None)\<rparr>)"
| Take: "sy_queue x = retry # q' \<Longrightarrow> length (sy_flight x) < reconcileRetryWorkers \<Longrightarrow>
    system_step x (x\<lparr>sy_queue := q', sy_flight := (retry, None) # sy_flight x\<rparr>)"
| Found: "sy_flight x = fl1 @ (retry, None) # fl2 \<Longrightarrow> state_Get (sy_server x) (rr_key retry) = Some d \<Longrightarrow>
    system_step x (x\<lparr>sy_flight := fl1 @ (retry, Some (Lookup d)) # fl2\<rparr>)"
| Gone: "sy_flight x = fl1 @ (retry, None) # fl2 \<Longrightarrow> state_Get (sy_server x) (rr_key retry) = None \<Longrightarrow>
    system_step x (x\<lparr>sy_server := set_retrying (\<lambda>ks. ks - {rr_key retry}) (sy_server x), sy_flight := fl1 @ fl2\<rparr>)"
| Retry: "sy_flight x = fl1 @ (retry, Some j) # fl2 \<Longrightarrow> job_step retry_pod (j, sy_server x) (j', s') \<Longrightarrow>
    system_step x (x\<lparr>sy_server := s', sy_flight := fl1 @ (retry, Some j') # fl2\<rparr>)"
| Retried: "sy_flight x = fl1 @ (retry, Some (Conclude d err)) # fl2 \<Longrightarrow>
    conclude_retry retry d err (sy_server x, sy_queue x) = (s', q') \<Longrightarrow>
    system_step x (x\<lparr>sy_server := s', sy_queue := q', sy_flight := fl1 @ fl2\<rparr>)"
| Kube: "named_containers kube' \<Longrightarrow> system_step x (x\<lparr>sy_server := (sy_server x)\<lparr>sv_kube := kube'\<rparr>\<rparr>)"
| Node: "system_step x (x\<lparr>sy_server := (sy_server x)\<lparr>sv_node := n'\<rparr>\<rparr>)"
| Restart: "restarted (sy_server x) s' \<Longrightarrow> system_step x (fresh_system s')"

text \<open>A first start on an empty directory.\<close>

definition system_start :: "'n system \<Rightarrow> bool" where
  "system_start x \<longleftrightarrow>
     (\<exists>cfg kube mounter n readFile d d' s.
        named_containers kube \<and> dk_files d = [] \<and>
        NewServer readFile cfg kube mounter n d = (Inr s, d') \<and> x = fresh_system s)"

lemma restarted_holds:
  assumes "restarted s s'" and h: "holds (intent_ok (sv_cfg s)) s"
  shows "holds (intent_ok (sv_cfg s)) s'" and "sv_cfg s' = sv_cfg s" and "sv_kube s' = sv_kube s"
    and "authorizer_ok (sv_exportRoot s')" and "sv_retrying s' = {}"
proof -
  obtain d d' readFile where d: "dk_files d = dk_files (st_disk (sv_state s))"
    and n0: "NewServer readFile (sv_cfg s) (sv_kube s) (sv_mounter s) (sv_node s) d = (Inr s', d')"
    using assms(1) unfolding restarted_def by blast
  from n0 obtain st d1 where load: "newFileMountStateStore (wc_MountStateDir (sv_cfg s)) d = (Inr st, d1)"
    and new: "newServerWithState readFile (sv_cfg s) (sv_kube s) (sv_mounter s) (sv_node s) st = Inr s'"
    by (rule NewServer_Inr)
  note n = newServerWithState_Inr [OF new]
  show "holds (intent_ok (sv_cfg s)) s'"
    using load _ _ n(5) by (rule load_holds) (use h d in \<open>auto simp: holds_def disk_holds_def\<close>)
  show "sv_cfg s' = sv_cfg s" and "sv_kube s' = sv_kube s"
    and "authorizer_ok (sv_exportRoot s')" and "sv_retrying s' = {}" using n by simp_all
qed

lemma retry_inv_empty: "sv_retrying s = {} \<Longrightarrow> retry_inv [] (s, [])"
  by (simp add: retry_inv_def)


subsection \<open>The invariant of reachable states\<close>

text \<open>What an authorized mount request brings along.\<close>

definition waiting_ok :: "WrapperConfig \<Rightarrow> waiting \<Rightarrow> bool" where
  "waiting_ok cfg w \<longleftrightarrow>
     (case w of
        Mounting q plan fp \<Rightarrow> normal_request cfg q \<and> rq_ContainerName q \<noteq> [] \<and> (fp \<noteq> [] \<longrightarrow> IsNFSExportRoot plan)
      | Unmounting q pod status \<Rightarrow> True)"

definition system_inv :: "'n system \<Rightarrow> bool" where
  "system_inv x \<longleftrightarrow>
     holds (intent_ok (sv_cfg (sy_server x))) (sy_server x) \<and>
     authorizer_ok (sv_exportRoot (sy_server x)) \<and> named_containers (sv_kube (sy_server x)) \<and>
     retry_inv (map fst (sy_flight x)) (sy_server x, sy_queue x) \<and> length (sy_flight x) \<le> reconcileRetryWorkers \<and>
     length (sy_events x) \<le> podWatchQueueSize \<and> (\<forall>w \<in> set (sy_waiting x). waiting_ok (sv_cfg (sy_server x)) w)"

lemma mount_begin_ok:
  assumes "mount_begin token key request s = Inr (q, plan, fp)" and n: "named_containers (sv_kube s)"
  shows "waiting_ok (sv_cfg s) (Mounting q plan fp)"
proof -
  have "authorized_mount (sv_cfg s) (sv_kube s) (sv_exportRoot s) token key request q plan fp"
    using assms(1) authorizedMountPlan_Inr by (fastforce simp: mount_begin_def split: sum.splits)
  then obtain pod status where q: "normal_request (sv_cfg s) q"
    and fp: "authorize (sv_exportRoot s) plan key = Inr fp"
    and pod: "kc_GetPod (sv_kube s) (rq_Namespace q) (rq_PodName q) = Inr pod"
    and st: "selectContainerStatus pod (rq_ContainerName request) = Inr status"
    and name: "q = request\<lparr>rq_TargetPath := rq_TargetPath q, rq_SourceSubPath := rq_SourceSubPath q,
                    rq_ContainerName := cs_Name status\<rparr>"
    unfolding authorized_mount_def by blast
  have "cs_Name status \<noteq> []"
    using n pod selectContainerStatus_Inr(1) [OF st] by (auto simp: named_containers_def)
  then have "rq_ContainerName q \<noteq> []" by (subst name) simp
  moreover have "fp \<noteq> [] \<longrightarrow> IsNFSExportRoot plan" using fp by (auto simp: authorize_Inr split: if_splits)
  ultimately show ?thesis using q by (simp add: waiting_ok_def)
qed

lemma mount_locked_static:
  assumes "server_ok s" and "mount_locked q plan fp s = (r, s')"
  shows "same_static s s'"
proof (cases "mount_conflict q plan s")
  case True
  then show ?thesis using assms(2) mount_locked_conflict by (metis same_static_refl Pair_inject)
next
  case False
  then show ?thesis using mount_locked_outcome [OF assms] by (simp add: mount_outcome_def handler_frame_def)
qed

lemma unmount_locked_static:
  assumes "server_ok s" and "unmount_locked q pod status s = (r, s')"
  shows "same_static s s'"
  using assms refl by (cases rule: unmount_locked_cases) (simp_all add: handler_frame_def)

lemma run_locked_ok:
  assumes h: "holds (intent_ok (sv_cfg s)) s" and w: "waiting_ok (sv_cfg s) w"
  shows "holds (intent_ok (sv_cfg s)) (run_locked w s)" and "same_static s (run_locked w s)"
proof -
  have "holds (intent_ok (sv_cfg s)) (run_locked w s) \<and> same_static s (run_locked w s)"
  proof (cases w)
    case (Mounting q plan fp)
    obtain r s' where r: "mount_locked q plan fp s = (r, s')" by fastforce
    have "holds (intent_ok (sv_cfg s)) s'"
      using w Mounting by (intro mount_locked_holds [OF h intent_property_ok _ _ r])
        (auto simp: waiting_ok_def intent_ok_def stored_form_def)
    then show ?thesis using Mounting r mount_locked_static [OF holds_server_ok [OF h] r] by (simp add: run_locked_def)
  next
    case (Unmounting q pod status)
    obtain r s' where r: "unmount_locked q pod status s = (r, s')" by fastforce
    then show ?thesis
      using Unmounting unmount_locked_holds [OF h intent_property_ok r] unmount_locked_static [OF holds_server_ok [OF h] r]
      by (simp add: run_locked_def)
  qed
  then show "holds (intent_ok (sv_cfg s)) (run_locked w s)" "same_static s (run_locked w s)" by simp_all
qed

lemma same_static_inv:
  assumes inv: "system_inv x" and "same_static (sy_server x) s'" and "holds (intent_ok (sv_cfg (sy_server x))) s'"
  shows "system_inv (x\<lparr>sy_server := s'\<rparr>)"
  using assms by (auto simp: system_inv_def same_static_def retry_inv_def)

abbreviation "server_rec_ok x s' \<equiv>
  rec_ok (sv_cfg (sy_server x)) (sv_kube (sy_server x)) (sv_exportRoot (sy_server x)) s'"

lemma system_inv_rec_ok: "system_inv x \<Longrightarrow> server_rec_ok x (sy_server x)"
  by (simp add: system_inv_def rec_ok_def)

lemma reconciler_inv:
  assumes "system_inv x" and "server_rec_ok x s'" and "retry_inv (map fst fl) (s', q')" and "length fl \<le> length (sy_flight x)"
  shows "system_inv (x\<lparr>sy_server := s', sy_queue := q', sy_flight := fl\<rparr>)"
  using assms by (simp add: system_inv_def rec_ok_def)

lemma reconcile_found_ok:
  assumes "rec_ok cfg kube a s" and "reconcile_found d found s = (err, s')"
  shows "rec_ok cfg kube a s'" and "sv_retrying s' = sv_retrying s"
  using assms rec_ok_reconcile [OF assms(1)] reconcileMountForPod_retrying [of s]
  by (auto simp: reconcile_found_def rec_ok_def dest: holds_server_ok split: sum.splits)

lemma job_step_ok:
  assumes "job_step look (j, s) (j', s')" and "rec_ok cfg kube a s"
  shows "rec_ok cfg kube a s'" and "sv_retrying s' = sv_retrying s"
  using assms by (auto elim!: job_step_cases dest: reconcile_found_ok)

lemma conclude_sweep_ok:
  assumes "rec_ok cfg kube a s" and "retry_inv fl (s, q)" and "conclude_sweep d err (s, q) = (s', q')"
  shows "rec_ok cfg kube a s'" and "retry_inv fl (s', q')"
  using rec_ok_schedule [OF rec_ok_handle [OF assms(1), of d err], of False d err q]
    retry_inv_schedule [OF assms(2), of "handleReconcileResult d err s" False d err] assms(3)
  by (simp_all add: conclude_sweep_def)

lemma conclude_retry_ok:
  assumes "rec_ok cfg kube a s" and "retry_inv (retry # fl) (s, q)" and "conclude_retry retry d err (s, q) = (s', q')"
  shows "rec_ok cfg kube a s'" and "retry_inv fl (s', q')"
proof -
  let ?t = "handleReconcileResult d err s"
  note t = rec_ok_handle [OF assms(1), of d err]
  have rt: "sv_retrying ?t = sv_retrying s" by simp
  have "(s' = set_retrying (\<lambda>ks. ks - {rr_key retry}) ?t \<and> q' = q) \<or>
      (s' = ?t \<and> q' = q @ [retry\<lparr>rr_attempt := rr_attempt retry + 1\<rparr>] \<and>
       rr_attempt retry + 1 < length reconcileRetryDelays \<and> length q < reconcileRetryQueueSize)"
    using assms(3) by (simp add: conclude_retry_def Let_def split: if_splits)
  then have "rec_ok cfg kube a s' \<and> retry_inv fl (s', q')"
  proof (elim disjE conjE)
    assume s': "s' = set_retrying (\<lambda>ks. ks - {rr_key retry}) ?t" "q' = q"
    have "sv_retrying s' = sv_retrying s - {rr_key retry}" by (simp add: s' set_retrying_def rt)
    then have "retry_inv fl (s', q')" using assms(2) s'(2) by (auto simp: retry_inv_def)
    then show ?thesis using t s'(1) by simp
  next
    assume s': "s' = ?t" "q' = q @ [retry\<lparr>rr_attempt := rr_attempt retry + 1\<rparr>]"
      and le: "rr_attempt retry + 1 < length reconcileRetryDelays" "length q < reconcileRetryQueueSize"
    have "sv_retrying s' = sv_retrying s" by (simp add: s' rt)
    then have "retry_inv fl (s', q')" using assms(2) s'(2) le by (auto simp: retry_inv_def)
    then show ?thesis using t s'(1) by simp
  qed
  then show "rec_ok cfg kube a s'" and "retry_inv fl (s', q')" by simp_all
qed

lemma retry_inv_move: "retry_inv (fl1 @ r # fl2) sq = retry_inv (r # fl1 @ fl2) sq"
  by (auto simp: retry_inv_def)

lemma fresh_system_simps [simp]:
  "sy_server (fresh_system s) = s" "sy_queue (fresh_system s) = []" "sy_flight (fresh_system s) = []"
  "sy_events (fresh_system s) = []" "sy_sweep (fresh_system s) g = None" "sy_waiting (fresh_system s) = []"
  by (simp_all add: fresh_system_def)

lemma fresh_inv:
  assumes "holds (intent_ok (sv_cfg s)) s" and "authorizer_ok (sv_exportRoot s)" and "named_containers (sv_kube s)"
    and "sv_retrying s = {}"
  shows "system_inv (fresh_system s)"
  using assms retry_inv_empty [OF assms(4)] by (simp add: system_inv_def)

lemma system_start_inv: "system_start x \<Longrightarrow> system_inv x"
  unfolding system_start_def
proof (elim exE conjE)
  fix cfg kube mounter n readFile d d' s
  assume n: "named_containers kube" and d: "dk_files d = []" and x: "x = fresh_system s"
    and n0: "NewServer readFile cfg kube mounter n d = (Inr s, d')"
  from n0 obtain st d1 where load: "newFileMountStateStore (wc_MountStateDir cfg) d = (Inr st, d1)"
    and new: "newServerWithState readFile cfg kube mounter n st = Inr s"
    by (rule NewServer_Inr)
  note s = newServerWithState_Inr [OF new]
  have "holds (intent_ok cfg) s"
    using load _ _ s(5) by (rule load_holds) (simp_all add: d)
  then show ?thesis using n s x by (auto intro: fresh_inv)
qed

lemma system_step_inv:
  assumes "system_step x y" and inv: "system_inv x"
  shows "system_inv y"
proof -
  let ?s = "sy_server x"
  have h: "holds (intent_ok (sv_cfg ?s)) ?s" using inv by (simp add: system_inv_def)
  have ri: "retry_inv (map fst (sy_flight x)) (?s, sy_queue x)" using inv by (simp add: system_inv_def)
  have flight: "retry_inv (r # map fst fl1 @ map fst fl2) (?s, sy_queue x)"
    if "sy_flight x = fl1 @ (r, j) # fl2" for r j fl1 fl2
    using ri that by (simp add: retry_inv_move)
  note rec = system_inv_rec_ok [OF inv]
  from assms(1) show ?thesis
  proof cases
    case (Mount token key request q plan fp)
    then have "waiting_ok (sv_cfg ?s) (Mounting q plan fp)"
      using inv mount_begin_ok [OF Mount(2)] by (simp add: system_inv_def)
    then show ?thesis using inv Mount(1) by (simp add: system_inv_def)
  next
    case (Unmount token urequest q pod status)
    then show ?thesis using inv by (simp add: system_inv_def waiting_ok_def)
  next
    case (Target ws1 w ws2)
    have w: "waiting_ok (sv_cfg ?s) w" using inv Target(2) by (simp add: system_inv_def)
    from same_static_inv [OF inv run_locked_ok(2,1) [OF h w]] show ?thesis
      using Target by (simp add: system_inv_def)
  next
    case (Work g c j ds j' s')
    note ok = job_step_ok [OF Work(3) rec]
    have "retry_inv (map fst (sy_flight x)) (s', sy_queue x)" using ri ok(2) by (rule retry_inv_same_retrying)
    from reconciler_inv [OF inv ok(1) this] show ?thesis using Work(1) by (simp add: system_inv_def)
  next
    case (Handled g c d err ds s' q')
    note ok = conclude_sweep_ok [OF rec ri Handled(3)]
    from reconciler_inv [OF inv ok] show ?thesis using Handled(1) by (simp add: system_inv_def)
  next
    case (Take retry q')
    then show ?thesis using inv retry_inv_take [of "map fst (sy_flight x)" ?s retry q'] by (simp add: system_inv_def)
  next
    case (Gone fl1 retry fl2)
    have "retry_inv (map fst (fl1 @ fl2)) (set_retrying (\<lambda>ks. ks - {rr_key retry}) ?s, sy_queue x)"
      using flight [OF Gone(2)] by (auto simp: retry_inv_def set_retrying_def)
    moreover have "server_rec_ok x (set_retrying (\<lambda>ks. ks - {rr_key retry}) ?s)" using rec by simp
    ultimately show ?thesis
      using reconciler_inv [OF inv, of _ "fl1 @ fl2" "sy_queue x"] Gone(1,2) by simp
  next
    case (Retry fl1 retry j fl2 j' s')
    note ok = job_step_ok [OF Retry(3) rec]
    have "retry_inv (map fst (sy_flight x)) (s', sy_queue x)" using ri ok(2) by (rule retry_inv_same_retrying)
    then have "retry_inv (map fst (fl1 @ (retry, Some j') # fl2)) (s', sy_queue x)" using Retry(2) by simp
    from reconciler_inv [OF inv ok(1) this] show ?thesis using Retry(1,2) by simp
  next
    case (Retried fl1 retry d err fl2 s' q')
    note ok = conclude_retry_ok [OF rec flight [OF Retried(2)] Retried(3)]
    from reconciler_inv [OF inv ok(1), of "fl1 @ fl2" q'] show ?thesis using ok(2) Retried(1,2) by simp
  next
    case (Kube kube')
    then show ?thesis using inv by (simp add: system_inv_def retry_inv_def)
  next
    case (Node n')
    then show ?thesis using inv by (simp add: system_inv_def retry_inv_def)
  next
    case (Restart s')
    note r = restarted_holds [OF Restart(2) h]
    show ?thesis unfolding Restart(1) using inv r by (intro fresh_inv) (simp_all add: system_inv_def)
  qed (use inv in \<open>simp_all add: system_inv_def\<close>)
qed

lemma system_step_cfg:
  assumes "system_step x y" and inv: "system_inv x"
  shows "sv_cfg (sy_server y) = sv_cfg (sy_server x)"
proof -
  let ?s = "sy_server x"
  have h: "holds (intent_ok (sv_cfg ?s)) ?s" using inv by (simp add: system_inv_def)
  have ri: "retry_inv (map fst (sy_flight x)) (?s, sy_queue x)" using inv by (simp add: system_inv_def)
  note rec = system_inv_rec_ok [OF inv]
  from assms(1) show ?thesis
  proof cases
    case (Target ws1 w ws2)
    then show ?thesis using run_locked_ok(2) [OF h] inv by (simp add: system_inv_def same_static_def)
  next
    case (Work g c j ds j' s')
    then show ?thesis using job_step_ok(1) [OF Work(3) rec] by (simp add: rec_ok_def)
  next
    case (Handled g c d err ds s' q')
    then show ?thesis using conclude_sweep_ok(1) [OF rec ri Handled(3)] by (simp add: rec_ok_def)
  next
    case (Retry fl1 retry j fl2 j' s')
    then show ?thesis using job_step_ok(1) [OF Retry(3) rec] by (simp add: rec_ok_def)
  next
    case (Retried fl1 retry d err fl2 s' q')
    have "retry_inv (retry # map fst (fl1 @ fl2)) (?s, sy_queue x)" using ri Retried(2) by (simp add: retry_inv_move)
    from conclude_retry_ok(1) [OF rec this Retried(3)] show ?thesis using Retried(1) by (simp add: rec_ok_def)
  next
    case (Restart s')
    then show ?thesis using restarted_holds(2) [OF Restart(2) h] by simp
  qed (simp_all add: set_retrying_def)
qed

lemma reachable_cfg:
  assumes "system_inv x" and "system_step\<^sup>*\<^sup>* x y"
  shows "system_inv y \<and> sv_cfg (sy_server y) = sv_cfg (sy_server x)"
  using assms(2)
  by (induction rule: rtranclp_induct) (auto simp: assms(1) system_step_cfg intro: system_step_inv)

lemma reachable_inv:
  assumes "system_start x" and "system_step\<^sup>*\<^sup>* x y"
  shows "system_inv y"
  using reachable_cfg [OF system_start_inv [OF assms(1)] assms(2)] by simp

text \<open>So the state directory of a reachable wrapper always loads.\<close>

lemma reachable_restarts:
  assumes inv: "system_inv x" and "dir \<noteq> []" and "\<And>n. \<not> dk_fail d n"
    and files: "dk_files d = dk_files (st_disk (sv_state (sy_server x)))"
  shows "\<exists>st d'. newFileMountStateStore dir d = (Inr st, d')"
proof -
  have good: "\<forall>e \<in> set (dk_files d). good_entry e"
    using inv files by (auto simp: system_inv_def holds_def disk_holds_def)
  let ?d0 = "d\<lparr>dk_clock := Suc (Suc (dk_clock d))\<rparr>"
  have "\<exists>s' d'. load_entries (sort_key fst (dk_files d)) (empty_store dir ?d0) = (Inr s', d')"
    using good assms(3) by (intro load_entries_total) (auto simp: empty_store_def)
  then show ?thesis using assms(2,3) by (auto simp: newFileMountStateStore_def sys_def)
qed

subsection \<open>Whole operations are runs\<close>

text \<open>
  When nothing else happens, the goroutines do what the functions of the sequential model say:
  from a state without work in progress, each of them is a run of the steps.
\<close>

definition idle_system :: "'n Server \<Rightarrow> retries \<Rightarrow> 'n system" where
  "idle_system s q = (fresh_system s)\<lparr>sy_queue := q\<rparr>"

lemma idle_system_simps [simp]:
  "sy_server (idle_system s q) = s" "sy_queue (idle_system s q) = q"
  by (simp_all add: idle_system_def)

lemmas idle_defs = idle_system_def fresh_system_def

lemma two_steps: "system_step x y \<Longrightarrow> system_step y z \<Longrightarrow> system_step\<^sup>*\<^sup>* x z"
  by (rule rtranclp.rtrancl_into_rtrancl [OF r_into_rtranclp])

lemma waiting_run: "system_step ((idle_system s q)\<lparr>sy_waiting := [w]\<rparr>) (idle_system (run_locked w s) q)"
  using system_step.Target [of "(idle_system s q)\<lparr>sy_waiting := [w]\<rparr>" "[]" w "[]"] by (simp add: idle_defs)

lemma mount_run:
  assumes "mount token key request s = (r, s')"
  shows "system_step\<^sup>*\<^sup>* (idle_system s q) (idle_system s' q)"
proof (cases "mount_begin token key request s")
  case (Inl e)
  then show ?thesis using assms by (simp add: mount_split)
next
  case (Inr a)
  obtain r' plan fp where a: "a = (r', plan, fp)" by (cases a)
  have "system_step (idle_system s q) ((idle_system s q)\<lparr>sy_waiting := [Mounting r' plan fp]\<rparr>)"
    using system_step.Mount [of token key request "idle_system s q"] Inr a by (simp add: idle_defs)
  moreover have "s' = run_locked (Mounting r' plan fp) s"
    using assms Inr a by (simp add: mount_split run_locked_def)
  ultimately show ?thesis using waiting_run two_steps by blast
qed

lemma unmount_run:
  assumes "unmount token urequest s = (r, s')"
  shows "system_step\<^sup>*\<^sup>* (idle_system s q) (idle_system s' q)"
proof (cases "unmount_begin token urequest s")
  case (Inl e)
  then show ?thesis using assms by (simp add: unmount_split)
next
  case (Inr a)
  obtain r' pod status where a: "a = (r', pod, status)" by (cases a)
  have "system_step (idle_system s q) ((idle_system s q)\<lparr>sy_waiting := [Unmounting r' pod status]\<rparr>)"
    using system_step.Unmount [of token urequest "idle_system s q"] Inr a by (simp add: idle_defs)
  moreover have "s' = run_locked (Unmounting r' pod status) s"
    using assms Inr a by (simp add: unmount_split run_locked_def)
  ultimately show ?thesis using waiting_run two_steps by blast
qed

text \<open>A pass, intent by intent.\<close>

definition sweep_one :: "cause \<Rightarrow> desiredMount \<Rightarrow> 'n Server \<times> retries \<Rightarrow> 'n Server \<times> retries" where
  "sweep_one c d sq =
     (case reconcile_found d (cause_pod c (fst sq) d) (fst sq) of (err, s) \<Rightarrow> conclude_sweep d err (s, snd sq))"

definition sweeping :: "sweeper \<Rightarrow> cause \<Rightarrow> job option \<Rightarrow> desiredMount list \<Rightarrow> 'n Server \<times> retries \<Rightarrow> 'n system" where
  "sweeping g c j ds sq = (idle_system (fst sq) (snd sq))\<lparr>sy_sweep :=
     (\<lambda>_. None)(g \<mapsto> \<lparr>sw_cause = c, sw_job = j, sw_rest = ds\<rparr>)\<rparr>"

lemma sweep_one_run: "system_step\<^sup>*\<^sup>* (sweeping g c None (d # ds) sq) (sweeping g c None ds (sweep_one c d sq))"
proof -
  obtain s q where sq: "sq = (s, q)" by (cases sq)
  obtain err t where t: "reconcile_found d (cause_pod c s d) s = (err, t)" by fastforce
  obtain s' q' where c: "conclude_sweep d err (t, q) = (s', q')" by fastforce
  let ?x = "\<lambda>j sq. sweeping g c j ds sq"
  have "system_step (sweeping g c None (d # ds) (s, q)) (?x (Some (Lookup d)) (s, q))"
    using system_step.Next [of "sweeping g c None (d # ds) (s, q)" g c d ds] by (simp add: sweeping_def idle_defs)
  moreover have "system_step (?x (Some (Lookup d)) (s, q)) (?x (Some (Locked d (cause_pod c s d))) (s, q))"
    using system_step.Work [of "?x (Some (Lookup d)) (s, q)" g c "Lookup d" ds] job_step.Look [of "cause_pod c" d s]
    by (simp add: sweeping_def idle_defs)
  moreover have "system_step (?x (Some (Locked d (cause_pod c s d))) (s, q)) (?x (Some (Conclude d err)) (t, q))"
    using system_step.Work [of "?x (Some (Locked d (cause_pod c s d))) (s, q)" g c "Locked d (cause_pod c s d)" ds]
      job_step.Lock [OF t, of "cause_pod c"]
    by (simp add: sweeping_def idle_defs)
  moreover have "system_step (?x (Some (Conclude d err)) (t, q)) (?x None (s', q'))"
    using system_step.Handled [of "?x (Some (Conclude d err)) (t, q)" g c d err ds] c by (simp add: sweeping_def idle_defs)
  ultimately show ?thesis
    using t c by (auto simp: sq sweep_one_def intro: converse_rtranclp_into_rtranclp)
qed

lemma sweep_run: "system_step\<^sup>*\<^sup>* (sweeping g c None ds (s, q)) (case fold (sweep_one c) ds (s, q) of (s', q') \<Rightarrow> idle_system s' q')"
proof (induction ds arbitrary: s q)
  case Nil
  show ?case
    using system_step.Finish [of "sweeping g c None [] (s, q)" g c] by (simp add: sweeping_def idle_defs r_into_rtranclp)
next
  case (Cons d ds)
  obtain s' q' where "sweep_one c d (s, q) = (s', q')" by fastforce
  then show ?case using Cons.IH [of s' q'] sweep_one_run [of g c d ds "(s, q)"] by simp
qed

lemma snapshot_run:
  fixes s :: "'n Server"
  assumes "reconciler_runs (sv_cfg s)" and run: "reconcilePodSnapshot False pods (s, q) = (s', q')"
  shows "system_step\<^sup>*\<^sup>* (idle_system s q) (idle_system s' q')"
proof -
  let ?c = "Listed (podsByUID pods)" and ?ds = "List_all (sv_state s)"
  have "(snapshot_step False (podsByUID pods) :: _ \<Rightarrow> 'n Server \<times> retries \<Rightarrow> _) = sweep_one ?c"
    by (intro ext) (auto simp: snapshot_step_split sweep_one_def cause_pod_def)
  then have "fold (sweep_one ?c) ?ds (s, q) = (s', q')"
    using run by (simp add: reconcilePodSnapshot_def)
  moreover have "system_step (idle_system s q) (sweeping Lister ?c None ?ds (s, q))"
    using system_step.List [of "idle_system s q"] assms(1) by (simp add: sweeping_def idle_defs start_sweep_def)
  ultimately show ?thesis using sweep_run [of Lister ?c ?ds s q] by (simp add: converse_rtranclp_into_rtranclp)
qed

lemma event_run:
  fixes s :: "'n Server"
  assumes "reconciler_runs (sv_cfg s)" and run: "reconcilePodEvent False event (s, q) = (s', q')"
  shows "system_step\<^sup>*\<^sup>* (idle_system s q) (idle_system s' q')"
proof -
  let ?c = "Watched event" and ?ds = "ListForPod (sv_state s) (event_pod_key event)"
  let ?y = "(idle_system s q)\<lparr>sy_events := [event]\<rparr>"
  have "(event_step False event :: _ \<Rightarrow> 'n Server \<times> retries \<Rightarrow> _) = sweep_one ?c"
    by (intro ext) (auto simp: event_step_split sweep_one_def cause_pod_def)
  then have "fold (sweep_one ?c) ?ds (s, q) = (s', q')"
    using run by (simp add: reconcilePodEvent_def)
  moreover have "system_step (idle_system s q) ?y"
    using system_step.Event [of "idle_system s q" event] assms(1) by (simp add: idle_defs podWatchQueueSize_def)
  moreover have "system_step ?y (sweeping Watcher ?c None ?ds (s, q))"
    using system_step.Watch [of ?y event "[]"] by (simp add: sweeping_def idle_defs start_sweep_def)
  ultimately show ?thesis
    using sweep_run [of Watcher ?c ?ds s q] by (simp add: converse_rtranclp_into_rtranclp)
qed

lemma retry_run:
  assumes "processReconcileRetries (s, q) = Some (s', q')"
  shows "system_step\<^sup>*\<^sup>* (idle_system s q) (idle_system s' q')"
proof -
  obtain retry q1 where q: "q = retry # q1" and run: "processReconcileRetry retry (s, q1) = (s', q')"
    using assms by (auto simp: processReconcileRetries_def split: list.splits)
  let ?x = "\<lambda>s j. (idle_system s q1)\<lparr>sy_flight := [(retry, j)]\<rparr>"
  have take: "system_step (idle_system s q) (?x s None)"
    using system_step.Take [of "idle_system s q" retry q1] by (simp add: q idle_defs reconcileRetryWorkers_def)
  show ?thesis
  proof (cases "state_Get s (rr_key retry)")
    case None
    then have "system_step (?x s None) (idle_system s' q')"
      using system_step.Gone [of "?x s None" "[]" retry "[]"] run by (simp add: idle_defs processReconcileRetry_split)
    then show ?thesis using take two_steps by blast
  next
    case (Some d)
    obtain err t where t: "reconcile_found d (retry_pod s d) s = (err, t)" by fastforce
    have end': "conclude_retry retry d err (t, q1) = (s', q')" using run Some t by (simp add: processReconcileRetry_split)
    have "system_step (?x s None) (?x s (Some (Lookup d)))"
      using system_step.Found [of "?x s None" "[]" retry "[]" d] Some by (simp add: idle_defs)
    moreover have "system_step (?x s (Some (Lookup d))) (?x s (Some (Locked d (retry_pod s d))))"
      using system_step.Retry [of "?x s (Some (Lookup d))" "[]" retry "Lookup d" "[]"] job_step.Look [of retry_pod d s]
      by (simp add: idle_defs)
    moreover have "system_step (?x s (Some (Locked d (retry_pod s d)))) (?x t (Some (Conclude d err)))"
      using system_step.Retry [of "?x s (Some (Locked d (retry_pod s d)))" "[]" retry "Locked d (retry_pod s d)" "[]"]
        job_step.Lock [OF t, of retry_pod]
      by (simp add: idle_defs)
    moreover have "system_step (?x t (Some (Conclude d err))) (idle_system s' q')"
      using system_step.Retried [of "?x t (Some (Conclude d err))" "[]" retry d err "[]"] end' by (simp add: idle_defs)
    ultimately show ?thesis using take by (auto intro: converse_rtranclp_into_rtranclp)
  qed
qed

end
