(* ===== verification/Running.thy ===== *)
theory Running
  imports Concurrent Wire Informer WrapperMain
begin

text \<open>
  The parts put together: a wrapper that \<open>start_wrapper\<close> has started, HTTP requests through
  \<open>ServeHTTP\<close>, callbacks of \<open>RunPodInformer\<close>, rounds of the retry workers, and changes of the API
  server and of the node. All of it is a run of the steps of theory Concurrent, so what holds
  in every reachable state of that system holds of the started command.
\<close>

datatype 'n occurrence =
    Request string Server.http_request
  | Callback informer_action
  | RetryRound
  | ApiChange kube_client
  | NodeChange 'n

definition occur ::
  "(go_error \<Rightarrow> string) \<Rightarrow> 'n occurrence \<Rightarrow> 'n Server \<times> retries \<Rightarrow> 'n Server \<times> retries" where
  "occur etext o' sq =
     (case sq of (s, q) \<Rightarrow>
        (case o' of
           Request path r \<Rightarrow> (snd (ServeHTTP etext path r s), q)
         | Callback a \<Rightarrow> if reconciler_runs (sv_cfg s) then reconcile_action False a (s, q) else (s, q)
         | RetryRound \<Rightarrow> (case processReconcileRetries (s, q) of None \<Rightarrow> (s, q) | Some sq \<Rightarrow> sq)
         | ApiChange kube \<Rightarrow> (s\<lparr>sv_kube := kube\<rparr>, q)
         | NodeChange n \<Rightarrow> (s\<lparr>sv_node := n\<rparr>, q)))"

definition occurrence_ok :: "'n occurrence \<Rightarrow> bool" where
  "occurrence_ok o' \<longleftrightarrow> (case o' of ApiChange kube \<Rightarrow> named_containers kube | _ \<Rightarrow> True)"

lemma handleMount_run:
  assumes "handleMount r s = (reply, s')"
  shows "s' = s \<or> (\<exists>token key request res. mount token key request s = (res, s'))"
  using assms by (fastforce simp: handleMount_def split: if_splits sum.splits option.splits prod.splits)

lemma handleUnmount_run:
  assumes "handleUnmount r s = (reply, s')"
  shows "s' = s \<or> (\<exists>token request res. unmount token request s = (res, s'))"
  using assms by (fastforce simp: handleUnmount_def split: if_splits sum.splits option.splits prod.splits)

lemma handleHealthz_run: "handleHealthz r s = (reply, s') \<Longrightarrow> s' = s"
  by (auto simp: handleHealthz_def split: if_splits)

lemma ServeHTTP_run:
  assumes "ServeHTTP etext path r s = (reply, s')"
  shows "system_step\<^sup>*\<^sup>* (idle_system s q) (idle_system s' q)"
proof -
  have "s' = s \<or> (\<exists>token key request res. mount token key request s = (res, s')) \<or>
      (\<exists>token request res. unmount token request s = (res, s'))"
    using assms by (auto simp: ServeHTTP_def split: if_splits prod.splits
        dest: handleMount_run handleUnmount_run handleHealthz_run)
  then show ?thesis using mount_run unmount_run by blast
qed

lemma occur_run:
  assumes "occurrence_ok o'" and "occur etext o' (s, q) = (s', q')"
  shows "system_step\<^sup>*\<^sup>* (idle_system s q) (idle_system s' q')"
proof (cases o')
  case (Request path r)
  obtain reply t where h: "ServeHTTP etext path r s = (reply, t)" by fastforce
  then show ?thesis using Request assms(2) ServeHTTP_run [OF h, of q] by (simp add: occur_def)
next
  case (Callback a)
  show ?thesis
    using assms(2) Callback snapshot_run [of s _ q s' q'] event_run [of s _ q s' q']
    by (auto simp: occur_def reconcile_action_def split: if_splits informer_action.splits)
next
  case RetryRound
  then show ?thesis using assms(2) retry_run [of s q s' q'] by (auto simp: occur_def split: option.splits)
next
  case (ApiChange kube)
  then show ?thesis
    using assms system_step.Kube [of kube "idle_system s q"] by (auto simp: occur_def occurrence_ok_def idle_defs)
next
  case (NodeChange n)
  then show ?thesis using assms system_step.Node [of "idle_system s q" n] by (auto simp: occur_def idle_defs)
qed

lemma occurs_run:
  assumes "list_all occurrence_ok os" and "fold (occur etext) os (s, q) = (s', q')"
  shows "system_step\<^sup>*\<^sup>* (idle_system s q) (idle_system s' q')"
  using assms
proof (induction os arbitrary: s q)
  case (Cons o' os)
  obtain t p where o: "occur etext o' (s, q) = (t, p)" by fastforce
  have "system_step\<^sup>*\<^sup>* (idle_system s q) (idle_system t p)" using occur_run [OF _ o] Cons.prems(1) by simp
  also have "system_step\<^sup>*\<^sup>* (idle_system t p) (idle_system s' q')" using Cons o by simp
  finally show ?case .
qed simp

text \<open>A wrapper that has started is a first step away from a start of the system.\<close>

lemma started_run:
  assumes run: "start_wrapper e args readFile newCore http w d = (Inr (s, listener), w', d')"
    and "dk_files d = []" and "named_containers (sv_kube s)"
  obtains x cfg where "wrapper_config e args = Inr cfg" and "sv_cfg s = cfg" and "system_start x"
    and "system_step x (idle_system s [])"
proof -
  obtain cfg where cfg: "wrapper_config e args = Inr cfg" using run by (auto simp: start_wrapper_def split: sum.splits)
  obtain client srv where new: "NewServer readFile cfg client (NewMounter (node_config cfg)) (clean_start cfg w) d = (Inr srv, d')"
    and s: "s = srv\<lparr>sv_node := w'\<rparr>"
    using run cfg by (auto simp: start_wrapper_def Let_def split: sum.splits prod.splits)
  have srv: "sv_cfg srv = cfg" "sv_kube srv = client"
    using new by (auto elim!: NewServer_Inr dest: newServerWithState_Inr)
  have "system_start (fresh_system srv)"
    using new assms(2,3) srv s unfolding system_start_def by (auto intro!: exI)
  moreover have "system_step (fresh_system srv) (idle_system s [])"
    using system_step.Node [of "fresh_system srv" w'] by (simp add: s idle_defs)
  ultimately show ?thesis using that cfg srv(1) s by simp
qed

text \<open>Without an API server there are no Pods.\<close>

lemma named_containers_down:
  assumes run: "start_wrapper e args readFile newCore http w d = (Inr (s, listener), w', d')"
    and "\<And>q. \<exists>err. tp_Do http q = Inl err"
  shows "named_containers (sv_kube s)"
proof -
  obtain cfg c srv where client: "NewInClusterClient e readFile newCore http (wc_KubeTokenFile cfg) = Inr c"
    and new: "NewServer readFile cfg (kube_client_of readFile c) (NewMounter (node_config cfg)) (clean_start cfg w) d = (Inr srv, d')"
    and s: "s = srv\<lparr>sv_node := w'\<rparr>"
    using run by (auto simp: start_wrapper_def Let_def split: sum.splits prod.splits)
  have kube: "sv_kube s = kube_client_of readFile c"
    using new s by (auto elim!: NewServer_Inr dest: newServerWithState_Inr)
  have http: "cl_http c = http"
    using client by (auto simp: NewInClusterClient_def Let_def split: if_splits sum.splits option.splits)
  have "\<exists>err. GetPod readFile c ns name = Inl err" for ns name
    using assms(2) http by (auto simp: GetPod_def kube_do_def kube_decode_def Let_def split: option.splits sum.splits)
      (metis Inl_Inr_False)+
  then show ?thesis by (auto simp: kube named_containers_def kube_client_of_def) (metis Inl_Inr_False)
qed

end
