(* ===== verification/Spec2Isabelle.thy ===== *)
theory Spec2Isabelle
  imports AccessProps StoreProps HandlerProps ReconcileProps NodeProps StartProps ClientProps Running
begin

text \<open>
  A model of kruise-agents-nfs-csi, a node agent ("the wrapper") that mounts NFS persistent
  volumes into running containers of agent sandboxes on request, and the theorems that make
  it correct. A client inside a Pod sends a mount or unmount request with its service
  account token over a Unix socket; the wrapper authorizes it against the API server,
  persists the intent, mounts on the node, and mounts again after the container restarts.

  The parts of the program and where they are modelled:

  \<^item> Go's errors, strings, paths, JSON and SHA-256, as far as the code uses them: theories
    GoErrors (wrapping, \<open>errors.Is\<close>, \<open>errors.As\<close>), GoStrings, Paths (\<open>path.Clean\<close>, \<open>path.Join\<close>,
    \<open>strings.TrimSpace\<close> on UTF-8), Json (trees, and how \<open>encoding/json\<close> fills a struct), Sha256.
    All of it is executable. Prelude holds the fact collections and generic lemmas.
  \<^item> The data: theory Types, one record per struct of internal/api, internal/kube/types.go and
    internal/node/types.go, and the configuration record of internal/config.
  \<^item> The path policies of internal/security, internal/node/nfspath.go and
    \<open>sourceSubPathSegments\<close> of internal/node/mounter_linux.go: theory PathPolicy. The code's
    string tests are proved equal to specifications over lists of path segments.
  \<^item> The checks of internal/wrapper/authz.go and rootauth.go: theories Authz and RootAuth. Each
    check is characterised by the facts its success establishes (collection \<open>success_iff\<close>).
  \<^item> The mount state store of internal/wrapper/state.go: theory StateStore has both in-memory
    maps, the state files, the temporary file a state file is written to, with what of it is
    synced, and a directory whose system calls each consult a failure oracle (\<open>dk_fail\<close> at the
    tick \<open>dk_clock\<close>); a machine that stops is one whose calls all fail from then on, and of a
    renamed file the directory keeps what was synced. StoreCorrect proves the invariant of the maps and the
    interface \<open>mount_store\<close>, a map with fallible updates, extended to \<open>mount_index\<close> for the
    listings; both locales are interpreted on the store, and \<open>mount_store\<close> again on the server.
    StoreReload proves the JSON round trip, that loading a directory gives exactly the intents
    of its files and fails only for a reason, and that a restart gives back what was stored.
  \<^item> The handlers of internal/wrapper/server.go: theory Server, with the API client and the
    node mounter as records of functions, the latter on a node state of any type.
    ServerCorrect states what authorization establishes and pins every field of a mount plan to
    PV, Pod, container and request (\<open>plan_of\<close>); HandlerCorrect gives every run of mount and
    unmount as one of a few named cases with its effect on intents and node, in which a pending
    intent stays, or a removed one stays away, only after a rollback the store refused
    (\<open>rollback_failed\<close>);
    HandlerLive shows that the handlers succeed when disk and node do.
  \<^item> The reconciler of internal/wrapper/reconciler.go: theory Reconciler, its retry channel a
    list; ReconcileCorrect has its case lemmas, the retry invariant and the bound on rounds.
  \<^item> The wrapper as a whole: theory System has what every operation keeps of the intents, theory
    Concurrent the goroutines as an inductive step relation: requests that wait for the lock of
    their target after their authorization, the bounded event channel and the goroutine that
    works it off, the callback for the first listing, four retry workers on a bounded channel,
    restarts (with any key file), and changes of API server and node. The invariant of all
    reachable states is proved by rule induction, and each whole operation of the sequential
    functions is shown to be a run. Theory Running does the same for the started command.

  \<^item> The Linux node mounter, internal/node/mounter_linux.go. Kernel is its interface to the
    system: a world is a system, which may answer every call as it likes, with the trace of
    the calls made; open descriptors, the namespace and the root of the thread and the bind
    mounts are functions of the trace. NodeText and MountInfo have the text formats it reads,
    FileModes the file modes, NodeMount every function of the file with its calls in order and
    its deferred calls at every return. NodeTrace has the rules for runs (a relation that the
    steps keep holds for a run: locales \<open>call_relation\<close> and, in NodeSource, \<open>call_invariant\<close>,
    for the growth of the trace, the namespace of the thread and the goroutines pinned to it);
    NodeNames decimal numbers in paths; NodeTidy that a run closes what it opened and comes back
    to its namespace; NodeBinds and NodeSource what is bind mounted, and from where; NodeCleanup
    the mount point test and the cleanup of the staging root; NodeLive that Mount succeeds;
    NodeServer the mounter behind the handlers and the reconciler.
  \<^item> The configuration of internal/config and the flags of the wrapper: theory Config.
  \<^item> The API client, internal/kube/client.go: theory KubeClient, which builds the
    \<open>kube_client\<close> of the handlers over an HTTP transport.
  \<^item> The Pod informer, internal/kube/informer.go: theory Informer, a run of it as the list of
    its callbacks, with the proof that its trimming is invisible to the reconciler.
  \<^item> The start of the wrapper, cmd/wrapper/main.go, and the node mounter of other systems:
    theory WrapperMain.
  \<^item> The client library, mounter/client.go: theory ClientSdk; the mounter command,
    cmd/mounter/main.go: theory Cli. Theory Wire puts the library and the handlers together:
    \<open>ServeHTTP\<close> behind net/http as a transport of the library, with the locale \<open>json_codec\<close>
    for the four messages between them, and \<open>http_client\<close>, the client with its timeout over a
    \<open>link\<close> that may refuse the connection or take long.

  The properties stand in AccessProps, StoreProps, HandlerProps, ReconcileProps, NodeProps,
  StartProps, ClientProps and this theory, each with a witness on the concrete cluster of
  theory Example or the concrete systems next to it.

  How the model relates to the code. A Go pair of value and error is a sum, an error result an
  option. A handler takes the server record and returns it changed; where the code shadows a
  variable the model does. A function is split where it takes the lock of its target or where
  a property speaks of a part of it (\<open>mount_locked\<close>, \<open>mount_existing\<close>, \<open>mount_apply\<close>,
  \<open>unmount_locked\<close>, \<open>reconcile_plan\<close>, \<open>reconcile_root\<close>, \<open>reconcile_apply\<close>). What is done under the
  lock of a target is one step, also in theory Concurrent, where anything may happen between two steps of a
  goroutine, the API server's answers included; that two targets with different locks may be
  worked on at the same time is modelled only as one after the other. Elsewhere an operation
  runs without interruption.
  Errors keep their format and arguments, so the status code of a reply can be computed; their
  text is a parameter (\<open>etext\<close>) where it is sent or printed. JSON is a tree; strings are valid
  UTF-8, since \<open>encoding/json\<close> replaces other bytes.

  Bounds. The retry channel has 4096 places, the event channel 1024, and a retry five attempts,
  as in the code;
  \<open>retry_rounds\<close> takes a number of rounds as fuel, and five for each entry are proved enough.
  \<open>duration_loop\<close> has the length of its text as fuel, of which every round takes a character.
  The target lock index and file modes are computed on 32-bit words. A message on the socket
  has at most \<open>2 ^ 20\<close> bytes at either end.

  Parameters. What the API server answers (\<open>kube_client\<close>, or an HTTP transport), what the node
  does (\<open>Mounter\<close>, or a kernel), the contents of files, the environment, the failures of the
  disk, client-go's events, cobra and protobuf are arguments. What is assumed of them is named
  in the properties: \<open>named_containers\<close> (a container status has a name), \<open>no_collision\<close> (two keys
  of the store do not have the same hash), \<open>fresh_fds\<close> (a new descriptor is not an open one),
  \<open>setns_works\<close> (going back to the own namespace succeeds; one property is about its failure),
  \<open>mountinfo_reads\<close> (mountinfo lists the mount table in the documented format, no mount point
  has white space the kernel does not escape, no line has 64 KiB), \<open>calls_succeed\<close>,
  \<open>has_process\<close> and \<open>target_free\<close> for the liveness of Mount, \<open>carried\<close> (a JSON text parses to the
  tree it was printed from, and is not too long).

  Not modelled: log lines (but for warnings in the trace), contexts and timeouts inside the
  wrapper (but for the test in \<open>scheduleReconcileRetry\<close>, the ends of the informer and the check
  before the mount command), the contexts of callers of the client library, TLS, the stripes of the target lock (two targets may share one), what the wrapper
  still does between a signal and its exit, and \<open>CloseIdleConnections\<close>.
\<close>

section \<open>The wrapper as a whole\<close>

subsection \<open>A run of the example\<close>

definition ex_first_store :: fileMountStateStore where
  "ex_first_store = empty_store ''/state'' ((ex_disk [])\<lparr>dk_clock := 2\<rparr>)"

definition ex_system :: "string list system" where
  "ex_system = fresh_system (ex_server True ex_first_store [])"

lemma ex_system_server [simp]: "sy_server ex_system = ex_server True ex_first_store []"
  by (simp add: ex_system_def)

lemma ex_system_start: "system_start ex_system"
proof -
  have "newFileMountStateStore ''/state'' (ex_disk []) = (Inr ex_first_store, (ex_disk [])\<lparr>dk_clock := 2\<rparr>)"
    by (simp add: newFileMountStateStore_def sys_def ex_disk_def ex_first_store_def empty_store_def)
  then have "NewServer (\<lambda>f. Inr []) ex_cfg ex_kube (ex_mounter True) [] (ex_disk []) =
      (Inr (ex_server True ex_first_store []), (ex_disk [])\<lparr>dk_clock := 2\<rparr>)"
    by (simp add: NewServer_def newServerWithState_def loadExportRootAuthorizer_def ex_cfg_def ex_server_def)
  moreover have "named_containers ex_kube"
    by (simp add: named_containers_def ex_kube_def ex_pod_def)
  moreover have "dk_files (ex_disk []) = []" by (simp add: ex_disk_def)
  ultimately show ?thesis unfolding system_start_def ex_system_def by fastforce
qed

lemma ex_system_mounted:
  obtains y m where "system_step\<^sup>*\<^sup>* ex_system y" and "state_Get (sy_server y) ex_key = Some m"
proof -
  let ?s = "ex_server True ex_first_store []"
  have ok: "server_ok ?s" by (simp add: ex_first_store_def store_inv_empty)
  have h: "sv_healthy ?s"
    by (simp add: healthy_def ex_first_store_def empty_store_def ex_disk_def)
  have "Get ex_first_store = Map.empty"
    by (rule ext) (simp add: Get_def ex_first_store_def empty_store_def)
  then have no: "\<not> mount_conflict ex_normal ex_plan ?s" by (simp add: mount_conflict_def)
  obtain s' where m: "mount_locked ex_normal ex_plan [] ?s =
      (Inr (mountResult (wc_DriverName (sv_cfg ?s)) ex_normal), s')"
    using mount_locked_succeeds [OF ok h no] by auto
  have "mount ''tok'' [] ex_request ?s = (Inr (mountResult (wc_DriverName (sv_cfg ?s)) ex_normal), s')"
    using m by (simp add: ex_mount)
  from mount_run [OF this, of "[]"] have "system_step\<^sup>*\<^sup>* ex_system (idle_system s' [])"
    by (simp add: ex_system_def idle_system_def fresh_system_def)
  moreover obtain d where "state_Get s' = (state_Get ?s)(desiredMountKeyFor ex_normal \<mapsto> d)"
    using mount_locked_outcome [OF ok m no] unfolding mount_outcome_def sum.case by blast
  then have "state_Get (sy_server (idle_system s' [])) ex_key = Some d" by simp
  ultimately show ?thesis using that by blast
qed

subsection \<open>Reachable states\<close>

text \<open>C2. In every state the wrapper can reach, through any requests, events, retries,
  restarts, changes of the API server and of the node and failing disks, every intent it
  holds is under its own key, for this driver, names its container, has a canonical target
  outside the denied paths and a source path without parent segments, and carries an
  export-root fingerprint only if it was authorized for the root.\<close>

theorem reachable_intents:
  assumes "system_start x" and "system_step\<^sup>*\<^sup>* x y"
    and "state_Get (sy_server y) k = Some m" and "r = dm_Request m"
  shows "dm_key m = k \<and> rq_DriverName r = wc_DriverName (sv_cfg (sy_server y)) \<and> rq_ContainerName r \<noteq> [] \<and>
    target_allowed (target_segs (rq_TargetPath r)) \<and> rq_TargetPath r = abs_path (target_segs (rq_TargetPath r)) \<and>
    sourceSubPathSegments (rq_SourceSubPath r) = Inr (source_segs (rq_SourceSubPath r)) \<and>
    (dm_ExportRootKeyFingerprint m \<noteq> [] \<longrightarrow> dm_ExportRootAuthorized m)"
proof -
  have inv: "system_inv y" using assms(1,2) by (rule reachable_inv)
  then have h: "holds (intent_ok (sv_cfg (sy_server y))) (sy_server y)" by (simp add: system_inv_def)
  have ok: "intent_ok (sv_cfg (sy_server y)) m" using h assms(3) by (rule holds_Get)
  then have n: "normal_request (sv_cfg (sy_server y)) r" and c: "rq_ContainerName r \<noteq> []"
    using assms(4) by (simp_all add: intent_ok_def stored_form_def)
  have "dm_key m = k" using sv.get_key [OF holds_server_ok [OF h] assms(3)] .
  moreover have "target_allowed (target_segs (rq_TargetPath r))"
    "rq_TargetPath r = abs_path (target_segs (rq_TargetPath r))"
    using n by (simp_all add: normal_request_def ValidateTargetPath_spec)
  moreover have "sourceSubPathSegments (rq_SourceSubPath r) = Inr (source_segs (rq_SourceSubPath r))"
    using n by (simp add: normal_request_def ValidateSourceSubPath_spec sourceSubPathSegments_spec)
  moreover have "rq_DriverName r = wc_DriverName (sv_cfg (sy_server y))"
    using n by (simp add: normal_request_def validateRequestShape_None)
  ultimately show ?thesis using ok c by (simp add: intent_ok_def)
qed

lemma reachable_intents_witness:
  "\<exists>y m. system_step\<^sup>*\<^sup>* ex_system y \<and> state_Get (sy_server y) ex_key = Some m \<and>
     target_allowed (target_segs (rq_TargetPath (dm_Request m)))"
proof -
  obtain y m where y: "system_step\<^sup>*\<^sup>* ex_system y" "state_Get (sy_server y) ex_key = Some m"
    by (rule ex_system_mounted)
  from reachable_intents [OF ex_system_start y refl] show ?thesis using y by blast
qed

text \<open>C18. In every reachable state the state directory can be loaded: if no system call fails,
  a restart succeeds, whatever failed before it.\<close>

theorem reachable_restarts_load:
  assumes "system_start x" and "system_step\<^sup>*\<^sup>* x y"
    and "dk_files d = dk_files (st_disk (sv_state (sy_server y)))"
    and "dir \<noteq> []" and "\<And>n. \<not> dk_fail d n"
  shows "\<exists>st d'. newFileMountStateStore dir d = (Inr st, d')"
  using reachable_restarts [OF reachable_inv [OF assms(1,2)] assms(4,5,3)] .

lemma reachable_restarts_load_witness:
  "\<exists>y m st d'. system_step\<^sup>*\<^sup>* ex_system y \<and> state_Get (sy_server y) ex_key = Some m \<and>
     newFileMountStateStore ''/state''
       ((ex_disk [])\<lparr>dk_files := dk_files (st_disk (sv_state (sy_server y)))\<rparr>) = (Inr st, d')"
proof -
  obtain y m where y: "system_step\<^sup>*\<^sup>* ex_system y" "state_Get (sy_server y) ex_key = Some m"
    by (rule ex_system_mounted)
  let ?d = "(ex_disk [])\<lparr>dk_files := dk_files (st_disk (sv_state (sy_server y)))\<rparr>"
  have "\<exists>st d'. newFileMountStateStore ''/state'' ?d = (Inr st, d')"
    by (rule reachable_restarts_load [OF ex_system_start y(1)]) (simp_all add: ex_disk_def)
  then show ?thesis using y by blast
qed

text \<open>C26. The channels never overflow and at most four workers hold a retry; no target is queued
  or held by two workers at once, every attempt has its delay, and a target is marked as
  retrying exactly while it is queued or held.\<close>

theorem reachable_retries:
  assumes "system_start x" and "system_step\<^sup>*\<^sup>* x y" and "rs = sy_queue y @ map fst (sy_flight y)"
  shows "length (sy_queue y) \<le> reconcileRetryQueueSize \<and> length (sy_events y) \<le> podWatchQueueSize \<and>
    length (sy_flight y) \<le> reconcileRetryWorkers \<and> distinct (map rr_key rs) \<and>
    (\<forall>r \<in> set rs. rr_attempt r < length reconcileRetryDelays) \<and>
    sv_retrying (sy_server y) = set (map rr_key rs)"
  using reachable_inv [OF assms(1,2)] assms(3) by (auto simp: system_inv_def retry_inv_def)

lemma reachable_retries_witness:
  "\<exists>y m. system_step\<^sup>*\<^sup>* ex_system y \<and> state_Get (sy_server y) ex_key = Some m \<and>
     length (sy_queue y) \<le> reconcileRetryQueueSize"
proof -
  obtain y m where y: "system_step\<^sup>*\<^sup>* ex_system y" "state_Get (sy_server y) ex_key = Some m"
    by (rule ex_system_mounted)
  from reachable_retries [OF ex_system_start y(1) refl] show ?thesis using y by blast
qed

subsection \<open>The started command\<close>

text \<open>C3. A wrapper that starts on an empty state directory runs as that system: any sequence of
  HTTP requests, informer callbacks, rounds of the retry workers and changes of API server and
  node leads to a reachable state, under the configuration the wrapper was started with, and
  all its intents are ones that the handlers accept for it.\<close>

theorem started_wrapper_runs:
  assumes run: "start_wrapper e args readFile newCore http w d = (Inr (s, listener), w', d')"
    and "dk_files d = []" and "named_containers (sv_kube s)"
    and "list_all occurrence_ok os" and "fold (occur etext) os (s, []) = (t, q)"
  shows "\<exists>x cfg. wrapper_config e args = Inr cfg \<and> sv_cfg t = cfg \<and> system_start x \<and>
    system_step\<^sup>*\<^sup>* x (idle_system t q) \<and>
    (\<forall>k m. state_Get t k = Some m \<longrightarrow> dm_key m = k \<and> intent_ok cfg m)"
proof -
  obtain x cfg where cfg: "wrapper_config e args = Inr cfg" "sv_cfg s = cfg" and x: "system_start x"
    and first: "system_step x (idle_system s [])"
    by (rule started_run [OF run assms(2,3)])
  have runs: "system_step\<^sup>*\<^sup>* (idle_system s []) (idle_system t q)" by (rule occurs_run [OF assms(4,5)])
  have inv: "system_inv (idle_system s [])" using reachable_inv [OF x] first by blast
  have t: "system_inv (idle_system t q)" "sv_cfg t = cfg" using reachable_cfg [OF inv runs] cfg(2) by simp_all
  then have h: "holds (intent_ok cfg) t" by (simp add: system_inv_def)
  have "system_step\<^sup>*\<^sup>* x (idle_system t q)" using first runs by (rule converse_rtranclp_into_rtranclp)
  moreover have "dm_key m = k \<and> intent_ok cfg m" if "state_Get t k = Some m" for k m
    using holds_Get [OF h that] sv.get_key [OF holds_server_ok [OF h] that] by simp
  ultimately show ?thesis using cfg(1) t(2) x by blast
qed

definition ex_http_mount :: Server.http_request where
  "ex_http_mount = \<lparr>hr_Method = ''POST'', hr_Authorization = ''Bearer tok'', hr_ExportRootKey = [],
     hr_Body = Some (encode_request ex_request)\<rparr>"

lemma started_wrapper_runs_witness:
  "\<exists>s l w' d' t q x cfg.
     start_wrapper ex_env ex_args (\<lambda>p. Inr ''tok'') None no_http ex_boot (ex_disk []) = (Inr (s, l), w', d') \<and>
     fold (occur (\<lambda>_. [])) [Request ''/v1/mount'' ex_http_mount, Callback (Synced [ex_pod]), ApiChange ex_kube, RetryRound] (s, []) = (t, q) \<and>
     system_start x \<and> system_step\<^sup>*\<^sup>* x (idle_system t q) \<and> sv_cfg t = cfg"
proof -
  let ?r = "start_wrapper ex_env ex_args (\<lambda>p. Inr ''tok'') None no_http ex_boot (ex_disk [])"
  let ?os = "[Request ''/v1/mount'' ex_http_mount, Callback (Synced [ex_pod]), ApiChange ex_kube, RetryRound]"
  have "case fst ?r of Inl _ \<Rightarrow> False | Inr _ \<Rightarrow> True" by code_simp
  then obtain s l w' d' where r: "?r = (Inr (s, l), w', d')"
    by (cases ?r) (auto split: sum.splits)
  have files: "dk_files (ex_disk []) = []" by (simp add: ex_disk_def)
  have named: "named_containers (sv_kube s)" by (rule named_containers_down [OF r]) (simp add: no_http_def)
  have "named_containers ex_kube" by (simp add: named_containers_def ex_kube_def ex_pod_def)
  then have ok: "list_all occurrence_ok ?os" by (simp add: occurrence_ok_def)
  obtain t q where t: "fold (occur (\<lambda>_. [])) ?os (s, []) = (t, q)" by fastforce
  from started_wrapper_runs [OF r files named ok t] show ?thesis using r t by blast
qed

end
